(* ===== verification/Frame_Prelude.thy ===== *)
theory Frame_Prelude
  imports Main "HOL-Library.Word"
begin

text \<open>
  Shared vocabulary of the development: the machine integers of the Rust sources, the
  arithmetic of the Rust standard library the sources call, the FRAME containers in which
  the pallet declares its storage, and the two FRAME services that the pallet relies on but
  that are not part of this repository (the storage layer around a call and the currency).

  \<^item> A \<open>StorageMap\<close> is read as the finite map it is declared to hold, a \<open>BoundedVec\<close> as a list
    with a capacity check.  The laws the components use are stated once, in the locale
    \<open>storage_map\<close>, and interpreted on these definitions.
  \<^item> The storage layer and the currency are parameters.  What they are documented to do is
    stated in the locales \<open>storage_layer\<close> and \<open>currency_api\<close>; a theorem that relies on it
    carries the locale predicate as a named hypothesis.
\<close>

section \<open>Machine integers\<close>

type_synonym u8 = "8 word"
type_synonym u16 = "16 word"
type_synonym u32 = "32 word"
type_synonym u64 = "64 word"
type_synonym u128 = "128 word"

named_theorems storage_defs \<open>definitions of the storage operations\<close>

abbreviation u32_MAX :: u32 where
  "u32_MAX \<equiv> 4294967295"

text \<open>\<open>uN::saturating_add\<close> and \<open>uN::saturating_mul\<close> of the Rust standard library.\<close>

definition saturating_add :: "'a::len word \<Rightarrow> 'a word \<Rightarrow> 'a word" where
  "saturating_add a b = (if unat a + unat b < 2 ^ LENGTH('a) then a + b else of_nat (2 ^ LENGTH('a) - 1))"

definition saturating_mul :: "'a::len word \<Rightarrow> 'a word \<Rightarrow> 'a word" where
  "saturating_mul a b = (if unat a * unat b < 2 ^ LENGTH('a) then a * b else of_nat (2 ^ LENGTH('a) - 1))"

section \<open>Containers\<close>

definition storage_get :: "('k \<rightharpoonup> 'v) \<Rightarrow> 'k \<Rightarrow> 'v option" where
  [storage_defs]: "storage_get m k = m k"

text \<open>The \<open>ValueQuery\<close> reading of a map: an absent key reads as the type's default.\<close>

definition storage_get_or :: "'v \<Rightarrow> ('k \<rightharpoonup> 'v) \<Rightarrow> 'k \<Rightarrow> 'v" where
  [storage_defs]: "storage_get_or d m k = (case m k of None \<Rightarrow> d | Some v \<Rightarrow> v)"

definition storage_contains_key :: "('k \<rightharpoonup> 'v) \<Rightarrow> 'k \<Rightarrow> bool" where
  [storage_defs]: "storage_contains_key m k = (m k \<noteq> None)"

definition storage_insert :: "'k \<Rightarrow> 'v \<Rightarrow> ('k \<rightharpoonup> 'v) \<Rightarrow> ('k \<rightharpoonup> 'v)" where
  [storage_defs]: "storage_insert k v m = m(k \<mapsto> v)"

definition storage_remove :: "'k \<Rightarrow> ('k \<rightharpoonup> 'v) \<Rightarrow> ('k \<rightharpoonup> 'v)" where
  [storage_defs]: "storage_remove k m = m(k := None)"

text \<open>
  \<open>try_mutate\<close> reads the entry, runs the closure on it, and writes the entry back only when
  the closure returned \<open>Ok\<close>.  The closure may itself write to the map; such a write stays
  when the closure fails.
\<close>

definition storage_try_mutate ::
  "'k \<Rightarrow> ('v option \<Rightarrow> ('k \<rightharpoonup> 'v) \<Rightarrow> ('e + 'v option) \<times> ('k \<rightharpoonup> 'v)) \<Rightarrow>
   ('k \<rightharpoonup> 'v) \<Rightarrow> ('e + unit) \<times> ('k \<rightharpoonup> 'v)" where
  "storage_try_mutate k f m =
     (case f (m k) m of
        (Inl e, m') \<Rightarrow> (Inl e, m')
      | (Inr v, m') \<Rightarrow> (Inr (), m'(k := v)))"

definition bounded_try_from :: "nat \<Rightarrow> 'a list \<Rightarrow> 'a list option" where
  "bounded_try_from n xs = (if length xs \<le> n then Some xs else None)"

definition bounded_try_push :: "nat \<Rightarrow> 'a \<Rightarrow> 'a list \<Rightarrow> 'a list option" where
  "bounded_try_push n x xs = (if length xs < n then Some (xs @ [x]) else None)"

text \<open>A panic with its message: a failed \<open>expect\<close>, \<open>unwrap\<close> or \<open>unreachable!\<close>.\<close>

datatype Panic = Panic string

section \<open>Services outside the repository\<close>

datatype ExistenceRequirement = KeepAlive | AllowDeath

text \<open>
  The reference storage layer: commit the writes of a call that returned \<open>Ok\<close>, discard
  those of a call that returned \<open>Err\<close>.  It shows that the contract below can be met.
\<close>

definition with_storage_layer ::
  "('s \<Rightarrow> ('e + 'r) \<times> 's) \<Rightarrow> 's \<Rightarrow> ('e + 'r) \<times> 's" where
  "with_storage_layer body s =
     (case body s of (Inr r, s') \<Rightarrow> (Inr r, s') | (Inl e, _) \<Rightarrow> (Inl e, s))"

text \<open>
  The reference ledger: free balances with an existential deposit, as the documentation of
  \<open>Currency::transfer\<close> describes them.  A transfer of nothing and a transfer to oneself
  succeed without effect.  \<open>ServiceError\<close> holds the errors of the reference services.
\<close>

datatype ServiceError = BadOrigin | FundsUnavailable | NotExpendable | BelowMinimum | LedgerOverflow

definition ledger_transfer ::
  "nat \<Rightarrow> 'acc \<Rightarrow> 'acc \<Rightarrow> u128 \<Rightarrow> ExistenceRequirement \<Rightarrow> ('acc \<Rightarrow> nat) \<Rightarrow>
   (ServiceError + unit) \<times> ('acc \<Rightarrow> nat)" where
  "ledger_transfer ed a b v req c =
     (if v = 0 \<or> a = b then (Inr (), c)
      else if c a < unat v then (Inl FundsUnavailable, c)
      else if req = KeepAlive \<and> c a - unat v < ed then (Inl NotExpendable, c)
      else if c b + unat v < ed then (Inl BelowMinimum, c)
      else if 2 ^ 128 \<le> c b + unat v then (Inl LedgerOverflow, c)
      else (Inr (), c(a := c a - unat v, b := c b + unat v)))"

section \<open>Lemmas on integers and containers\<close>

lemma unat_u32_less: "unat (x :: u32) < 2 ^ 32"
  using unsigned_less [of x] by simp

lemma unat_u32_not_max: "(unat (x :: u32) + 1 < 2 ^ 32) = (x \<noteq> u32_MAX)"
proof -
  have "unat x = unat u32_MAX \<longleftrightarrow> x = u32_MAX" by (rule word_unat_eq_iff [symmetric])
  then show ?thesis using unat_u32_less [of x] by auto
qed

lemma u32_less_not_max: "a < (b :: u32) \<Longrightarrow> a \<noteq> u32_MAX"
  using unat_u32_less [of b] by (auto simp: word_less_nat_alt)

lemma u32_le_max: "(a :: u32) \<le> u32_MAX"
  using unat_u32_less [of a] by (simp add: word_le_nat_alt)

lemma unat_u32_Suc: "x \<noteq> u32_MAX \<Longrightarrow> unat (x + 1 :: u32) = unat x + 1"
  using unat_u32_not_max [of x] by (simp add: unat_word_ariths)

lemma u32_less_Suc: "x \<noteq> u32_MAX \<Longrightarrow> (y < (x + 1 :: u32)) = (y \<le> x)"
  using unat_u32_Suc [of x] by (simp add: word_less_nat_alt word_le_nat_alt less_Suc_eq_le)

lemma saturating_add_one:
  "saturating_add x (1 :: u32) = (if x = u32_MAX then u32_MAX else x + 1)"
  using unat_u32_not_max [of x] by (simp add: saturating_add_def)

lemma saturating_add_one_ge: "x \<le> saturating_add x (1 :: u32)"
  using u32_less_Suc [of x x] by (auto simp: saturating_add_one intro: less_imp_le)

lemma unat_word_top: "unat (of_nat (2 ^ LENGTH('a) - 1) :: 'a::len word) = 2 ^ LENGTH('a) - 1"
  by (simp add: unsigned_minus_1_eq_mask mask_eq_exp_minus_1)

lemma unat_saturate:
  "unat (if n < 2 ^ LENGTH('a) then of_nat n else of_nat (2 ^ LENGTH('a) - 1) :: 'a::len word) =
     min n (2 ^ LENGTH('a) - 1)"
proof (cases "n < 2 ^ LENGTH('a)")
  case True
  then have "unat (of_nat n :: 'a word) = n" by (simp add: unsigned_of_nat take_bit_nat_eq_self)
  with True show ?thesis by simp
next
  case False
  then show ?thesis by (simp add: unat_word_top [simplified])
qed

lemma unat_saturating_add:
  "unat (saturating_add a b :: 'a::len word) = min (unat a + unat b) (2 ^ LENGTH('a) - 1)"
proof -
  have "a + b = of_nat (unat a + unat b)" by simp
  then show ?thesis unfolding saturating_add_def by (simp only: unat_saturate)
qed

lemma unat_saturating_mul:
  "unat (saturating_mul a b :: 'a::len word) = min (unat a * unat b) (2 ^ LENGTH('a) - 1)"
proof -
  have "a * b = of_nat (unat a * unat b)" by simp
  then show ?thesis unfolding saturating_mul_def by (simp only: unat_saturate)
qed

lemma bounded_try_from_Some: "bounded_try_from n xs = Some ys \<longleftrightarrow> ys = xs \<and> length xs \<le> n"
  by (auto simp: bounded_try_from_def)

lemma bounded_try_from_None: "bounded_try_from n xs = None \<longleftrightarrow> n < length xs"
  by (auto simp: bounded_try_from_def)

lemma bounded_try_push_Some:
  "bounded_try_push n x xs = Some ys \<longleftrightarrow> ys = xs @ [x] \<and> length xs < n"
  by (auto simp: bounded_try_push_def)

lemma bounded_try_push_None: "bounded_try_push n x xs = None \<longleftrightarrow> n \<le> length xs"
  by (auto simp: bounded_try_push_def)

lemma distinct_filter_filter:
  assumes "distinct (filter P xs)"
  shows "distinct (filter P (filter Q xs))"
proof -
  have "filter P (filter Q xs) = filter Q (filter P xs)" by (induction xs) auto
  with assms show ?thesis by (simp only: distinct_filter)
qed

lemma fst_eq_Inr: "fst p = Inr () \<longleftrightarrow> (\<exists>s. p = (Inr (), s))"
  by (cases p) auto

lemmas bounded_simps =
  bounded_try_from_Some bounded_try_from_None bounded_try_push_Some bounded_try_push_None

section \<open>The storage map interface\<close>

locale storage_map =
  fixes get :: "'m \<Rightarrow> 'k \<Rightarrow> 'v option"
    and ins :: "'k \<Rightarrow> 'v \<Rightarrow> 'm \<Rightarrow> 'm"
    and rem :: "'k \<Rightarrow> 'm \<Rightarrow> 'm"
    and has :: "'m \<Rightarrow> 'k \<Rightarrow> bool"
  assumes get_ins: "get (ins k v m) k' = (if k' = k then Some v else get m k')"
    and get_rem: "get (rem k m) k' = (if k' = k then None else get m k')"
    and has_get: "has m k \<longleftrightarrow> get m k \<noteq> None"
    and get_ext: "(\<And>k. get m k = get m' k) \<Longrightarrow> m = m'"
begin

lemma has_ins: "has (ins k v m) k' \<longleftrightarrow> k' = k \<or> has m k'"
  by (simp add: has_get get_ins)

lemma has_rem: "has (rem k m) k' \<longleftrightarrow> k' \<noteq> k \<and> has m k'"
  by (simp add: has_get get_rem)

lemma ins_ins: "ins k v (ins k w m) = ins k v m"
  by (rule get_ext) (simp add: get_ins)

lemma rem_ins: "\<not> has m k \<Longrightarrow> rem k (ins k v m) = m"
  by (rule get_ext) (simp add: get_rem get_ins has_get)

lemma rem_absent: "\<not> has m k \<Longrightarrow> rem k m = m"
  by (rule get_ext) (simp add: get_rem has_get)

lemmas access = get_ins get_rem has_ins has_rem

end

interpretation smap: storage_map storage_get storage_insert storage_remove storage_contains_key
  by unfold_locales (auto simp: storage_defs)

lemma storage_get_or_insert:
  "storage_get_or d (storage_insert k v m) k' = (if k' = k then v else storage_get_or d m k')"
  by (simp add: storage_defs)

lemma storage_get_Some: "storage_contains_key m k \<Longrightarrow> \<exists>v. storage_get m k = Some v"
  by (simp add: smap.has_get)

section \<open>The storage layer around a call\<close>

locale storage_layer =
  fixes layer :: "('s \<Rightarrow> ('e + 'r) \<times> 's) \<Rightarrow> 's \<Rightarrow> ('e + 'r) \<times> 's"
  assumes commit: "body s = (Inr r, s') \<Longrightarrow> layer body s = (Inr r, s')"
    and rollback: "body s = (Inl e, s') \<Longrightarrow> layer body s = (Inl e, s)"
begin

lemma layer_error: "layer body s = (Inl e, s') \<Longrightarrow> s' = s \<and> (\<exists>s''. body s = (Inl e, s''))"
  by (cases "body s"; cases "fst (body s)") (auto dest: commit rollback)

lemma layer_ok: "layer body s = (Inr r, s') \<longleftrightarrow> body s = (Inr r, s')"
  by (cases "body s"; cases "fst (body s)") (auto dest: commit rollback)

text \<open>A property of the start state survives a call if the committed path keeps it.\<close>

lemma layer_keeps:
  assumes "I s" and "\<And>r s'. body s = (Inr r, s') \<Longrightarrow> I s'"
  shows "I (snd (layer body s))"
proof (cases "layer body s")
  case (Pair res s')
  then show ?thesis
    using assms by (cases res) (auto dest: layer_error layer_ok [THEN iffD1])
qed

end

interpretation rollback_layer: storage_layer with_storage_layer
  by unfold_locales (simp_all add: with_storage_layer_def)

section \<open>The currency\<close>

text \<open>
  What a successful \<open>KeepAlive\<close> transfer is documented to do: the amount leaves the source and
  arrives at the destination, nobody else is touched, a transfer to oneself changes nothing,
  and a source that paid something keeps the existential deposit.
\<close>

locale currency_api =
  fixes transfer :: "'acc \<Rightarrow> 'acc \<Rightarrow> u128 \<Rightarrow> ExistenceRequirement \<Rightarrow> 'cur \<Rightarrow> ('x + unit) \<times> 'cur"
    and min_balance :: u128
    and free_balance :: "'cur \<Rightarrow> 'acc \<Rightarrow> nat"
  assumes transfer_moves:
    "transfer a b v KeepAlive c = (Inr (), c') \<Longrightarrow> a \<noteq> b \<Longrightarrow>
       free_balance c a = free_balance c' a + unat v \<and>
       free_balance c' b = free_balance c b + unat v"
    and transfer_frame:
    "transfer a b v KeepAlive c = (Inr (), c') \<Longrightarrow> x \<noteq> a \<Longrightarrow> x \<noteq> b \<Longrightarrow>
       free_balance c' x = free_balance c x"
    and transfer_self:
    "transfer a a v KeepAlive c = (Inr (), c') \<Longrightarrow> free_balance c' x = free_balance c x"
    and transfer_keeps_alive:
    "transfer a b v KeepAlive c = (Inr (), c') \<Longrightarrow> a \<noteq> b \<Longrightarrow> v \<noteq> 0 \<Longrightarrow>
       unat min_balance \<le> free_balance c' a"
begin

lemma transfer_conserves:
  assumes ok: "transfer a b v KeepAlive c = (Inr (), c')"
    and fin: "finite A" and mem: "a \<in> A" "b \<in> A"
  shows "(\<Sum>x\<in>A. free_balance c' x) = (\<Sum>x\<in>A. free_balance c x)"
proof (cases "a = b")
  case True
  with ok show ?thesis by (simp add: transfer_self)
next
  case False
  have split: "(\<Sum>x\<in>A. f x) = f a + f b + (\<Sum>x\<in>A - {a, b}. f x)" for f :: "_ \<Rightarrow> nat"
    using fin mem False by (subst sum.subset_diff [of "{a, b}" A]) auto
  have "(\<Sum>x\<in>A - {a, b}. free_balance c' x) = (\<Sum>x\<in>A - {a, b}. free_balance c x)"
    using ok by (intro sum.cong) (auto simp: transfer_frame)
  with transfer_moves [OF ok False] show ?thesis
    by (simp add: split [of "free_balance c'"] split [of "free_balance c"])
qed

end

lemma ledger_currency: "currency_api (ledger_transfer (unat ed)) ed (\<lambda>c x. c x)"
  by unfold_locales (auto simp: ledger_transfer_def split: if_splits)

interpretation ledger: currency_api "ledger_transfer (unat ed)" ed "\<lambda>c x. c x" for ed
  by (rule ledger_currency)

text \<open>
  When a \<open>KeepAlive\<close> transfer is accepted: the source is \<open>unrestricted\<close> (nothing of its balance is
  locked, frozen, held or reserved), both sides end with at least the existential deposit, and
  nothing overflows.  Of a restricted source nothing is promised.
\<close>

locale liquid_currency = currency_api +
  fixes unrestricted :: "'c \<Rightarrow> 'a \<Rightarrow> bool"
  assumes transfer_accepted:
    "unrestricted c a \<Longrightarrow> a \<noteq> b \<Longrightarrow> unat v + unat min_balance \<le> free_balance c a \<Longrightarrow> unat min_balance \<le> unat v \<Longrightarrow>
       free_balance c b + unat v < 2 ^ 128 \<Longrightarrow> \<exists>c'. transfer a b v KeepAlive c = (Inr (), c')"
begin

lemma transfer_pays:
  assumes "unrestricted c a" "a \<noteq> b" "unat v + unat min_balance \<le> free_balance c a" "unat min_balance \<le> unat v"
    "free_balance c b + unat v < 2 ^ 128"
  obtains c' where "transfer a b v KeepAlive c = (Inr (), c')"
    "free_balance c' a = free_balance c a - unat v" "free_balance c' b = free_balance c b + unat v"
proof -
  from transfer_accepted [OF assms] obtain c' where ok: "transfer a b v KeepAlive c = (Inr (), c')" ..
  then show thesis
    using transfer_moves [OF ok assms(2)] by (intro that [OF ok]) auto
qed

end

text \<open>The reference ledger knows no restrictions.\<close>

lemma ledger_liquid:
  "liquid_currency (ledger_transfer (unat ed)) ed (\<lambda>c x. c x) (\<lambda>c x. True)"
proof (rule liquid_currency.intro [OF ledger_currency], unfold_locales)
  fix a b :: 'a and v :: u128 and c :: "'a \<Rightarrow> nat"
  assume "a \<noteq> b" "unat v + unat ed \<le> c a" "unat ed \<le> unat v" "c b + unat v < 2 ^ 128"
  then show "\<exists>c'. ledger_transfer (unat ed) a b v KeepAlive c = (Inr (), c')"
    by (auto simp: ledger_transfer_def)
qed

interpretation liquid_ledger:
  liquid_currency "ledger_transfer (unat ed)" ed "\<lambda>c x. c x" "\<lambda>c x. True" for ed
  by (rule ledger_liquid)

section \<open>Machines that keep an invariant and evolve in one direction\<close>

text \<open>
  A sequence of steps, one per label.  \<open>inv\<close> is kept by every step, and between states of
  \<open>inv\<close> every step moves along \<open>evolves\<close>, a preorder on these states; both then hold of whole runs.
\<close>

locale invariant_machine =
  fixes step :: "'l \<Rightarrow> 's \<Rightarrow> 's"
    and inv :: "'s \<Rightarrow> bool"
  assumes inv_step: "inv s \<Longrightarrow> inv (step l s)"
begin

lemma inv_run: "inv s \<Longrightarrow> inv (fold step ls s)"
  by (induction ls arbitrary: s) (auto intro: inv_step)

end

locale evolving_machine = invariant_machine +
  fixes evolves :: "'s \<Rightarrow> 's \<Rightarrow> bool"
  assumes evolves_refl: "evolves s s"
    and evolves_trans: "inv s \<Longrightarrow> inv t \<Longrightarrow> evolves s t \<Longrightarrow> evolves t u \<Longrightarrow> evolves s u"
    and evolves_step: "inv s \<Longrightarrow> evolves s (step l s)"
begin

lemma evolves_run: "inv s \<Longrightarrow> evolves s (fold step ls s)"
proof (induction ls arbitrary: s)
  case Nil
  then show ?case by (simp add: evolves_refl)
next
  case (Cons l ls)
  then have "inv (step l s)" and "evolves s (step l s)"
    by (auto intro: evolves_step inv_step)
  moreover from this have "evolves (step l s) (fold step ls (step l s))" by (intro Cons.IH)
  ultimately show ?case using Cons.prems by (auto intro: evolves_trans)
qed

end

end
