(* ===== verification/Runtime_Sdk.thy ===== *)
theory Runtime_Sdk
  imports Frame_Prelude
begin

text \<open>
  What the runtime takes from the Polkadot SDK crates when it is configured: the shapes of
  weights and fee coefficients that the sources fill in, and, as the parameter \<open>sdk\<close>, the
  constants and functions of these crates that the sources call.  The locale \<open>sdk_laws\<close>
  states their documented values and behaviour; \<open>reference_sdk\<close> meets it.
\<close>

type_synonym Perbill = u32

record Weight =
  ref_time :: u64
  proof_size :: u64

record RuntimeDbWeight =
  read :: u64
  "write" :: u64

record WeightToFeeCoefficient =
  degree :: u8
  negative :: bool
  coeff_frac :: Perbill
  coeff_integer :: u128

record sdk =
  WEIGHT_REF_TIME_PER_SECOND :: u64
  WEIGHT_REF_TIME_PER_MILLIS :: u64
  WEIGHT_REF_TIME_PER_MICROS :: u64
  WEIGHT_REF_TIME_PER_NANOS :: u64
  MAX_POV_SIZE :: u32
  frame_RocksDbWeight :: RuntimeDbWeight
  Perbill_from_percent :: "u32 \<Rightarrow> Perbill"
  Perbill_from_rational :: "u128 \<Rightarrow> u128 \<Rightarrow> Perbill"
  Perbill_mul :: "Perbill \<Rightarrow> u64 \<Rightarrow> u64"
  db_reads :: "RuntimeDbWeight \<Rightarrow> u64 \<Rightarrow> Weight"
  db_writes :: "RuntimeDbWeight \<Rightarrow> u64 \<Rightarrow> Weight"
  Weight_saturating_add :: "Weight \<Rightarrow> Weight \<Rightarrow> Weight"
  Weight_saturating_div :: "Weight \<Rightarrow> u64 \<Rightarrow> Weight"
  weight_to_fee :: "WeightToFeeCoefficient list \<Rightarrow> Weight \<Rightarrow> u128"

definition from_parts :: "u64 \<Rightarrow> u64 \<Rightarrow> Weight" where
  "from_parts r p = \<lparr>ref_time = r, proof_size = p\<rparr>"

text \<open>The proportion of a weight, component by component.\<close>

definition Perbill_mul_weight :: "sdk \<Rightarrow> Perbill \<Rightarrow> Weight \<Rightarrow> Weight" where
  "Perbill_mul_weight K f w = from_parts (Perbill_mul K f (ref_time w)) (Perbill_mul K f (proof_size w))"

definition reference_sdk :: sdk where
  "reference_sdk =
     \<lparr>WEIGHT_REF_TIME_PER_SECOND = 1000000000000,
      WEIGHT_REF_TIME_PER_MILLIS = 1000000000,
      WEIGHT_REF_TIME_PER_MICROS = 1000000,
      WEIGHT_REF_TIME_PER_NANOS = 1000,
      MAX_POV_SIZE = 5242880,
      frame_RocksDbWeight = \<lparr>read = 25000000, write = 100000000\<rparr>,
      Perbill_from_percent = (\<lambda>p. of_nat (min (unat p) 100 * 10000000)),
      Perbill_from_rational = (\<lambda>p q. of_nat (unat p * 1000000000 div unat q)),
      Perbill_mul = (\<lambda>f x. of_nat (unat f * unat x div 1000000000)),
      db_reads = (\<lambda>d n. from_parts (saturating_mul (read d) n) 0),
      db_writes = (\<lambda>d n. from_parts (saturating_mul (write d) n) 0),
      Weight_saturating_add =
        (\<lambda>v w. from_parts (saturating_add (ref_time v) (ref_time w))
                 (saturating_add (proof_size v) (proof_size w))),
      Weight_saturating_div = (\<lambda>w n. from_parts (ref_time w div n) (proof_size w div n)),
      weight_to_fee =
        (\<lambda>cs w. of_nat (min (2 ^ 128 - 1)
           (\<Sum>c\<leftarrow>cs. unat (coeff_frac c) * unat (ref_time w) div 1000000000 +
                      unat (coeff_integer c) * unat (ref_time w))))\<rparr>"

locale sdk_laws =
  fixes K :: sdk
  assumes per_second: "WEIGHT_REF_TIME_PER_SECOND K = 1000000000000"
    and per_millis: "WEIGHT_REF_TIME_PER_MILLIS K = 1000000000"
    and per_micros: "WEIGHT_REF_TIME_PER_MICROS K = 1000000"
    and per_nanos: "WEIGHT_REF_TIME_PER_NANOS K = 1000"
    and pov_size: "MAX_POV_SIZE K = 5242880"
    and support_rocksdb: "frame_RocksDbWeight K = \<lparr>read = 25000000, write = 100000000\<rparr>"
    and from_percent: "unat pct \<le> 100 \<Longrightarrow> unat (Perbill_from_percent K pct) = unat pct * 10000000"
    and from_rational:
      "p \<le> q \<Longrightarrow> q \<noteq> 0 \<Longrightarrow>
         unat (Perbill_from_rational K p q) = unat p * 1000000000 div unat q"
    and perbill_mul:
      "unat f \<le> 1000000000 \<Longrightarrow> 1000000000 dvd unat f * unat x \<Longrightarrow>
         unat (Perbill_mul K f x) = unat f * unat x div 1000000000"
    and reads: "db_reads K d n = from_parts (saturating_mul (read d) n) 0"
    and writes: "db_writes K d n = from_parts (saturating_mul (write d) n) 0"
    and weight_add:
      "Weight_saturating_add K v w =
         from_parts (saturating_add (ref_time v) (ref_time w))
           (saturating_add (proof_size v) (proof_size w))"
    and weight_div:
      "n \<noteq> 0 \<Longrightarrow> Weight_saturating_div K w n = from_parts (ref_time w div n) (proof_size w div n)"
    and linear_fee:
      "degree c = 1 \<Longrightarrow> \<not> negative c \<Longrightarrow>
         1000000000 dvd unat (coeff_frac c) * unat (ref_time w) \<Longrightarrow>
         unat (weight_to_fee K [c] w) =
           min (2 ^ 128 - 1)
             (unat (coeff_frac c) * unat (ref_time w) div 1000000000 +
              unat (coeff_integer c) * unat (ref_time w))"
begin

lemmas constants = per_second per_millis per_micros per_nanos pov_size

lemma percent_of:
  assumes "unat p \<le> 100" and "unat p * unat x = 100 * unat y"
  shows "Perbill_mul K (Perbill_from_percent K p) x = y"
proof -
  have "unat (Perbill_from_percent K p) * unat x = 1000000000 * unat y"
    using assms from_percent [OF assms(1)] by (simp add: mult.commute)
  then have "unat (Perbill_mul K (Perbill_from_percent K p) x) = unat y"
    using assms(1) from_percent [OF assms(1)] by (subst perbill_mul) simp_all
  then show ?thesis by (simp add: word_unat_eq_iff)
qed

end

section \<open>The reference meets the laws\<close>

lemma unat_of_nat_small: "n < 2 ^ LENGTH('a) \<Longrightarrow> unat (of_nat n :: 'a::len word) = n"
  by (simp add: unsigned_of_nat take_bit_nat_eq_self)

lemma scaled_fraction_le: "a \<le> b \<Longrightarrow> 0 < b \<Longrightarrow> a * c div b \<le> (c :: nat)"
  by (metis div_le_mono mult_le_mono1 nonzero_mult_div_cancel_left not_gr_zero)

lemma reference_perbill_mul:
  assumes "unat (f :: Perbill) \<le> 1000000000"
  shows "unat (of_nat (unat f * unat x div 1000000000) :: u64) = unat f * unat (x :: u64) div 1000000000"
proof (rule unat_of_nat_small)
  have "unat f * unat x div 1000000000 \<le> unat x"
    using scaled_fraction_le [OF assms, of "unat x"] by simp
  also have "\<dots> < 2 ^ LENGTH(64)" using unsigned_less [of x] by simp
  finally show "unat f * unat x div 1000000000 < 2 ^ LENGTH(64)" .
qed

lemma reference_from_rational:
  assumes "p \<le> q" and "q \<noteq> (0 :: u128)"
  shows "unat (of_nat (unat p * 1000000000 div unat q) :: u32) = unat p * 1000000000 div unat q"
proof (rule unat_of_nat_small)
  have "unat p * 1000000000 div unat q \<le> 1000000000"
    using assms by (intro scaled_fraction_le) (auto simp: word_le_nat_alt unat_gt_0)
  then show "unat p * 1000000000 div unat q < 2 ^ LENGTH(32)" by simp
qed

lemma reference_laws: "sdk_laws reference_sdk"
proof unfold_locales
  fix pct :: u32 assume "unat pct \<le> 100"
  then show "unat (Perbill_from_percent reference_sdk pct) = unat pct * 10000000"
    by (simp add: reference_sdk_def unat_of_nat_small del: of_nat_mult)
next
  fix p q :: u128 assume "p \<le> q" "q \<noteq> 0"
  then show "unat (Perbill_from_rational reference_sdk p q) = unat p * 1000000000 div unat q"
    using reference_from_rational [of p q] by (simp add: reference_sdk_def)
next
  fix f :: Perbill and x :: u64 assume "unat f \<le> 1000000000"
  then show "unat (Perbill_mul reference_sdk f x) = unat f * unat x div 1000000000"
    using reference_perbill_mul [of f x] by (simp add: reference_sdk_def)
next
  fix c :: WeightToFeeCoefficient and w :: Weight
  show "unat (weight_to_fee reference_sdk [c] w) =
      min (2 ^ 128 - 1) (unat (coeff_frac c) * unat (ref_time w) div 1000000000 +
        unat (coeff_integer c) * unat (ref_time w))"
    unfolding reference_sdk_def by (simp add: unat_of_nat_small del: of_nat_min)
qed (simp_all add: reference_sdk_def)

interpretation reference: sdk_laws reference_sdk
  by (rule reference_laws)

end
