(* ===== verification/Nft_Pallet.thy ===== *)
theory Nft_Pallet
  imports Frame_Prelude
begin

text \<open>
  The NFT pallet, \<open>src/pallets/template/src/lib.rs\<close>: its data types, its storage, its events
  and errors, and its seven dispatchable calls, each a function from the state to the
  result of the call and the state the body leaves behind.  A body that fails leaves the
  writes it has made so far; the storage layer of the dispatcher (the argument \<open>layer\<close> of
  \<open>dispatch\<close>) decides what becomes of them.

  The record \<open>Config\<close> holds what the trait \<open>Config\<close> of the pallet supplies from outside the
  repository: the origin check, the currency and the account derived from the pallet id.
\<close>

section \<open>Data\<close>

type_synonym Balance = u128
type_synonym CollectionId = u32
type_synonym ItemId = u32

record ('acc, 'bal) NFT =
  owner :: 'acc
  nft_metadata :: "u8 list"
  is_sold :: bool
  price :: 'bal

record 'acc Collection =
  creator :: 'acc
  collection_metadata :: "u8 list"
  collection_nfts :: "ItemId list"

datatype 'acc Event =
    ArtistRegistered 'acc
  | CollectionCreated CollectionId 'acc
  | CollectionUpdated CollectionId
  | CollectionFrozen CollectionId
  | CollectionDeleted CollectionId
  | NFTMinted CollectionId ItemId 'acc
  | NFTBatchMinted CollectionId "ItemId list" 'acc
  | NFTTransferred CollectionId ItemId 'acc 'acc
  | NFTBurned CollectionId ItemId 'acc

datatype Error =
    NFTNotFound
  | NotNFTOwner
  | NotRegisteredArtist
  | CollectionNotFound
  | AlreadyRegistered
  | CollectionFrozen
  | NotCollectionOwner
  | NFTAlreadySold
  | MetadataInvalid
  | PriceNotSet

text \<open>
  A \<open>DispatchError\<close> is an error of this pallet or one that FRAME or the currency returned.
\<close>

datatype 'x DispatchError = PalletError Error | FrameError 'x

text \<open>
  The storage items of the pallet, with the state of the currency and the sequence of
  \<open>deposit_event\<close> calls.  A missing \<open>NextCollectionId\<close> is a storage value never written.
\<close>

record ('acc, 'cur) state =
  Artists :: "'acc \<rightharpoonup> bool"
  Collections :: "CollectionId \<rightharpoonup> 'acc Collection"
  Nfts :: "CollectionId \<times> ItemId \<rightharpoonup> ('acc, Balance) NFT"
  NextItemId :: "CollectionId \<rightharpoonup> ItemId"
  NextCollectionId :: "CollectionId option"
  currency :: 'cur
  events :: "'acc Event list"

record ('acc, 'origin, 'cur, 'x) Config =
  ensure_signed :: "'origin \<Rightarrow> 'x + 'acc"
  Currency_minimum_balance :: Balance
  Currency_transfer ::
    "'acc \<Rightarrow> 'acc \<Rightarrow> Balance \<Rightarrow> ExistenceRequirement \<Rightarrow> 'cur \<Rightarrow> ('x + unit) \<times> 'cur"
  PalletId_account :: 'acc

type_synonym ('acc, 'cur, 'x) DispatchResult =
  "('x DispatchError + unit) \<times> ('acc, 'cur) state"

abbreviation next_item_id :: "('acc, 'cur) state \<Rightarrow> CollectionId \<Rightarrow> ItemId" where
  "next_item_id s collection_id \<equiv> storage_get_or 0 (NextItemId s) collection_id"

abbreviation next_collection_id :: "('acc, 'cur) state \<Rightarrow> CollectionId" where
  "next_collection_id s \<equiv> (case NextCollectionId s of None \<Rightarrow> 0 | Some n \<Rightarrow> n)"

definition deposit_event ::
  "'acc Event \<Rightarrow> ('acc, 'cur) state \<Rightarrow> ('acc, 'cur) state" where
  "deposit_event e s = s\<lparr>events := events s @ [e]\<rparr>"

section \<open>Calls\<close>

definition registration_fee :: "('acc, 'origin, 'cur, 'x) Config \<Rightarrow> Balance" where
  "registration_fee T = Currency_minimum_balance T * 100"

definition register_artist ::
  "('acc, 'origin, 'cur, 'x) Config \<Rightarrow> 'origin \<Rightarrow> ('acc, 'cur) state \<Rightarrow>
   ('acc, 'cur, 'x) DispatchResult" where
  "register_artist T origin s =
     (case ensure_signed T origin of
        Inl e \<Rightarrow> (Inl (FrameError e), s)
      | Inr who \<Rightarrow>
          if storage_contains_key (Artists s) who
          then (Inl (PalletError AlreadyRegistered), s)
          else
            (case Currency_transfer T who (PalletId_account T) (registration_fee T) KeepAlive
                    (currency s) of
               (Inl e, c) \<Rightarrow> (Inl (FrameError e), s\<lparr>currency := c\<rparr>)
             | (Inr _, c) \<Rightarrow>
                 let s1 = s\<lparr>currency := c\<rparr>;
                     s2 = s1\<lparr>Artists := storage_insert who True (Artists s1)\<rparr>
                 in (Inr (), deposit_event (ArtistRegistered who) s2)))"

definition create_collection ::
  "('acc, 'origin, 'cur, 'x) Config \<Rightarrow> 'origin \<Rightarrow> u8 list \<Rightarrow> ('acc, 'cur) state \<Rightarrow>
   ('acc, 'cur, 'x) DispatchResult" where
  "create_collection T origin metadata s =
     (case ensure_signed T origin of
        Inl e \<Rightarrow> (Inl (FrameError e), s)
      | Inr who \<Rightarrow>
          if \<not> storage_get_or False (Artists s) who
          then (Inl (PalletError NotRegisteredArtist), s)
          else
            (case bounded_try_from 256 metadata of
               None \<Rightarrow> (Inl (PalletError MetadataInvalid), s)
             | Some bounded_metadata \<Rightarrow>
                 let collection_id = next_collection_id s;
                     collection = \<lparr>creator = who, collection_metadata = bounded_metadata,
                                   collection_nfts = []\<rparr>;
                     s1 = s\<lparr>Collections :=
                              storage_insert collection_id collection (Collections s)\<rparr>;
                     s2 = s1\<lparr>NextCollectionId := Some (saturating_add collection_id 1)\<rparr>
                 in (Inr (), deposit_event (CollectionCreated collection_id who) s2)))"

definition delete_collection ::
  "('acc, 'origin, 'cur, 'x) Config \<Rightarrow> 'origin \<Rightarrow> CollectionId \<Rightarrow> ('acc, 'cur) state \<Rightarrow>
   ('acc, 'cur, 'x) DispatchResult" where
  "delete_collection T origin collection_id s =
     (case ensure_signed T origin of
        Inl e \<Rightarrow> (Inl (FrameError e), s)
      | Inr who \<Rightarrow>
          (case storage_get (Collections s) collection_id of
             None \<Rightarrow> (Inl (PalletError CollectionNotFound), s)
           | Some collection \<Rightarrow>
               if creator collection \<noteq> who
               then (Inl (PalletError NotCollectionOwner), s)
               else
                 let s1 = s\<lparr>Collections := storage_remove collection_id (Collections s)\<rparr>
                 in (Inr (), deposit_event (CollectionDeleted collection_id) s1)))"

text \<open>
  The closure of \<open>Collections::try_mutate\<close> in \<open>create_nft\<close>: append the item to the
  collection and store the collection, before \<open>try_mutate\<close> stores it again.
\<close>

definition add_item_to_collection ::
  "CollectionId \<Rightarrow> ItemId \<Rightarrow> 'acc Collection option \<Rightarrow> (CollectionId \<rightharpoonup> 'acc Collection) \<Rightarrow>
   ('x DispatchError + 'acc Collection option) \<times> (CollectionId \<rightharpoonup> 'acc Collection)" where
  "add_item_to_collection collection_id item_id collection_option m =
     (case collection_option of
        None \<Rightarrow> (Inl (PalletError CollectionNotFound), m)
      | Some collection \<Rightarrow>
          (case bounded_try_push 256 item_id (collection_nfts collection) of
             None \<Rightarrow> (Inl (PalletError CollectionNotFound), m)
           | Some pushed \<Rightarrow>
               let collection' = collection\<lparr>collection_nfts := pushed\<rparr>
               in (Inr (Some collection'), storage_insert collection_id collection' m)))"

definition create_nft ::
  "('acc, 'origin, 'cur, 'x) Config \<Rightarrow> 'origin \<Rightarrow> CollectionId \<Rightarrow> u8 list \<Rightarrow> Balance \<Rightarrow>
   ('acc, 'cur) state \<Rightarrow> ('acc, 'cur, 'x) DispatchResult" where
  "create_nft T origin collection_id metadata nft_price s =
     (case ensure_signed T origin of
        Inl e \<Rightarrow> (Inl (FrameError e), s)
      | Inr sender \<Rightarrow>
          if \<not> storage_contains_key (Collections s) collection_id
          then (Inl (PalletError CollectionNotFound), s)
          else
            (case bounded_try_from 256 metadata of
               None \<Rightarrow> (Inl (PalletError MetadataInvalid), s)
             | Some bounded_metadata \<Rightarrow>
                 let item_id = next_item_id s collection_id;
                     nft = \<lparr>owner = sender, nft_metadata = bounded_metadata,
                            is_sold = False, price = nft_price\<rparr>;
                     s1 = s\<lparr>Nfts := storage_insert (collection_id, item_id) nft (Nfts s)\<rparr>
                 in
                   if \<not> storage_contains_key (Nfts s1) (collection_id, item_id)
                   then (Inl (PalletError NFTNotFound), s1)
                   else
                     (case storage_try_mutate collection_id
                             (add_item_to_collection collection_id item_id)
                             (Collections s1) of
                        (Inl e, m) \<Rightarrow> (Inl e, s1\<lparr>Collections := m\<rparr>)
                      | (Inr _, m) \<Rightarrow>
                          let s2 = s1\<lparr>Collections := m\<rparr>;
                              next_id = saturating_add item_id 1;
                              s3 = s2\<lparr>NextItemId :=
                                        storage_insert collection_id next_id (NextItemId s2)\<rparr>
                          in (Inr (),
                              deposit_event (NFTMinted collection_id item_id sender) s3))))"

definition transfer_nft ::
  "('acc, 'origin, 'cur, 'x) Config \<Rightarrow> 'origin \<Rightarrow> CollectionId \<Rightarrow> ItemId \<Rightarrow> 'acc \<Rightarrow>
   ('acc, 'cur) state \<Rightarrow> ('acc, 'cur, 'x) DispatchResult" where
  "transfer_nft T origin collection_id item_id to s =
     (case ensure_signed T origin of
        Inl e \<Rightarrow> (Inl (FrameError e), s)
      | Inr sender \<Rightarrow>
          (case storage_try_mutate (collection_id, item_id)
                  (\<lambda>nft_option m.
                     case nft_option of
                       None \<Rightarrow> (Inl (PalletError NFTNotFound), m)
                     | Some nft \<Rightarrow>
                         if owner nft \<noteq> sender then (Inl (PalletError NotNFTOwner), m)
                         else (Inr (Some (nft\<lparr>owner := to, is_sold := True\<rparr>)), m))
                  (Nfts s) of
             (Inl e, m) \<Rightarrow> (Inl e, s\<lparr>Nfts := m\<rparr>)
           | (Inr _, m) \<Rightarrow>
               (Inr (),
                deposit_event (NFTTransferred collection_id item_id sender to)
                  (s\<lparr>Nfts := m\<rparr>))))"

definition burn_nft ::
  "('acc, 'origin, 'cur, 'x) Config \<Rightarrow> 'origin \<Rightarrow> CollectionId \<Rightarrow> ItemId \<Rightarrow>
   ('acc, 'cur) state \<Rightarrow> ('acc, 'cur, 'x) DispatchResult" where
  "burn_nft T origin collection_id item_id s =
     (case ensure_signed T origin of
        Inl e \<Rightarrow> (Inl (FrameError e), s)
      | Inr sender \<Rightarrow>
          (case storage_get (Nfts s) (collection_id, item_id) of
             None \<Rightarrow> (Inl (PalletError NFTNotFound), s)
           | Some nft \<Rightarrow>
               if owner nft \<noteq> sender then (Inl (PalletError NotNFTOwner), s)
               else if is_sold nft then (Inl (PalletError NFTAlreadySold), s)
               else
                 let s1 = s\<lparr>Nfts := storage_remove (collection_id, item_id) (Nfts s)\<rparr>
                 in
                   (case storage_try_mutate collection_id
                           (\<lambda>collection_option m.
                              case collection_option of
                                None \<Rightarrow> (Inl (PalletError CollectionNotFound), m)
                              | Some collection \<Rightarrow>
                                  (Inr (Some (collection\<lparr>collection_nfts :=
                                     filter (\<lambda>id. id \<noteq> item_id)
                                       (collection_nfts collection)\<rparr>)), m))
                           (Collections s1) of
                      (Inl e, m) \<Rightarrow> (Inl e, s1\<lparr>Collections := m\<rparr>)
                    | (Inr _, m) \<Rightarrow>
                        (Inr (),
                         deposit_event (NFTBurned collection_id item_id sender)
                           (s1\<lparr>Collections := m\<rparr>)))))"

definition mint_nft ::
  "('acc, 'origin, 'cur, 'x) Config \<Rightarrow> 'origin \<Rightarrow> CollectionId \<Rightarrow> ItemId \<Rightarrow>
   ('acc, 'cur) state \<Rightarrow> ('acc, 'cur, 'x) DispatchResult" where
  "mint_nft T origin collection_id item_id s =
     (case ensure_signed T origin of
        Inl e \<Rightarrow> (Inl (FrameError e), s)
      | Inr buyer \<Rightarrow>
          (case storage_get (Nfts s) (collection_id, item_id) of
             None \<Rightarrow> (Inl (PalletError NFTNotFound), s)
           | Some nft \<Rightarrow>
               if is_sold nft then (Inl (PalletError NFTAlreadySold), s)
               else if owner nft = buyer then (Inl (PalletError NotNFTOwner), s)
               else
                 let seller = owner nft in
                 (case Currency_transfer T buyer seller (price nft) KeepAlive (currency s) of
                    (Inl e, c) \<Rightarrow> (Inl (FrameError e), s\<lparr>currency := c\<rparr>)
                  | (Inr _, c) \<Rightarrow>
                      let s1 = s\<lparr>currency := c\<rparr> in
                      (case storage_try_mutate (collection_id, item_id)
                              (\<lambda>nft_option m.
                                 case nft_option of
                                   None \<Rightarrow> (Inl (PalletError NFTNotFound), m)
                                 | Some nft \<Rightarrow>
                                     (Inr (Some (nft\<lparr>owner := buyer, is_sold := True\<rparr>)), m))
                              (Nfts s1) of
                         (Inl e, m) \<Rightarrow> (Inl e, s1\<lparr>Nfts := m\<rparr>)
                       | (Inr _, m) \<Rightarrow>
                           (Inr (),
                            deposit_event (NFTTransferred collection_id item_id seller buyer)
                              (s1\<lparr>Nfts := m\<rparr>))))))"

section \<open>Dispatch\<close>

text \<open>The calls with their arguments, and their call indices.\<close>

datatype 'acc Call =
    RegisterArtist
  | CreateCollection "u8 list"
  | DeleteCollection CollectionId
  | CreateNft CollectionId "u8 list" Balance
  | TransferNft CollectionId ItemId 'acc
  | BurnNft CollectionId ItemId
  | MintNft CollectionId ItemId

primrec call_index :: "'acc Call \<Rightarrow> u8" where
  "call_index RegisterArtist = 0"
| "call_index (CreateCollection m) = 1"
| "call_index (DeleteCollection c) = 4"
| "call_index (CreateNft c m p) = 6"
| "call_index (TransferNft c i t) = 7"
| "call_index (BurnNft c i) = 8"
| "call_index (MintNft c i) = 9"

primrec call_body ::
  "('acc, 'origin, 'cur, 'x) Config \<Rightarrow> 'origin \<Rightarrow> 'acc Call \<Rightarrow> ('acc, 'cur) state \<Rightarrow>
   ('acc, 'cur, 'x) DispatchResult" where
  "call_body T origin RegisterArtist s = register_artist T origin s"
| "call_body T origin (CreateCollection m) s = create_collection T origin m s"
| "call_body T origin (DeleteCollection c) s = delete_collection T origin c s"
| "call_body T origin (CreateNft c m p) s = create_nft T origin c m p s"
| "call_body T origin (TransferNft c i t) s = transfer_nft T origin c i t s"
| "call_body T origin (BurnNft c i) s = burn_nft T origin c i s"
| "call_body T origin (MintNft c i) s = mint_nft T origin c i s"

type_synonym ('acc, 'cur, 'x) layer =
  "(('acc, 'cur) state \<Rightarrow> ('acc, 'cur, 'x) DispatchResult) \<Rightarrow>
   ('acc, 'cur) state \<Rightarrow> ('acc, 'cur, 'x) DispatchResult"

definition dispatch ::
  "('acc, 'cur, 'x) layer \<Rightarrow> ('acc, 'origin, 'cur, 'x) Config \<Rightarrow> 'origin \<Rightarrow> 'acc Call \<Rightarrow>
   ('acc, 'cur) state \<Rightarrow> ('acc, 'cur, 'x) DispatchResult" where
  "dispatch layer T origin call s = layer (call_body T origin call) s"

text \<open>The chain applies calls one after the other; a failed call does not stop the next.\<close>

fun run ::
  "('acc, 'cur, 'x) layer \<Rightarrow> ('acc, 'origin, 'cur, 'x) Config \<Rightarrow> ('origin \<times> 'acc Call) list \<Rightarrow>
   ('acc, 'cur) state \<Rightarrow> ('acc, 'cur) state" where
  "run layer T [] s = s"
| "run layer T ((origin, call) # calls) s =
     run layer T calls (snd (dispatch layer T origin call s))"

text \<open>The pallet has no genesis configuration: its storage starts empty.\<close>

definition genesis :: "'cur \<Rightarrow> ('acc, 'cur) state" where
  "genesis c = \<lparr>Artists = Map.empty, Collections = Map.empty, Nfts = Map.empty,
     NextItemId = Map.empty, NextCollectionId = None, currency = c, events = []\<rparr>"

end
