(* ===== verification/Runtime_Weights.thy ===== *)
theory Runtime_Weights
  imports Runtime_Sdk Nft_Pallet
begin

text \<open>
  Weights: the generated constants of \<open>src/runtime/src/weights\<close> with the unit tests that come
  with them, the weight functions of \<open>src/pallets/template/src/weights.rs\<close>, and the weight with
  which each call of the NFT pallet is declared.
\<close>

section \<open>Constants of the runtime\<close>

definition BlockExecutionWeight :: "sdk \<Rightarrow> Weight" where
  "BlockExecutionWeight K = from_parts (saturating_mul (WEIGHT_REF_TIME_PER_NANOS K) 5000000) 0"

definition ExtrinsicBaseWeight :: "sdk \<Rightarrow> Weight" where
  "ExtrinsicBaseWeight K = from_parts (saturating_mul (WEIGHT_REF_TIME_PER_NANOS K) 125000) 0"

definition RocksDbWeight :: "sdk \<Rightarrow> RuntimeDbWeight" where
  "RocksDbWeight K =
     \<lparr>read = 25000 * WEIGHT_REF_TIME_PER_NANOS K, write = 100000 * WEIGHT_REF_TIME_PER_NANOS K\<rparr>"

definition ParityDbWeight :: "sdk \<Rightarrow> RuntimeDbWeight" where
  "ParityDbWeight K =
     \<lparr>read = 8000 * WEIGHT_REF_TIME_PER_NANOS K, write = 50000 * WEIGHT_REF_TIME_PER_NANOS K\<rparr>"

text \<open>The assertions of the unit tests \<open>sane\<close>, as predicates.\<close>

definition block_weights_sane :: "sdk \<Rightarrow> bool" where
  "block_weights_sane K \<longleftrightarrow>
     (let w = BlockExecutionWeight K
      in 100 * WEIGHT_REF_TIME_PER_MICROS K \<le> ref_time w \<and>
         ref_time w \<le> 50 * WEIGHT_REF_TIME_PER_MILLIS K)"

definition extrinsic_weights_sane :: "sdk \<Rightarrow> bool" where
  "extrinsic_weights_sane K \<longleftrightarrow>
     (let w = ExtrinsicBaseWeight K
      in 10 * WEIGHT_REF_TIME_PER_MICROS K \<le> ref_time w \<and>
         ref_time w \<le> WEIGHT_REF_TIME_PER_MILLIS K)"

definition rocksdb_weights_sane :: "sdk \<Rightarrow> bool" where
  "rocksdb_weights_sane K \<longleftrightarrow>
     (let w = RocksDbWeight K
      in WEIGHT_REF_TIME_PER_MICROS K \<le> ref_time (db_reads K w 1) \<and>
         WEIGHT_REF_TIME_PER_MICROS K \<le> ref_time (db_writes K w 1) \<and>
         ref_time (db_reads K w 1) \<le> WEIGHT_REF_TIME_PER_MILLIS K \<and>
         ref_time (db_writes K w 1) \<le> WEIGHT_REF_TIME_PER_MILLIS K)"

definition paritydb_weights_sane :: "sdk \<Rightarrow> bool" where
  "paritydb_weights_sane K \<longleftrightarrow>
     (let w = ParityDbWeight K
      in WEIGHT_REF_TIME_PER_MICROS K \<le> ref_time (db_reads K w 1) \<and>
         WEIGHT_REF_TIME_PER_MICROS K \<le> ref_time (db_writes K w 1) \<and>
         ref_time (db_reads K w 1) \<le> WEIGHT_REF_TIME_PER_MILLIS K \<and>
         ref_time (db_writes K w 1) \<le> WEIGHT_REF_TIME_PER_MILLIS K)"

section \<open>Weight functions of the pallet\<close>

text \<open>
  \<open>SubstrateWeight<T>\<close> with the database weights \<open>db\<close> of the runtime, and the implementation
  for \<open>()\<close> with those of the FRAME support crate.
\<close>

definition SubstrateWeight_do_something :: "sdk \<Rightarrow> RuntimeDbWeight \<Rightarrow> Weight" where
  "SubstrateWeight_do_something K db =
     Weight_saturating_add K (from_parts 9000000 0) (db_writes K db 1)"

definition SubstrateWeight_cause_error :: "sdk \<Rightarrow> RuntimeDbWeight \<Rightarrow> Weight" where
  "SubstrateWeight_cause_error K db =
     Weight_saturating_add K
       (Weight_saturating_add K (from_parts 6000000 1489) (db_reads K db 1))
       (db_writes K db 1)"

definition unit_do_something :: "sdk \<Rightarrow> Weight" where
  "unit_do_something K =
     Weight_saturating_add K (from_parts 9000000 0) (db_writes K (frame_RocksDbWeight K) 1)"

definition unit_cause_error :: "sdk \<Rightarrow> Weight" where
  "unit_cause_error K =
     Weight_saturating_add K
       (Weight_saturating_add K (from_parts 6000000 1489) (db_reads K (frame_RocksDbWeight K) 1))
       (db_writes K (frame_RocksDbWeight K) 1)"

text \<open>The trait of the weight functions and its two implementations.\<close>

record WeightInfo =
  do_something :: Weight
  cause_error :: Weight

definition SubstrateWeight :: "sdk \<Rightarrow> RuntimeDbWeight \<Rightarrow> WeightInfo" where
  "SubstrateWeight K db =
     \<lparr>do_something = SubstrateWeight_do_something K db, cause_error = SubstrateWeight_cause_error K db\<rparr>"

definition unit_WeightInfo :: "sdk \<Rightarrow> WeightInfo" where
  "unit_WeightInfo K = \<lparr>do_something = unit_do_something K, cause_error = unit_cause_error K\<rparr>"

text \<open>Every call of the pallet is declared with \<open>Weight::default()\<close>.\<close>

primrec call_weight :: "'acc Call \<Rightarrow> Weight" where
  "call_weight RegisterArtist = from_parts 0 0"
| "call_weight (CreateCollection m) = from_parts 0 0"
| "call_weight (DeleteCollection c) = from_parts 0 0"
| "call_weight (CreateNft c m p) = from_parts 0 0"
| "call_weight (TransferNft c i t) = from_parts 0 0"
| "call_weight (BurnNft c i) = from_parts 0 0"
| "call_weight (MintNft c i) = from_parts 0 0"

lemmas weight_defs = BlockExecutionWeight_def ExtrinsicBaseWeight_def RocksDbWeight_def
  ParityDbWeight_def from_parts_def

section \<open>Lemmas and properties\<close>

context sdk_laws begin

lemma base_weight: "ExtrinsicBaseWeight K = from_parts 125000000 0"
  by (simp add: ExtrinsicBaseWeight_def saturating_mul_def constants)

lemma block_weight: "BlockExecutionWeight K = from_parts 5000000000 0"
  by (simp add: BlockExecutionWeight_def saturating_mul_def constants)

lemma rocksdb_weight: "RocksDbWeight K = \<lparr>read = 25000000, write = 100000000\<rparr>"
  by (simp add: RocksDbWeight_def constants)

lemma paritydb_weight: "ParityDbWeight K = \<lparr>read = 8000000, write = 50000000\<rparr>"
  by (simp add: ParityDbWeight_def constants)

end

text \<open>
  The assertions of the generated unit tests hold of the constants: block and extrinsic
  base weights and both database weights lie in their sane ranges.
\<close>

theorem generated_weights_sane:
  assumes "sdk_laws K"
  shows "block_weights_sane K \<and> extrinsic_weights_sane K \<and> rocksdb_weights_sane K \<and>
    paritydb_weights_sane K"
  using sdk_laws.base_weight [OF assms] sdk_laws.block_weight [OF assms]
    sdk_laws.rocksdb_weight [OF assms] sdk_laws.paritydb_weight [OF assms]
  by (simp add: block_weights_sane_def extrinsic_weights_sane_def rocksdb_weights_sane_def
      paritydb_weights_sane_def sdk_laws.constants [OF assms] sdk_laws.reads [OF assms]
      sdk_laws.writes [OF assms] from_parts_def saturating_mul_def)

theorem generated_weights_sane_witness:
  "block_weights_sane reference_sdk \<and> extrinsic_weights_sane reference_sdk \<and>
   rocksdb_weights_sane reference_sdk \<and> paritydb_weights_sane reference_sdk"
  by (rule generated_weights_sane [OF reference_laws])

end
