(* ===== verification/Runtime_Config.thy ===== *)
theory Runtime_Config
  imports Runtime_Weights
begin

text \<open>
  The configuration of the runtime: time, currency and weight constants and the fee polynomial
  of \<open>src/runtime/src/lib.rs\<close>, and the parameters and pallet configurations of
  \<open>src/runtime/src/configs/mod.rs\<close>.
\<close>

section \<open>Constants of the runtime crate\<close>

type_synonym Nonce = u32
type_synonym BlockNumber = u32

definition MILLI_SECS_PER_BLOCK :: u64 where
  "MILLI_SECS_PER_BLOCK = 6000"

definition SLOT_DURATION :: u64 where
  "SLOT_DURATION = MILLI_SECS_PER_BLOCK"

definition MINUTES :: BlockNumber where
  "MINUTES = 60000 div ucast MILLI_SECS_PER_BLOCK"

definition HOURS :: BlockNumber where
  "HOURS = MINUTES * 60"

definition DAYS :: BlockNumber where
  "DAYS = HOURS * 24"

definition UNIT :: Balance where
  "UNIT = 1000000000000"

definition MILLI_UNIT :: Balance where
  "MILLI_UNIT = 1000000000"

definition MICRO_UNIT :: Balance where
  "MICRO_UNIT = 1000000"

definition EXISTENTIAL_DEPOSIT :: Balance where
  "EXISTENTIAL_DEPOSIT = MILLI_UNIT"

definition AVERAGE_ON_INITIALIZE_RATIO :: "sdk \<Rightarrow> Perbill" where
  "AVERAGE_ON_INITIALIZE_RATIO K = Perbill_from_percent K 5"

definition NORMAL_DISPATCH_RATIO :: "sdk \<Rightarrow> Perbill" where
  "NORMAL_DISPATCH_RATIO K = Perbill_from_percent K 75"

definition MAXIMUM_BLOCK_WEIGHT :: "sdk \<Rightarrow> Weight" where
  "MAXIMUM_BLOCK_WEIGHT K =
     from_parts (saturating_mul (WEIGHT_REF_TIME_PER_SECOND K) 2) (ucast (MAX_POV_SIZE K))"

definition UNINCLUDED_SEGMENT_CAPACITY :: u32 where
  "UNINCLUDED_SEGMENT_CAPACITY = 3"

definition BLOCK_PROCESSING_VELOCITY :: u32 where
  "BLOCK_PROCESSING_VELOCITY = 1"

definition RELAY_CHAIN_SLOT_DURATION_MILLIS :: u32 where
  "RELAY_CHAIN_SLOT_DURATION_MILLIS = 6000"

text \<open>The arguments of \<open>FixedVelocityConsensusHook\<close>: relay slot duration, velocity and capacity.\<close>

definition ConsensusHook :: "u32 \<times> u32 \<times> u32" where
  "ConsensusHook =
     (RELAY_CHAIN_SLOT_DURATION_MILLIS, BLOCK_PROCESSING_VELOCITY, UNINCLUDED_SEGMENT_CAPACITY)"

text \<open>The fee polynomial: \<open>WeightToFee::polynomial\<close>.\<close>

definition WeightToFee_polynomial :: "sdk \<Rightarrow> WeightToFeeCoefficient list" where
  "WeightToFee_polynomial K =
     (let p = MILLI_UNIT div 10;
          q = 100 * ucast (ref_time (ExtrinsicBaseWeight K))
      in [\<lparr>degree = 1, negative = False,
           coeff_frac = Perbill_from_rational K (p mod q) q,
           coeff_integer = p div q\<rparr>])"

record RuntimeVersion =
  spec_name :: string
  impl_name :: string
  authoring_version :: u32
  spec_version :: u32
  impl_version :: u32
  transaction_version :: u32
  state_version :: u8

text \<open>The field \<open>apis\<close> is the table that the macro of \<open>apis.rs\<close> generates; it is left out.\<close>

definition VERSION :: RuntimeVersion where
  "VERSION =
     \<lparr>spec_name = ''parachain-template-runtime'', impl_name = ''parachain-template-runtime'',
      authoring_version = 1, spec_version = 1, impl_version = 0, transaction_version = 1,
      state_version = 1\<rparr>"

text \<open>\<open>authors\<close> is the default of the set of versions that this one can author with.\<close>

definition native_version :: "'v \<Rightarrow> RuntimeVersion \<times> 'v" where
  "native_version authors = (VERSION, authors)"

text \<open>The pallets of the runtime with their indices.\<close>

datatype RuntimePallet =
    System | ParachainSystem | Timestamp | ParachainInfo
  | Balances | TransactionPayment
  | Sudo
  | Authorship | CollatorSelection | Session | Aura | AuraExt
  | XcmpQueue | PolkadotXcm | CumulusXcm | MessageQueue
  | TemplatePallet

primrec pallet_index :: "RuntimePallet \<Rightarrow> u8" where
  "pallet_index System = 0"
| "pallet_index ParachainSystem = 1"
| "pallet_index Timestamp = 2"
| "pallet_index ParachainInfo = 3"
| "pallet_index Balances = 10"
| "pallet_index TransactionPayment = 11"
| "pallet_index Sudo = 15"
| "pallet_index Authorship = 20"
| "pallet_index CollatorSelection = 21"
| "pallet_index Session = 22"
| "pallet_index Aura = 23"
| "pallet_index AuraExt = 24"
| "pallet_index XcmpQueue = 30"
| "pallet_index PolkadotXcm = 31"
| "pallet_index CumulusXcm = 32"
| "pallet_index MessageQueue = 33"
| "pallet_index TemplatePallet = 50"

text \<open>All pallets in the order of their declaration, in which their hooks run.\<close>

definition AllPalletsWithSystem :: "RuntimePallet list" where
  "AllPalletsWithSystem =
     [System, ParachainSystem, Timestamp, ParachainInfo, Balances, TransactionPayment, Sudo,
      Authorship, CollatorSelection, Session, Aura, AuraExt,
      XcmpQueue, PolkadotXcm, CumulusXcm, MessageQueue, TemplatePallet]"

section \<open>Parameters of the pallets\<close>

datatype DispatchClass = Normal | Operational | Mandatory

record WeightsPerClass =
  base_extrinsic :: Weight
  max_total :: "Weight option"
  reserved :: "Weight option"

text \<open>
  \<open>RuntimeBlockWeights\<close>: the three closures that the source hands to the builder, applied in the
  source's order to the values the builder starts from for a class.
\<close>

definition RuntimeBlockWeights_class ::
  "sdk \<Rightarrow> DispatchClass \<Rightarrow> WeightsPerClass \<Rightarrow> WeightsPerClass" where
  "RuntimeBlockWeights_class K cls weights =
     (let w1 = weights\<lparr>base_extrinsic := ExtrinsicBaseWeight K\<rparr>;
          w2 = (if cls = Normal
                then w1\<lparr>max_total := Some (Perbill_mul_weight K (NORMAL_DISPATCH_RATIO K)
                          (MAXIMUM_BLOCK_WEIGHT K))\<rparr>
                else w1);
          w3 = (if cls = Operational
                then w2\<lparr>max_total := Some (MAXIMUM_BLOCK_WEIGHT K),
                        reserved := Some (from_parts
                          (ref_time (MAXIMUM_BLOCK_WEIGHT K) -
                           ref_time (Perbill_mul_weight K (NORMAL_DISPATCH_RATIO K)
                                       (MAXIMUM_BLOCK_WEIGHT K)))
                          (proof_size (MAXIMUM_BLOCK_WEIGHT K) -
                           proof_size (Perbill_mul_weight K (NORMAL_DISPATCH_RATIO K)
                                         (MAXIMUM_BLOCK_WEIGHT K))))\<rparr>
                else w2)
      in w3)"

text \<open>What the source hands to \<open>BlockWeights::builder\<close> before \<open>build_or_panic\<close>.\<close>

record BlockWeightsBuilder =
  base_block :: Weight
  for_class :: "DispatchClass \<Rightarrow> WeightsPerClass \<Rightarrow> WeightsPerClass"
  avg_block_initialization :: Perbill

definition RuntimeBlockWeights :: "sdk \<Rightarrow> BlockWeightsBuilder" where
  "RuntimeBlockWeights K =
     \<lparr>base_block = BlockExecutionWeight K, for_class = RuntimeBlockWeights_class K,
      avg_block_initialization = AVERAGE_ON_INITIALIZE_RATIO K\<rparr>"

definition Version :: RuntimeVersion where
  "Version = VERSION"

text \<open>The arguments of \<open>BlockLength::max_with_normal_ratio\<close>.\<close>

definition RuntimeBlockLength_args :: "sdk \<Rightarrow> u32 \<times> Perbill" where
  "RuntimeBlockLength_args K = (5 * 1024 * 1024, NORMAL_DISPATCH_RATIO K)"

definition SS58Prefix :: u16 where
  "SS58Prefix = 42"

definition TemplatePalletId :: string where
  "TemplatePalletId = ''template''"

definition ExistentialDeposit :: Balance where
  "ExistentialDeposit = EXISTENTIAL_DEPOSIT"

definition TransactionByteFee :: Balance where
  "TransactionByteFee = 10 * MICRO_UNIT"

definition ReservedXcmpWeight :: "sdk \<Rightarrow> Weight" where
  "ReservedXcmpWeight K = Weight_saturating_div K (MAXIMUM_BLOCK_WEIGHT K) 4"

definition ReservedDmpWeight :: "sdk \<Rightarrow> Weight" where
  "ReservedDmpWeight K = Weight_saturating_div K (MAXIMUM_BLOCK_WEIGHT K) 4"

text \<open>\<open>max_block\<close> is the maximal block weight that the builder computes.\<close>

definition MessageQueueServiceWeight :: "sdk \<Rightarrow> Weight \<Rightarrow> Weight" where
  "MessageQueueServiceWeight K max_block = Perbill_mul_weight K (Perbill_from_percent K 35) max_block"

definition Period :: u32 where
  "Period = 6 * HOURS"

definition Offset :: u32 where
  "Offset = 0"

definition PotId :: string where
  "PotId = ''PotStake''"

definition SessionLength :: BlockNumber where
  "SessionLength = 6 * HOURS"

section \<open>Configurations of the pallets\<close>

text \<open>
  Each \<open>impl \<dots>::Config for Runtime\<close> as a record of the values it fixes.  Associated types that
  only name another pallet or a type of the SDK carry no value and are left out.
\<close>

record SystemConfig =
  system_Version :: RuntimeVersion
  DbWeight :: RuntimeDbWeight
  system_SS58Prefix :: u16
  MaxConsumers :: u32

definition frame_system_config :: "sdk \<Rightarrow> SystemConfig" where
  "frame_system_config K =
     \<lparr>system_Version = Version, DbWeight = RocksDbWeight K, system_SS58Prefix = SS58Prefix, MaxConsumers = 16\<rparr>"

definition pallet_timestamp_MinimumPeriod :: u64 where
  "pallet_timestamp_MinimumPeriod = 0"

record BalancesConfig =
  MaxLocks :: u32
  balances_ExistentialDeposit :: Balance
  MaxReserves :: u32

definition pallet_balances_config :: BalancesConfig where
  "pallet_balances_config =
     \<lparr>MaxLocks = 50, balances_ExistentialDeposit = ExistentialDeposit, MaxReserves = 50\<rparr>"

record TransactionPaymentConfig =
  tx_WeightToFee :: "WeightToFeeCoefficient list"
  tx_LengthToFee :: Balance
  OperationalFeeMultiplier :: u8

text \<open>\<open>LengthToFee\<close> is the factor of its \<open>ConstantMultiplier\<close>.\<close>

definition pallet_transaction_payment_config :: "sdk \<Rightarrow> TransactionPaymentConfig" where
  "pallet_transaction_payment_config K =
     \<lparr>tx_WeightToFee = WeightToFee_polynomial K, tx_LengthToFee = TransactionByteFee,
      OperationalFeeMultiplier = 5\<rparr>"

text \<open>
  \<open>hook_*\<close> are the arguments of the type \<open>ConsensusHook\<close>: relay slot duration, velocity and
  capacity of the unincluded segment.
\<close>

record ParachainSystemConfig =
  parachain_ReservedDmpWeight :: Weight
  parachain_ReservedXcmpWeight :: Weight
  hook_slot_millis :: u32
  hook_velocity :: u32
  hook_capacity :: u32

definition cumulus_pallet_parachain_system_config :: "sdk \<Rightarrow> ParachainSystemConfig" where
  "cumulus_pallet_parachain_system_config K =
     \<lparr>parachain_ReservedDmpWeight = ReservedDmpWeight K,
      parachain_ReservedXcmpWeight = ReservedXcmpWeight K,
      hook_slot_millis = RELAY_CHAIN_SLOT_DURATION_MILLIS,
      hook_velocity = BLOCK_PROCESSING_VELOCITY,
      hook_capacity = UNINCLUDED_SEGMENT_CAPACITY\<rparr>"

record MessageQueueConfig =
  HeapSize :: u32
  MaxStale :: u32
  ServiceWeight :: Weight

definition pallet_message_queue_config :: "sdk \<Rightarrow> Weight \<Rightarrow> MessageQueueConfig" where
  "pallet_message_queue_config K max_block =
     \<lparr>HeapSize = 103 * 1024, MaxStale = 8, ServiceWeight = MessageQueueServiceWeight K max_block\<rparr>"

record XcmpQueueConfig =
  MaxInboundSuspended :: u32
  MaxActiveOutboundChannels :: u32
  MaxPageSize :: u32

definition cumulus_pallet_xcmp_queue_config :: XcmpQueueConfig where
  "cumulus_pallet_xcmp_queue_config =
     \<lparr>MaxInboundSuspended = 1000, MaxActiveOutboundChannels = 128, MaxPageSize = push_bit 16 1\<rparr>"

record SessionConfig =
  session_Period :: u32
  session_Offset :: u32

definition pallet_session_config :: SessionConfig where
  "pallet_session_config = \<lparr>session_Period = Period, session_Offset = Offset\<rparr>"

record AuraConfig =
  MaxAuthorities :: u32
  AllowMultipleBlocksPerSlot :: bool
  aura_SlotDuration :: u64

definition pallet_aura_config :: AuraConfig where
  "pallet_aura_config =
     \<lparr>MaxAuthorities = 100000, AllowMultipleBlocksPerSlot = True, aura_SlotDuration = SLOT_DURATION\<rparr>"

record CollatorSelectionConfig =
  collator_PotId :: string
  MaxCandidates :: u32
  MinEligibleCollators :: u32
  MaxInvulnerables :: u32
  KickThreshold :: u32

definition pallet_collator_selection_config :: CollatorSelectionConfig where
  "pallet_collator_selection_config =
     \<lparr>collator_PotId = PotId, MaxCandidates = 100, MinEligibleCollators = 4, MaxInvulnerables = 20,
      KickThreshold = Period\<rparr>"

text \<open>
  The configuration of the NFT pallet.  Its currency is the balances pallet, whose minimum
  balance is the configured existential deposit; \<open>into_account\<close> derives an account from a
  pallet id.
\<close>

definition nft_pallet_config ::
  "('origin \<Rightarrow> 'x + 'acc) \<Rightarrow>
   ('acc \<Rightarrow> 'acc \<Rightarrow> Balance \<Rightarrow> ExistenceRequirement \<Rightarrow> 'cur \<Rightarrow> ('x + unit) \<times> 'cur) \<Rightarrow>
   (string \<Rightarrow> 'acc) \<Rightarrow> ('acc, 'origin, 'cur, 'x) Config" where
  "nft_pallet_config signer transfer into_account =
     \<lparr>ensure_signed = signer,
      Currency_minimum_balance = balances_ExistentialDeposit pallet_balances_config,
      Currency_transfer = transfer,
      PalletId_account = into_account TemplatePalletId\<rparr>"

text \<open>The weight functions that the NFT pallet is configured with.\<close>

definition nft_pallet_WeightInfo :: "sdk \<Rightarrow> WeightInfo" where
  "nft_pallet_WeightInfo K = SubstrateWeight K (DbWeight (frame_system_config K))"

section \<open>Lemmas\<close>

lemmas unit_defs = UNIT_def MILLI_UNIT_def MICRO_UNIT_def EXISTENTIAL_DEPOSIT_def
  ExistentialDeposit_def

lemmas time_defs = MILLI_SECS_PER_BLOCK_def SLOT_DURATION_def MINUTES_def HOURS_def DAYS_def

lemma nft_pallet_config_simps:
  "ensure_signed (nft_pallet_config signer transfer into_account) = signer"
  "Currency_minimum_balance (nft_pallet_config signer transfer into_account) = 1000000000"
  "Currency_transfer (nft_pallet_config signer transfer into_account) = transfer"
  "PalletId_account (nft_pallet_config signer transfer into_account) = into_account TemplatePalletId"
  by (simp_all add: nft_pallet_config_def pallet_balances_config_def unit_defs)

context sdk_laws begin

lemma max_block_weight: "MAXIMUM_BLOCK_WEIGHT K = from_parts 2000000000000 5242880"
  by (simp add: MAXIMUM_BLOCK_WEIGHT_def constants saturating_mul_def)

lemma normal_share:
  "Perbill_mul_weight K (NORMAL_DISPATCH_RATIO K) (MAXIMUM_BLOCK_WEIGHT K) =
     from_parts 1500000000000 3932160"
  by (simp add: Perbill_mul_weight_def NORMAL_DISPATCH_RATIO_def max_block_weight from_parts_def
      percent_of [where y = 1500000000000] percent_of [where y = 3932160])

lemma fee_coefficient:
  "\<exists>c. WeightToFee_polynomial K = [c] \<and> degree c = 1 \<and> \<not> negative c \<and>
     unat (coeff_frac c) = 8000000 \<and> coeff_integer c = 0"
  by (simp add: WeightToFee_polynomial_def base_weight from_parts_def MILLI_UNIT_def Let_def
      from_rational)

text \<open>The fee of a weight is one plank for every 125 units of reference time.\<close>

lemma weight_fee:
  assumes "125 dvd unat (ref_time w)"
  shows "unat (weight_to_fee K (WeightToFee_polynomial K) w) = unat (ref_time w) div 125"
proof -
  obtain c where c: "WeightToFee_polynomial K = [c]" "degree c = 1" "\<not> negative c"
    "unat (coeff_frac c) = 8000000" "coeff_integer c = 0"
    using fee_coefficient by blast
  from assms obtain y where y: "unat (ref_time w) = 125 * y" by (elim dvdE)
  moreover have "y < 2 ^ 64" using y unsigned_less [of "ref_time w", where 'a = nat] by simp
  ultimately show ?thesis using c linear_fee [of c w] by simp
qed

end

section \<open>Properties\<close>

text \<open>
  C34.  Fees: the configured polynomial charges one plank per 125 units of reference time, so
  the base weight of an extrinsic costs one \<open>MICRO_UNIT\<close>, a full block 16 \<open>MILLI_UNIT\<close>, and a
  call of the NFT pallet, declared with weight zero, nothing beyond the base weight.  One byte of a
  transaction costs as much as ten base weights.
\<close>

theorem weight_fees:
  assumes "sdk_laws K"
  shows "(\<forall>w. 125 dvd unat (ref_time w) \<longrightarrow>
      unat (weight_to_fee K (WeightToFee_polynomial K) w) = unat (ref_time w) div 125) \<and>
    weight_to_fee K (WeightToFee_polynomial K) (ExtrinsicBaseWeight K) = MICRO_UNIT \<and>
    weight_to_fee K (WeightToFee_polynomial K) (MAXIMUM_BLOCK_WEIGHT K) = 16 * MILLI_UNIT \<and>
    weight_to_fee K (WeightToFee_polynomial K) (call_weight call) = 0 \<and>
    tx_LengthToFee (pallet_transaction_payment_config K) =
      10 * weight_to_fee K (tx_WeightToFee (pallet_transaction_payment_config K))
        (ExtrinsicBaseWeight K)"
proof -
  have at: "weight_to_fee K (WeightToFee_polynomial K) w = x"
    if "unat (ref_time w) = 125 * unat x" for w x
    using sdk_laws.weight_fee [OF assms, of w] that by (simp add: word_unat_eq_iff)
  have call: "ref_time (call_weight call) = 0" by (cases call) (simp_all add: from_parts_def)
  have base: "weight_to_fee K (WeightToFee_polynomial K) (ExtrinsicBaseWeight K) = MICRO_UNIT"
    by (rule at) (simp add: sdk_laws.base_weight [OF assms] from_parts_def unit_defs)
  show ?thesis
    using sdk_laws.weight_fee [OF assms] call base
    by (auto intro!: at simp: sdk_laws.max_block_weight [OF assms]
        pallet_transaction_payment_config_def TransactionByteFee_def from_parts_def unit_defs)
qed

theorem weight_fees_witness:
  "weight_to_fee reference_sdk (WeightToFee_polynomial reference_sdk)
     (ExtrinsicBaseWeight reference_sdk) = MICRO_UNIT"
  using weight_fees [OF reference_laws] by blast

text \<open>
  Block weights: whatever the builder starts from, every class gets the extrinsic base
  weight, normal calls get exactly three quarters of the block, operational calls the whole
  block with exactly the remaining quarter reserved (the subtraction does not wrap), and the
  limits of mandatory calls stay as the builder had them.
\<close>

theorem block_weight_shares:
  assumes "sdk_laws K"
  shows "base_extrinsic (for_class (RuntimeBlockWeights K) cls w) = ExtrinsicBaseWeight K \<and>
    (\<exists>n r. max_total (for_class (RuntimeBlockWeights K) Normal w) = Some n \<and>
       max_total (for_class (RuntimeBlockWeights K) Operational w) = Some (MAXIMUM_BLOCK_WEIGHT K) \<and>
       reserved (for_class (RuntimeBlockWeights K) Operational w) = Some r \<and>
       4 * unat (ref_time n) = 3 * unat (ref_time (MAXIMUM_BLOCK_WEIGHT K)) \<and>
       unat (ref_time n) + unat (ref_time r) = unat (ref_time (MAXIMUM_BLOCK_WEIGHT K)) \<and>
       unat (proof_size n) + unat (proof_size r) = unat (proof_size (MAXIMUM_BLOCK_WEIGHT K))) \<and>
    max_total (for_class (RuntimeBlockWeights K) Mandatory w) = max_total w \<and>
    reserved (for_class (RuntimeBlockWeights K) Mandatory w) = reserved w \<and>
    reserved (for_class (RuntimeBlockWeights K) Normal w) = reserved w"
  unfolding RuntimeBlockWeights_def RuntimeBlockWeights_class_def BlockWeightsBuilder.simps
    sdk_laws.normal_share [OF assms]
  unfolding sdk_laws.max_block_weight [OF assms]
  by (cases cls) (simp_all add: from_parts_def Let_def)

theorem block_weight_shares_witness:
  "\<exists>n. max_total (for_class (RuntimeBlockWeights reference_sdk) Normal
      \<lparr>base_extrinsic = from_parts 0 0, max_total = None, reserved = None\<rparr>) = Some n \<and>
     4 * unat (ref_time n) = 3 * unat (ref_time (MAXIMUM_BLOCK_WEIGHT reference_sdk))"
  using block_weight_shares [OF reference_laws] by blast

text \<open>
  Message processing fits into a block: the weights reserved for downward and for
  horizontal messages and the service weight of the message queue together stay below the
  maximal block weight, in reference time and in proof size.
\<close>

theorem message_budgets_fit:
  assumes "sdk_laws K"
  shows "unat (ref_time (parachain_ReservedDmpWeight (cumulus_pallet_parachain_system_config K))) +
      unat (ref_time (parachain_ReservedXcmpWeight (cumulus_pallet_parachain_system_config K))) +
      unat (ref_time (ServiceWeight (pallet_message_queue_config K (MAXIMUM_BLOCK_WEIGHT K))))
      \<le> unat (ref_time (MAXIMUM_BLOCK_WEIGHT K)) \<and>
    unat (proof_size (parachain_ReservedDmpWeight (cumulus_pallet_parachain_system_config K))) +
      unat (proof_size (parachain_ReservedXcmpWeight (cumulus_pallet_parachain_system_config K))) +
      unat (proof_size (ServiceWeight (pallet_message_queue_config K (MAXIMUM_BLOCK_WEIGHT K))))
      \<le> unat (proof_size (MAXIMUM_BLOCK_WEIGHT K))"
  by (simp add: cumulus_pallet_parachain_system_config_def ReservedDmpWeight_def
      ReservedXcmpWeight_def pallet_message_queue_config_def
      MessageQueueServiceWeight_def Perbill_mul_weight_def sdk_laws.weight_div [OF assms]
      sdk_laws.max_block_weight [OF assms] from_parts_def
      sdk_laws.percent_of [OF assms, where y = 700000000000]
      sdk_laws.percent_of [OF assms, where y = 1835008])

theorem message_budgets_fit_witness:
  "unat (ref_time (parachain_ReservedDmpWeight
       (cumulus_pallet_parachain_system_config reference_sdk))) +
     unat (ref_time (parachain_ReservedXcmpWeight
       (cumulus_pallet_parachain_system_config reference_sdk))) \<le>
   unat (ref_time (MAXIMUM_BLOCK_WEIGHT reference_sdk))"
  using message_budgets_fit [OF reference_laws] by linarith

text \<open>
  Time: the block-denominated constants denote the wall-clock times they name, without
  overflow of the 32-bit block number, one parachain block is authored per relay slot, the
  unincluded segment has room for it, and the minimum timestamp period permits it.
\<close>

theorem time_constants_denote:
  "unat MINUTES * unat MILLI_SECS_PER_BLOCK = 60 * 1000 \<and>
   unat HOURS * unat MILLI_SECS_PER_BLOCK = 60 * 60 * 1000 \<and>
   unat DAYS * unat MILLI_SECS_PER_BLOCK = 24 * 60 * 60 * 1000 \<and>
   unat Period * unat MILLI_SECS_PER_BLOCK = 6 * 60 * 60 * 1000 \<and>
   unat SLOT_DURATION * unat (hook_velocity (cumulus_pallet_parachain_system_config K)) =
     unat (hook_slot_millis (cumulus_pallet_parachain_system_config K)) \<and>
   hook_velocity (cumulus_pallet_parachain_system_config K) \<le>
     hook_capacity (cumulus_pallet_parachain_system_config K) \<and>
   2 * unat pallet_timestamp_MinimumPeriod \<le> unat SLOT_DURATION"
  by (simp add: time_defs Period_def pallet_timestamp_MinimumPeriod_def
      cumulus_pallet_parachain_system_config_def BLOCK_PROCESSING_VELOCITY_def RELAY_CHAIN_SLOT_DURATION_MILLIS_def
      UNINCLUDED_SEGMENT_CAPACITY_def)

text \<open>
  Collators and sessions: the kick threshold is a multiple of the session period, as the
  source demands, the session length is that period, the collators that can be elected always
  fit into the authority set, and enough of them are admitted to reach the eligible minimum.
\<close>

theorem collator_limits_coherent:
  "unat (KickThreshold pallet_collator_selection_config) mod
     unat (session_Period pallet_session_config) = 0 \<and>
   SessionLength = session_Period pallet_session_config \<and>
   unat (MaxCandidates pallet_collator_selection_config) +
     unat (MaxInvulnerables pallet_collator_selection_config)
     \<le> unat (MaxAuthorities pallet_aura_config) \<and>
   unat (MinEligibleCollators pallet_collator_selection_config)
     \<le> unat (MaxCandidates pallet_collator_selection_config) +
       unat (MaxInvulnerables pallet_collator_selection_config) \<and>
   aura_SlotDuration pallet_aura_config = MILLI_SECS_PER_BLOCK"
  by (simp add: pallet_collator_selection_config_def pallet_session_config_def pallet_aura_config_def
      SessionLength_def Period_def SLOT_DURATION_def)

text \<open>No two pallets of the runtime share an index, so a call names its pallet uniquely.\<close>

theorem pallet_indices_unique:
  "pallet_index p = pallet_index q \<longleftrightarrow> p = q"
  by (cases p; cases q) simp_all

text \<open>Pallets are ordered by their indices.\<close>

instantiation RuntimePallet :: linorder
begin

definition less_eq_RuntimePallet :: "RuntimePallet \<Rightarrow> RuntimePallet \<Rightarrow> bool" where
  "less_eq_RuntimePallet p q \<longleftrightarrow> pallet_index p \<le> pallet_index q"

definition less_RuntimePallet :: "RuntimePallet \<Rightarrow> RuntimePallet \<Rightarrow> bool" where
  "less_RuntimePallet p q \<longleftrightarrow> pallet_index p < pallet_index q"

instance
  by standard (auto simp: less_eq_RuntimePallet_def less_RuntimePallet_def less_le
      pallet_indices_unique)

end

text \<open>
  The declaration lists every pallet once and in the order of the indices, so the hooks run in
  that order: the collator pallets in the order that the source demands, the system first and the
  NFT pallet last.
\<close>

theorem pallets_declared_in_order:
  "sorted AllPalletsWithSystem \<and> distinct AllPalletsWithSystem \<and> set AllPalletsWithSystem = UNIV \<and>
   filter (\<lambda>p. Authorship \<le> p \<and> p \<le> Aura) AllPalletsWithSystem =
     [Authorship, CollatorSelection, Session, Aura]"
proof (intro conjI)
  show "set AllPalletsWithSystem = UNIV"
  proof (intro equalityI subsetI UNIV_I)
    fix p show "p \<in> set AllPalletsWithSystem" by (cases p) (simp_all add: AllPalletsWithSystem_def)
  qed
qed (simp_all add: AllPalletsWithSystem_def less_eq_RuntimePallet_def word_le_nat_alt)

text \<open>
  The registration fee of the configured NFT pallet is a tenth of a \<open>UNIT\<close>: a hundred
  existential deposits, computed without overflow.
\<close>

theorem runtime_registration_fee:
  "registration_fee (nft_pallet_config signer transfer into_account) = UNIT div 10 \<and>
   unat (registration_fee (nft_pallet_config signer transfer into_account)) =
     100 * unat (balances_ExistentialDeposit pallet_balances_config)"
  by (simp add: registration_fee_def nft_pallet_config_def pallet_balances_config_def unit_defs)

text \<open>
  The benchmarked weights of the pallet under the database weights that the system pallet is
  configured with: no component saturates, the values are those of the generated file plus one
  write, or one read and one write, and the implementation for \<open>()\<close> agrees.
\<close>

theorem pallet_weights_in_runtime:
  assumes "sdk_laws K"
  shows "nft_pallet_WeightInfo K =
      \<lparr>do_something = from_parts 109000000 0, cause_error = from_parts 131000000 1489\<rparr> \<and>
    unit_WeightInfo K = nft_pallet_WeightInfo K"
  by (simp add: nft_pallet_WeightInfo_def SubstrateWeight_def unit_WeightInfo_def
      SubstrateWeight_do_something_def SubstrateWeight_cause_error_def
      unit_do_something_def unit_cause_error_def frame_system_config_def
      sdk_laws.rocksdb_weight [OF assms] sdk_laws.support_rocksdb [OF assms]
      sdk_laws.weight_add [OF assms] sdk_laws.reads [OF assms]
      sdk_laws.writes [OF assms] from_parts_def saturating_mul_def saturating_add_def)

theorem pallet_weights_in_runtime_witness:
  "do_something (nft_pallet_WeightInfo reference_sdk) = from_parts 109000000 0"
  using pallet_weights_in_runtime [OF reference_laws] by simp

end
