(* ===== verification/Scale_Codec.thy ===== *)
theory Scale_Codec
  imports Runtime_Sdk "HOL-Library.Monad_Syntax"
begin

text \<open>
  Byte encodings.  A codec is an encoder with a decoder that accepts exactly the encodings of valid
  values.  The encodings of the basic types are code of the SCALE codec crate: the parameter
  \<open>scale\<close>, with their documented behaviour in the locale \<open>scale_laws\<close>; codecs of vectors are built on them.
  \<open>reference_scale\<close> is the SCALE encoding itself.
\<close>

section \<open>Codecs\<close>

type_synonym bytes = "u8 list"
type_synonym 'a decoder = "bytes \<Rightarrow> ('a \<times> bytes) option"

text \<open>
  A decoder takes a value from the front of the input and returns the rest.  It accepts exactly
  the encodings of valid values.
\<close>

locale codec =
  fixes enc :: "'a \<Rightarrow> bytes" and dec :: "'a decoder" and valid :: "'a \<Rightarrow> bool"
  assumes decode_encode: "valid x \<Longrightarrow> dec (enc x @ rest) = Some (x, rest)"
    and encode_decode: "dec b = Some (x, rest) \<Longrightarrow> b = enc x @ rest \<and> valid x"
begin

lemma decode_all: "valid x \<Longrightarrow> dec (enc x) = Some (x, [])"
  using decode_encode [of x "[]"] by simp

lemma decode_iff: "dec b = Some (x, rest) \<longleftrightarrow> b = enc x @ rest \<and> valid x"
  by (auto dest: encode_decode simp: decode_encode)

lemma prefix_free:
  assumes "valid x" "valid y" "enc x @ r = enc y @ r'"
  shows "x = y \<and> r = r'"
proof -
  have "Some (x, r) = dec (enc x @ r)" by (rule decode_encode [OF assms(1), symmetric])
  also have "\<dots> = dec (enc y @ r')" by (simp only: assms(3))
  also have "\<dots> = Some (y, r')" by (rule decode_encode [OF assms(2)])
  finally show ?thesis by simp
qed

lemma enc_inj: "valid x \<Longrightarrow> valid y \<Longrightarrow> enc x = enc y \<Longrightarrow> x = y"
  using prefix_free [of x y "[]" "[]"] by simp

end

section \<open>Basic types\<close>

record 'acc scale =
  enc_account :: "'acc \<Rightarrow> bytes"
  dec_account :: "'acc decoder"
  account_len :: nat
  enc_u32 :: "u32 \<Rightarrow> bytes"
  dec_u32 :: "u32 decoder"
  enc_u128 :: "u128 \<Rightarrow> bytes"
  dec_u128 :: "u128 decoder"
  enc_bool :: "bool \<Rightarrow> bytes"
  dec_bool :: "bool decoder"
  enc_compact :: "nat \<Rightarrow> bytes"
  dec_compact :: "nat decoder"

fun enc_u8 :: "u8 \<Rightarrow> bytes" where
  "enc_u8 b = [b]"

fun dec_u8 :: "u8 decoder" where
  "dec_u8 [] = None"
| "dec_u8 (b # bs) = Some (b, bs)"

text \<open>A vector is its length followed by its elements; a bounded one refuses to decode beyond its bound.\<close>

fun dec_list :: "'a decoder \<Rightarrow> nat \<Rightarrow> 'a list decoder" where
  "dec_list d 0 b = Some ([], b)"
| "dec_list d (Suc n) b = do { (x, b1) \<leftarrow> d b; (xs, b2) \<leftarrow> dec_list d n b1; Some (x # xs, b2) }"

definition encode_vec :: "'acc scale \<Rightarrow> ('a \<Rightarrow> bytes) \<Rightarrow> 'a list \<Rightarrow> bytes" where
  "encode_vec S f xs = enc_compact S (length xs) @ concat (map f xs)"

definition decode_vec :: "'acc scale \<Rightarrow> 'a decoder \<Rightarrow> 'a list decoder" where
  "decode_vec S d b = do { (n, b1) \<leftarrow> dec_compact S b; dec_list d n b1 }"

definition decode_bounded :: "'acc scale \<Rightarrow> nat \<Rightarrow> 'a decoder \<Rightarrow> 'a list decoder" where
  "decode_bounded S bound d b =
     do { (xs, b1) \<leftarrow> decode_vec S d b;
          ys \<leftarrow> bounded_try_from bound xs;
          Some (ys, b1) }"

definition valid_vec :: "'a list \<Rightarrow> bool" where
  "valid_vec xs \<longleftrightarrow> length xs < 2 ^ 32"

section \<open>The interface of the codec crate\<close>

text \<open>
  Fixed-width types have their width, and a compact length takes one byte below 64, two below
  \<open>2 ^ 14\<close> and four or five else.
\<close>

locale scale_laws =
  fixes S :: "'acc scale"
  assumes account: "codec (enc_account S) (dec_account S) (\<lambda>_. True)"
    and account_width: "length (enc_account S a) = account_len S"
    and u32: "codec (enc_u32 S) (dec_u32 S) (\<lambda>_. True)"
    and u32_width: "length (enc_u32 S n) = 4"
    and u128: "codec (enc_u128 S) (dec_u128 S) (\<lambda>_. True)"
    and u128_width: "length (enc_u128 S m) = 16"
    and bool: "codec (enc_bool S) (dec_bool S) (\<lambda>_. True)"
    and bool_width: "length (enc_bool S t) = 1"
    and compact: "codec (enc_compact S) (dec_compact S) (\<lambda>l. l < 2 ^ 32)"
    and compact_width: "l < 2 ^ 14 \<Longrightarrow> length (enc_compact S l) \<le> 2"

sublocale scale_laws \<subseteq> account: codec "enc_account S" "dec_account S" "\<lambda>_. True"
  by (rule account)

sublocale scale_laws \<subseteq> u32: codec "enc_u32 S" "dec_u32 S" "\<lambda>_. True"
  by (rule u32)

sublocale scale_laws \<subseteq> u128: codec "enc_u128 S" "dec_u128 S" "\<lambda>_. True"
  by (rule u128)

sublocale scale_laws \<subseteq> bool: codec "enc_bool S" "dec_bool S" "\<lambda>_. True"
  by (rule bool)

sublocale scale_laws \<subseteq> compact: codec "enc_compact S" "dec_compact S" "\<lambda>l. l < 2 ^ 32"
  by (rule compact)

interpretation u8: codec enc_u8 dec_u8 "\<lambda>_. True"
proof
  show "dec_u8 (enc_u8 x @ rest) = Some (x, rest)" for x rest by simp
  show "b = enc_u8 x @ rest \<and> True" if "dec_u8 b = Some (x, rest)" for b x rest
    using that by (cases b) simp_all
qed

section \<open>Vectors\<close>

context codec begin

lemma dec_list_concat:
  "\<forall>x \<in> set xs. valid x \<Longrightarrow> dec_list dec (length xs) (concat (map enc xs) @ rest) = Some (xs, rest)"
  by (induction xs) (simp_all add: decode_encode)

lemma dec_list_inv:
  "dec_list dec n b = Some (xs, rest) \<Longrightarrow>
     length xs = n \<and> b = concat (map enc xs) @ rest \<and> (\<forall>x \<in> set xs. valid x)"
proof (induction n arbitrary: b xs)
  case (Suc n)
  then obtain x b1 ys where "dec b = Some (x, b1)" "dec_list dec n b1 = Some (ys, rest)" "xs = x # ys"
    by (auto simp: bind_eq_Some_conv)
  with Suc.IH encode_decode show ?case by fastforce
qed simp

end

context scale_laws begin

text \<open>A codec of elements gives one of vectors and one of bounded vectors.\<close>

lemma vec_codec_valid:
  assumes "codec enc dec valid"
  shows "codec (encode_vec S enc) (decode_vec S dec) (\<lambda>xs. valid_vec xs \<and> (\<forall>x \<in> set xs. valid x))"
proof
  show "decode_vec S dec (encode_vec S enc xs @ rest) = Some (xs, rest)"
    if "valid_vec xs \<and> (\<forall>x \<in> set xs. valid x)" for xs rest
    using that codec.dec_list_concat [OF assms]
    by (simp add: decode_vec_def encode_vec_def valid_vec_def compact.decode_encode)
  show "b = encode_vec S enc xs @ rest \<and> valid_vec xs \<and> (\<forall>x \<in> set xs. valid x)"
    if "decode_vec S dec b = Some (xs, rest)" for b xs rest
    using that codec.dec_list_inv [OF assms]
    by (fastforce simp: decode_vec_def encode_vec_def valid_vec_def bind_eq_Some_conv
        dest: compact.encode_decode)
qed

lemma vec_codec:
  "codec enc dec (\<lambda>_. True) \<Longrightarrow> codec (encode_vec S enc) (decode_vec S dec) valid_vec"
  using vec_codec_valid [of enc dec "\<lambda>_. True"] by simp

lemma bounded_codec:
  assumes "codec enc dec (\<lambda>_. True)" and "n < 2 ^ 32"
  shows "codec (encode_vec S enc) (decode_bounded S n dec) (\<lambda>xs. length xs \<le> n)"
proof
  show "decode_bounded S n dec (encode_vec S enc xs @ rest) = Some (xs, rest)" if "length xs \<le> n" for xs rest
    using that assms(2) codec.decode_encode [OF vec_codec [OF assms(1)], of xs rest]
    by (simp add: decode_bounded_def bounded_try_from_def valid_vec_def)
  show "b = encode_vec S enc xs @ rest \<and> length xs \<le> n"
    if "decode_bounded S n dec b = Some (xs, rest)" for b xs rest
    using that codec.encode_decode [OF vec_codec [OF assms(1)]]
    by (auto simp: decode_bounded_def bind_eq_Some_conv bounded_simps)
qed

end

sublocale scale_laws \<subseteq> blob: codec "encode_vec S enc_u8" "decode_vec S dec_u8" valid_vec
  by (rule vec_codec) (rule u8.codec_axioms)

section \<open>An instance of the laws\<close>

text \<open>
  The basic encodings of SCALE: integers little-endian, lengths in the compact form with its four
  modes, of which the last is needed up to \<open>2 ^ 32\<close> only.  Accounts are 32-byte words.
\<close>

fun nat_bytes :: "nat \<Rightarrow> nat \<Rightarrow> bytes" where
  "nat_bytes 0 m = []"
| "nat_bytes (Suc n) m = of_nat (m mod 256) # nat_bytes n (m div 256)"

fun bytes_nat :: "bytes \<Rightarrow> nat" where
  "bytes_nat [] = 0"
| "bytes_nat (b # bs) = unat b + 256 * bytes_nat bs"

definition dec_le :: "nat \<Rightarrow> nat decoder" where
  "dec_le n b = (if length b < n then None else Some (bytes_nat (take n b), drop n b))"

definition dec_word :: "nat \<Rightarrow> 'a::len word decoder" where
  "dec_word n b = do { (m, b1) \<leftarrow> dec_le n b; Some (of_nat m, b1) }"

definition scale_compact :: "nat \<Rightarrow> bytes" where
  "scale_compact n =
     (if n < 2 ^ 6 then nat_bytes 1 (4 * n)
      else if n < 2 ^ 14 then nat_bytes 2 (4 * n + 1)
      else if n < 2 ^ 30 then nat_bytes 4 (4 * n + 2)
      else nat_bytes 5 (256 * n + 3))"

text \<open>The mode is in the two lowest bits; a length must be in the shortest mode that can hold it.\<close>

definition scale_compact_mode :: "nat \<Rightarrow> nat \<Rightarrow> nat \<Rightarrow> nat \<Rightarrow> nat decoder" where
  "scale_compact_mode width unit low high b =
     do { (m, b1) \<leftarrow> dec_le width b;
          if low \<le> m div unit \<and> m div unit < high then Some (m div unit, b1) else None }"

definition scale_dec_compact :: "nat decoder" where
  "scale_dec_compact b =
     (case b of
        [] \<Rightarrow> None
      | b0 # _ \<Rightarrow>
          if unat b0 mod 4 = 0 then scale_compact_mode 1 4 0 (2 ^ 6) b
          else if unat b0 mod 4 = 1 then scale_compact_mode 2 4 (2 ^ 6) (2 ^ 14) b
          else if unat b0 mod 4 = 2 then scale_compact_mode 4 4 (2 ^ 14) (2 ^ 30) b
          else if unat b0 = 3 then scale_compact_mode 5 256 (2 ^ 30) (2 ^ 32) b
          else None)"

definition reference_scale :: "256 word scale" where
  "reference_scale =
     \<lparr>enc_account = (\<lambda>a. nat_bytes 32 (unat a)), dec_account = dec_word 32, account_len = 32,
      enc_u32 = (\<lambda>n. nat_bytes 4 (unat n)), dec_u32 = dec_word 4,
      enc_u128 = (\<lambda>n. nat_bytes 16 (unat n)), dec_u128 = dec_word 16,
      enc_bool = (\<lambda>t. [of_bool t]),
      dec_bool = (\<lambda>b. case b of [] \<Rightarrow> None
        | x # bs \<Rightarrow> if x = 0 then Some (False, bs) else if x = 1 then Some (True, bs) else None),
      enc_compact = scale_compact, dec_compact = scale_dec_compact\<rparr>"

lemma length_nat_bytes [simp]: "length (nat_bytes n m) = n"
  by (induction n arbitrary: m) simp_all

lemma bytes_nat_bytes: "bytes_nat (nat_bytes n m) = m mod 256 ^ n"
proof (induction n arbitrary: m)
  case (Suc n)
  have "unat (of_nat (m mod 256) :: u8) = m mod 256"
    by (simp add: unsigned_of_nat take_bit_nat_eq_self)
  then show ?case using Suc by (simp add: mod_mult2_eq mult.commute)
qed simp

lemma bytes_nat_less: "bytes_nat bs < 256 ^ length bs"
proof (induction bs)
  case (Cons b bs)
  have "unat b < 256" using unsigned_less [of b, where 'a = nat] by simp
  with Cons show ?case by simp
qed simp

lemma nat_bytes_nat: "nat_bytes (length bs) (bytes_nat bs) = bs"
proof (induction bs)
  case (Cons b bs)
  have "unat b < 256" using unsigned_less [of b, where 'a = nat] by simp
  with Cons show ?case by simp
qed simp

declare nat_bytes.simps [simp del]

lemma dec_le_iff:
  "dec_le n b = Some (m, rest) \<longleftrightarrow> b = nat_bytes n m @ rest \<and> m < 256 ^ n"
proof
  assume *: "dec_le n b = Some (m, rest)"
  then have "length (take n b) = n" "m = bytes_nat (take n b)" "rest = drop n b"
    by (auto simp: dec_le_def split: if_splits)
  with nat_bytes_nat [of "take n b"] bytes_nat_less [of "take n b"]
  show "b = nat_bytes n m @ rest \<and> m < 256 ^ n" by simp
next
  assume "b = nat_bytes n m @ rest \<and> m < 256 ^ n"
  then show "dec_le n b = Some (m, rest)" by (simp add: dec_le_def bytes_nat_bytes)
qed

lemma dec_le_nat_bytes: "m < 256 ^ n \<Longrightarrow> dec_le n (nat_bytes n m @ rest) = Some (m, rest)"
  by (simp add: dec_le_iff)

lemma word_codec:
  assumes "LENGTH('a::len) = 8 * n"
  shows "codec (\<lambda>w :: 'a word. nat_bytes n (unat w)) (dec_word n) (\<lambda>_. True)"
proof
  have bound: "(256 :: nat) ^ n = 2 ^ LENGTH('a)"
    using assms by (simp add: power_mult)
  show "dec_word n (nat_bytes n (unat w) @ rest) = Some (w, rest)" for w :: "'a word" and rest
  proof -
    have "unat w < 256 ^ n" unfolding bound by (rule unsigned_less)
    then show ?thesis by (simp add: dec_word_def dec_le_nat_bytes)
  qed
  show "b = nat_bytes n (unat w) @ rest \<and> True" if "dec_word n b = Some (w :: 'a word, rest)" for b w rest
  proof -
    from that obtain m where "b = nat_bytes n m @ rest" "m < 256 ^ n" "w = of_nat m"
      by (auto simp: dec_word_def bind_eq_Some_conv dec_le_iff)
    then show ?thesis unfolding bound by (simp add: unat_of_nat_small)
  qed
qed

lemma low_byte:
  assumes "nat_bytes k m @ rest = b0 # bs" and "0 < k"
  shows "unat b0 = m mod 256"
  using assms by (cases k) (auto simp: nat_bytes.simps unsigned_of_nat take_bit_nat_eq_self)

lemma low_bits: "(m mod 256) mod 4 = m mod (4 :: nat)"
  by (simp add: mod_mod_cancel)

lemma compact_mode_iff:
  "scale_compact_mode width unit low high b = Some (n, rest) \<longleftrightarrow>
     (\<exists>m. b = nat_bytes width m @ rest \<and> m < 256 ^ width \<and> n = m div unit \<and> low \<le> n \<and> n < high)"
  by (auto simp: scale_compact_mode_def bind_eq_Some_conv dec_le_iff)

lemma compact_mode_dec:
  "m < 256 ^ k \<Longrightarrow> low \<le> m div unit \<Longrightarrow> m div unit < high \<Longrightarrow>
     scale_compact_mode k unit low high (nat_bytes k m @ rest) = Some (m div unit, rest)"
  by (auto simp: compact_mode_iff)

lemma dec_compact_modes:
  assumes "0 < k"
  shows "scale_dec_compact (nat_bytes k m @ rest) =
    (if m mod 4 = 0 then scale_compact_mode 1 4 0 (2 ^ 6) (nat_bytes k m @ rest)
     else if m mod 4 = 1 then scale_compact_mode 2 4 (2 ^ 6) (2 ^ 14) (nat_bytes k m @ rest)
     else if m mod 4 = 2 then scale_compact_mode 4 4 (2 ^ 14) (2 ^ 30) (nat_bytes k m @ rest)
     else if m mod 256 = 3 then scale_compact_mode 5 256 (2 ^ 30) (2 ^ 32) (nat_bytes k m @ rest)
     else None)"
proof -
  have "length (nat_bytes k m @ rest) \<noteq> 0" using assms by simp
  then obtain b0 bs where b: "nat_bytes k m @ rest = b0 # bs" by (cases "nat_bytes k m @ rest") auto
  have low: "unat b0 = m mod 256" by (rule low_byte [OF b assms])
  show ?thesis unfolding b scale_dec_compact_def list.case low low_bits ..
qed

lemma scale_compact_modes:
  "n < 2 ^ 6 \<Longrightarrow> scale_compact n = nat_bytes 1 (4 * n)"
  "2 ^ 6 \<le> n \<Longrightarrow> n < 2 ^ 14 \<Longrightarrow> scale_compact n = nat_bytes 2 (4 * n + 1)"
  "2 ^ 14 \<le> n \<Longrightarrow> n < 2 ^ 30 \<Longrightarrow> scale_compact n = nat_bytes 4 (4 * n + 2)"
  "2 ^ 30 \<le> n \<Longrightarrow> scale_compact n = nat_bytes 5 (256 * n + 3)"
  by (simp_all add: scale_compact_def)

lemma scale_compact_decodes:
  assumes "n < 2 ^ 32"
  shows "scale_dec_compact (scale_compact n @ rest) = Some (n, rest)"
proof -
  have rest4: "(4 * n + c) mod 4 = c" "(4 * n + c) div 4 = n" if "c < 4" for c
    using that by simp_all
  consider "n < 2 ^ 6" | "2 ^ 6 \<le> n" "n < 2 ^ 14" | "2 ^ 14 \<le> n" "n < 2 ^ 30" | "2 ^ 30 \<le> n"
    by linarith
  then show ?thesis
  proof cases
    case 1
    then show ?thesis
      using compact_mode_dec [of "4 * n" 1 0 4 "2 ^ 6" rest]
      by (simp add: scale_compact_modes dec_compact_modes)
  next
    case 2
    then have "scale_compact_mode 2 4 (2 ^ 6) (2 ^ 14) (nat_bytes 2 (4 * n + 1) @ rest) = Some (n, rest)"
      using compact_mode_dec [of "4 * n + 1" 2 "2 ^ 6" 4 "2 ^ 14" rest] rest4 [of 1] by simp
    with 2 show ?thesis using dec_compact_modes [of 2 "4 * n + 1" rest] rest4 [of 1]
      by (simp only: scale_compact_modes) simp
  next
    case 3
    then have "scale_compact_mode 4 4 (2 ^ 14) (2 ^ 30) (nat_bytes 4 (4 * n + 2) @ rest) = Some (n, rest)"
      using compact_mode_dec [of "4 * n + 2" 4 "2 ^ 14" 4 "2 ^ 30" rest] rest4 [of 2] by simp
    with 3 show ?thesis using dec_compact_modes [of 4 "4 * n + 2" rest] rest4 [of 2]
      by (simp only: scale_compact_modes) simp
  next
    case 4
    then have "scale_compact_mode 5 256 (2 ^ 30) (2 ^ 32) (nat_bytes 5 (256 * n + 3) @ rest) = Some (n, rest)"
      using assms compact_mode_dec [of "256 * n + 3" 5 "2 ^ 30" 256 "2 ^ 32" rest] by simp
    moreover have "(256 * n + 3) mod 4 = 3" by presburger
    ultimately show ?thesis using 4 dec_compact_modes [of 5 "256 * n + 3" rest]
      by (simp only: scale_compact_modes) simp
  qed
qed

text \<open>A number from its quotient and its remainder.\<close>

lemma from_div_mod: "m mod u = c \<Longrightarrow> m = u * (m div u) + (c :: nat)"
  by (metis mult_div_mod_eq)

lemma scale_compact_exact:
  assumes "scale_dec_compact b = Some (n, rest)"
  shows "b = scale_compact n @ rest \<and> n < 2 ^ 32"
proof -
  obtain b0 bs where b: "b = b0 # bs" using assms by (auto simp: scale_dec_compact_def split: list.splits)
  have mode: "\<exists>m. b = nat_bytes k m @ rest \<and> n = m div u \<and> low \<le> n \<and> n < high \<and>
      m mod 256 = unat b0 \<and> m mod 4 = unat b0 mod 4"
    if "scale_compact_mode k u low high b = Some (n, rest)" "0 < k" for k u low high
    using that low_byte [of k _ rest b0 bs] low_bits unfolding compact_mode_iff b by metis
  consider "unat b0 mod 4 = 0" "scale_compact_mode 1 4 0 (2 ^ 6) b = Some (n, rest)"
    | "unat b0 mod 4 = 1" "scale_compact_mode 2 4 (2 ^ 6) (2 ^ 14) b = Some (n, rest)"
    | "unat b0 mod 4 = 2" "scale_compact_mode 4 4 (2 ^ 14) (2 ^ 30) b = Some (n, rest)"
    | "unat b0 = 3" "scale_compact_mode 5 256 (2 ^ 30) (2 ^ 32) b = Some (n, rest)"
    using assms unfolding scale_dec_compact_def b list.case
    by (auto split: if_splits)
  then show ?thesis
  proof cases
    case 1
    with mode [OF 1(2)] from_div_mod [of _ 4 0] show ?thesis
      by (auto simp: scale_compact_modes)
  next
    case 2
    with mode [OF 2(2)] from_div_mod [of _ 4 1] show ?thesis
      by (auto simp: scale_compact_modes)
  next
    case 3
    with mode [OF 3(2)] from_div_mod [of _ 4 2] show ?thesis
      by (auto simp: scale_compact_modes)
  next
    case 4
    with mode [OF 4(2)] from_div_mod [of _ 256 3] show ?thesis
      by (auto simp: scale_compact_modes)
  qed
qed

lemma scale_compact_codec: "codec scale_compact scale_dec_compact (\<lambda>n. n < 2 ^ 32)"
  using scale_compact_decodes scale_compact_exact by (intro codec.intro) blast+

lemma bool_codec: "codec (enc_bool reference_scale) (dec_bool reference_scale) (\<lambda>_. True)"
  by unfold_locales (auto simp: reference_scale_def split: list.splits if_splits)

lemma reference_scale_laws: "scale_laws reference_scale"
proof (rule scale_laws.intro)
  show "codec (enc_account reference_scale) (dec_account reference_scale) (\<lambda>_. True)"
    using word_codec [where 'a = 256, of 32] by (simp add: reference_scale_def)
  show "codec (enc_u32 reference_scale) (dec_u32 reference_scale) (\<lambda>_. True)"
    using word_codec [where 'a = 32, of 4] by (simp add: reference_scale_def)
  show "codec (enc_u128 reference_scale) (dec_u128 reference_scale) (\<lambda>_. True)"
    using word_codec [where 'a = 128, of 16] by (simp add: reference_scale_def)
  show "codec (enc_compact reference_scale) (dec_compact reference_scale) (\<lambda>l. l < 2 ^ 32)"
    using scale_compact_codec by (simp add: reference_scale_def)
qed (simp_all add: bool_codec, simp_all add: reference_scale_def scale_compact_def)

interpretation reference_codec: scale_laws reference_scale
  by (rule reference_scale_laws)

end
