(* ===== verification/Nft_Codec.thy ===== *)
theory Nft_Codec
  imports Runtime_Config Scale_Codec
begin

text \<open>
  The byte encodings of the NFT pallet.  The source derives \<open>Encode\<close>, \<open>Decode\<close> and \<open>MaxEncodedLen\<close>
  for its data types: a value is the concatenation of its fields in the order of their
  declaration, and a call is the index of its pallet and its own \<open>call_index\<close> followed by its
  arguments in the order of the call's signature.
\<close>

section \<open>The types of the pallet\<close>

definition encode_NFT :: "'acc scale \<Rightarrow> ('acc, Balance) NFT \<Rightarrow> bytes" where
  "encode_NFT S nft =
     enc_account S (owner nft) @ encode_vec S enc_u8 (nft_metadata nft) @
     enc_bool S (is_sold nft) @ enc_u128 S (price nft)"

definition decode_NFT :: "'acc scale \<Rightarrow> ('acc, Balance) NFT decoder" where
  "decode_NFT S b =
     do { (own, b1) \<leftarrow> dec_account S b;
          (meta, b2) \<leftarrow> decode_bounded S 256 dec_u8 b1;
          (sold, b3) \<leftarrow> dec_bool S b2;
          (pr, b4) \<leftarrow> dec_u128 S b3;
          Some (\<lparr>owner = own, nft_metadata = meta, is_sold = sold, price = pr\<rparr>, b4) }"

definition encode_Collection :: "'acc scale \<Rightarrow> 'acc Collection \<Rightarrow> bytes" where
  "encode_Collection S col =
     enc_account S (creator col) @ encode_vec S enc_u8 (collection_metadata col) @
     encode_vec S (enc_u32 S) (collection_nfts col)"

definition decode_Collection :: "'acc scale \<Rightarrow> 'acc Collection decoder" where
  "decode_Collection S b =
     do { (cr, b1) \<leftarrow> dec_account S b;
          (meta, b2) \<leftarrow> decode_bounded S 256 dec_u8 b1;
          (items, b3) \<leftarrow> decode_bounded S 256 (dec_u32 S) b2;
          Some (\<lparr>creator = cr, collection_metadata = meta, collection_nfts = items\<rparr>, b3) }"

text \<open>\<open>MaxEncodedLen\<close>: the sum over the fields; a bounded vector of up to 256 elements has a length of two bytes.\<close>

definition bounded_max_encoded_len :: "nat \<Rightarrow> nat" where
  "bounded_max_encoded_len elem = 2 + 256 * elem"

definition NFT_max_encoded_len :: "'acc scale \<Rightarrow> nat" where
  "NFT_max_encoded_len S = account_len S + bounded_max_encoded_len 1 + 1 + 16"

definition Collection_max_encoded_len :: "'acc scale \<Rightarrow> nat" where
  "Collection_max_encoded_len S =
     account_len S + bounded_max_encoded_len 1 + bounded_max_encoded_len 4"

section \<open>Calls\<close>

primrec encode_args :: "'acc scale \<Rightarrow> 'acc Call \<Rightarrow> bytes" where
  "encode_args S RegisterArtist = []"
| "encode_args S (CreateCollection metadata) = encode_vec S enc_u8 metadata"
| "encode_args S (DeleteCollection cid) = enc_u32 S cid"
| "encode_args S (CreateNft cid metadata p) =
     enc_u32 S cid @ encode_vec S enc_u8 metadata @ enc_u128 S p"
| "encode_args S (TransferNft cid iid to) = enc_u32 S cid @ enc_u32 S iid @ enc_account S to"
| "encode_args S (BurnNft cid iid) = enc_u32 S cid @ enc_u32 S iid"
| "encode_args S (MintNft cid iid) = enc_u32 S cid @ enc_u32 S iid"

definition encode_call :: "'acc scale \<Rightarrow> 'acc Call \<Rightarrow> bytes" where
  "encode_call S call = pallet_index TemplatePallet # call_index call # encode_args S call"

definition decode_args :: "'acc scale \<Rightarrow> u8 \<Rightarrow> 'acc Call decoder" where
  "decode_args S idx b =
     (if idx = 0 then Some (RegisterArtist, b)
      else if idx = 1 then do { (m, b1) \<leftarrow> decode_vec S dec_u8 b; Some (CreateCollection m, b1) }
      else if idx = 4 then do { (c, b1) \<leftarrow> dec_u32 S b; Some (DeleteCollection c, b1) }
      else if idx = 6 then
        do { (c, b1) \<leftarrow> dec_u32 S b; (m, b2) \<leftarrow> decode_vec S dec_u8 b1; (p, b3) \<leftarrow> dec_u128 S b2;
             Some (CreateNft c m p, b3) }
      else if idx = 7 then
        do { (c, b1) \<leftarrow> dec_u32 S b; (i, b2) \<leftarrow> dec_u32 S b1; (to, b3) \<leftarrow> dec_account S b2;
             Some (TransferNft c i to, b3) }
      else if idx = 8 then
        do { (c, b1) \<leftarrow> dec_u32 S b; (i, b2) \<leftarrow> dec_u32 S b1; Some (BurnNft c i, b2) }
      else if idx = 9 then
        do { (c, b1) \<leftarrow> dec_u32 S b; (i, b2) \<leftarrow> dec_u32 S b1; Some (MintNft c i, b2) }
      else None)"

text \<open>Of the calls of the runtime, those of the NFT pallet.\<close>

definition decode_call :: "'acc scale \<Rightarrow> 'acc Call decoder" where
  "decode_call S b =
     (case b of
        p # idx # args \<Rightarrow> if p = pallet_index TemplatePallet then decode_args S idx args else None
      | _ \<Rightarrow> None)"

text \<open>What the types of the source demand of values.\<close>

definition valid_NFT :: "('acc, Balance) NFT \<Rightarrow> bool" where
  "valid_NFT nft \<longleftrightarrow> length (nft_metadata nft) \<le> 256"

definition valid_Collection :: "'acc Collection \<Rightarrow> bool" where
  "valid_Collection col \<longleftrightarrow>
     length (collection_metadata col) \<le> 256 \<and> length (collection_nfts col) \<le> 256"

fun valid_call :: "'acc Call \<Rightarrow> bool" where
  "valid_call (CreateCollection metadata) = valid_vec metadata"
| "valid_call (CreateNft cid metadata p) = valid_vec metadata"
| "valid_call _ = True"

section \<open>Codecs of the pallet\<close>

sublocale scale_laws \<subseteq> metadata: codec "encode_vec S enc_u8" "decode_bounded S 256 dec_u8"
  "\<lambda>xs. length xs \<le> 256"
  by (rule bounded_codec) (simp_all add: u8.codec_axioms)

sublocale scale_laws \<subseteq> item_list: codec "encode_vec S (enc_u32 S)" "decode_bounded S 256 (dec_u32 S)"
  "\<lambda>xs. length xs \<le> 256"
  by (rule bounded_codec) (simp_all add: u32)

context scale_laws begin

lemmas decode_iffs = account.decode_iff u32.decode_iff u128.decode_iff bool.decode_iff
  metadata.decode_iff item_list.decode_iff blob.decode_iff

lemmas decode_encodes = account.decode_encode u32.decode_encode u128.decode_encode
  bool.decode_encode metadata.decode_encode item_list.decode_encode blob.decode_encode

lemma nft_codec: "codec (encode_NFT S) (decode_NFT S) valid_NFT"
proof
  show "decode_NFT S (encode_NFT S nft @ rest) = Some (nft, rest)" if "valid_NFT nft" for nft rest
    using that by (simp add: decode_NFT_def encode_NFT_def valid_NFT_def decode_encodes)
  show "b = encode_NFT S nft @ rest \<and> valid_NFT nft" if "decode_NFT S b = Some (nft, rest)" for b nft rest
    using that by (auto simp: decode_NFT_def encode_NFT_def valid_NFT_def bind_eq_Some_conv decode_iffs)
qed

lemma collection_codec: "codec (encode_Collection S) (decode_Collection S) valid_Collection"
proof
  show "decode_Collection S (encode_Collection S col @ rest) = Some (col, rest)"
    if "valid_Collection col" for col rest
    using that
    by (simp add: decode_Collection_def encode_Collection_def valid_Collection_def decode_encodes)
  show "b = encode_Collection S col @ rest \<and> valid_Collection col"
    if "decode_Collection S b = Some (col, rest)" for b col rest
    using that
    by (auto simp: decode_Collection_def encode_Collection_def valid_Collection_def bind_eq_Some_conv
        decode_iffs)
qed

lemma call_codec: "codec (encode_call S) (decode_call S) valid_call"
proof
  show "decode_call S (encode_call S call @ rest) = Some (call, rest)" if "valid_call call" for call rest
    using that by (cases call) (simp_all add: decode_call_def encode_call_def decode_args_def decode_encodes)
  show "b = encode_call S call @ rest \<and> valid_call call" if "decode_call S b = Some (call, rest)" for b call rest
    using that
    by (auto simp: decode_call_def encode_call_def decode_args_def bind_eq_Some_conv decode_iffs
        split: list.splits if_splits)
qed

lemma vec_width:
  assumes "\<And>x. length (f x) = w" and "length xs \<le> 256"
  shows "length (encode_vec S f xs) \<le> bounded_max_encoded_len w"
proof -
  have "length (concat (map f xs)) = w * length xs"
    by (induction xs) (simp_all add: assms(1))
  moreover have "length (enc_compact S (length xs)) \<le> 2"
    using assms(2) by (intro compact_width) simp
  moreover have "w * length xs \<le> 256 * w" using mult_le_mono2 [OF assms(2), of w] by (simp only: mult.commute)
  ultimately show ?thesis
    unfolding encode_vec_def bounded_max_encoded_len_def length_append by linarith
qed

lemma nft_width: "valid_NFT nft \<Longrightarrow> length (encode_NFT S nft) \<le> NFT_max_encoded_len S"
  using vec_width [of enc_u8 1 "nft_metadata nft"]
  by (simp add: valid_NFT_def encode_NFT_def NFT_max_encoded_len_def account_width bool_width u128_width)

lemma collection_width:
  "valid_Collection col \<Longrightarrow> length (encode_Collection S col) \<le> Collection_max_encoded_len S"
  using vec_width [of enc_u8 1 "collection_metadata col"] vec_width [of "enc_u32 S" 4 "collection_nfts col"]
  by (simp add: valid_Collection_def encode_Collection_def Collection_max_encoded_len_def account_width
      u32_width)

end

sublocale scale_laws \<subseteq> nft: codec "encode_NFT S" "decode_NFT S" valid_NFT
  by (rule nft_codec)

sublocale scale_laws \<subseteq> collection: codec "encode_Collection S" "decode_Collection S" valid_Collection
  by (rule collection_codec)

sublocale scale_laws \<subseteq> pallet_call: codec "encode_call S" "decode_call S" valid_call
  by (rule call_codec)

section \<open>Properties\<close>

text \<open>
  C22.  Stored values round trip and fit: an NFT or a collection within its bounds is decoded from its
  encoding, with nothing else consumed; nothing decodes to a value beyond the bounds; and no
  encoding is longer than the declared maximum, 307 bytes for an NFT and 1316 for a collection of
  accounts of 32 bytes.
\<close>

theorem stored_values_roundtrip:
  assumes "scale_laws S"
  shows "(decode_NFT S b = Some (nft, rest) \<longleftrightarrow> b = encode_NFT S nft @ rest \<and> valid_NFT nft) \<and>
    (decode_Collection S b = Some (col, rest) \<longleftrightarrow>
      b = encode_Collection S col @ rest \<and> valid_Collection col) \<and>
    (valid_NFT nft \<longrightarrow> length (encode_NFT S nft) \<le> NFT_max_encoded_len S) \<and>
    (valid_Collection col \<longrightarrow> length (encode_Collection S col) \<le> Collection_max_encoded_len S) \<and>
    (account_len S = 32 \<longrightarrow> NFT_max_encoded_len S = 307 \<and> Collection_max_encoded_len S = 1316)"
  using codec.decode_iff [OF scale_laws.nft_codec [OF assms]]
    codec.decode_iff [OF scale_laws.collection_codec [OF assms]]
    scale_laws.nft_width [OF assms] scale_laws.collection_width [OF assms]
  by (simp add: NFT_max_encoded_len_def Collection_max_encoded_len_def bounded_max_encoded_len_def)

theorem stored_values_roundtrip_witness:
  "decode_NFT reference_scale
     (encode_NFT reference_scale \<lparr>owner = 7, nft_metadata = [1, 2], is_sold = False, price = 5\<rparr> @ [9]) =
     Some (\<lparr>owner = 7, nft_metadata = [1, 2], is_sold = False, price = 5\<rparr>, [9])"
  using stored_values_roundtrip [OF reference_scale_laws, of
      "encode_NFT reference_scale \<lparr>owner = 7, nft_metadata = [1, 2], is_sold = False, price = 5\<rparr> @ [9]"
      "\<lparr>owner = 7, nft_metadata = [1, 2], is_sold = False, price = 5\<rparr>" "[9]"]
  by (simp add: valid_NFT_def)

text \<open>
  C21.  Calls on the wire: exactly the encodings of calls decode as calls of this pallet, so a
  transaction means one call only; the two leading bytes are the index of the pallet in the
  runtime and the call's own index, and an index that no call has is refused.
\<close>

theorem calls_roundtrip:
  assumes "scale_laws S"
  shows "(decode_call S b = Some (call, rest) \<longleftrightarrow> b = encode_call S call @ rest \<and> valid_call call) \<and>
    take 2 (encode_call S call) = [50, call_index call] \<and>
    (idx \<notin> {0, 1, 4, 6, 7, 8, 9} \<longrightarrow> decode_call S (50 # idx # b) = None) \<and>
    (valid_call call \<and> valid_call call' \<and> encode_call S call = encode_call S call' \<longrightarrow> call = call')"
proof -
  note call = scale_laws.call_codec [OF assms]
  have "call = call'" if "valid_call call" "valid_call call'" "encode_call S call = encode_call S call'"
    by (rule codec.enc_inj [OF call that])
  then show ?thesis
    using codec.decode_iff [OF call]
    by (simp add: encode_call_def decode_call_def decode_args_def)
qed

theorem calls_roundtrip_witness:
  "decode_call reference_scale (encode_call reference_scale (TransferNft 1 2 3)) =
     Some (TransferNft 1 2 3, [])"
  using calls_roundtrip [OF reference_scale_laws, of
      "encode_call reference_scale (TransferNft 1 2 3)" "TransferNft 1 2 3" "[]"]
  by simp

end
