(* ===== verification/Nft_Storage.thy ===== *)
theory Nft_Storage
  imports Nft_Codec "HOL-Library.Sublist"
begin

text \<open>
  The storage of the NFT pallet as the chain keeps it: one map from byte strings to byte strings for
  the whole runtime.  The declarations of the storage items in \<open>src/pallets/template/src/lib.rs\<close> fix the
  key of every entry: the hashed names of the pallet and of the item, then the encoded keys of the
  map, each behind its own hash (\<open>Blake2_128Concat\<close>).  Here are the keys, the entries at them, and when
  they are typed; \<open>Nft_Raw\<close> has the calls on this storage.  The hashes are the parameter \<open>hasher\<close>.
\<close>

section \<open>Keys\<close>

record hasher =
  twox_128 :: "string \<Rightarrow> bytes"
  blake2_128 :: "bytes \<Rightarrow> bytes"
  storage_prefix :: "string \<Rightarrow> string \<Rightarrow> bytes"
  Blake2_128Concat :: "bytes \<Rightarrow> bytes"

text \<open>The name of the pallet is the one that the runtime gives it.\<close>

definition pallet_name :: string where
  "pallet_name = ''TemplatePallet''"

definition pallet_prefix :: "hasher \<Rightarrow> bytes" where
  "pallet_prefix H = twox_128 H pallet_name"

definition Artists_key :: "'acc scale \<Rightarrow> hasher \<Rightarrow> 'acc \<Rightarrow> bytes" where
  "Artists_key S H who = storage_prefix H pallet_name ''Artists'' @ Blake2_128Concat H (enc_account S who)"

definition Collections_key :: "'acc scale \<Rightarrow> hasher \<Rightarrow> CollectionId \<Rightarrow> bytes" where
  "Collections_key S H cid = storage_prefix H pallet_name ''Collections'' @ Blake2_128Concat H (enc_u32 S cid)"

definition Nfts_key :: "'acc scale \<Rightarrow> hasher \<Rightarrow> CollectionId \<times> ItemId \<Rightarrow> bytes" where
  "Nfts_key S H k =
     storage_prefix H pallet_name ''Nfts'' @ Blake2_128Concat H (enc_u32 S (fst k)) @
     Blake2_128Concat H (enc_u32 S (snd k))"

definition NextItemId_key :: "'acc scale \<Rightarrow> hasher \<Rightarrow> CollectionId \<Rightarrow> bytes" where
  "NextItemId_key S H cid = storage_prefix H pallet_name ''NextItemId'' @ Blake2_128Concat H (enc_u32 S cid)"

definition NextCollectionId_key :: "hasher \<Rightarrow> bytes" where
  "NextCollectionId_key H = storage_prefix H pallet_name ''NextCollectionId''"

section \<open>Raw storage\<close>

type_synonym raw = "bytes \<rightharpoonup> bytes"

text \<open>A value is read by decoding it; what follows the value is not looked at.\<close>

definition raw_get :: "'v decoder \<Rightarrow> raw \<Rightarrow> bytes \<Rightarrow> 'v option" where
  "raw_get dec raw key = (case raw key of None \<Rightarrow> None | Some b \<Rightarrow> map_option fst (dec b))"

text \<open>A raw storage is typed when every entry of the pallet is the encoding of a value of its item.\<close>

definition entries_typed :: "'v decoder \<Rightarrow> ('k \<Rightarrow> bytes) \<Rightarrow> raw \<Rightarrow> bool" where
  "entries_typed dec key raw \<longleftrightarrow> (\<forall>k b. raw (key k) = Some b \<longrightarrow> (\<exists>v. dec b = Some (v, [])))"

definition raw_typed :: "'acc scale \<Rightarrow> hasher \<Rightarrow> raw \<Rightarrow> bool" where
  "raw_typed S H raw \<longleftrightarrow>
     entries_typed (dec_bool S) (Artists_key S H) raw \<and>
     entries_typed (decode_Collection S) (Collections_key S H) raw \<and>
     entries_typed (decode_NFT S) (Nfts_key S H) raw \<and>
     entries_typed (dec_u32 S) (NextItemId_key S H) raw \<and>
     entries_typed (dec_u32 S) (\<lambda>_ :: unit. NextCollectionId_key H) raw"

section \<open>One map in raw storage\<close>

locale stored_map = codec enc dec valid
  for enc :: "'v \<Rightarrow> bytes" and dec :: "'v decoder" and valid :: "'v \<Rightarrow> bool" +
  fixes key :: "'k \<Rightarrow> bytes"
  assumes key_inj: "key k = key k' \<longleftrightarrow> k = k'"
begin

lemma get_insert:
  assumes "valid v"
  shows "(\<lambda>k'. raw_get dec (raw(key k \<mapsto> enc v)) (key k')) = (\<lambda>k'. raw_get dec raw (key k'))(k \<mapsto> v)"
  by (rule ext) (simp add: raw_get_def key_inj decode_all [OF assms])

lemma get_remove:
  "(\<lambda>k'. raw_get dec (raw(key k := None)) (key k')) = (\<lambda>k'. raw_get dec raw (key k'))(k := None)"
  by (rule ext) (simp add: raw_get_def key_inj)

lemma typed_insert: "valid v \<Longrightarrow> entries_typed dec key raw \<Longrightarrow> entries_typed dec key (raw(key k \<mapsto> enc v))"
  using decode_all by (auto simp: entries_typed_def)

lemma typed_remove: "entries_typed dec key raw \<Longrightarrow> entries_typed dec key (raw(key k := None))"
  by (auto simp: entries_typed_def)

lemma get_valid: "raw_get dec raw (key k) = Some v \<Longrightarrow> valid v"
  using encode_decode by (auto simp: raw_get_def split: option.splits)

lemma typed_entry: "entries_typed dec key raw \<Longrightarrow> raw (key k) = Some b \<Longrightarrow> \<exists>v. valid v \<and> b = enc v"
  unfolding entries_typed_def using encode_decode by (metis append_Nil2)

text \<open>In a typed storage an entry is there exactly when it can be read.\<close>

lemma has_get: "entries_typed dec key raw \<Longrightarrow> raw (key k) \<noteq> None \<longleftrightarrow> raw_get dec raw (key k) \<noteq> None"
proof (cases "raw (key k)")
  case (Some b)
  moreover assume "entries_typed dec key raw"
  ultimately obtain v where "dec b = Some (v, [])" unfolding entries_typed_def by blast
  with Some show ?thesis by (simp add: raw_get_def)
qed (simp add: raw_get_def)

end

text \<open>Entries that no write touches.\<close>

lemma get_other: "k \<noteq> key \<Longrightarrow> raw_get dec (raw(key := v)) k = raw_get dec raw k"
  by (simp add: raw_get_def)

lemma typed_other: "(\<And>k. key' k \<noteq> key) \<Longrightarrow> entries_typed dec key' raw \<Longrightarrow> entries_typed dec key' (raw(key := v))"
  by (simp add: entries_typed_def)

section \<open>The interface of the hashes\<close>

text \<open>
  Both hashes have 16 bytes, and those of the names of the five storage items differ.  The prefix of
  an item is made of the hashed names of its pallet and of itself, and \<open>Blake2_128Concat\<close> puts the
  hash of a key before the key.
\<close>

definition item_names :: "string set" where
  "item_names = {''Artists'', ''Collections'', ''Nfts'', ''NextItemId'', ''NextCollectionId''}"

locale storage_laws = scale_laws S
  for S :: "'acc scale" +
  fixes H :: hasher
  assumes twox_width: "length (twox_128 H name) = 16"
    and blake2_width: "length (blake2_128 H b) = 16"
    and prefix_layout: "storage_prefix H pallet item = twox_128 H pallet @ twox_128 H item"
    and concat_layout: "Blake2_128Concat H k = blake2_128 H k @ k"
    and names_differ: "inj_on (twox_128 H) item_names"
begin

lemma concat_hash_inj: "Blake2_128Concat H k @ r = Blake2_128Concat H k' @ r' \<Longrightarrow> k @ r = k' @ r'"
  by (simp add: concat_layout blake2_width)

lemma items_apart:
  assumes "storage_prefix H pallet_name n @ x = storage_prefix H pallet_name n' @ y" "n \<in> item_names" "n' \<in> item_names"
  shows "n = n'"
proof -
  have "twox_128 H n = twox_128 H n'" using assms(1) by (simp add: prefix_layout twox_width)
  then show ?thesis using names_differ assms(2,3) by (simp add: inj_on_eq_iff)
qed

lemma Artists_key_inj: "Artists_key S H a = Artists_key S H b \<longleftrightarrow> a = b"
  using concat_hash_inj [of "enc_account S a" "[]" "enc_account S b" "[]"] account.enc_inj [of a b]
  by (auto simp: Artists_key_def)

lemma u32_concat_inj:
  "Blake2_128Concat H (enc_u32 S m) @ r = Blake2_128Concat H (enc_u32 S n) @ r' \<longleftrightarrow> m = n \<and> r = r'"
  using concat_hash_inj [of "enc_u32 S m" r "enc_u32 S n" r'] u32.prefix_free [of m r n r'] by auto

lemma Collections_key_inj: "Collections_key S H m = Collections_key S H n \<longleftrightarrow> m = n"
  using u32_concat_inj [of m "[]" n "[]"] by (simp add: Collections_key_def)

lemma NextItemId_key_inj: "NextItemId_key S H m = NextItemId_key S H n \<longleftrightarrow> m = n"
  using u32_concat_inj [of m "[]" n "[]"] by (simp add: NextItemId_key_def)

lemma Nfts_key_inj: "Nfts_key S H k = Nfts_key S H k' \<longleftrightarrow> k = k'"
  using u32_concat_inj [of "snd k" "[]" "snd k'" "[]"] by (auto simp: Nfts_key_def u32_concat_inj prod_eq_iff)

text \<open>Keys of different items differ, and all lie below the prefix of the pallet.\<close>

lemma keys_apart:
  "Artists_key S H a \<noteq> Collections_key S H c" "Artists_key S H a \<noteq> Nfts_key S H k"
  "Artists_key S H a \<noteq> NextItemId_key S H c" "Artists_key S H a \<noteq> NextCollectionId_key H"
  "Collections_key S H c \<noteq> Nfts_key S H k" "Collections_key S H c \<noteq> NextItemId_key S H d"
  "Collections_key S H c \<noteq> NextCollectionId_key H" "Nfts_key S H k \<noteq> NextItemId_key S H c"
  "Nfts_key S H k \<noteq> NextCollectionId_key H" "NextItemId_key S H c \<noteq> NextCollectionId_key H"
  using items_apart [of "''Artists''" _ "''Collections''"] items_apart [of "''Artists''" _ "''Nfts''"]
    items_apart [of "''Artists''" _ "''NextItemId''"] items_apart [of "''Artists''" _ "''NextCollectionId''" "[]"]
    items_apart [of "''Collections''" _ "''Nfts''"] items_apart [of "''Collections''" _ "''NextItemId''"]
    items_apart [of "''Collections''" _ "''NextCollectionId''" "[]"] items_apart [of "''Nfts''" _ "''NextItemId''"]
    items_apart [of "''Nfts''" _ "''NextCollectionId''" "[]"]
    items_apart [of "''NextItemId''" _ "''NextCollectionId''" "[]"]
  by (auto simp: Artists_key_def Collections_key_def Nfts_key_def NextItemId_key_def
      NextCollectionId_key_def item_names_def)

lemma keys_below_prefix:
  "prefix (pallet_prefix H) (Artists_key S H a)" "prefix (pallet_prefix H) (Collections_key S H c)"
  "prefix (pallet_prefix H) (Nfts_key S H k)" "prefix (pallet_prefix H) (NextItemId_key S H c)"
  "prefix (pallet_prefix H) (NextCollectionId_key H)"
  by (simp_all add: Artists_key_def Collections_key_def Nfts_key_def NextItemId_key_def
      NextCollectionId_key_def prefix_layout pallet_prefix_def)

end

sublocale storage_laws \<subseteq> artists: stored_map "enc_bool S" "dec_bool S" "\<lambda>_. True" "Artists_key S H"
  by unfold_locales (rule Artists_key_inj)

sublocale storage_laws \<subseteq> collections: stored_map "encode_Collection S" "decode_Collection S"
  valid_Collection "Collections_key S H"
  by unfold_locales (rule Collections_key_inj)

sublocale storage_laws \<subseteq> nfts: stored_map "encode_NFT S" "decode_NFT S" valid_NFT "Nfts_key S H"
  by unfold_locales (rule Nfts_key_inj)

sublocale storage_laws \<subseteq> item_counter: stored_map "enc_u32 S" "dec_u32 S" "\<lambda>_. True" "NextItemId_key S H"
  by unfold_locales (rule NextItemId_key_inj)

sublocale storage_laws \<subseteq> collection_counter: stored_map "enc_u32 S" "dec_u32 S" "\<lambda>_. True"
  "\<lambda>_ :: unit. NextCollectionId_key H"
  by unfold_locales simp

text \<open>Sizes of what is stored.\<close>

context storage_laws begin

lemma typed_widths:
  assumes "raw_typed S H raw"
  shows "raw (Nfts_key S H k) = Some b \<Longrightarrow> length b \<le> NFT_max_encoded_len S"
    and "raw (Collections_key S H c) = Some b \<Longrightarrow> length b \<le> Collection_max_encoded_len S"
  using assms unfolding raw_typed_def
  by (auto dest: nfts.typed_entry collections.typed_entry intro: nft_width collection_width)

end

section \<open>All entries of the pallet\<close>

datatype 'acc entry = ArtistsEntry 'acc | CollectionsEntry CollectionId
  | NftsEntry "CollectionId \<times> ItemId" | NextItemIdEntry CollectionId | NextCollectionIdEntry

primrec entry_key :: "'acc scale \<Rightarrow> hasher \<Rightarrow> 'acc entry \<Rightarrow> bytes" where
  "entry_key S H (ArtistsEntry a) = Artists_key S H a"
| "entry_key S H (CollectionsEntry c) = Collections_key S H c"
| "entry_key S H (NftsEntry k) = Nfts_key S H k"
| "entry_key S H (NextItemIdEntry c) = NextItemId_key S H c"
| "entry_key S H NextCollectionIdEntry = NextCollectionId_key H"

context storage_laws begin

lemma entry_key_inj: "entry_key S H e = entry_key S H e' \<longleftrightarrow> e = e'"
  by (cases e; cases e')
    (simp_all add: keys_apart keys_apart [symmetric] Artists_key_inj Collections_key_inj Nfts_key_inj
      NextItemId_key_inj)

lemma entry_below_prefix: "prefix (pallet_prefix H) (entry_key S H e)"
  by (cases e) (simp_all add: keys_below_prefix)

end

section \<open>A concrete hasher\<close>

text \<open>Padded or cut to 16 bytes: not a hash, but a function with the laws that the storage needs.\<close>

definition sample_hasher :: hasher where
  "sample_hasher =
     \<lparr>twox_128 = (\<lambda>name. take 16 (map of_char name @ replicate 16 0)),
      blake2_128 = (\<lambda>b. take 16 (b @ replicate 16 0)),
      storage_prefix = (\<lambda>pallet item.
        take 16 (map of_char pallet @ replicate 16 0) @ take 16 (map of_char item @ replicate 16 0)),
      Blake2_128Concat = (\<lambda>k. take 16 (k @ replicate 16 0) @ k)\<rparr>"

interpretation sample_storage: storage_laws reference_scale sample_hasher
  by unfold_locales (simp_all add: sample_hasher_def item_names_def)

section \<open>Properties\<close>

text \<open>
  No two entries of the pallet share a key: not two keys of one map, not entries of
  different items, and all of them lie below the pallet's own prefix.
\<close>

theorem storage_keys_injective:
  assumes "storage_laws S H"
  shows "(entry_key S H e = entry_key S H e' \<longleftrightarrow> e = e') \<and> prefix (pallet_prefix H) (entry_key S H e)"
  using storage_laws.entry_key_inj [OF assms] storage_laws.entry_below_prefix [OF assms] by blast

theorem storage_keys_injective_witness:
  "entry_key reference_scale sample_hasher (NftsEntry (0, 1)) \<noteq>
   entry_key reference_scale sample_hasher (NftsEntry (1, 0))"
  using storage_keys_injective [OF sample_storage.storage_laws_axioms, of "NftsEntry (0, 1)" "NftsEntry (1, 0)"]
  by simp

end
