(* ===== verification/Nft_Calls.thy ===== *)
theory Nft_Calls
  imports Nft_Pallet
begin

text \<open>
  The functional behaviour of each call of the NFT pallet: when exactly it succeeds and what
  it then writes (the \<open>_ok\<close> lemmas), and which error each failed guard gives.  Every later
  theory reasons from these lemmas rather than from the definitions of the calls.
\<close>

lemmas call_defs = register_artist_def create_collection_def delete_collection_def
  add_item_to_collection_def create_nft_def transfer_nft_def burn_nft_def mint_nft_def

named_theorems call_ok \<open>when a call succeeds and what it writes\<close>

section \<open>Success of each call\<close>

lemma register_artist_ok [call_ok]:
  "register_artist T origin s = (Inr (), s') \<longleftrightarrow>
     (\<exists>who c. ensure_signed T origin = Inr who \<and> Artists s who = None \<and>
        Currency_transfer T who (PalletId_account T) (registration_fee T) KeepAlive (currency s)
          = (Inr (), c) \<and>
        s' = s\<lparr>Artists := (Artists s)(who \<mapsto> True), currency := c,
               events := events s @ [ArtistRegistered who]\<rparr>)"
  by (auto simp: register_artist_def deposit_event_def storage_defs
      split: sum.splits prod.splits if_splits)

lemma create_collection_ok [call_ok]:
  "create_collection T origin metadata s = (Inr (), s') \<longleftrightarrow>
     (\<exists>who. ensure_signed T origin = Inr who \<and> Artists s who = Some True \<and>
        length metadata \<le> 256 \<and>
        s' = s\<lparr>Collections := (Collections s)(next_collection_id s \<mapsto>
                  \<lparr>creator = who, collection_metadata = metadata, collection_nfts = []\<rparr>),
               NextCollectionId := Some (saturating_add (next_collection_id s) 1),
               events := events s @ [CollectionCreated (next_collection_id s) who]\<rparr>)"
  by (auto simp: create_collection_def deposit_event_def storage_defs bounded_simps Let_def
      split: sum.splits prod.splits if_splits option.splits)

lemma delete_collection_ok [call_ok]:
  "delete_collection T origin cid s = (Inr (), s') \<longleftrightarrow>
     (\<exists>who col. ensure_signed T origin = Inr who \<and> Collections s cid = Some col \<and>
        creator col = who \<and>
        s' = s\<lparr>Collections := (Collections s)(cid := None),
               events := events s @ [CollectionDeleted cid]\<rparr>)"
  by (auto simp: delete_collection_def deposit_event_def storage_defs Let_def
      split: sum.splits prod.splits if_splits option.splits)

lemma create_nft_ok [call_ok]:
  "create_nft T origin cid metadata p s = (Inr (), s') \<longleftrightarrow>
     (\<exists>sender col. ensure_signed T origin = Inr sender \<and> Collections s cid = Some col \<and>
        length metadata \<le> 256 \<and> length (collection_nfts col) < 256 \<and>
        s' = s\<lparr>Collections := (Collections s)(cid \<mapsto> col\<lparr>collection_nfts :=
                  collection_nfts col @ [next_item_id s cid]\<rparr>),
               Nfts := (Nfts s)((cid, next_item_id s cid) \<mapsto>
                  \<lparr>owner = sender, nft_metadata = metadata, is_sold = False, price = p\<rparr>),
               NextItemId := (NextItemId s)(cid \<mapsto> saturating_add (next_item_id s cid) 1),
               events := events s @ [NFTMinted cid (next_item_id s cid) sender]\<rparr>)"
  by (auto simp: create_nft_def add_item_to_collection_def deposit_event_def storage_defs
      storage_try_mutate_def bounded_simps Let_def
      split: sum.splits prod.splits if_splits option.splits)

lemma transfer_nft_ok [call_ok]:
  "transfer_nft T origin cid iid to s = (Inr (), s') \<longleftrightarrow>
     (\<exists>sender nft. ensure_signed T origin = Inr sender \<and> Nfts s (cid, iid) = Some nft \<and>
        owner nft = sender \<and>
        s' = s\<lparr>Nfts := (Nfts s)((cid, iid) \<mapsto> nft\<lparr>owner := to, is_sold := True\<rparr>),
               events := events s @ [NFTTransferred cid iid sender to]\<rparr>)"
  by (auto simp: transfer_nft_def deposit_event_def storage_try_mutate_def
      split: sum.splits prod.splits if_splits option.splits)

lemma burn_nft_ok [call_ok]:
  "burn_nft T origin cid iid s = (Inr (), s') \<longleftrightarrow>
     (\<exists>sender nft col. ensure_signed T origin = Inr sender \<and> Nfts s (cid, iid) = Some nft \<and>
        owner nft = sender \<and> \<not> is_sold nft \<and> Collections s cid = Some col \<and>
        s' = s\<lparr>Collections := (Collections s)(cid \<mapsto> col\<lparr>collection_nfts :=
                  filter (\<lambda>id. id \<noteq> iid) (collection_nfts col)\<rparr>),
               Nfts := (Nfts s)((cid, iid) := None),
               events := events s @ [NFTBurned cid iid sender]\<rparr>)"
  by (auto simp: burn_nft_def deposit_event_def storage_defs storage_try_mutate_def Let_def
      split: sum.splits prod.splits if_splits option.splits)

lemma mint_nft_ok [call_ok]:
  "mint_nft T origin cid iid s = (Inr (), s') \<longleftrightarrow>
     (\<exists>buyer nft c. ensure_signed T origin = Inr buyer \<and> Nfts s (cid, iid) = Some nft \<and>
        \<not> is_sold nft \<and> owner nft \<noteq> buyer \<and>
        Currency_transfer T buyer (owner nft) (price nft) KeepAlive (currency s)
          = (Inr (), c) \<and>
        s' = s\<lparr>Nfts := (Nfts s)((cid, iid) \<mapsto> nft\<lparr>owner := buyer, is_sold := True\<rparr>),
               currency := c,
               events := events s @ [NFTTransferred cid iid (owner nft) buyer]\<rparr>)"
  by (auto simp: mint_nft_def deposit_event_def storage_defs storage_try_mutate_def Let_def
      split: sum.splits prod.splits if_splits option.splits)

end
