(* ===== verification/Nft_Invariants.thy ===== *)
theory Nft_Invariants
  imports Nft_Calls
begin

text \<open>
  The consistency of the pallet's storage.  Identifiers are handed out by two counters that
  saturate at \<open>u32::MAX\<close>; below the saturation point they are never handed out twice, and the
  item list of a collection and the NFT map agree.  Each part of the invariant is a predicate
  of its own with one preservation lemma over all calls; the storage layer lifts them to
  dispatched calls and to runs of any length.
\<close>

section \<open>The invariant\<close>

definition artists_wf :: "('acc, 'cur) state \<Rightarrow> bool" where
  "artists_wf s \<longleftrightarrow> (\<forall>a. Artists s a \<noteq> Some False)"

definition collections_wf :: "('acc, 'cur) state \<Rightarrow> bool" where
  "collections_wf s \<longleftrightarrow>
     (\<forall>cid col. Collections s cid = Some col \<longrightarrow>
        Artists s (creator col) = Some True \<and>
        length (collection_metadata col) \<le> 256 \<and> length (collection_nfts col) \<le> 256)"

definition nfts_wf :: "('acc, 'cur) state \<Rightarrow> bool" where
  "nfts_wf s \<longleftrightarrow> (\<forall>k nft. Nfts s k = Some nft \<longrightarrow> length (nft_metadata nft) \<le> 256)"

definition collection_known :: "('acc, 'cur) state \<Rightarrow> CollectionId \<Rightarrow> bool" where
  "collection_known s cid \<longleftrightarrow> Collections s cid \<noteq> None \<or> NextItemId s cid \<noteq> None \<or>
     (\<exists>iid. Nfts s (cid, iid) \<noteq> None)"

definition collection_ids_below :: "('acc, 'cur) state \<Rightarrow> bool" where
  "collection_ids_below s \<longleftrightarrow>
     (\<forall>cid. collection_known s cid \<longrightarrow>
        cid < next_collection_id s \<or> next_collection_id s = u32_MAX)"

definition item_ids_below :: "('acc, 'cur) state \<Rightarrow> bool" where
  "item_ids_below s \<longleftrightarrow>
     (\<forall>cid iid. Nfts s (cid, iid) \<noteq> None \<longrightarrow>
        iid < next_item_id s cid \<or> next_item_id s cid = u32_MAX)"

definition listed_exist :: "('acc, 'cur) state \<Rightarrow> bool" where
  "listed_exist s \<longleftrightarrow>
     (\<forall>cid col. Collections s cid = Some col \<longrightarrow>
        (\<forall>iid \<in> set (collection_nfts col). Nfts s (cid, iid) \<noteq> None))"

definition existing_listed :: "('acc, 'cur) state \<Rightarrow> bool" where
  "existing_listed s \<longleftrightarrow>
     (\<forall>cid col iid. cid \<noteq> u32_MAX \<longrightarrow> Collections s cid = Some col \<longrightarrow>
        Nfts s (cid, iid) \<noteq> None \<longrightarrow> iid \<in> set (collection_nfts col))"

definition listed_once :: "('acc, 'cur) state \<Rightarrow> bool" where
  "listed_once s \<longleftrightarrow>
     (\<forall>cid col. Collections s cid = Some col \<longrightarrow>
        distinct (filter (\<lambda>iid. iid \<noteq> u32_MAX) (collection_nfts col)))"

definition storage_consistent :: "('acc, 'cur) state \<Rightarrow> bool" where
  "storage_consistent s \<longleftrightarrow>
     artists_wf s \<and> collections_wf s \<and> nfts_wf s \<and> collection_ids_below s \<and>
     item_ids_below s \<and> listed_exist s \<and> existing_listed s \<and> listed_once s"

section \<open>Every successful call keeps it\<close>

lemma artists_wf_call:
  "call_body T origin call s = (Inr (), s') \<Longrightarrow> artists_wf s \<Longrightarrow> artists_wf s'"
  by (cases call) (auto simp: call_ok artists_wf_def split: if_splits)

lemma collections_wf_call:
  "call_body T origin call s = (Inr (), s') \<Longrightarrow> collections_wf s \<Longrightarrow> collections_wf s'"
  by (cases call)
    (auto simp: call_ok collections_wf_def le_trans [OF length_filter_le] split: if_splits)

lemma nfts_wf_call:
  "call_body T origin call s = (Inr (), s') \<Longrightarrow> nfts_wf s \<Longrightarrow> nfts_wf s'"
  by (cases call) (auto simp: call_ok nfts_wf_def split: if_splits)

lemma nft_exists_call:
  assumes "call_body T origin call s = (Inr (), s')" and "Nfts s' (cid, iid) \<noteq> None"
  shows "Nfts s (cid, iid) \<noteq> None \<or>
    iid = next_item_id s cid \<and> next_item_id s' cid = saturating_add (next_item_id s cid) 1"
  using assms by (cases call) (auto simp: call_ok storage_get_or_def split: if_splits)

lemma next_item_id_call:
  assumes "call_body T origin call s = (Inr (), s')"
  shows "next_item_id s' cid = next_item_id s cid \<or>
    next_item_id s' cid = saturating_add (next_item_id s cid) 1"
  using assms by (cases call) (auto simp: call_ok storage_get_or_def)

lemma item_ids_below_call:
  assumes ok: "call_body T origin call s = (Inr (), s')" and inv: "item_ids_below s"
  shows "item_ids_below s'"
  unfolding item_ids_below_def
proof (intro allI impI)
  fix cid iid assume "Nfts s' (cid, iid) \<noteq> None"
  from nft_exists_call [OF ok this]
  have "iid < next_item_id s cid \<or> next_item_id s cid = u32_MAX \<or>
    iid = next_item_id s cid \<and> next_item_id s' cid = saturating_add (next_item_id s cid) 1"
    using inv by (fastforce simp: item_ids_below_def)
  then show "iid < next_item_id s' cid \<or> next_item_id s' cid = u32_MAX"
    using next_item_id_call [OF ok, of cid]
    by (auto simp: saturating_add_one u32_less_Suc less_imp_le)
qed

lemma collection_known_call:
  assumes "call_body T origin call s = (Inr (), s')" and "collection_known s' cid"
  shows "collection_known s cid \<or>
    cid = next_collection_id s \<and> next_collection_id s' = saturating_add (next_collection_id s) 1"
  using assms by (cases call) (auto simp: call_ok collection_known_def split: if_splits)

lemma next_collection_id_call:
  assumes "call_body T origin call s = (Inr (), s')"
  shows "next_collection_id s' = next_collection_id s \<or>
    next_collection_id s' = saturating_add (next_collection_id s) 1"
  using assms by (cases call) (auto simp: call_ok)

lemma collection_ids_below_call:
  assumes ok: "call_body T origin call s = (Inr (), s')" and inv: "collection_ids_below s"
  shows "collection_ids_below s'"
  unfolding collection_ids_below_def
proof (intro allI impI)
  fix cid assume "collection_known s' cid"
  from collection_known_call [OF ok this]
  show "cid < next_collection_id s' \<or> next_collection_id s' = u32_MAX"
    using inv next_collection_id_call [OF ok]
    by (auto simp: collection_ids_below_def saturating_add_one u32_less_Suc less_imp_le
        simp del: not_None_eq split: if_splits)
qed

lemma listed_exist_call:
  "call_body T origin call s = (Inr (), s') \<Longrightarrow> listed_exist s \<Longrightarrow> listed_exist s'"
  by (cases call) (auto simp: call_ok listed_exist_def split: if_splits)

lemma fresh_item:
  "item_ids_below s \<Longrightarrow> next_item_id s cid \<noteq> u32_MAX \<Longrightarrow> Nfts s (cid, next_item_id s cid) = None"
  by (meson item_ids_below_def less_irrefl)

lemma fresh_collection:
  "collection_ids_below s \<Longrightarrow> next_collection_id s \<noteq> u32_MAX \<Longrightarrow>
     \<not> collection_known s (next_collection_id s)"
  by (auto simp: collection_ids_below_def)

lemma existing_listed_call:
  assumes "call_body T origin call s = (Inr (), s')"
    and "collection_ids_below s" and "existing_listed s"
  shows "existing_listed s'"
  using assms fresh_collection [of s]
  by (cases call)
    (auto simp: call_ok existing_listed_def collection_known_def split: if_splits)

lemma listed_once_create:
  assumes ok: "create_nft T origin cid metadata p s = (Inr (), s')"
    and below: "item_ids_below s" and exist: "listed_exist s" and once: "listed_once s"
  shows "listed_once s'"
proof -
  from ok obtain col sender where col: "Collections s cid = Some col"
    and s': "Collections s' = (Collections s)(cid \<mapsto> col\<lparr>collection_nfts :=
      collection_nfts col @ [next_item_id s cid]\<rparr>)"
    by (auto simp: call_ok)
  have "next_item_id s cid \<noteq> u32_MAX \<longrightarrow> next_item_id s cid \<notin> set (collection_nfts col)"
    using fresh_item [OF below] exist col by (fastforce simp: listed_exist_def)
  then show ?thesis
    using once col by (auto simp: listed_once_def s')
qed

lemma listed_once_call:
  assumes "call_body T origin call s = (Inr (), s')"
    and "item_ids_below s" and "listed_exist s" and "listed_once s"
  shows "listed_once s'"
proof (cases call)
  case (CreateNft cid m p)
  with assms show ?thesis by (auto intro: listed_once_create)
next
  case (BurnNft cid iid)
  with assms show ?thesis
    by (auto simp: call_ok listed_once_def distinct_filter_filter simp del: filter_filter
        split: if_splits)
qed (use assms in \<open>auto simp: call_ok listed_once_def split: if_splits\<close>)

lemma storage_consistent_call:
  "call_body T origin call s = (Inr (), s') \<Longrightarrow> storage_consistent s \<Longrightarrow> storage_consistent s'"
  unfolding storage_consistent_def
  by (blast intro: artists_wf_call collections_wf_call nfts_wf_call collection_ids_below_call
      item_ids_below_call listed_exist_call existing_listed_call listed_once_call)

lemma storage_consistent_genesis: "storage_consistent (genesis c)"
  by (simp add: storage_consistent_def artists_wf_def collections_wf_def nfts_wf_def
      collection_ids_below_def collection_known_def item_ids_below_def listed_exist_def
      existing_listed_def listed_once_def genesis_def)

section \<open>The chain of dispatched calls\<close>

text \<open>
  One step of the chain is one dispatched call; a run is the fold of its steps.  With a
  storage layer that rolls failed calls back, the chain is a machine that keeps the invariant.
\<close>

definition chain_step ::
  "('acc, 'cur, 'x) layer \<Rightarrow> ('acc, 'origin, 'cur, 'x) Config \<Rightarrow> 'origin \<times> 'acc Call \<Rightarrow>
   ('acc, 'cur) state \<Rightarrow> ('acc, 'cur) state" where
  "chain_step layer T l s = snd (dispatch layer T (fst l) (snd l) s)"

lemma run_fold: "run layer T calls s = fold (chain_step layer T) calls s"
  by (induction layer T calls s rule: run.induct) (simp_all add: chain_step_def)

lemma run_append: "run layer T (xs @ ys) s = run layer T ys (run layer T xs s)"
  by (simp add: run_fold)

locale pallet_chain = storage_layer layer
  for layer :: "('acc, 'cur, 'x) layer" +
  fixes T :: "('acc, 'origin, 'cur, 'x) Config"
begin

lemma chain_step_cases:
  "chain_step layer T l s = s \<or> call_body T (fst l) (snd l) s = (Inr (), chain_step layer T l s)"
proof (cases "call_body T (fst l) (snd l) s")
  case (Pair res s')
  then show ?thesis
    by (cases res) (auto simp: chain_step_def dispatch_def commit rollback)
qed

lemma chain_step_keeps:
  assumes "\<And>s'. call_body T (fst l) (snd l) s = (Inr (), s') \<Longrightarrow> P s'" and "P s"
  shows "P (chain_step layer T l s)"
  using chain_step_cases [of l s] assms by metis

end

sublocale pallet_chain \<subseteq> consistent: invariant_machine "chain_step layer T" storage_consistent
  by unfold_locales (blast intro: chain_step_keeps storage_consistent_call)

interpretation reference_chain: pallet_chain with_storage_layer T for T
  by unfold_locales

end
