(* ===== verification/Nft_Lifecycle.thy ===== *)
theory Nft_Lifecycle
  imports Nft_Invariants
begin

text \<open>
  What happens to one token and to one collection over time.  The abstract life of a token is
  a small machine (absent, listed, sold); every dispatched call moves every token by at most
  one step of it, and the step is one its signer may take.  Two evolution relations describe
  whole runs: identifiers are never reused, sold tokens never disappear, deleted collections
  never return.
\<close>

section \<open>Abstract life of a token\<close>

datatype 'acc token = Absent | Listed 'acc Balance | Sold 'acc

definition token_of :: "('acc, 'cur) state \<Rightarrow> CollectionId \<times> ItemId \<Rightarrow> 'acc token" where
  "token_of s k =
     (case Nfts s k of
        None \<Rightarrow> Absent
      | Some nft \<Rightarrow> if is_sold nft then Sold (owner nft) else Listed (owner nft) (price nft))"

text \<open>The steps a signer may take on a token.\<close>

inductive token_step :: "'acc \<Rightarrow> 'acc token \<Rightarrow> 'acc token \<Rightarrow> bool" for who where
  create: "token_step who Absent (Listed who p)"
| burn: "token_step who (Listed who p) Absent"
| buy: "seller \<noteq> who \<Longrightarrow> token_step who (Listed seller p) (Sold who)"
| give: "token_step who (Listed who p) (Sold to)"
| pass: "token_step who (Sold who) (Sold to)"

declare token_step.intros [intro]

inductive_cases token_step_AbsentE: "token_step who Absent t"
inductive_cases token_step_ListedE: "token_step who (Listed a p) t"
inductive_cases token_step_SoldE: "token_step who (Sold a) t"
inductive_simps token_step_Sold_iff: "token_step who (Sold a) t"

section \<open>Evolution of tokens and of collections\<close>

definition token_evolves :: "('acc, 'cur) state \<Rightarrow> ('acc, 'cur) state \<Rightarrow> bool" where
  "token_evolves s s' \<longleftrightarrow>
     (\<forall>cid iid. iid \<noteq> u32_MAX \<longrightarrow>
        next_item_id s cid \<le> next_item_id s' cid \<and>
        (Nfts s (cid, iid) = None \<and> iid < next_item_id s cid \<longrightarrow> Nfts s' (cid, iid) = None) \<and>
        (\<forall>nft. Nfts s (cid, iid) = Some nft \<longrightarrow>
           (case Nfts s' (cid, iid) of
              None \<Rightarrow> \<not> is_sold nft
            | Some nft' \<Rightarrow> nft_metadata nft' = nft_metadata nft \<and> price nft' = price nft \<and>
                (is_sold nft \<longrightarrow> is_sold nft') \<and> (\<not> is_sold nft' \<longrightarrow> owner nft' = owner nft))))"

definition collection_fate ::
  "('acc, 'cur) state \<Rightarrow> ('acc, 'cur) state \<Rightarrow> CollectionId \<Rightarrow> bool" where
  "collection_fate s s' cid \<longleftrightarrow>
     (case Collections s cid of
        None \<Rightarrow> Collections s' cid = None \<and>
          (\<forall>iid. Nfts s (cid, iid) \<noteq> None \<longrightarrow> Nfts s' (cid, iid) \<noteq> None)
      | Some col \<Rightarrow>
          (case Collections s' cid of
             None \<Rightarrow> True
           | Some col' \<Rightarrow> creator col' = creator col \<and>
               collection_metadata col' = collection_metadata col))"

definition collection_evolves :: "('acc, 'cur) state \<Rightarrow> ('acc, 'cur) state \<Rightarrow> bool" where
  "collection_evolves s s' \<longleftrightarrow>
     next_collection_id s \<le> next_collection_id s' \<and>
     (\<forall>cid < next_collection_id s. collection_fate s s' cid)"

definition artists_evolve :: "('acc, 'cur) state \<Rightarrow> ('acc, 'cur) state \<Rightarrow> bool" where
  "artists_evolve s s' \<longleftrightarrow> (\<forall>a. Artists s a = Some True \<longrightarrow> Artists s' a = Some True)"

section \<open>Single calls\<close>

lemma item_below:
  "item_ids_below s \<Longrightarrow> iid \<noteq> u32_MAX \<Longrightarrow> Nfts s (cid, iid) = Some nft \<Longrightarrow>
     iid < next_item_id s cid"
  using u32_le_max [of iid] by (fastforce simp: item_ids_below_def)

lemma next_item_id_mono:
  assumes "call_body T origin call s = (Inr (), s')"
  shows "next_item_id s cid \<le> next_item_id s' cid"
  using next_item_id_call [OF assms, of cid] saturating_add_one_ge by auto

lemma next_collection_id_mono:
  assumes "call_body T origin call s = (Inr (), s')"
  shows "next_collection_id s \<le> next_collection_id s'"
  using next_collection_id_call [OF assms] saturating_add_one_ge by auto

text \<open>What one successful call does to one token whose identifier is not saturated.\<close>

lemma token_step_call:
  assumes "call_body T origin call s = (Inr (), s')" and "item_ids_below s"
    and "ensure_signed T origin = Inr who" and "iid \<noteq> u32_MAX"
  shows "token_of s' (cid, iid) = token_of s (cid, iid) \<or>
    token_step who (token_of s (cid, iid)) (token_of s' (cid, iid))"
  using assms fresh_item [of s cid]
  by (cases call) (auto simp: call_ok token_of_def split: if_splits)

lemma nft_change_call:
  assumes ok: "call_body T origin call s = (Inr (), s')" and below: "item_ids_below s"
    and iid: "iid \<noteq> u32_MAX" and nft: "Nfts s (cid, iid) = Some nft"
  shows "case Nfts s' (cid, iid) of
      None \<Rightarrow> \<not> is_sold nft
    | Some nft' \<Rightarrow> nft_metadata nft' = nft_metadata nft \<and> price nft' = price nft \<and>
        (is_sold nft \<longrightarrow> is_sold nft') \<and> (\<not> is_sold nft' \<longrightarrow> owner nft' = owner nft)"
  using ok iid nft fresh_item [OF below, of cid]
  by (cases call) (auto simp: call_ok split: if_splits option.splits)

lemma nft_absent_call:
  assumes ok: "call_body T origin call s = (Inr (), s')"
    and absent: "Nfts s (cid, iid) = None" and used: "iid < next_item_id s cid"
  shows "Nfts s' (cid, iid) = None"
  using nft_exists_call [OF ok, of cid iid] absent used by (cases "Nfts s' (cid, iid)") auto

lemma token_evolves_call:
  assumes "call_body T origin call s = (Inr (), s')" and "item_ids_below s"
  shows "token_evolves s s'"
  unfolding token_evolves_def
  using nft_change_call [OF assms] nft_absent_call [OF assms(1)] next_item_id_mono [OF assms(1)]
  by blast

lemma token_evolves_sold:
  assumes "token_evolves s s'" and "iid \<noteq> u32_MAX"
    and "Nfts s (cid, iid) = Some nft" and "is_sold nft"
  obtains nft' where "Nfts s' (cid, iid) = Some nft'" and "is_sold nft'"
    and "nft_metadata nft' = nft_metadata nft" and "price nft' = price nft"
proof -
  from assms(1-3) have "case Nfts s' (cid, iid) of
      None \<Rightarrow> \<not> is_sold nft
    | Some nft' \<Rightarrow> nft_metadata nft' = nft_metadata nft \<and> price nft' = price nft \<and>
        (is_sold nft \<longrightarrow> is_sold nft') \<and> (\<not> is_sold nft' \<longrightarrow> owner nft' = owner nft)"
    unfolding token_evolves_def by blast
  with assms(4) that show ?thesis by (cases "Nfts s' (cid, iid)") auto
qed

lemma collection_evolves_call:
  assumes ok: "call_body T origin call s = (Inr (), s')"
  shows "collection_evolves s s'"
  using next_collection_id_mono [OF ok] ok
  by (cases call)
    (auto simp: collection_evolves_def collection_fate_def call_ok split: option.splits if_splits)

lemma artists_evolve_call:
  "call_body T origin call s = (Inr (), s') \<Longrightarrow> artists_evolve s s'"
  by (cases call) (auto simp: call_ok artists_evolve_def)

section \<open>Runs\<close>

lemma token_evolves_trans:
  assumes below: "item_ids_below s" and st: "token_evolves s t" and tu: "token_evolves t u"
  shows "token_evolves s u"
  unfolding token_evolves_def
proof (intro allI impI conjI)
  fix cid iid :: u32 assume iid: "iid \<noteq> u32_MAX"
  note st' = st [unfolded token_evolves_def, rule_format, OF iid, of cid]
  note tu' = tu [unfolded token_evolves_def, rule_format, OF iid, of cid]
  show "next_item_id s cid \<le> next_item_id u cid" using st' tu' by auto
  show "Nfts u (cid, iid) = None" if "Nfts s (cid, iid) = None \<and> iid < next_item_id s cid"
    using that st' tu' by auto
  show "case Nfts u (cid, iid) of
      None \<Rightarrow> \<not> is_sold nft
    | Some nft' \<Rightarrow> nft_metadata nft' = nft_metadata nft \<and> price nft' = price nft \<and>
        (is_sold nft \<longrightarrow> is_sold nft') \<and> (\<not> is_sold nft' \<longrightarrow> owner nft' = owner nft)"
    if nft: "Nfts s (cid, iid) = Some nft" for nft
  proof (cases "Nfts t (cid, iid)")
    case None
    with item_below [OF below iid nft] st' tu' nft show ?thesis by auto
  next
    case (Some nft1)
    with st' tu' nft show ?thesis by (auto split: option.splits)
  qed
qed

lemma collection_fate_trans:
  "collection_fate s t cid \<Longrightarrow> collection_fate t u cid \<Longrightarrow> collection_fate s u cid"
  by (cases "Collections s cid"; cases "Collections t cid"; cases "Collections u cid")
    (simp_all add: collection_fate_def)

lemma collection_evolves_trans:
  assumes st: "collection_evolves s t" and tu: "collection_evolves t u"
  shows "collection_evolves s u"
proof -
  have le: "next_collection_id s \<le> next_collection_id t"
    and "next_collection_id t \<le> next_collection_id u"
    using st tu by (simp_all add: collection_evolves_def)
  moreover have "collection_fate s u cid" if "cid < next_collection_id s" for cid
    using collection_fate_trans [of s t cid u] less_le_trans [OF that le] that st tu
    unfolding collection_evolves_def by blast
  ultimately show ?thesis
    unfolding collection_evolves_def by (meson order_trans)
qed

lemma evolves_refls:
  "token_evolves s s" "collection_evolves s s" "artists_evolve s s"
  by (auto simp: token_evolves_def collection_evolves_def collection_fate_def artists_evolve_def
      split: option.splits)

lemma artists_evolve_trans: "artists_evolve s t \<Longrightarrow> artists_evolve t u \<Longrightarrow> artists_evolve s u"
  by (simp add: artists_evolve_def)

lemma consistent_below: "storage_consistent s \<Longrightarrow> item_ids_below s"
  by (simp add: storage_consistent_def)

sublocale pallet_chain \<subseteq>
  tokens: evolving_machine "chain_step layer T" storage_consistent token_evolves
  by unfold_locales
    (auto intro: evolves_refls token_evolves_trans consistent_below token_evolves_call
      chain_step_keeps)

sublocale pallet_chain \<subseteq>
  colls: evolving_machine "chain_step layer T" storage_consistent collection_evolves
  by unfold_locales
    (auto intro: evolves_refls collection_evolves_trans collection_evolves_call chain_step_keeps)

sublocale pallet_chain \<subseteq>
  artists: evolving_machine "chain_step layer T" storage_consistent artists_evolve
  by unfold_locales
    (auto intro: evolves_refls artists_evolve_trans artists_evolve_call chain_step_keeps)

end
