(* ===== verification/Nft_Samples.thy ===== *)
theory Nft_Samples
  imports Nft_Lifecycle
begin

text \<open>
  A concrete configuration and concrete states of the NFT pallet, on which the theorems of
  the development are exercised: accounts are numbers, an origin is a signer or nothing, the
  currency is the reference ledger with the existential deposit of the runtime, and the
  account of the pallet is 0.
\<close>

definition sample_config :: "(nat, nat option, nat \<Rightarrow> nat, ServiceError) Config" where
  "sample_config =
     \<lparr>ensure_signed = (\<lambda>origin. case origin of None \<Rightarrow> Inl BadOrigin | Some a \<Rightarrow> Inr a),
      Currency_minimum_balance = 1000000000,
      Currency_transfer = ledger_transfer 1000000000,
      PalletId_account = 0\<rparr>"

definition sample_balances :: "nat \<Rightarrow> nat" where
  "sample_balances a = (if a = 1 \<or> a = 2 then 1000000000000 else 0)"

definition sample_nft :: "(nat, Balance) NFT" where
  "sample_nft = \<lparr>owner = 1, nft_metadata = [7], is_sold = False, price = 5000000000\<rparr>"

definition sample_collection :: "nat Collection" where
  "sample_collection = \<lparr>creator = 1, collection_metadata = [], collection_nfts = [0]\<rparr>"

text \<open>Artist 1 has one collection with one unsold NFT.\<close>

definition sample_market :: "(nat, nat \<Rightarrow> nat) state" where
  "sample_market =
     \<lparr>Artists = [1 \<mapsto> True], Collections = [0 \<mapsto> sample_collection],
      Nfts = [(0, 0) \<mapsto> sample_nft], NextItemId = [0 \<mapsto> 1], NextCollectionId = Some 1,
      currency = sample_balances, events = []\<rparr>"

text \<open>The same market after account 2 bought the NFT.\<close>

definition sample_sold :: "(nat, nat \<Rightarrow> nat) state" where
  "sample_sold = snd (mint_nft sample_config (Some 2) 0 0 sample_market)"

text \<open>The same market after its owner burned the NFT.\<close>

definition sample_burned :: "(nat, nat \<Rightarrow> nat) state" where
  "sample_burned = snd (burn_nft sample_config (Some 1) 0 0 sample_market)"

text \<open>The same market after its collection was deleted.\<close>

definition sample_orphaned :: "(nat, nat \<Rightarrow> nat) state" where
  "sample_orphaned = snd (delete_collection sample_config (Some 1) 0 sample_market)"

text \<open>Calls that lead from genesis to a collection with one NFT.\<close>

definition sample_calls :: "(nat option \<times> nat Call) list" where
  "sample_calls = [(Some 1, RegisterArtist), (Some 1, CreateCollection []),
     (Some 2, CreateNft 0 [7] 5)]"

section \<open>Facts about the samples\<close>

lemmas sample_defs = sample_config_def sample_balances_def sample_nft_def sample_collection_def
  sample_market_def

lemma sample_signed [simp]: "ensure_signed sample_config (Some a) = Inr a"
  by (simp add: sample_config_def)

lemma sample_currency:
  "currency_api (Currency_transfer sample_config) (Currency_minimum_balance sample_config)
     (\<lambda>c x. c x)"
  using ledger_currency [of "1000000000"] by (simp add: sample_config_def)

lemma sample_market_consistent: "storage_consistent sample_market"
  by (simp add: storage_consistent_def artists_wf_def collections_wf_def nfts_wf_def
      collection_ids_below_def collection_known_def item_ids_below_def listed_exist_def
      existing_listed_def listed_once_def sample_defs storage_get_or_def)

lemma sample_mint_ok:
  "mint_nft sample_config (Some 2) 0 0 sample_market = (Inr (), sample_sold)"
  by (simp add: sample_sold_def mint_nft_def sample_defs storage_defs storage_try_mutate_def
      ledger_transfer_def)

lemma sample_burn_ok:
  "burn_nft sample_config (Some 1) 0 0 sample_market = (Inr (), sample_burned)"
  by (simp add: sample_burned_def burn_nft_def sample_defs storage_defs storage_try_mutate_def)

lemma sample_delete_ok:
  "delete_collection sample_config (Some 1) 0 sample_market = (Inr (), sample_orphaned)"
  by (simp add: sample_orphaned_def delete_collection_def sample_defs storage_defs)

lemma sample_sold_eq:
  "sample_sold = sample_market\<lparr>
     Nfts := [(0, 0) \<mapsto> sample_nft\<lparr>owner := 2, is_sold := True\<rparr>],
     currency := sample_balances(2 := 995000000000, 1 := 1005000000000),
     events := [NFTTransferred 0 0 1 2]\<rparr>"
  by (simp add: sample_sold_def mint_nft_def sample_defs storage_defs storage_try_mutate_def
      ledger_transfer_def deposit_event_def Let_def)

lemma sample_burned_eq:
  "sample_burned = sample_market\<lparr>
     Collections := [0 \<mapsto> sample_collection\<lparr>collection_nfts := []\<rparr>], Nfts := Map.empty,
     events := [NFTBurned 0 0 1]\<rparr>"
  by (simp add: sample_burned_def burn_nft_def sample_defs storage_defs storage_try_mutate_def
      deposit_event_def Let_def)

lemma sample_orphaned_eq:
  "sample_orphaned = sample_market\<lparr>Collections := Map.empty, events := [CollectionDeleted 0]\<rparr>"
  by (simp add: sample_orphaned_def delete_collection_def sample_defs storage_defs
      deposit_event_def Let_def)

lemma sample_sold_nft:
  "Nfts sample_sold (0, 0) = Some (sample_nft\<lparr>owner := 2, is_sold := True\<rparr>)"
  by (simp add: sample_sold_eq)

lemma sample_dispatch:
  "dispatch with_storage_layer T origin call s =
     (case call_body T origin call s of (Inr r, s') \<Rightarrow> (Inr r, s') | (Inl e, _) \<Rightarrow> (Inl e, s))"
  by (simp add: dispatch_def with_storage_layer_def)

lemma sample_sold_consistent: "storage_consistent sample_sold"
  using storage_consistent_call [of sample_config "Some 2" "MintNft 0 0", OF _ sample_market_consistent]
    sample_mint_ok by simp

lemma sample_burned_consistent: "storage_consistent sample_burned"
  using storage_consistent_call [of sample_config "Some 1" "BurnNft 0 0", OF _ sample_market_consistent]
    sample_burn_ok by simp

lemma sample_orphaned_consistent: "storage_consistent sample_orphaned"
  using storage_consistent_call [of sample_config "Some 1" "DeleteCollection 0",
      OF _ sample_market_consistent] sample_delete_ok by simp

lemma sample_run_collection:
  "Collections (run with_storage_layer sample_config sample_calls (genesis sample_balances)) 0 =
     Some \<lparr>creator = 1, collection_metadata = [], collection_nfts = [0]\<rparr>"
  by (simp add: sample_calls_def dispatch_def with_storage_layer_def call_defs deposit_event_def
      storage_defs storage_try_mutate_def bounded_try_from_def bounded_try_push_def
      sample_config_def sample_balances_def ledger_transfer_def registration_fee_def genesis_def
      saturating_add_one Let_def)

end
