(* ===== verification/Nft_Events.thy ===== *)
theory Nft_Events
  imports Nft_Samples
begin

text \<open>
  The events as a specification of the storage.  An indexer that knows nothing but the event
  log keeps three tables: the registered artists, the creator of each collection and the owner
  of each token.  Every successful call deposits exactly one event, and applying it to the
  tables gives the tables of the new storage; so after any run from genesis the log replays to
  exactly what the storage holds.
\<close>

record 'acc index =
  idx_artists :: "'acc set"
  idx_creators :: "CollectionId \<rightharpoonup> 'acc"
  idx_owners :: "CollectionId \<times> ItemId \<rightharpoonup> 'acc"

definition index_of :: "('acc, 'cur) state \<Rightarrow> 'acc index" where
  "index_of s =
     \<lparr>idx_artists = {a. Artists s a = Some True},
      idx_creators = (\<lambda>cid. map_option creator (Collections s cid)),
      idx_owners = (\<lambda>k. map_option owner (Nfts s k))\<rparr>"

fun apply_event :: "'acc index \<Rightarrow> 'acc Event \<Rightarrow> 'acc index" where
  "apply_event ix (ArtistRegistered a) = ix\<lparr>idx_artists := insert a (idx_artists ix)\<rparr>"
| "apply_event ix (CollectionCreated c a) = ix\<lparr>idx_creators := (idx_creators ix)(c \<mapsto> a)\<rparr>"
| "apply_event ix (CollectionDeleted c) = ix\<lparr>idx_creators := (idx_creators ix)(c := None)\<rparr>"
| "apply_event ix (NFTMinted c i a) = ix\<lparr>idx_owners := (idx_owners ix)((c, i) \<mapsto> a)\<rparr>"
| "apply_event ix (NFTTransferred c i a b) = ix\<lparr>idx_owners := (idx_owners ix)((c, i) \<mapsto> b)\<rparr>"
| "apply_event ix (NFTBurned c i a) = ix\<lparr>idx_owners := (idx_owners ix)((c, i) := None)\<rparr>"
| "apply_event ix _ = ix"

definition replay :: "'acc Event list \<Rightarrow> 'acc index" where
  "replay es = foldl apply_event
     \<lparr>idx_artists = {}, idx_creators = Map.empty, idx_owners = Map.empty\<rparr> es"

definition log_faithful :: "('acc, 'cur) state \<Rightarrow> bool" where
  "log_faithful s \<longleftrightarrow> index_of s = replay (events s)"

lemma call_deposits_event:
  assumes "call_body T origin call s = (Inr (), s')"
  shows "\<exists>e. events s' = events s @ [e] \<and> index_of s' = apply_event (index_of s) e"
  using assms
  by (cases call) (auto simp: call_ok index_of_def fun_eq_iff)

lemma log_faithful_call:
  "call_body T origin call s = (Inr (), s') \<Longrightarrow> log_faithful s \<Longrightarrow> log_faithful s'"
  using call_deposits_event [of T origin call s s'] by (auto simp: log_faithful_def replay_def)

lemma log_faithful_genesis: "log_faithful (genesis c)"
  by (simp add: log_faithful_def replay_def index_of_def genesis_def)

sublocale pallet_chain \<subseteq> log: invariant_machine "chain_step layer T" log_faithful
  by unfold_locales (blast intro: chain_step_keeps log_faithful_call)

section \<open>What holds of every run\<close>

context pallet_chain begin

lemma run_consistent: "storage_consistent s \<Longrightarrow> storage_consistent (run layer T calls s)"
  unfolding run_fold by (rule consistent.inv_run)

lemma run_tokens: "storage_consistent s \<Longrightarrow> token_evolves s (run layer T calls s)"
  unfolding run_fold by (rule tokens.evolves_run)

lemma run_collections: "storage_consistent s \<Longrightarrow> collection_evolves s (run layer T calls s)"
  unfolding run_fold by (rule colls.evolves_run)

lemma run_artists: "storage_consistent s \<Longrightarrow> artists_evolve s (run layer T calls s)"
  unfolding run_fold by (rule artists.evolves_run)

lemma run_log: "log_faithful s \<Longrightarrow> log_faithful (run layer T calls s)"
  unfolding run_fold by (rule log.inv_run)

lemma dispatch_ok: "dispatch layer T origin call s = (Inr (), s') \<longleftrightarrow>
    call_body T origin call s = (Inr (), s')"
  by (simp add: dispatch_def layer_ok)

lemma dispatch_error:
  "call_body T origin call s = (Inl e, s') \<Longrightarrow> dispatch layer T origin call s = (Inl e, s)"
  by (simp add: dispatch_def rollback)

lemma dispatch_effect:
  "snd (dispatch layer T origin call s) = s \<or>
    call_body T origin call s = (Inr (), snd (dispatch layer T origin call s))"
  using chain_step_cases [of "(origin, call)" s] by (simp add: chain_step_def)

end

end
