(* ===== verification/Nft_Properties.thy ===== *)
theory Nft_Properties
  imports Nft_Events
begin

text \<open>
  The properties of the NFT pallet: storage consistency, the life of tokens and collections,
  ownership and payment, the event log, error behaviour, and the edge cases of the
  identifier counters.  Each follows in a few steps from the lemmas of the component theories;
  the witness after it applies it to the sample market.
\<close>

lemma chain_of_layer: "storage_layer layer \<Longrightarrow> pallet_chain layer"
  by (rule pallet_chain.intro)

lemmas chain_consistent = pallet_chain.run_consistent [OF chain_of_layer]
lemmas chain_tokens = pallet_chain.run_tokens [OF chain_of_layer]
lemmas chain_collections = pallet_chain.run_collections [OF chain_of_layer]
lemmas chain_artists = pallet_chain.run_artists [OF chain_of_layer]
lemmas chain_log = pallet_chain.run_log [OF chain_of_layer]
lemmas chain_dispatch_ok = pallet_chain.dispatch_ok [OF chain_of_layer]
lemmas chain_dispatch_error = pallet_chain.dispatch_error [OF chain_of_layer]
lemmas chain_dispatch_effect = pallet_chain.dispatch_effect [OF chain_of_layer]

lemmas reference_layer = rollback_layer.storage_layer_axioms

section \<open>Consistency of the storage\<close>

text \<open>
  C1.  After any sequence of calls from genesis, signed or not, failing or not, the storage is
  consistent: identifiers lie below their counters, item lists hold only existing NFTs, hold
  every NFT of their collection, hold no NFT twice, and the size bounds hold.
\<close>

theorem reachable_storage_consistent:
  assumes "storage_layer layer"
  shows "storage_consistent (run layer T calls (genesis c))"
  by (rule chain_consistent [OF assms storage_consistent_genesis])

theorem reachable_storage_consistent_witness:
  "storage_consistent (run with_storage_layer sample_config
     [(Some 1, RegisterArtist), (Some 1, CreateCollection [1]), (None, RegisterArtist)]
     (genesis sample_balances))"
  by (rule reachable_storage_consistent [OF reference_layer])

text \<open>
  In a reachable state, the item list of a collection (other than the last identifier) is
  exactly the set of its NFTs, and there are at most 256 of them.
\<close>

theorem collection_lists_its_nfts:
  assumes "storage_layer layer" and s: "s = run layer T calls (genesis c)"
    and "cid \<noteq> u32_MAX" and "Collections s cid = Some col"
  shows "set (collection_nfts col) = {iid. Nfts s (cid, iid) \<noteq> None} \<and>
    card {iid. Nfts s (cid, iid) \<noteq> None} \<le> 256"
proof -
  have "storage_consistent s"
    unfolding s by (rule chain_consistent [OF assms(1) storage_consistent_genesis])
  then have "set (collection_nfts col) = {iid. Nfts s (cid, iid) \<noteq> None}"
    and "length (collection_nfts col) \<le> 256"
    using assms(3,4)
    by (auto simp: storage_consistent_def listed_exist_def existing_listed_def collections_wf_def)
  then show ?thesis using card_length [of "collection_nfts col"] by auto
qed

theorem collection_lists_its_nfts_witness:
  "set [0] = {iid. Nfts (run with_storage_layer sample_config sample_calls
     (genesis sample_balances)) (0, iid) \<noteq> None}"
  using collection_lists_its_nfts [OF reference_layer refl _ sample_run_collection] by simp

section \<open>The life of a token\<close>

text \<open>
  C2.  Refinement: a dispatched call moves every token (with an identifier below the
  saturation point) by at most one step of the abstract life of a token, and only by a step
  that the signer of the call may take.
\<close>

theorem dispatch_refines_token_step:
  assumes "storage_layer layer" and "storage_consistent s"
    and "ensure_signed T origin = Inr who" and "iid \<noteq> u32_MAX"
    and s': "s' = snd (dispatch layer T origin call s)"
  shows "token_of s' (cid, iid) = token_of s (cid, iid) \<or>
    token_step who (token_of s (cid, iid)) (token_of s' (cid, iid))"
  using chain_dispatch_effect [OF assms(1), of T origin call s]
    token_step_call [OF _ consistent_below [OF assms(2)] assms(3,4), of call s' cid] s'
  by auto

theorem dispatch_refines_token_step_witness:
  "token_step 2 (Listed 1 5000000000) (token_of sample_sold (0, 0))"
proof -
  have "snd (dispatch with_storage_layer sample_config (Some 2) (MintNft 0 0) sample_market)
      = sample_sold"
    by (simp add: sample_dispatch sample_mint_ok)
  moreover have "token_of sample_market (0, 0) = Listed 1 5000000000"
    and "token_of sample_sold (0, 0) = Sold 2"
    by (simp_all add: token_of_def sample_sold_eq sample_market_def sample_nft_def)
  ultimately show ?thesis
    using dispatch_refines_token_step [OF reference_layer sample_market_consistent
        sample_signed [of 2] _ refl, of 0 "MintNft 0 0" 0]
    by simp
qed

text \<open>
  C6.  A sold token stays: whatever calls follow, it exists, is still sold, and has the
  metadata and the price it had.  The token with the last identifier \<open>u32_MAX\<close> is excepted: the
  saturated counter of its collection lets \<open>create_nft\<close> replace it
  (\<open>saturated_item_counter_overwrites\<close> below).
\<close>

theorem sold_token_is_permanent:
  assumes "storage_layer layer" and "storage_consistent s" and "iid \<noteq> u32_MAX"
    and "Nfts s (cid, iid) = Some nft" and "is_sold nft"
  shows "\<exists>nft'. Nfts (run layer T calls s) (cid, iid) = Some nft' \<and> is_sold nft' \<and>
    nft_metadata nft' = nft_metadata nft \<and> price nft' = price nft"
  using token_evolves_sold [OF chain_tokens [OF assms(1,2)] assms(3-5)] by blast

theorem sold_token_is_permanent_witness:
  "\<exists>nft'. Nfts (run with_storage_layer sample_config
       [(Some 2, BurnNft 0 0), (Some 2, TransferNft 0 0 1), (Some 1, DeleteCollection 0)]
       sample_sold) (0, 0) = Some nft' \<and> is_sold nft' \<and> nft_metadata nft' = [7] \<and>
     price nft' = 5000000000"
  using sold_token_is_permanent [OF reference_layer sample_sold_consistent _ sample_sold_nft]
  by (simp add: sample_nft_def del: run.simps)

text \<open>
  C8.  An identifier is used once: a token that is gone (burned) while its identifier lies
  below the counter never comes back, whatever calls follow.
\<close>

theorem burned_token_never_returns:
  assumes "storage_layer layer" and "storage_consistent s" and "iid \<noteq> u32_MAX"
    and "Nfts s (cid, iid) = None" and "iid < next_item_id s cid"
  shows "Nfts (run layer T calls s) (cid, iid) = None"
  using chain_tokens [OF assms(1,2), of T calls] assms(3-5) by (auto simp: token_evolves_def)

theorem burned_token_never_returns_witness:
  "Nfts (run with_storage_layer sample_config [(Some 1, CreateNft 0 [] 3), (Some 2, CreateNft 0 [] 3)]
     sample_burned) (0, 0) = None"
proof (rule burned_token_never_returns [OF reference_layer sample_burned_consistent])
  show "Nfts sample_burned (0, 0) = None" and "(0 :: u32) < next_item_id sample_burned 0"
    by (simp_all add: sample_burned_eq sample_market_def storage_get_or_def)
qed simp

text \<open>
  C4.  How a token changes hands: when a dispatched call changes the owner of a token, either
  the old owner signed a transfer to the new owner, or the token was unsold and the new owner
  signed a purchase whose payment to the old owner succeeded.  There is one way to lose a token
  without consent or payment: it has the last identifier \<open>u32_MAX\<close>, the counter of its
  collection is saturated, and the new owner signed a \<open>create_nft\<close> in that collection.
\<close>

theorem owner_changes_only_by_consent:
  assumes "storage_layer layer" and "storage_consistent s"
    and "dispatch layer T origin call s = (Inr (), s')"
    and "Nfts s (cid, iid) = Some nft" and "Nfts s' (cid, iid) = Some nft'"
    and "owner nft' \<noteq> owner nft"
  shows "call = TransferNft cid iid (owner nft') \<and> ensure_signed T origin = Inr (owner nft) \<or>
    call = MintNft cid iid \<and> ensure_signed T origin = Inr (owner nft') \<and> \<not> is_sold nft \<and>
    (\<exists>c. Currency_transfer T (owner nft') (owner nft) (price nft) KeepAlive (currency s) =
       (Inr (), c) \<and> currency s' = c) \<or>
    iid = u32_MAX \<and> next_item_id s cid = u32_MAX \<and>
    (\<exists>m p. call = CreateNft cid m p) \<and> ensure_signed T origin = Inr (owner nft')"
proof -
  from assms(3) have "call_body T origin call s = (Inr (), s')"
    by (simp add: chain_dispatch_ok [OF assms(1)])
  then show ?thesis
    using assms(4-6) fresh_item [OF consistent_below [OF assms(2)], of cid]
    by (cases call; cases "next_item_id s cid = u32_MAX") (auto simp: call_ok split: if_splits)
qed

theorem owner_changes_only_by_consent_witness:
  "ensure_signed sample_config (Some 2) = Inr 2 \<and>
   (\<exists>c. Currency_transfer sample_config 2 1 5000000000 KeepAlive sample_balances = (Inr (), c) \<and>
      currency sample_sold = c)"
proof -
  have "dispatch with_storage_layer sample_config (Some 2) (MintNft 0 0) sample_market
      = (Inr (), sample_sold)"
    by (simp add: sample_dispatch sample_mint_ok)
  moreover have "Nfts sample_market (0, 0) = Some sample_nft" by (simp add: sample_market_def)
  ultimately show ?thesis
    using owner_changes_only_by_consent [OF reference_layer sample_market_consistent _ _
        sample_sold_nft, where T = sample_config and origin = "Some 2" and call = "MintNft 0 0"
          and nft = sample_nft]
    by (simp add: sample_nft_def sample_market_def)
qed

section \<open>Trade and payment\<close>

text \<open>
  C3.  A successful purchase is an exchange: the token was listed by the seller and goes to the
  buyer, marked sold; exactly its price leaves the buyer and reaches the seller; every other
  balance, every other token and every collection is as before; and a buyer who paid something
  keeps the existential deposit.
\<close>

theorem purchase_is_exchange:
  assumes "storage_layer layer"
    and cur: "currency_api (Currency_transfer T) (Currency_minimum_balance T) free_balance"
    and "dispatch layer T origin (MintNft cid iid) s = (Inr (), s')"
  shows "\<exists>buyer nft. ensure_signed T origin = Inr buyer \<and> Nfts s (cid, iid) = Some nft \<and>
    \<not> is_sold nft \<and> owner nft \<noteq> buyer \<and>
    Nfts s' = (Nfts s)((cid, iid) \<mapsto> nft\<lparr>owner := buyer, is_sold := True\<rparr>) \<and>
    Collections s' = Collections s \<and>
    free_balance (currency s) buyer = free_balance (currency s') buyer + unat (price nft) \<and>
    free_balance (currency s') (owner nft) =
      free_balance (currency s) (owner nft) + unat (price nft) \<and>
    (\<forall>x. x \<noteq> buyer \<and> x \<noteq> owner nft \<longrightarrow>
       free_balance (currency s') x = free_balance (currency s) x) \<and>
    (price nft \<noteq> 0 \<longrightarrow>
       unat (Currency_minimum_balance T) \<le> free_balance (currency s') buyer)"
proof -
  from assms(3) obtain buyer nft c where
    "ensure_signed T origin = Inr buyer" and "Nfts s (cid, iid) = Some nft" and "\<not> is_sold nft"
    and ne: "owner nft \<noteq> buyer"
    and paid: "Currency_transfer T buyer (owner nft) (price nft) KeepAlive (currency s) = (Inr (), c)"
    and "s' = s\<lparr>Nfts := (Nfts s)((cid, iid) \<mapsto> nft\<lparr>owner := buyer, is_sold := True\<rparr>),
      currency := c, events := events s @ [NFTTransferred cid iid (owner nft) buyer]\<rparr>"
    by (auto simp: chain_dispatch_ok [OF assms(1)] call_ok)
  with currency_api.transfer_moves [OF cur paid ne [symmetric]]
    currency_api.transfer_frame [OF cur paid]
    currency_api.transfer_keeps_alive [OF cur paid ne [symmetric]]
  show ?thesis by auto
qed

theorem purchase_is_exchange_witness:
  "\<exists>buyer nft. ensure_signed sample_config (Some 2) = Inr buyer \<and>
     Nfts sample_market (0, 0) = Some nft \<and>
     Nfts sample_sold = (Nfts sample_market)((0, 0) \<mapsto> nft\<lparr>owner := buyer, is_sold := True\<rparr>) \<and>
     currency sample_market buyer = currency sample_sold buyer + unat (price nft)"
proof -
  have "dispatch with_storage_layer sample_config (Some 2) (MintNft 0 0) sample_market
      = (Inr (), sample_sold)"
    by (simp add: sample_dispatch sample_mint_ok)
  from purchase_is_exchange [OF reference_layer sample_currency this] show ?thesis by blast
qed

text \<open>
  C10.  Money is neither made nor lost: a dispatched call keeps the sum of the free balances over
  any finite set of accounts that holds its signer, the pallet account and the token owners.
\<close>

theorem dispatch_conserves_balances:
  assumes "storage_layer layer"
    and cur: "currency_api (Currency_transfer T) (Currency_minimum_balance T) free_balance"
    and "finite A" and "PalletId_account T \<in> A"
    and "\<And>who. ensure_signed T origin = Inr who \<Longrightarrow> who \<in> A"
    and "\<And>k nft. Nfts s k = Some nft \<Longrightarrow> owner nft \<in> A"
  shows "(\<Sum>x\<in>A. free_balance (currency (snd (dispatch layer T origin call s))) x) =
    (\<Sum>x\<in>A. free_balance (currency s) x)"
proof (cases "snd (dispatch layer T origin call s) = s")
  case False
  then have "call_body T origin call s = (Inr (), snd (dispatch layer T origin call s))"
    using chain_dispatch_effect [OF assms(1), of T origin call s] by blast
  with assms(3-) show ?thesis
    by (cases call) (auto simp: call_ok intro: currency_api.transfer_conserves [OF cur])
qed simp

theorem dispatch_conserves_balances_witness:
  "(\<Sum>x\<in>{0, 1, 2}. currency (snd (dispatch with_storage_layer sample_config (Some 2)
       (MintNft 0 0) sample_market)) x) = 2000000000000"
proof -
  have "(\<Sum>x\<in>{0, 1, 2}. currency (snd (dispatch with_storage_layer sample_config (Some 2)
       (MintNft 0 0) sample_market)) x) = (\<Sum>x\<in>{0, 1, 2}. currency sample_market x)"
    by (rule dispatch_conserves_balances [OF reference_layer sample_currency])
      (auto simp: sample_defs split: if_splits)
  then show ?thesis by (simp add: sample_defs)
qed

text \<open>
  C11.  Registration: a successful \<open>register_artist\<close> makes the signer an artist, costs exactly
  100 existential deposits, credits them to the pallet account, and can never be repeated: in
  every later state a further registration of the signer fails with \<open>AlreadyRegistered\<close>.
\<close>

theorem registration_charges_once:
  assumes "storage_layer layer"
    and cur: "currency_api (Currency_transfer T) (Currency_minimum_balance T) free_balance"
    and "storage_consistent s" and "unat (Currency_minimum_balance T) * 100 < 2 ^ 128"
    and "ensure_signed T origin = Inr who" and "who \<noteq> PalletId_account T"
    and "dispatch layer T origin RegisterArtist s = (Inr (), s')"
  shows "Artists s who = None \<and> Artists s' = (Artists s)(who \<mapsto> True) \<and>
    free_balance (currency s) who =
      free_balance (currency s') who + 100 * unat (Currency_minimum_balance T) \<and>
    free_balance (currency s') (PalletId_account T) =
      free_balance (currency s) (PalletId_account T) + 100 * unat (Currency_minimum_balance T) \<and>
    dispatch layer T origin RegisterArtist (run layer T calls s') =
      (Inl (PalletError AlreadyRegistered), run layer T calls s')"
proof -
  from assms(7) have ok: "call_body T origin RegisterArtist s = (Inr (), s')"
    by (simp only: chain_dispatch_ok [OF assms(1)])
  with assms(5) obtain c where art: "Artists s who = None"
    and paid: "Currency_transfer T who (PalletId_account T) (registration_fee T) KeepAlive
      (currency s) = (Inr (), c)"
    and s': "s' = s\<lparr>Artists := (Artists s)(who \<mapsto> True), currency := c,
      events := events s @ [ArtistRegistered who]\<rparr>"
    by (auto simp: call_ok)
  have fee: "unat (registration_fee T) = 100 * unat (Currency_minimum_balance T)"
    using assms(4) by (simp add: registration_fee_def unat_word_ariths)
  have "artists_evolve s' (run layer T calls s')"
    by (rule chain_artists [OF assms(1) storage_consistent_call [OF ok assms(3)]])
  then have "Artists (run layer T calls s') who = Some True"
    by (simp add: artists_evolve_def s')
  then have "call_body T origin RegisterArtist (run layer T calls s') =
      (Inl (PalletError AlreadyRegistered), run layer T calls s')"
    using assms(5) by (simp add: register_artist_def storage_defs)
  from chain_dispatch_error [OF assms(1) this]
  show ?thesis
    using art s' currency_api.transfer_moves [OF cur paid assms(6)] fee by simp
qed

theorem registration_charges_once_witness:
  "dispatch with_storage_layer sample_config (Some 2) RegisterArtist
     (run with_storage_layer sample_config [(Some 2, CreateCollection [])]
       (snd (register_artist sample_config (Some 2) sample_market))) =
   (Inl (PalletError AlreadyRegistered),
    run with_storage_layer sample_config [(Some 2, CreateCollection [])]
      (snd (register_artist sample_config (Some 2) sample_market)))"
proof -
  have "dispatch with_storage_layer sample_config (Some 2) RegisterArtist sample_market =
      (Inr (), snd (register_artist sample_config (Some 2) sample_market))"
    by (simp add: sample_dispatch register_artist_def sample_defs storage_defs
        ledger_transfer_def registration_fee_def)
  from registration_charges_once [OF reference_layer sample_currency sample_market_consistent _
      sample_signed _ this, of "[(Some 2, CreateCollection [])]"]
  show ?thesis by (simp add: sample_config_def)
qed

text \<open>
  A purchase goes through exactly when the origin is signed, the token exists and is
  unsold, the buyer is not its owner, and the currency lets the buyer pay the price to the
  owner: no other guard stands in the way.
\<close>

theorem purchase_succeeds_iff:
  assumes "storage_layer layer"
  shows "fst (dispatch layer T origin (MintNft cid iid) s) = Inr () \<longleftrightarrow>
    (\<exists>buyer seller p. ensure_signed T origin = Inr buyer \<and>
       token_of s (cid, iid) = Listed seller p \<and> seller \<noteq> buyer \<and>
       fst (Currency_transfer T buyer seller p KeepAlive (currency s)) = Inr ())"
proof -
  have "fst (dispatch layer T origin (MintNft cid iid) s) = Inr () \<longleftrightarrow>
      (\<exists>s'. mint_nft T origin cid iid s = (Inr (), s'))"
    using chain_dispatch_ok [OF assms, of T origin "MintNft cid iid" s]
    by (metis call_body.simps(7) prod.collapse fst_conv)
  then show ?thesis
    by (auto simp: call_ok token_of_def fst_eq_Inr split: option.splits if_splits)
qed

theorem purchase_succeeds_iff_witness:
  "fst (dispatch with_storage_layer sample_config (Some 2) (MintNft 0 0) sample_market) = Inr () \<and>
   fst (dispatch with_storage_layer sample_config (Some 1) (MintNft 0 0) sample_market) \<noteq> Inr ()"
  unfolding purchase_succeeds_iff [OF reference_layer]
  by (auto simp: token_of_def sample_defs ledger_transfer_def)

section \<open>Events and errors\<close>

text \<open>
  C5.  Refinement by events: after any run from genesis, replaying the deposited events gives
  exactly the registered artists, the collections with their creators, and the tokens with
  their owners that the storage holds.
\<close>

theorem event_log_replays_storage:
  assumes "storage_layer layer"
  shows "index_of (run layer T calls (genesis c)) =
    replay (events (run layer T calls (genesis c)))"
  using chain_log [OF assms log_faithful_genesis] by (simp add: log_faithful_def)

theorem event_log_replays_storage_witness:
  "index_of (run with_storage_layer sample_config sample_calls (genesis sample_balances)) =
     replay (events (run with_storage_layer sample_config sample_calls (genesis sample_balances)))"
  by (rule event_log_replays_storage [OF reference_layer])

text \<open>
  C12.  Checks before effects, and the two exceptions: a call body that fails has not touched
  the artists, the collections, the counters or the log, and it has touched the NFTs only if it
  is \<open>create_nft\<close> on a full collection (the NFT is already inserted) or \<open>burn_nft\<close> on a
  deleted collection (the NFT is already removed).  These two rely on the storage layer.
\<close>

theorem failed_body_writes:
  assumes "call_body T origin call s = (Inl e, s')"
  shows "Artists s' = Artists s \<and> Collections s' = Collections s \<and>
    NextItemId s' = NextItemId s \<and> NextCollectionId s' = NextCollectionId s \<and>
    events s' = events s \<and>
    (Nfts s' = Nfts s \<or>
     e = PalletError CollectionNotFound \<and>
     ((\<exists>cid m p col nft. call = CreateNft cid m p \<and> Collections s cid = Some col \<and>
         256 \<le> length (collection_nfts col) \<and>
         Nfts s' = (Nfts s)((cid, next_item_id s cid) \<mapsto> nft)) \<or>
      (\<exists>cid iid. call = BurnNft cid iid \<and> Collections s cid = None \<and>
         Nfts s' = (Nfts s)((cid, iid) := None))))"
  using assms
  by (cases call)
    (auto simp: call_defs storage_defs storage_try_mutate_def bounded_simps Let_def
      split: sum.splits prod.splits option.splits if_splits)

theorem failed_body_writes_witness:
  "Collections (snd (burn_nft sample_config (Some 1) 0 0 sample_orphaned)) =
     Collections sample_orphaned \<and>
   fst (burn_nft sample_config (Some 1) 0 0 sample_orphaned) =
     Inl (PalletError CollectionNotFound)"
proof -
  have "call_body sample_config (Some 1) (BurnNft 0 0) sample_orphaned =
      (Inl (PalletError CollectionNotFound),
       snd (burn_nft sample_config (Some 1) 0 0 sample_orphaned))"
    by (simp add: burn_nft_def sample_orphaned_eq sample_defs storage_defs storage_try_mutate_def)
  from failed_body_writes [OF this] this [THEN arg_cong, of fst] show ?thesis by simp
qed

text \<open>
  C13.  The errors of the pallet that each call can return.  In particular the declared
  errors \<open>CollectionFrozen\<close> and \<open>PriceNotSet\<close> are never returned.
\<close>

theorem call_errors:
  "fst (call_body T origin call s) = Inl (PalletError e) \<longrightarrow>
     e \<in> (case call of
            RegisterArtist \<Rightarrow> {AlreadyRegistered}
          | CreateCollection _ \<Rightarrow> {NotRegisteredArtist, MetadataInvalid}
          | DeleteCollection _ \<Rightarrow> {CollectionNotFound, NotCollectionOwner}
          | CreateNft _ _ _ \<Rightarrow> {CollectionNotFound, MetadataInvalid}
          | TransferNft _ _ _ \<Rightarrow> {NFTNotFound, NotNFTOwner}
          | BurnNft _ _ \<Rightarrow> {NFTNotFound, NotNFTOwner, NFTAlreadySold, CollectionNotFound}
          | MintNft _ _ \<Rightarrow> {NFTNotFound, NFTAlreadySold, NotNFTOwner})"
  by (cases call)
    (auto simp: call_defs storage_defs storage_try_mutate_def Let_def
      split: sum.splits prod.splits option.splits if_splits)

theorem call_errors_witness:
  "fst (call_body sample_config (Some 1) (MintNft 0 0) sample_sold) =
     Inl (PalletError NFTAlreadySold) \<and>
   NFTAlreadySold \<in> {NFTNotFound, NFTAlreadySold, NotNFTOwner}"
proof -
  have "fst (call_body sample_config (Some 1) (MintNft 0 0) sample_sold) =
      Inl (PalletError NFTAlreadySold)"
    by (simp add: mint_nft_def storage_get_def sample_sold_nft)
  with call_errors [of sample_config "Some 1" "MintNft 0 0" sample_sold NFTAlreadySold]
  show ?thesis by simp
qed

section \<open>Sold, burned and orphaned tokens\<close>

text \<open>
  C7.  No second sale: once a token is sold (bought or given away), every later attempt to buy
  it fails with \<open>NFTAlreadySold\<close> and changes nothing, and nobody can burn it: its owner gets
  \<open>NFTAlreadySold\<close>, anybody else \<open>NotNFTOwner\<close>.  Excepted is the token with the last identifier
  \<open>u32_MAX\<close>, which \<open>create_nft\<close> replaces by an unsold one once the counter is saturated.
\<close>

theorem sold_token_cannot_be_traded:
  assumes "storage_layer layer" and "storage_consistent s" and "iid \<noteq> u32_MAX"
    and "Nfts s (cid, iid) = Some nft" and "is_sold nft" and "ensure_signed T origin = Inr who"
    and t: "t = run layer T calls s"
  shows "dispatch layer T origin (MintNft cid iid) t = (Inl (PalletError NFTAlreadySold), t) \<and>
    (\<exists>nft'. Nfts t (cid, iid) = Some nft' \<and>
       dispatch layer T origin (BurnNft cid iid) t =
         (Inl (PalletError (if owner nft' = who then NFTAlreadySold else NotNFTOwner)), t))"
proof -
  obtain nft' where nft': "Nfts t (cid, iid) = Some nft'" and sold: "is_sold nft'"
    unfolding t by (rule token_evolves_sold [OF chain_tokens [OF assms(1,2)] assms(3-5)])
  have "call_body T origin (MintNft cid iid) t = (Inl (PalletError NFTAlreadySold), t)"
    using nft' sold assms(6) by (simp add: mint_nft_def storage_defs)
  moreover have "call_body T origin (BurnNft cid iid) t =
      (Inl (PalletError (if owner nft' = who then NFTAlreadySold else NotNFTOwner)), t)"
    using nft' sold assms(6) by (simp add: burn_nft_def storage_defs)
  ultimately show ?thesis
    using nft' by (blast intro: chain_dispatch_error [OF assms(1)])
qed

theorem sold_token_cannot_be_traded_witness:
  "fst (dispatch with_storage_layer sample_config (Some 1) (MintNft 0 0)
     (run with_storage_layer sample_config [(Some 2, TransferNft 0 0 1)] sample_sold)) =
   Inl (PalletError NFTAlreadySold)"
  using sold_token_cannot_be_traded [OF reference_layer sample_sold_consistent _ sample_sold_nft _
      sample_signed [of 1] refl, of "[(Some 2, TransferNft 0 0 1)]"]
  by (simp del: run.simps)

text \<open>
  C9.  Minting and burning are inverse: when \<open>create_nft\<close> succeeds below the saturation point,
  the same signer can burn the new token at once, and then the NFTs and the collections are
  exactly what they were before; only the item counter and the log have moved.
\<close>

theorem burn_undoes_create:
  assumes "storage_layer layer" and "storage_consistent s" and "next_item_id s cid \<noteq> u32_MAX"
    and "cid \<noteq> u32_MAX"
    and "dispatch layer T origin (CreateNft cid m p) s = (Inr (), s1)"
  shows "\<exists>s2. dispatch layer T origin (BurnNft cid (next_item_id s cid)) s1 = (Inr (), s2) \<and>
    Nfts s2 = Nfts s \<and> Collections s2 = Collections s \<and> Artists s2 = Artists s \<and>
    currency s2 = currency s \<and> next_item_id s2 cid = next_item_id s cid + 1"
proof -
  let ?i = "next_item_id s cid"
  from assms(5) obtain sender col where signed: "ensure_signed T origin = Inr sender"
    and col: "Collections s cid = Some col"
    and s1: "s1 = s\<lparr>Collections := (Collections s)(cid \<mapsto> col\<lparr>collection_nfts :=
                  collection_nfts col @ [?i]\<rparr>),
               Nfts := (Nfts s)((cid, ?i) \<mapsto>
                  \<lparr>owner = sender, nft_metadata = m, is_sold = False, price = p\<rparr>),
               NextItemId := (NextItemId s)(cid \<mapsto> saturating_add ?i 1),
               events := events s @ [NFTMinted cid ?i sender]\<rparr>"
    by (auto simp: chain_dispatch_ok [OF assms(1)] call_ok)
  have absent: "Nfts s (cid, ?i) = None"
    by (rule fresh_item [OF consistent_below [OF assms(2)] assms(3)])
  then have "?i \<notin> set (collection_nfts col)"
    using assms(2) col by (fastforce simp: storage_consistent_def listed_exist_def)
  then have same: "filter (\<lambda>id. id \<noteq> ?i) (collection_nfts col) = collection_nfts col"
    by (simp add: filter_id_conv) blast
  show ?thesis
    unfolding chain_dispatch_ok [OF assms(1)]
    using signed absent same col assms(3)
    by (simp add: call_ok s1 storage_get_or_def saturating_add_one fun_upd_idem)
qed

theorem burn_undoes_create_witness:
  "\<exists>s2. dispatch with_storage_layer sample_config (Some 2) (BurnNft 0 1)
       (snd (create_nft sample_config (Some 2) 0 [] 9 sample_market)) = (Inr (), s2) \<and>
     Nfts s2 = Nfts sample_market \<and> Collections s2 = Collections sample_market"
proof -
  have "dispatch with_storage_layer sample_config (Some 2) (CreateNft 0 [] 9) sample_market =
      (Inr (), snd (create_nft sample_config (Some 2) 0 [] 9 sample_market))"
    by (simp add: sample_dispatch create_nft_def add_item_to_collection_def sample_defs storage_defs
        storage_try_mutate_def bounded_try_from_def bounded_try_push_def Let_def)
  moreover have "next_item_id sample_market 0 = 1"
    by (simp add: sample_market_def storage_get_or_def)
  ultimately show ?thesis
    using burn_undoes_create [OF reference_layer sample_market_consistent, of 0 sample_config
        "Some 2" "[]" 9] by fastforce
qed

text \<open>
  C14.  Deleting a collection orphans its NFTs: a deleted collection whose identifier lies below
  the collection counter never comes back, its NFTs outlive it in every later state, and no
  signer can ever burn one of them.  Every identifier given out lies below the counter, except
  the last one \<open>u32_MAX\<close>: once the counter is saturated, \<open>create_collection\<close> uses it again
  (\<open>saturated_collection_counter_overwrites\<close> below).
\<close>

theorem deleted_collection_orphans_nfts:
  assumes "storage_layer layer" and "storage_consistent s"
    and "Collections s cid = None" and "cid < next_collection_id s"
    and "Nfts s (cid, iid) = Some nft" and t: "t = run layer T calls s"
  shows "Collections t cid = None \<and> Nfts t (cid, iid) \<noteq> None \<and>
    fst (dispatch layer T origin (BurnNft cid iid) t) \<noteq> Inr ()"
proof -
  have "collection_fate s t cid"
    using chain_collections [OF assms(1,2), of T calls] assms(4)
    by (simp add: t collection_evolves_def)
  with assms(3,5) have gone: "Collections t cid = None" and "Nfts t (cid, iid) \<noteq> None"
    by (simp_all add: collection_fate_def)
  moreover have "\<not> (\<exists>t'. dispatch layer T origin (BurnNft cid iid) t = (Inr (), t'))"
    using gone by (auto simp: chain_dispatch_ok [OF assms(1)] call_ok)
  ultimately show ?thesis by (auto simp: fst_eq_Inr)
qed

theorem deleted_collection_orphans_nfts_witness:
  "fst (dispatch with_storage_layer sample_config (Some 1) (BurnNft 0 0)
     (run with_storage_layer sample_config [(Some 1, CreateCollection [])] sample_orphaned)) \<noteq> Inr ()"
proof -
  have "Collections sample_orphaned 0 = None" and "(0 :: u32) < next_collection_id sample_orphaned"
    and "Nfts sample_orphaned (0, 0) = Some sample_nft"
    by (simp_all add: sample_orphaned_eq sample_market_def)
  from deleted_collection_orphans_nfts [OF reference_layer sample_orphaned_consistent this refl,
      where T = sample_config and origin = "Some 1" and calls = "[(Some 1, CreateCollection [])]"]
  show ?thesis by blast
qed

section \<open>Saturated counters and open minting\<close>

text \<open>
  C15.  At the saturation point the item counter stands still and \<open>create_nft\<close> replaces the
  token that already has the last identifier: any signer takes it over, sold or not, without
  payment and without the consent of its owner.
\<close>

theorem saturated_item_counter_overwrites:
  assumes "storage_layer layer" and "ensure_signed T origin = Inr who"
    and "Collections s cid = Some col" and "length (collection_nfts col) < 256"
    and "length m \<le> 256" and "next_item_id s cid = u32_MAX"
    and "Nfts s (cid, u32_MAX) = Some nft"
  shows "\<exists>s'. dispatch layer T origin (CreateNft cid m p) s = (Inr (), s') \<and>
    Nfts s' (cid, u32_MAX) =
      Some \<lparr>owner = who, nft_metadata = m, is_sold = False, price = p\<rparr> \<and>
    next_item_id s' cid = u32_MAX \<and> currency s' = currency s"
  using assms(2-)
  by (simp add: chain_dispatch_ok [OF assms(1)] call_ok storage_get_or_def saturating_add_one)

theorem saturated_item_counter_overwrites_witness:
  "\<exists>s'. dispatch with_storage_layer sample_config (Some 2) (CreateNft 0 [] 0)
       (sample_market\<lparr>Nfts := [(0, u32_MAX) \<mapsto> sample_nft], NextItemId := [0 \<mapsto> u32_MAX]\<rparr>) =
       (Inr (), s') \<and>
     Nfts s' (0, u32_MAX) = Some \<lparr>owner = 2, nft_metadata = [], is_sold = False, price = 0\<rparr>"
  using saturated_item_counter_overwrites [OF reference_layer sample_signed, of
      "sample_market\<lparr>Nfts := [(0, u32_MAX) \<mapsto> sample_nft], NextItemId := [0 \<mapsto> u32_MAX]\<rparr>" 0
      sample_collection "[]" sample_nft 2 0]
  by (auto simp: sample_market_def sample_collection_def storage_get_or_def)

text \<open>
  Likewise for collections: at the saturation point any registered artist replaces the
  collection with the last identifier, whoever created it, and its item list becomes empty
  while its NFTs stay in the storage.
\<close>

theorem saturated_collection_counter_overwrites:
  assumes "storage_layer layer" and "ensure_signed T origin = Inr who"
    and "Artists s who = Some True" and "length m \<le> 256" and "next_collection_id s = u32_MAX"
  shows "\<exists>s'. dispatch layer T origin (CreateCollection m) s = (Inr (), s') \<and>
    Collections s' u32_MAX =
      Some \<lparr>creator = who, collection_metadata = m, collection_nfts = []\<rparr> \<and>
    Nfts s' = Nfts s \<and> next_collection_id s' = u32_MAX"
  using assms(2-) by (simp add: chain_dispatch_ok [OF assms(1)] call_ok saturating_add_one)

theorem saturated_collection_counter_overwrites_witness:
  "\<exists>s'. dispatch with_storage_layer sample_config (Some 1) (CreateCollection [3])
       (sample_market\<lparr>NextCollectionId := Some u32_MAX\<rparr>) = (Inr (), s') \<and>
     next_collection_id s' = u32_MAX"
  using saturated_collection_counter_overwrites [OF reference_layer sample_signed, of
      "sample_market\<lparr>NextCollectionId := Some u32_MAX\<rparr>" 1 "[3]"]
  by (auto simp: sample_market_def)

text \<open>
  Minting is open: \<open>create_nft\<close> does the same whatever the table of artists holds and
  whoever created the collection, so an account that is neither an artist nor the creator can
  add tokens to any collection.
\<close>

theorem create_nft_ignores_artists_and_creator:
  "create_nft T origin cid m p (s\<lparr>Artists := a\<rparr>) =
     (case create_nft T origin cid m p s of (r, s') \<Rightarrow> (r, s'\<lparr>Artists := a\<rparr>)) \<and>
   (Collections s cid = Some col \<longrightarrow>
    fst (create_nft T origin cid m p
      (s\<lparr>Collections := (Collections s)(cid \<mapsto> col\<lparr>creator := b\<rparr>)\<rparr>)) =
    fst (create_nft T origin cid m p s))"
proof (rule conjI)
  show "create_nft T origin cid m p (s\<lparr>Artists := a\<rparr>) =
     (case create_nft T origin cid m p s of (r, s') \<Rightarrow> (r, s'\<lparr>Artists := a\<rparr>))"
    by (auto simp: create_nft_def add_item_to_collection_def storage_defs storage_try_mutate_def
        deposit_event_def Let_def split: sum.splits option.splits prod.splits)
  show "Collections s cid = Some col \<longrightarrow>
    fst (create_nft T origin cid m p
      (s\<lparr>Collections := (Collections s)(cid \<mapsto> col\<lparr>creator := b\<rparr>)\<rparr>)) =
    fst (create_nft T origin cid m p s)"
    by (auto simp: create_nft_def add_item_to_collection_def storage_defs storage_try_mutate_def
        Let_def split: sum.splits option.splits)
qed

theorem create_nft_ignores_artists_and_creator_witness:
  "fst (create_nft sample_config (Some 2) 0 [] 1 (sample_market\<lparr>Collections :=
      (Collections sample_market)(0 \<mapsto> sample_collection\<lparr>creator := 5\<rparr>)\<rparr>)) =
   fst (create_nft sample_config (Some 2) 0 [] 1 sample_market)"
proof -
  have "Collections sample_market 0 = Some sample_collection" by (simp add: sample_market_def)
  from create_nft_ignores_artists_and_creator [THEN conjunct2, THEN mp, OF this]
  show ?thesis .
qed

end
