(* ===== verification/Nft_Raw.thy ===== *)
theory Nft_Raw
  imports Nft_Storage Nft_Properties "HOL-Library.Countable"
begin

text \<open>
  The calls of the NFT pallet on the storage as the chain keeps it.  Here every read decodes an
  entry of the one map of byte strings that holds the storage of the whole runtime, and every write
  puts or removes the bytes of one entry; balances and deposited events are entries of the same
  map, which belong to other pallets.  The definitions follow \<open>src/pallets/template/src/lib.rs\<close> line by
  line like those of \<open>Nft_Pallet\<close>.  The record \<open>state\<close> is a view of this map, and the theorem is that
  the calls of \<open>Nft_Pallet\<close> on the view are what these calls do to the bytes.
\<close>

section \<open>The services in raw storage\<close>

text \<open>
  What the other pallets do to the storage: \<open>raw_transfer\<close> is the transfer of the currency and
  \<open>raw_deposit\<close> the deposit of an event; they use the entries at \<open>service_keys\<close>.  \<open>raw_currency\<close> and
  \<open>raw_events\<close> read the state of the currency and the events that the NFT pallet has deposited in
  this block.  \<open>services_ready\<close> says that a block after genesis is being executed (before, events are not
  recorded) and that the entries of these pallets are well formed.
\<close>

record ('acc, 'cur, 'x) raw_services =
  raw_currency :: "raw \<Rightarrow> 'cur"
  raw_events :: "raw \<Rightarrow> 'acc Event list"
  raw_transfer :: "'acc \<Rightarrow> 'acc \<Rightarrow> Balance \<Rightarrow> ExistenceRequirement \<Rightarrow> raw \<Rightarrow> ('x + unit) \<times> raw"
  raw_deposit :: "'acc Event \<Rightarrow> raw \<Rightarrow> raw"
  services_ready :: "raw \<Rightarrow> bool"
  service_keys :: "bytes set"

text \<open>The typed state is read off the raw storage.\<close>

definition typed_view ::
  "'acc scale \<Rightarrow> hasher \<Rightarrow> ('acc, 'cur, 'x) raw_services \<Rightarrow> raw \<Rightarrow> ('acc, 'cur) state" where
  "typed_view S H V raw =
     \<lparr>Artists = (\<lambda>a. raw_get (dec_bool S) raw (Artists_key S H a)),
      Collections = (\<lambda>cid. raw_get (decode_Collection S) raw (Collections_key S H cid)),
      Nfts = (\<lambda>k. raw_get (decode_NFT S) raw (Nfts_key S H k)),
      NextItemId = (\<lambda>cid. raw_get (dec_u32 S) raw (NextItemId_key S H cid)),
      NextCollectionId = raw_get (dec_u32 S) raw (NextCollectionId_key H),
      currency = raw_currency V raw, events = raw_events V raw\<rparr>"

section \<open>The calls\<close>

text \<open>
  \<open>contains_key\<close> looks only for the presence of an entry; \<open>ValueQuery\<close> reads a default; \<open>try_mutate\<close>
  writes the entry back only when its closure returned \<open>Ok\<close>.
\<close>

definition raw_contains_key :: "raw \<Rightarrow> bytes \<Rightarrow> bool" where
  "raw_contains_key raw key = (raw key \<noteq> None)"

definition raw_get_or :: "'v \<Rightarrow> 'v decoder \<Rightarrow> raw \<Rightarrow> bytes \<Rightarrow> 'v" where
  "raw_get_or d dec raw key = (case raw_get dec raw key of None \<Rightarrow> d | Some v \<Rightarrow> v)"

definition raw_try_mutate ::
  "('v \<Rightarrow> bytes) \<Rightarrow> 'v decoder \<Rightarrow> bytes \<Rightarrow> ('v option \<Rightarrow> raw \<Rightarrow> ('e + 'v option) \<times> raw) \<Rightarrow> raw \<Rightarrow>
   ('e + unit) \<times> raw" where
  "raw_try_mutate enc dec key f raw =
     (case f (raw_get dec raw key) raw of
        (Inl e, raw') \<Rightarrow> (Inl e, raw')
      | (Inr v, raw') \<Rightarrow> (Inr (), raw'(key := map_option enc v)))"

type_synonym 'x RawResult = "('x DispatchError + unit) \<times> raw"

definition raw_register_artist ::
  "('acc, 'origin, 'cur, 'x) Config \<Rightarrow> 'acc scale \<Rightarrow> hasher \<Rightarrow> ('acc, 'cur, 'x) raw_services \<Rightarrow>
   'origin \<Rightarrow> raw \<Rightarrow> 'x RawResult" where
  "raw_register_artist T S H V origin raw =
     (case ensure_signed T origin of
        Inl e \<Rightarrow> (Inl (FrameError e), raw)
      | Inr who \<Rightarrow>
          if raw_contains_key raw (Artists_key S H who)
          then (Inl (PalletError AlreadyRegistered), raw)
          else
            (case raw_transfer V who (PalletId_account T) (registration_fee T) KeepAlive raw of
               (Inl e, raw1) \<Rightarrow> (Inl (FrameError e), raw1)
             | (Inr _, raw1) \<Rightarrow>
                 let raw2 = raw1(Artists_key S H who \<mapsto> enc_bool S True)
                 in (Inr (), raw_deposit V (ArtistRegistered who) raw2)))"

definition raw_create_collection ::
  "('acc, 'origin, 'cur, 'x) Config \<Rightarrow> 'acc scale \<Rightarrow> hasher \<Rightarrow> ('acc, 'cur, 'x) raw_services \<Rightarrow>
   'origin \<Rightarrow> u8 list \<Rightarrow> raw \<Rightarrow> 'x RawResult" where
  "raw_create_collection T S H V origin metadata raw =
     (case ensure_signed T origin of
        Inl e \<Rightarrow> (Inl (FrameError e), raw)
      | Inr who \<Rightarrow>
          if \<not> raw_get_or False (dec_bool S) raw (Artists_key S H who)
          then (Inl (PalletError NotRegisteredArtist), raw)
          else
            (case bounded_try_from 256 metadata of
               None \<Rightarrow> (Inl (PalletError MetadataInvalid), raw)
             | Some bounded_metadata \<Rightarrow>
                 let collection_id = raw_get_or 0 (dec_u32 S) raw (NextCollectionId_key H);
                     collection = \<lparr>creator = who, collection_metadata = bounded_metadata,
                                   collection_nfts = []\<rparr>;
                     raw1 = raw(Collections_key S H collection_id \<mapsto> encode_Collection S collection);
                     raw2 = raw1(NextCollectionId_key H \<mapsto>
                              enc_u32 S (saturating_add collection_id 1))
                 in (Inr (), raw_deposit V (CollectionCreated collection_id who) raw2)))"

definition raw_delete_collection ::
  "('acc, 'origin, 'cur, 'x) Config \<Rightarrow> 'acc scale \<Rightarrow> hasher \<Rightarrow> ('acc, 'cur, 'x) raw_services \<Rightarrow>
   'origin \<Rightarrow> CollectionId \<Rightarrow> raw \<Rightarrow> 'x RawResult" where
  "raw_delete_collection T S H V origin collection_id raw =
     (case ensure_signed T origin of
        Inl e \<Rightarrow> (Inl (FrameError e), raw)
      | Inr who \<Rightarrow>
          (case raw_get (decode_Collection S) raw (Collections_key S H collection_id) of
             None \<Rightarrow> (Inl (PalletError CollectionNotFound), raw)
           | Some collection \<Rightarrow>
               if creator collection \<noteq> who
               then (Inl (PalletError NotCollectionOwner), raw)
               else
                 let raw1 = raw(Collections_key S H collection_id := None)
                 in (Inr (), raw_deposit V (CollectionDeleted collection_id) raw1)))"

definition raw_add_item_to_collection ::
  "'acc scale \<Rightarrow> hasher \<Rightarrow> CollectionId \<Rightarrow> ItemId \<Rightarrow> 'acc Collection option \<Rightarrow> raw \<Rightarrow>
   ('x DispatchError + 'acc Collection option) \<times> raw" where
  "raw_add_item_to_collection S H collection_id item_id collection_option raw =
     (case collection_option of
        None \<Rightarrow> (Inl (PalletError CollectionNotFound), raw)
      | Some collection \<Rightarrow>
          (case bounded_try_push 256 item_id (collection_nfts collection) of
             None \<Rightarrow> (Inl (PalletError CollectionNotFound), raw)
           | Some pushed \<Rightarrow>
               let collection' = collection\<lparr>collection_nfts := pushed\<rparr>
               in (Inr (Some collection'),
                   raw(Collections_key S H collection_id \<mapsto> encode_Collection S collection'))))"

definition raw_create_nft ::
  "('acc, 'origin, 'cur, 'x) Config \<Rightarrow> 'acc scale \<Rightarrow> hasher \<Rightarrow> ('acc, 'cur, 'x) raw_services \<Rightarrow>
   'origin \<Rightarrow> CollectionId \<Rightarrow> u8 list \<Rightarrow> Balance \<Rightarrow> raw \<Rightarrow> 'x RawResult" where
  "raw_create_nft T S H V origin collection_id metadata nft_price raw =
     (case ensure_signed T origin of
        Inl e \<Rightarrow> (Inl (FrameError e), raw)
      | Inr sender \<Rightarrow>
          if \<not> raw_contains_key raw (Collections_key S H collection_id)
          then (Inl (PalletError CollectionNotFound), raw)
          else
            (case bounded_try_from 256 metadata of
               None \<Rightarrow> (Inl (PalletError MetadataInvalid), raw)
             | Some bounded_metadata \<Rightarrow>
                 let item_id = raw_get_or 0 (dec_u32 S) raw (NextItemId_key S H collection_id);
                     nft = \<lparr>owner = sender, nft_metadata = bounded_metadata,
                            is_sold = False, price = nft_price\<rparr>;
                     raw1 = raw(Nfts_key S H (collection_id, item_id) \<mapsto> encode_NFT S nft)
                 in
                   if \<not> raw_contains_key raw1 (Nfts_key S H (collection_id, item_id))
                   then (Inl (PalletError NFTNotFound), raw1)
                   else
                     (case raw_try_mutate (encode_Collection S) (decode_Collection S)
                             (Collections_key S H collection_id)
                             (raw_add_item_to_collection S H collection_id item_id) raw1 of
                        (Inl e, raw2) \<Rightarrow> (Inl e, raw2)
                      | (Inr _, raw2) \<Rightarrow>
                          let next_id = saturating_add item_id 1;
                              raw3 = raw2(NextItemId_key S H collection_id \<mapsto> enc_u32 S next_id)
                          in (Inr (),
                              raw_deposit V (NFTMinted collection_id item_id sender) raw3))))"

definition raw_transfer_nft ::
  "('acc, 'origin, 'cur, 'x) Config \<Rightarrow> 'acc scale \<Rightarrow> hasher \<Rightarrow> ('acc, 'cur, 'x) raw_services \<Rightarrow>
   'origin \<Rightarrow> CollectionId \<Rightarrow> ItemId \<Rightarrow> 'acc \<Rightarrow> raw \<Rightarrow> 'x RawResult" where
  "raw_transfer_nft T S H V origin collection_id item_id to raw =
     (case ensure_signed T origin of
        Inl e \<Rightarrow> (Inl (FrameError e), raw)
      | Inr sender \<Rightarrow>
          (case raw_try_mutate (encode_NFT S) (decode_NFT S) (Nfts_key S H (collection_id, item_id))
                  (\<lambda>nft_option m.
                     case nft_option of
                       None \<Rightarrow> (Inl (PalletError NFTNotFound), m)
                     | Some nft \<Rightarrow>
                         if owner nft \<noteq> sender then (Inl (PalletError NotNFTOwner), m)
                         else (Inr (Some (nft\<lparr>owner := to, is_sold := True\<rparr>)), m))
                  raw of
             (Inl e, raw1) \<Rightarrow> (Inl e, raw1)
           | (Inr _, raw1) \<Rightarrow>
               (Inr (), raw_deposit V (NFTTransferred collection_id item_id sender to) raw1)))"

definition raw_burn_nft ::
  "('acc, 'origin, 'cur, 'x) Config \<Rightarrow> 'acc scale \<Rightarrow> hasher \<Rightarrow> ('acc, 'cur, 'x) raw_services \<Rightarrow>
   'origin \<Rightarrow> CollectionId \<Rightarrow> ItemId \<Rightarrow> raw \<Rightarrow> 'x RawResult" where
  "raw_burn_nft T S H V origin collection_id item_id raw =
     (case ensure_signed T origin of
        Inl e \<Rightarrow> (Inl (FrameError e), raw)
      | Inr sender \<Rightarrow>
          (case raw_get (decode_NFT S) raw (Nfts_key S H (collection_id, item_id)) of
             None \<Rightarrow> (Inl (PalletError NFTNotFound), raw)
           | Some nft \<Rightarrow>
               if owner nft \<noteq> sender then (Inl (PalletError NotNFTOwner), raw)
               else if is_sold nft then (Inl (PalletError NFTAlreadySold), raw)
               else
                 let raw1 = raw(Nfts_key S H (collection_id, item_id) := None)
                 in
                   (case raw_try_mutate (encode_Collection S) (decode_Collection S)
                           (Collections_key S H collection_id)
                           (\<lambda>collection_option m.
                              case collection_option of
                                None \<Rightarrow> (Inl (PalletError CollectionNotFound), m)
                              | Some collection \<Rightarrow>
                                  (Inr (Some (collection\<lparr>collection_nfts :=
                                     filter (\<lambda>id. id \<noteq> item_id)
                                       (collection_nfts collection)\<rparr>)), m))
                           raw1 of
                      (Inl e, raw2) \<Rightarrow> (Inl e, raw2)
                    | (Inr _, raw2) \<Rightarrow>
                        (Inr (), raw_deposit V (NFTBurned collection_id item_id sender) raw2))))"

definition raw_mint_nft ::
  "('acc, 'origin, 'cur, 'x) Config \<Rightarrow> 'acc scale \<Rightarrow> hasher \<Rightarrow> ('acc, 'cur, 'x) raw_services \<Rightarrow>
   'origin \<Rightarrow> CollectionId \<Rightarrow> ItemId \<Rightarrow> raw \<Rightarrow> 'x RawResult" where
  "raw_mint_nft T S H V origin collection_id item_id raw =
     (case ensure_signed T origin of
        Inl e \<Rightarrow> (Inl (FrameError e), raw)
      | Inr buyer \<Rightarrow>
          (case raw_get (decode_NFT S) raw (Nfts_key S H (collection_id, item_id)) of
             None \<Rightarrow> (Inl (PalletError NFTNotFound), raw)
           | Some nft \<Rightarrow>
               if is_sold nft then (Inl (PalletError NFTAlreadySold), raw)
               else if owner nft = buyer then (Inl (PalletError NotNFTOwner), raw)
               else
                 let seller = owner nft in
                 (case raw_transfer V buyer seller (price nft) KeepAlive raw of
                    (Inl e, raw1) \<Rightarrow> (Inl (FrameError e), raw1)
                  | (Inr _, raw1) \<Rightarrow>
                      (case raw_try_mutate (encode_NFT S) (decode_NFT S)
                              (Nfts_key S H (collection_id, item_id))
                              (\<lambda>nft_option m.
                                 case nft_option of
                                   None \<Rightarrow> (Inl (PalletError NFTNotFound), m)
                                 | Some nft \<Rightarrow>
                                     (Inr (Some (nft\<lparr>owner := buyer, is_sold := True\<rparr>)), m))
                              raw1 of
                         (Inl e, raw2) \<Rightarrow> (Inl e, raw2)
                       | (Inr _, raw2) \<Rightarrow>
                           (Inr (),
                            raw_deposit V (NFTTransferred collection_id item_id seller buyer)
                              raw2)))))"

primrec raw_call_body ::
  "('acc, 'origin, 'cur, 'x) Config \<Rightarrow> 'acc scale \<Rightarrow> hasher \<Rightarrow> ('acc, 'cur, 'x) raw_services \<Rightarrow>
   'origin \<Rightarrow> 'acc Call \<Rightarrow> raw \<Rightarrow> 'x RawResult" where
  "raw_call_body T S H V origin RegisterArtist raw = raw_register_artist T S H V origin raw"
| "raw_call_body T S H V origin (CreateCollection m) raw = raw_create_collection T S H V origin m raw"
| "raw_call_body T S H V origin (DeleteCollection c) raw = raw_delete_collection T S H V origin c raw"
| "raw_call_body T S H V origin (CreateNft c m p) raw = raw_create_nft T S H V origin c m p raw"
| "raw_call_body T S H V origin (TransferNft c i t) raw = raw_transfer_nft T S H V origin c i t raw"
| "raw_call_body T S H V origin (BurnNft c i) raw = raw_burn_nft T S H V origin c i raw"
| "raw_call_body T S H V origin (MintNft c i) raw = raw_mint_nft T S H V origin c i raw"

text \<open>A dispatched call, inside a storage layer over the raw storage, and a sequence of them.\<close>

type_synonym 'x raw_layer = "(raw \<Rightarrow> 'x RawResult) \<Rightarrow> raw \<Rightarrow> 'x RawResult"

definition raw_dispatch ::
  "'x raw_layer \<Rightarrow> ('acc, 'origin, 'cur, 'x) Config \<Rightarrow> 'acc scale \<Rightarrow> hasher \<Rightarrow>
   ('acc, 'cur, 'x) raw_services \<Rightarrow> 'origin \<Rightarrow> 'acc Call \<Rightarrow> raw \<Rightarrow> 'x RawResult" where
  "raw_dispatch layer T S H V origin call raw = layer (raw_call_body T S H V origin call) raw"

fun raw_run ::
  "'x raw_layer \<Rightarrow> ('acc, 'origin, 'cur, 'x) Config \<Rightarrow> 'acc scale \<Rightarrow> hasher \<Rightarrow>
   ('acc, 'cur, 'x) raw_services \<Rightarrow> ('origin \<times> 'acc Call) list \<Rightarrow> raw \<Rightarrow> raw" where
  "raw_run layer T S H V [] raw = raw"
| "raw_run layer T S H V ((origin, call) # calls) raw =
     raw_run layer T S H V calls (snd (raw_dispatch layer T S H V origin call raw))"

section \<open>The interface of the services\<close>

text \<open>
  The entries of the other pallets do not lie below the prefix of the NFT pallet, a transfer does
  to the currency what the transfer of \<open>Config\<close> does, the deposit of an event appends it, both change
  only entries of these pallets, and these pallets do not read the entries of the NFT pallet.
\<close>

locale raw_laws = storage_laws S H
  for S :: "'acc scale" and H :: hasher +
  fixes T :: "('acc, 'origin, 'cur, 'x) Config"
    and V :: "('acc, 'cur, 'x) raw_services"
  assumes services_apart: "key \<in> service_keys V \<Longrightarrow> \<not> prefix (pallet_prefix H) key"
    and transfer_raw:
      "services_ready V raw \<Longrightarrow> raw_transfer V a b v req raw = (r, raw') \<Longrightarrow>
         Currency_transfer T a b v req (raw_currency V raw) = (r, raw_currency V raw') \<and>
         raw_events V raw' = raw_events V raw \<and> services_ready V raw' \<and>
         (\<forall>key. key \<notin> service_keys V \<longrightarrow> raw' key = raw key)"
    and deposit_raw:
      "services_ready V raw \<Longrightarrow>
         raw_events V (raw_deposit V e raw) = raw_events V raw @ [e] \<and>
         raw_currency V (raw_deposit V e raw) = raw_currency V raw \<and>
         services_ready V (raw_deposit V e raw) \<and>
         (\<forall>key. key \<notin> service_keys V \<longrightarrow> raw_deposit V e raw key = raw key)"
    and pallet_write:
      "services_ready V raw \<Longrightarrow> prefix (pallet_prefix H) key \<Longrightarrow>
         services_ready V (raw(key := content)) \<and> raw_currency V (raw(key := content)) = raw_currency V raw \<and>
         raw_events V (raw(key := content)) = raw_events V raw"

section \<open>Simulation\<close>

definition raw_ok :: "'acc scale \<Rightarrow> hasher \<Rightarrow> ('acc, 'cur, 'x) raw_services \<Rightarrow> raw \<Rightarrow> bool" where
  "raw_ok S H V raw \<longleftrightarrow> raw_typed S H raw \<and> services_ready V raw"

text \<open>Nothing but entries of the pallet and of the services differs.\<close>

definition same_elsewhere ::
  "'acc scale \<Rightarrow> hasher \<Rightarrow> ('acc, 'cur, 'x) raw_services \<Rightarrow> raw \<Rightarrow> raw \<Rightarrow> bool" where
  "same_elsewhere S H V raw raw' \<longleftrightarrow>
     (\<forall>key. key \<notin> range (entry_key S H) \<and> key \<notin> service_keys V \<longrightarrow> raw' key = raw key)"

text \<open>A result on bytes and the result on the view: the same outcome, and the view of what is left.\<close>

definition simulated ::
  "'acc scale \<Rightarrow> hasher \<Rightarrow> ('acc, 'cur, 'x) raw_services \<Rightarrow> raw \<Rightarrow> 'x RawResult \<Rightarrow>
   ('acc, 'cur, 'x) DispatchResult \<Rightarrow> bool" where
  "simulated S H V raw x y \<longleftrightarrow>
     fst y = fst x \<and> snd y = typed_view S H V (snd x) \<and> raw_ok S H V (snd x) \<and>
     same_elsewhere S H V raw (snd x)"

named_theorems raw_simps \<open>reads and writes of raw storage, seen in the view\<close>

lemmas raw_call_defs = raw_register_artist_def raw_create_collection_def raw_delete_collection_def
  raw_add_item_to_collection_def raw_create_nft_def raw_transfer_nft_def raw_burn_nft_def raw_mint_nft_def

lemma same_elsewhere_refl: "same_elsewhere S H V raw raw"
  by (simp add: same_elsewhere_def)

lemma same_elsewhere_trans:
  "same_elsewhere S H V raw raw1 \<Longrightarrow> same_elsewhere S H V raw1 raw2 \<Longrightarrow> same_elsewhere S H V raw raw2"
  by (simp add: same_elsewhere_def)

lemma view_fields [raw_simps]:
  "Artists (typed_view S H V raw) a = raw_get (dec_bool S) raw (Artists_key S H a)"
  "Collections (typed_view S H V raw) cid = raw_get (decode_Collection S) raw (Collections_key S H cid)"
  "Nfts (typed_view S H V raw) k = raw_get (decode_NFT S) raw (Nfts_key S H k)"
  "NextItemId (typed_view S H V raw) cid = raw_get (dec_u32 S) raw (NextItemId_key S H cid)"
  "NextCollectionId (typed_view S H V raw) = raw_get (dec_u32 S) raw (NextCollectionId_key H)"
  "currency (typed_view S H V raw) = raw_currency V raw"
  "events (typed_view S H V raw) = raw_events V raw"
  by (simp_all add: typed_view_def)

lemma elsewhere_write [raw_simps]:
  "same_elsewhere S H V raw (raw'(Artists_key S H a := b)) = same_elsewhere S H V raw raw'"
  "same_elsewhere S H V raw (raw'(Collections_key S H c := b)) = same_elsewhere S H V raw raw'"
  "same_elsewhere S H V raw (raw'(Nfts_key S H k := b)) = same_elsewhere S H V raw raw'"
  "same_elsewhere S H V raw (raw'(NextItemId_key S H c := b)) = same_elsewhere S H V raw raw'"
  "same_elsewhere S H V raw (raw'(NextCollectionId_key H := b)) = same_elsewhere S H V raw raw'"
proof -
  have "same_elsewhere S H V raw (raw'(entry_key S H e := b)) = same_elsewhere S H V raw raw'" for e
    by (auto simp: same_elsewhere_def)
  from this [of "ArtistsEntry a"] this [of "CollectionsEntry c"] this [of "NftsEntry k"]
    this [of "NextItemIdEntry c"] this [of NextCollectionIdEntry]
  show "same_elsewhere S H V raw (raw'(Artists_key S H a := b)) = same_elsewhere S H V raw raw'"
    "same_elsewhere S H V raw (raw'(Collections_key S H c := b)) = same_elsewhere S H V raw raw'"
    "same_elsewhere S H V raw (raw'(Nfts_key S H k := b)) = same_elsewhere S H V raw raw'"
    "same_elsewhere S H V raw (raw'(NextItemId_key S H c := b)) = same_elsewhere S H V raw raw'"
    "same_elsewhere S H V raw (raw'(NextCollectionId_key H := b)) = same_elsewhere S H V raw raw'"
    by simp_all
qed

lemma contains_written: "raw_contains_key (raw(key \<mapsto> b)) key"
  by (simp add: raw_contains_key_def)

lemma valid_updates [raw_simps]:
  "valid_NFT (nft\<lparr>owner := a, is_sold := t\<rparr>) = valid_NFT nft"
  "valid_Collection (col\<lparr>collection_nfts := xs\<rparr>) \<longleftrightarrow>
     length (collection_metadata col) \<le> 256 \<and> length xs \<le> 256"
  by (simp_all add: valid_NFT_def valid_Collection_def)

context raw_laws begin

lemma write_ok:
  assumes "raw_ok S H V raw" and "raw_typed S H (raw(entry_key S H e := b))"
  shows "raw_ok S H V (raw(entry_key S H e := b)) \<and>
    raw_currency V (raw(entry_key S H e := b)) = raw_currency V raw \<and>
    raw_events V (raw(entry_key S H e := b)) = raw_events V raw"
  using assms pallet_write [OF _ entry_below_prefix] by (auto simp: raw_ok_def)

lemmas write_simps = raw_typed_def get_other keys_apart keys_apart [symmetric] typed_other

lemma write_Artists [raw_simps]:
  assumes "raw_ok S H V raw"
  shows "raw_ok S H V (raw(Artists_key S H a \<mapsto> enc_bool S t))"
    and "typed_view S H V (raw(Artists_key S H a \<mapsto> enc_bool S t)) =
      (typed_view S H V raw)\<lparr>Artists := (Artists (typed_view S H V raw))(a \<mapsto> t)\<rparr>"
proof -
  have "raw_typed S H (raw(Artists_key S H a \<mapsto> enc_bool S t))"
    using assms by (simp add: raw_ok_def write_simps artists.typed_insert)
  from write_ok [OF assms, of "ArtistsEntry a" "Some (enc_bool S t)"] this
  show "raw_ok S H V (raw(Artists_key S H a \<mapsto> enc_bool S t))"
    "typed_view S H V (raw(Artists_key S H a \<mapsto> enc_bool S t)) =
      (typed_view S H V raw)\<lparr>Artists := (Artists (typed_view S H V raw))(a \<mapsto> t)\<rparr>"
    by (simp_all add: typed_view_def write_simps artists.get_insert)
qed

lemma write_Collections [raw_simps]:
  assumes "raw_ok S H V raw" "valid_Collection col"
  shows "raw_ok S H V (raw(Collections_key S H c \<mapsto> encode_Collection S col))"
    and "typed_view S H V (raw(Collections_key S H c \<mapsto> encode_Collection S col)) =
      (typed_view S H V raw)\<lparr>Collections := (Collections (typed_view S H V raw))(c \<mapsto> col)\<rparr>"
proof -
  have "raw_typed S H (raw(Collections_key S H c \<mapsto> encode_Collection S col))"
    using assms by (simp add: raw_ok_def write_simps collections.typed_insert)
  from write_ok [OF assms(1), of "CollectionsEntry c" "Some (encode_Collection S col)"] this
  show "raw_ok S H V (raw(Collections_key S H c \<mapsto> encode_Collection S col))"
    "typed_view S H V (raw(Collections_key S H c \<mapsto> encode_Collection S col)) =
      (typed_view S H V raw)\<lparr>Collections := (Collections (typed_view S H V raw))(c \<mapsto> col)\<rparr>"
    by (simp_all add: typed_view_def write_simps collections.get_insert assms(2))
qed

lemma remove_Collections [raw_simps]:
  assumes "raw_ok S H V raw"
  shows "raw_ok S H V (raw(Collections_key S H c := None))"
    and "typed_view S H V (raw(Collections_key S H c := None)) =
      (typed_view S H V raw)\<lparr>Collections := (Collections (typed_view S H V raw))(c := None)\<rparr>"
proof -
  have "raw_typed S H (raw(Collections_key S H c := None))"
    using assms by (simp add: raw_ok_def write_simps collections.typed_remove)
  from write_ok [OF assms(1), of "CollectionsEntry c" None] this
  show "raw_ok S H V (raw(Collections_key S H c := None))"
    "typed_view S H V (raw(Collections_key S H c := None)) =
      (typed_view S H V raw)\<lparr>Collections := (Collections (typed_view S H V raw))(c := None)\<rparr>"
    by (simp_all add: typed_view_def write_simps collections.get_remove)
qed

lemma write_Nfts [raw_simps]:
  assumes "raw_ok S H V raw" "valid_NFT nft"
  shows "raw_ok S H V (raw(Nfts_key S H k \<mapsto> encode_NFT S nft))"
    and "typed_view S H V (raw(Nfts_key S H k \<mapsto> encode_NFT S nft)) =
      (typed_view S H V raw)\<lparr>Nfts := (Nfts (typed_view S H V raw))(k \<mapsto> nft)\<rparr>"
proof -
  have "raw_typed S H (raw(Nfts_key S H k \<mapsto> encode_NFT S nft))"
    using assms by (simp add: raw_ok_def write_simps nfts.typed_insert)
  from write_ok [OF assms(1), of "NftsEntry k" "Some (encode_NFT S nft)"] this
  show "raw_ok S H V (raw(Nfts_key S H k \<mapsto> encode_NFT S nft))"
    "typed_view S H V (raw(Nfts_key S H k \<mapsto> encode_NFT S nft)) =
      (typed_view S H V raw)\<lparr>Nfts := (Nfts (typed_view S H V raw))(k \<mapsto> nft)\<rparr>"
    by (simp_all add: typed_view_def write_simps nfts.get_insert assms(2))
qed

lemma remove_Nfts [raw_simps]:
  assumes "raw_ok S H V raw"
  shows "raw_ok S H V (raw(Nfts_key S H k := None))"
    and "typed_view S H V (raw(Nfts_key S H k := None)) =
      (typed_view S H V raw)\<lparr>Nfts := (Nfts (typed_view S H V raw))(k := None)\<rparr>"
proof -
  have "raw_typed S H (raw(Nfts_key S H k := None))"
    using assms by (simp add: raw_ok_def write_simps nfts.typed_remove)
  from write_ok [OF assms(1), of "NftsEntry k" None] this
  show "raw_ok S H V (raw(Nfts_key S H k := None))"
    "typed_view S H V (raw(Nfts_key S H k := None)) =
      (typed_view S H V raw)\<lparr>Nfts := (Nfts (typed_view S H V raw))(k := None)\<rparr>"
    by (simp_all add: typed_view_def write_simps nfts.get_remove)
qed

lemma write_NextItemId [raw_simps]:
  assumes "raw_ok S H V raw"
  shows "raw_ok S H V (raw(NextItemId_key S H c \<mapsto> enc_u32 S n))"
    and "typed_view S H V (raw(NextItemId_key S H c \<mapsto> enc_u32 S n)) =
      (typed_view S H V raw)\<lparr>NextItemId := (NextItemId (typed_view S H V raw))(c \<mapsto> n)\<rparr>"
proof -
  have "raw_typed S H (raw(NextItemId_key S H c \<mapsto> enc_u32 S n))"
    using assms by (simp add: raw_ok_def write_simps item_counter.typed_insert)
  from write_ok [OF assms, of "NextItemIdEntry c" "Some (enc_u32 S n)"] this
  show "raw_ok S H V (raw(NextItemId_key S H c \<mapsto> enc_u32 S n))"
    "typed_view S H V (raw(NextItemId_key S H c \<mapsto> enc_u32 S n)) =
      (typed_view S H V raw)\<lparr>NextItemId := (NextItemId (typed_view S H V raw))(c \<mapsto> n)\<rparr>"
    by (simp_all add: typed_view_def write_simps item_counter.get_insert)
qed

lemma write_NextCollectionId [raw_simps]:
  assumes "raw_ok S H V raw"
  shows "raw_ok S H V (raw(NextCollectionId_key H \<mapsto> enc_u32 S n))"
    and "typed_view S H V (raw(NextCollectionId_key H \<mapsto> enc_u32 S n)) =
      (typed_view S H V raw)\<lparr>NextCollectionId := Some n\<rparr>"
proof -
  have "raw_typed S H (raw(NextCollectionId_key H \<mapsto> enc_u32 S n))"
    using assms collection_counter.typed_insert by (simp add: raw_ok_def write_simps)
  from write_ok [OF assms, of NextCollectionIdEntry "Some (enc_u32 S n)"] this
  show "raw_ok S H V (raw(NextCollectionId_key H \<mapsto> enc_u32 S n))"
    "typed_view S H V (raw(NextCollectionId_key H \<mapsto> enc_u32 S n)) =
      (typed_view S H V raw)\<lparr>NextCollectionId := Some n\<rparr>"
    by (simp_all add: typed_view_def write_simps) (simp add: raw_get_def u32.decode_all)
qed

end

section \<open>Reads and services in the view\<close>

context raw_laws begin

lemma contains_view [raw_simps]:
  assumes "raw_ok S H V raw"
  shows "raw_contains_key raw (Artists_key S H a) \<longleftrightarrow> raw_get (dec_bool S) raw (Artists_key S H a) \<noteq> None"
    and "raw_contains_key raw (Collections_key S H c) \<longleftrightarrow>
      raw_get (decode_Collection S) raw (Collections_key S H c) \<noteq> None"
  using artists.has_get [of raw a] collections.has_get [of raw c] assms
  by (simp_all add: raw_ok_def raw_typed_def raw_contains_key_def)

lemma view_valid:
  "raw_get (decode_NFT S) raw (Nfts_key S H k) = Some nft \<Longrightarrow> valid_NFT nft"
  "raw_get (decode_Collection S) raw (Collections_key S H c) = Some col \<Longrightarrow> valid_Collection col"
  by (rule nfts.get_valid collections.get_valid, assumption)+

lemma key_no_service: "entry_key S H e \<notin> service_keys V"
  using services_apart entry_below_prefix by blast

lemma untouched_entries:
  assumes "\<forall>key. key \<notin> service_keys V \<longrightarrow> raw' key = raw key"
  shows "raw' (Artists_key S H a) = raw (Artists_key S H a)"
    and "raw' (Collections_key S H c) = raw (Collections_key S H c)"
    and "raw' (Nfts_key S H k) = raw (Nfts_key S H k)"
    and "raw' (NextItemId_key S H c) = raw (NextItemId_key S H c)"
    and "raw' (NextCollectionId_key H) = raw (NextCollectionId_key H)"
  using assms key_no_service [of "ArtistsEntry a"] key_no_service [of "CollectionsEntry c"]
    key_no_service [of "NftsEntry k"] key_no_service [of "NextItemIdEntry c"]
    key_no_service [of NextCollectionIdEntry]
  by simp_all

lemma service_view:
  assumes "raw_ok S H V raw" and "\<forall>key. key \<notin> service_keys V \<longrightarrow> raw' key = raw key"
    and "services_ready V raw'"
  shows "raw_ok S H V raw'"
    and "typed_view S H V raw' =
      (typed_view S H V raw)\<lparr>currency := raw_currency V raw', events := raw_events V raw'\<rparr>"
    and "same_elsewhere S H V raw raw'"
  using assms untouched_entries [OF assms(2)]
  by (simp_all add: raw_ok_def raw_typed_def entries_typed_def typed_view_def raw_get_def
      same_elsewhere_def)

lemma deposit_view [raw_simps]:
  assumes "raw_ok S H V raw"
  shows "raw_ok S H V (raw_deposit V e raw)"
    and "typed_view S H V (raw_deposit V e raw) = deposit_event e (typed_view S H V raw)"
    and "same_elsewhere S H V raw (raw_deposit V e raw)"
proof -
  note law = deposit_raw [of raw e, OF assms [unfolded raw_ok_def, THEN conjunct2]]
  note view = service_view [OF assms, of "raw_deposit V e raw"]
  from law view show "raw_ok S H V (raw_deposit V e raw)"
    "same_elsewhere S H V raw (raw_deposit V e raw)" by blast+
  from law view(2) show "typed_view S H V (raw_deposit V e raw) = deposit_event e (typed_view S H V raw)"
    by (simp add: deposit_event_def) (simp add: typed_view_def)
qed

lemma deposit_elsewhere [raw_simps]:
  "raw_ok S H V raw' \<Longrightarrow> same_elsewhere S H V raw raw' \<Longrightarrow> same_elsewhere S H V raw (raw_deposit V e raw')"
  by (blast intro: same_elsewhere_trans deposit_view(3))

lemma transfer_view:
  assumes "raw_ok S H V raw" and "raw_transfer V a b v req raw = (r, raw')"
  shows "Currency_transfer T a b v req (raw_currency V raw) = (r, raw_currency V raw')"
    and "raw_ok S H V raw'"
    and "typed_view S H V raw' = (typed_view S H V raw)\<lparr>currency := raw_currency V raw'\<rparr>"
    and "same_elsewhere S H V raw raw'"
    and "raw_get (decode_NFT S) raw' (Nfts_key S H k) = raw_get (decode_NFT S) raw (Nfts_key S H k)"
proof -
  note law = transfer_raw [OF assms(1) [unfolded raw_ok_def, THEN conjunct2] assms(2)]
  note view = service_view [OF assms(1), of raw']
  from law show "Currency_transfer T a b v req (raw_currency V raw) = (r, raw_currency V raw')" by blast
  from law view show "raw_ok S H V raw'" "same_elsewhere S H V raw raw'" by blast+
  from law view(2) show "typed_view S H V raw' = (typed_view S H V raw)\<lparr>currency := raw_currency V raw'\<rparr>"
    by (simp add: typed_view_def)
  from law show "raw_get (decode_NFT S) raw' (Nfts_key S H k) = raw_get (decode_NFT S) raw (Nfts_key S H k)"
    using untouched_entries(3) [of raw' raw k] by (simp add: raw_get_def)
qed

section \<open>Every call is simulated\<close>

lemmas raw_reads = raw_get_or_def storage_get_or_def storage_get_def storage_contains_key_def
  storage_insert_def storage_remove_def

lemma register_artist_simulated:
  assumes "raw_ok S H V raw"
  shows "simulated S H V raw (raw_register_artist T S H V origin raw)
    (register_artist T origin (typed_view S H V raw))"
proof (cases "ensure_signed T origin")
  case (Inr who)
  obtain r raw1 where paid:
    "raw_transfer V who (PalletId_account T) (registration_fee T) KeepAlive raw = (r, raw1)"
    by fastforce
  note view = transfer_view [OF assms paid]
  show ?thesis
    using assms view(1-4) paid Inr
    by (cases r) (auto simp: simulated_def raw_register_artist_def register_artist_def raw_reads
        raw_simps same_elsewhere_refl view(3) Let_def)
qed (use assms in \<open>simp add: simulated_def raw_register_artist_def register_artist_def same_elsewhere_refl\<close>)

lemma create_collection_simulated:
  assumes "raw_ok S H V raw"
  shows "simulated S H V raw (raw_create_collection T S H V origin m raw)
    (create_collection T origin m (typed_view S H V raw))"
  using assms
  by (auto simp: simulated_def raw_create_collection_def create_collection_def raw_reads raw_simps
      same_elsewhere_refl valid_Collection_def bounded_simps Let_def split: sum.split option.split)

lemma delete_collection_simulated:
  assumes "raw_ok S H V raw"
  shows "simulated S H V raw (raw_delete_collection T S H V origin c raw)
    (delete_collection T origin c (typed_view S H V raw))"
  using assms
  by (auto simp: simulated_def raw_delete_collection_def delete_collection_def raw_reads raw_simps
      same_elsewhere_refl Let_def split: sum.split option.split)

lemma transfer_nft_simulated:
  assumes "raw_ok S H V raw"
  shows "simulated S H V raw (raw_transfer_nft T S H V origin c i to raw)
    (transfer_nft T origin c i to (typed_view S H V raw))"
  using assms
  by (auto simp: simulated_def raw_transfer_nft_def transfer_nft_def raw_reads raw_simps
      raw_try_mutate_def storage_try_mutate_def same_elsewhere_refl view_valid
      split: sum.split option.split)

end

context raw_laws begin

lemma create_nft_simulated:
  assumes ok: "raw_ok S H V raw"
  shows "simulated S H V raw (raw_create_nft T S H V origin c m p raw)
    (create_nft T origin c m p (typed_view S H V raw))"
proof (cases "ensure_signed T origin")
  case (Inr sender)
  show ?thesis
  proof (cases "raw_get (decode_Collection S) raw (Collections_key S H c)")
    case None
    with Inr ok show ?thesis
      by (simp add: simulated_def raw_create_nft_def create_nft_def raw_reads raw_simps same_elsewhere_refl)
  next
    case (Some col)
    note col = view_valid(2) [OF Some, unfolded valid_Collection_def]
    define i where "i = raw_get_or 0 (dec_u32 S) raw (NextItemId_key S H c)"
    have counter: "storage_get_or 0 (NextItemId (typed_view S H V raw)) c = i"
      by (simp add: i_def raw_reads raw_simps)
    define nft where "nft = \<lparr>owner = sender, nft_metadata = m, is_sold = False, price = p\<rparr>"
    define raw1 where "raw1 = raw(Nfts_key S H (c, i) \<mapsto> encode_NFT S nft)"
    show ?thesis
    proof (cases "length m \<le> 256")
      case True
      then have "valid_NFT nft" by (simp add: nft_def valid_NFT_def)
      note stored = write_Nfts [OF ok this, of "(c, i)", folded raw1_def]
      have other: "raw_get (decode_Collection S) raw1 (Collections_key S H c) = Some col"
        by (simp add: raw1_def write_simps Some)
      have elsewhere: "same_elsewhere S H V raw raw1"
        by (simp add: raw1_def raw_simps same_elsewhere_refl)
      have here: "raw_contains_key raw1 (Nfts_key S H (c, i))"
        by (simp add: raw1_def contains_written)
      have raw_body: "raw_create_nft T S H V origin c m p raw =
          (case raw_try_mutate (encode_Collection S) (decode_Collection S) (Collections_key S H c)
              (raw_add_item_to_collection S H c i) raw1 of
             (Inl e, raw2) \<Rightarrow> (Inl e, raw2)
           | (Inr _, raw2) \<Rightarrow>
               (Inr (), raw_deposit V (NFTMinted c i sender)
                 (raw2(NextItemId_key S H c \<mapsto> enc_u32 S (saturating_add i 1)))))"
        using Inr Some True ok here
        by (simp add: raw_create_nft_def raw_simps bounded_try_from_def Let_def
            i_def [symmetric] nft_def [symmetric] raw1_def [symmetric]
            split: prod.split sum.split)
      show ?thesis
        unfolding raw_body using Inr Some True stored other elsewhere col
        by (auto simp: simulated_def create_nft_def counter nft_def [symmetric] raw_simps
            storage_get_def storage_contains_key_def storage_insert_def
            raw_add_item_to_collection_def add_item_to_collection_def raw_try_mutate_def
            storage_try_mutate_def bounded_simps valid_Collection_def bounded_try_from_def
            Let_def split: option.split)
    next
      case False
      with Inr Some ok show ?thesis
        by (simp add: simulated_def raw_create_nft_def create_nft_def raw_reads raw_simps
            same_elsewhere_refl bounded_try_from_def)
    qed
  qed
qed (use ok in \<open>simp add: simulated_def raw_create_nft_def create_nft_def same_elsewhere_refl\<close>)

lemma burn_nft_simulated:
  assumes "raw_ok S H V raw"
  shows "simulated S H V raw (raw_burn_nft T S H V origin c i raw)
    (burn_nft T origin c i (typed_view S H V raw))"
proof -
  have fits: "valid_Collection (col\<lparr>collection_nfts := filter P (collection_nfts col)\<rparr>)"
    if "raw_get (decode_Collection S) raw (Collections_key S H c) = Some col" for col P
    using view_valid(2) [OF that]
    by (simp add: raw_simps) (simp add: valid_Collection_def le_trans [OF length_filter_le])
  show ?thesis
    using assms fits
    by (auto simp: simulated_def raw_burn_nft_def burn_nft_def raw_reads raw_simps
        raw_try_mutate_def storage_try_mutate_def same_elsewhere_refl write_simps Let_def
        split: sum.split option.split)
qed

lemma mint_nft_simulated:
  assumes "raw_ok S H V raw"
  shows "simulated S H V raw (raw_mint_nft T S H V origin c i raw)
    (mint_nft T origin c i (typed_view S H V raw))"
proof (cases "ensure_signed T origin")
  case (Inr buyer)
  show ?thesis
  proof (cases "raw_get (decode_NFT S) raw (Nfts_key S H (c, i))")
    case (Some nft)
    obtain r raw1 where paid: "raw_transfer V buyer (owner nft) (price nft) KeepAlive raw = (r, raw1)"
      by fastforce
    note view = transfer_view [OF assms paid]
    show ?thesis
      using assms view(1,2,4) paid Inr Some view_valid(1) [OF Some]
      by (cases r) (auto simp: simulated_def raw_mint_nft_def mint_nft_def raw_reads raw_simps
          raw_try_mutate_def storage_try_mutate_def same_elsewhere_refl view(3,5) Let_def)
  qed (use assms Inr in \<open>simp add: simulated_def raw_mint_nft_def mint_nft_def raw_reads raw_simps
      same_elsewhere_refl\<close>)
qed (use assms in \<open>simp add: simulated_def raw_mint_nft_def mint_nft_def same_elsewhere_refl\<close>)

lemma call_simulated:
  "raw_ok S H V raw \<Longrightarrow>
     simulated S H V raw (raw_call_body T S H V origin call raw)
       (call_body T origin call (typed_view S H V raw))"
  by (cases call)
    (simp_all add: register_artist_simulated create_collection_simulated delete_collection_simulated
      create_nft_simulated transfer_nft_simulated burn_nft_simulated mint_nft_simulated)

text \<open>Storage layers keep the simulation: both commit, or both return to where they were.\<close>

lemma dispatch_simulated:
  assumes "storage_layer layer" and "storage_layer raw_layer" and "raw_ok S H V raw"
  shows "simulated S H V raw (raw_dispatch raw_layer T S H V origin call raw)
    (dispatch layer T origin call (typed_view S H V raw))"
proof -
  obtain r raw' where body: "raw_call_body T S H V origin call raw = (r, raw')" by fastforce
  with call_simulated [OF assms(3), of origin call]
  have typed: "call_body T origin call (typed_view S H V raw) = (r, typed_view S H V raw')"
    and ok: "raw_ok S H V raw'" "same_elsewhere S H V raw raw'"
    by (simp_all add: simulated_def prod_eq_iff)
  show ?thesis
  proof (cases r)
    case (Inl e)
    with body typed show ?thesis
      using storage_layer.rollback [OF assms(1), of "call_body T origin call"]
        storage_layer.rollback [OF assms(2), of "raw_call_body T S H V origin call"] assms(3)
      by (simp add: dispatch_def raw_dispatch_def simulated_def same_elsewhere_refl)
  next
    case (Inr u)
    with body typed show ?thesis
      using storage_layer.commit [OF assms(1), of "call_body T origin call"]
        storage_layer.commit [OF assms(2), of "raw_call_body T S H V origin call"] ok
      by (simp add: dispatch_def raw_dispatch_def simulated_def)
  qed
qed

lemma run_simulated:
  assumes "storage_layer layer" and "storage_layer raw_layer" and "raw_ok S H V raw"
  shows "typed_view S H V (raw_run raw_layer T S H V calls raw) =
      run layer T calls (typed_view S H V raw) \<and>
    raw_ok S H V (raw_run raw_layer T S H V calls raw) \<and>
    same_elsewhere S H V raw (raw_run raw_layer T S H V calls raw)"
  using assms(3)
proof (induction calls arbitrary: raw)
  case (Cons step calls)
  obtain origin call where step: "step = (origin, call)" by fastforce
  let ?raw1 = "snd (raw_dispatch raw_layer T S H V origin call raw)"
  have "typed_view S H V ?raw1 = snd (dispatch layer T origin call (typed_view S H V raw))"
    "raw_ok S H V ?raw1" "same_elsewhere S H V raw ?raw1"
    using dispatch_simulated [OF assms(1,2) Cons.prems, of origin call] by (simp_all add: simulated_def)
  with Cons.IH [of ?raw1] show ?case
    unfolding step by (auto intro: same_elsewhere_trans)
qed (simp add: same_elsewhere_refl)

end

text \<open>What the view shows is what is stored, as its encoding.\<close>

context raw_laws begin

lemma nft_bytes:
  assumes "raw_ok S H V raw" and "Nfts (typed_view S H V raw) k = Some nft"
  shows "raw (Nfts_key S H k) = Some (encode_NFT S nft) \<and>
    length (encode_NFT S nft) \<le> NFT_max_encoded_len S"
proof -
  from assms(2) obtain b where b: "raw (Nfts_key S H k) = Some b"
    by (auto simp: raw_simps raw_get_def split: option.splits)
  with assms(1) obtain v where "valid_NFT v" "b = encode_NFT S v"
    unfolding raw_ok_def raw_typed_def by (blast dest: nfts.typed_entry)
  with b assms(2) have "raw (Nfts_key S H k) = Some (encode_NFT S nft)"
    by (simp add: raw_simps raw_get_def nft.decode_all)
  with assms(1) typed_widths(1) show ?thesis unfolding raw_ok_def by blast
qed

lemma collection_bytes:
  assumes "raw_ok S H V raw" and "Collections (typed_view S H V raw) c = Some col"
  shows "raw (Collections_key S H c) = Some (encode_Collection S col) \<and>
    length (encode_Collection S col) \<le> Collection_max_encoded_len S"
proof -
  from assms(2) obtain b where b: "raw (Collections_key S H c) = Some b"
    by (auto simp: raw_simps raw_get_def split: option.splits)
  with assms(1) obtain v where "valid_Collection v" "b = encode_Collection S v"
    unfolding raw_ok_def raw_typed_def by (blast dest: collections.typed_entry)
  with b assms(2) have "raw (Collections_key S H c) = Some (encode_Collection S col)"
    by (simp add: raw_simps raw_get_def collection.decode_all)
  with assms(1) typed_widths(2) show ?thesis unfolding raw_ok_def by blast
qed

end

section \<open>A concrete raw storage\<close>

text \<open>
  Accounts are 32 bytes.  A balance is an entry of 16 bytes at a key that starts with 0, the events
  are counted in unary at the key 1, and the currency is the reference ledger with an existential
  deposit of 10.
\<close>

instance Event :: (countable) countable
  by countable_datatype

definition balance_key :: "256 word \<Rightarrow> bytes" where
  "balance_key a = 0 # enc_account reference_scale a"

definition raw_balances :: "raw \<Rightarrow> 256 word \<Rightarrow> nat" where
  "raw_balances raw a =
     (case raw_get (dec_u128 reference_scale) raw (balance_key a) of None \<Rightarrow> 0 | Some n \<Rightarrow> unat n)"

definition sample_raw_config ::
  "(256 word, 256 word option, 256 word \<Rightarrow> nat, ServiceError) Config" where
  "sample_raw_config =
     \<lparr>ensure_signed = (\<lambda>origin. case origin of None \<Rightarrow> Inl BadOrigin | Some a \<Rightarrow> Inr a),
      Currency_minimum_balance = 10, Currency_transfer = ledger_transfer 10, PalletId_account = 0\<rparr>"

definition sample_services :: "(256 word, 256 word \<Rightarrow> nat, ServiceError) raw_services" where
  "sample_services =
     \<lparr>raw_currency = raw_balances,
      raw_events = (\<lambda>raw. case raw [1] of None \<Rightarrow> [] | Some b \<Rightarrow> from_nat (length b)),
      raw_transfer = (\<lambda>a b v req raw.
        case ledger_transfer 10 a b v req (raw_balances raw) of
          (Inl e, _) \<Rightarrow> (Inl e, raw)
        | (Inr _, c) \<Rightarrow>
            (Inr (), raw(balance_key a \<mapsto> enc_u128 reference_scale (of_nat (c a)),
                         balance_key b \<mapsto> enc_u128 reference_scale (of_nat (c b))))),
      raw_deposit = (\<lambda>e raw. raw([1] \<mapsto>
        replicate (to_nat ((case raw [1] of None \<Rightarrow> [] | Some b \<Rightarrow> from_nat (length b)) @ [e])) 0)),
      services_ready = (\<lambda>_. True),
      service_keys = insert [1] (range balance_key)\<rparr>"

text \<open>Account 1 owns a million, nothing else is stored.\<close>

definition sample_raw :: raw where
  "sample_raw = [balance_key 1 \<mapsto> enc_u128 reference_scale 1000000]"

lemma balance_key_inj: "balance_key a = balance_key b \<longleftrightarrow> a = b"
  using reference_codec.account.enc_inj [of a b] by (auto simp: balance_key_def)

lemma balance_key_apart: "balance_key a \<noteq> [1]"
  by (simp add: balance_key_def)

lemma sample_prefix: "\<exists>bs. pallet_prefix sample_hasher = 84 # bs"
  by (simp add: pallet_prefix_def sample_hasher_def pallet_name_def)

lemma sample_services_apart:
  "prefix (pallet_prefix sample_hasher) key \<Longrightarrow> key \<noteq> [1] \<and> key \<noteq> balance_key a"
  using sample_prefix by (auto simp: balance_key_def)

lemma raw_balances_small: "raw_balances raw a < 2 ^ 128"
proof -
  have "unat (n :: u128) < 2 ^ 128" for n using unsigned_less [of n] by simp
  then show ?thesis by (simp add: raw_balances_def split: option.split)
qed

lemma raw_balances_write:
  "n < 2 ^ 128 \<Longrightarrow>
     raw_balances (raw(balance_key a \<mapsto> enc_u128 reference_scale (of_nat n))) = (raw_balances raw)(a := n)"
  by (rule ext)
    (simp add: raw_balances_def raw_get_def balance_key_inj reference_codec.u128.decode_all
      unat_of_nat_small)

lemma raw_balances_other: "(\<And>a. key \<noteq> balance_key a) \<Longrightarrow> raw_balances (raw(key := b)) = raw_balances raw"
  by (rule ext) (metis raw_balances_def get_other)

lemma ledger_small:
  assumes "ledger_transfer ed a b v req c = (Inr (), c')" and "\<And>x. c x < 2 ^ 128"
  shows "c' x < 2 ^ 128" and "c(a := c' a, b := c' b) = c'"
  using assms(1) assms(2) [of a] assms(2) [of b] assms(2) [of x]
  by (auto simp: ledger_transfer_def split: if_splits)

lemma sample_raw_laws: "raw_laws reference_scale sample_hasher sample_raw_config sample_services"
proof unfold_locales
  fix key assume "key \<in> service_keys sample_services"
  then show "\<not> prefix (pallet_prefix sample_hasher) key"
    using sample_services_apart by (auto simp: sample_services_def)
next
  fix raw a b v req r raw'
  assume moved: "raw_transfer sample_services a b v req raw = (r, raw')"
  obtain r' c where paid: "ledger_transfer 10 a b v req (raw_balances raw) = (r', c)" by fastforce
  show "Currency_transfer sample_raw_config a b v req (raw_currency sample_services raw) =
      (r, raw_currency sample_services raw') \<and>
      raw_events sample_services raw' = raw_events sample_services raw \<and>
      services_ready sample_services raw' \<and>
      (\<forall>key. key \<notin> service_keys sample_services \<longrightarrow> raw' key = raw key)"
  proof (cases r')
    case (Inl e)
    with moved paid show ?thesis
      by (auto simp: sample_services_def sample_raw_config_def ledger_transfer_def split: if_splits)
  next
    case (Inr u)
    with paid have ok: "ledger_transfer 10 a b v req (raw_balances raw) = (Inr (), c)" by simp
    note small = ledger_small [OF ok raw_balances_small]
    have raw': "r = Inr ()" "raw' = raw(balance_key a \<mapsto> enc_u128 reference_scale (of_nat (c a)),
        balance_key b \<mapsto> enc_u128 reference_scale (of_nat (c b)))"
      using moved ok by (simp_all add: sample_services_def)
    have "raw_balances raw' = c"
      unfolding raw'(2) raw_balances_write [OF small(1)] by (rule small(2))
    with ok raw' show ?thesis
      by (simp add: sample_services_def sample_raw_config_def balance_key_apart [symmetric])
  qed
next
  fix raw e
  show "raw_events sample_services (raw_deposit sample_services e raw) = raw_events sample_services raw @ [e] \<and>
      raw_currency sample_services (raw_deposit sample_services e raw) = raw_currency sample_services raw \<and>
      services_ready sample_services (raw_deposit sample_services e raw) \<and>
      (\<forall>key. key \<notin> service_keys sample_services \<longrightarrow> raw_deposit sample_services e raw key = raw key)"
    by (simp add: sample_services_def raw_balances_other balance_key_apart [symmetric])
next
  fix raw key content
  assume "prefix (pallet_prefix sample_hasher) key"
  then show "services_ready sample_services (raw(key := content)) \<and>
      raw_currency sample_services (raw(key := content)) = raw_currency sample_services raw \<and>
      raw_events sample_services (raw(key := content)) = raw_events sample_services raw"
    using sample_services_apart [of key] by (auto simp: sample_services_def raw_balances_other)
qed

interpretation sample_bytes: raw_laws reference_scale sample_hasher sample_raw_config sample_services
  by (rule sample_raw_laws)

lemma sample_raw_fresh:
  "raw_typed reference_scale sample_hasher sample_raw"
  "typed_view reference_scale sample_hasher sample_services sample_raw = genesis ((\<lambda>_. 0)(1 := 1000000))"
proof -
  have none: "prefix (pallet_prefix sample_hasher) key \<Longrightarrow> sample_raw key = None" for key
    using sample_services_apart [of key 1] by (auto simp: sample_raw_def)
  note empty = none [OF sample_storage.keys_below_prefix(1)] none [OF sample_storage.keys_below_prefix(2)]
    none [OF sample_storage.keys_below_prefix(3)] none [OF sample_storage.keys_below_prefix(4)]
    none [OF sample_storage.keys_below_prefix(5)]
  show "raw_typed reference_scale sample_hasher sample_raw"
    by (simp add: raw_typed_def entries_typed_def empty)
  have "raw_balances sample_raw = (raw_balances Map.empty)(1 := 1000000)"
    using raw_balances_write [of 1000000 Map.empty 1] by (simp add: sample_raw_def)
  moreover have "raw_balances Map.empty = (\<lambda>_. 0)" by (rule ext) (simp add: raw_balances_def raw_get_def)
  ultimately show "typed_view reference_scale sample_hasher sample_services sample_raw =
      genesis ((\<lambda>_. 0)(1 := 1000000))"
    using balance_key_apart [of 1]
    by (simp add: typed_view_def genesis_def raw_get_def empty sample_services_def)
      (simp add: sample_raw_def)
qed

section \<open>Properties\<close>

text \<open>
  C20.  The calls on bytes refine the calls on the typed storage: over a raw storage in which every
  entry of the pallet is the encoding of a value of its item, any run of calls ends with the bytes
  whose view is the result of the typed run, and every further call has the same outcome in both.
  The storage is typed again; every NFT and every collection is stored as exactly its encoding,
  within the declared maximum of bytes; and nothing differs but entries of the pallet and of the
  currency and the events.
\<close>

theorem raw_run_refines:
  assumes "raw_laws S H T V" and "storage_layer layer" and "storage_layer raw_layer"
    and "raw_typed S H raw" and "services_ready V raw"
    and raw': "raw' = raw_run raw_layer T S H V calls raw"
    and s': "s' = run layer T calls (typed_view S H V raw)"
  shows "typed_view S H V raw' = s' \<and>
    fst (raw_dispatch raw_layer T S H V origin call raw') = fst (dispatch layer T origin call s') \<and>
    raw_typed S H raw' \<and>
    (\<forall>k nft. Nfts s' k = Some nft \<longrightarrow>
       raw' (Nfts_key S H k) = Some (encode_NFT S nft) \<and>
       length (encode_NFT S nft) \<le> NFT_max_encoded_len S) \<and>
    (\<forall>c col. Collections s' c = Some col \<longrightarrow>
       raw' (Collections_key S H c) = Some (encode_Collection S col) \<and>
       length (encode_Collection S col) \<le> Collection_max_encoded_len S) \<and>
    (\<forall>key. key \<notin> range (entry_key S H) \<and> key \<notin> service_keys V \<longrightarrow> raw' key = raw key)"
proof -
  have ok: "raw_ok S H V raw" using assms(4,5) by (simp add: raw_ok_def)
  note run = raw_laws.run_simulated [OF assms(1-3) ok, of calls, folded raw' s']
  have "fst (raw_dispatch raw_layer T S H V origin call raw') = fst (dispatch layer T origin call s')"
    using raw_laws.dispatch_simulated [OF assms(1-3), of raw' origin call] run
    by (auto simp: simulated_def)
  moreover have "raw' (Nfts_key S H k) = Some (encode_NFT S nft) \<and>
      length (encode_NFT S nft) \<le> NFT_max_encoded_len S" if "Nfts s' k = Some nft" for k nft
    using raw_laws.nft_bytes [OF assms(1), of raw' k nft] run that by simp
  moreover have "raw' (Collections_key S H c) = Some (encode_Collection S col) \<and>
      length (encode_Collection S col) \<le> Collection_max_encoded_len S" if "Collections s' c = Some col" for c col
    using raw_laws.collection_bytes [OF assms(1), of raw' c col] run that by simp
  ultimately show ?thesis using run by (simp add: raw_ok_def same_elsewhere_def)
qed

theorem raw_run_refines_witness:
  "raw_run with_storage_layer sample_raw_config reference_scale sample_hasher sample_services
     [(Some 1, RegisterArtist), (Some 1, CreateCollection []), (Some 2, CreateNft 0 [7] 5)] sample_raw
     (Nfts_key reference_scale sample_hasher (0, 0)) =
   Some (encode_NFT reference_scale \<lparr>owner = 2, nft_metadata = [7], is_sold = False, price = 5\<rparr>)"
proof -
  let ?calls = "[(Some 1, RegisterArtist), (Some 1, CreateCollection []), (Some 2, CreateNft 0 [7] 5)]"
  have "Nfts (run with_storage_layer sample_raw_config ?calls (genesis ((\<lambda>_. 0)(1 := 1000000)))) (0, 0) =
      Some \<lparr>owner = 2, nft_metadata = [7], is_sold = False, price = 5\<rparr>"
    by (simp add: dispatch_def with_storage_layer_def call_defs deposit_event_def storage_defs
        storage_try_mutate_def bounded_try_from_def bounded_try_push_def sample_raw_config_def
        registration_fee_def ledger_transfer_def genesis_def saturating_add_one Let_def)
  moreover have "services_ready sample_services sample_raw" by (simp add: sample_services_def)
  ultimately show ?thesis
    using raw_run_refines [OF sample_raw_laws reference_layer reference_layer sample_raw_fresh(1) _ refl
        refl, of ?calls] sample_raw_fresh(2)
    by fastforce
qed

end
