(* ===== verification/Runtime_Genesis.thy ===== *)
theory Runtime_Genesis
  imports Runtime_Config Nft_Properties
begin

text \<open>
  The genesis presets of the runtime, \<open>src/runtime/src/genesis_config_presets.rs\<close>.  What the
  file takes from the SDK (the derivation of accounts and keys from seeds, the names of the
  presets, the current XCM version, JSON serialisation, the defaults of the fields that the
  source does not set) is the parameter \<open>genesis_env\<close>.  A failed \<open>expect\<close> is the value \<open>Panic\<close>.
\<close>

section \<open>Data\<close>

type_synonym ParaId = u32

record 'aura SessionKeys =
  aura :: 'aura

record 'acc BalancesGenesis =
  genesis_balances :: "('acc \<times> Balance) list"

record ParachainInfoGenesis =
  parachain_id :: ParaId

record 'acc CollatorSelectionGenesis =
  invulnerables :: "'acc list"
  candidacy_bond :: Balance

record ('acc, 'aura) SessionGenesis =
  genesis_keys :: "('acc \<times> 'acc \<times> 'aura SessionKeys) list"

record PolkadotXcmGenesis =
  safe_xcm_version :: "u32 option"

record 'acc SudoGenesis =
  sudo_key :: "'acc option"

text \<open>\<open>defaulted\<close> holds every field that the source fills by \<open>..Default::default()\<close>.\<close>

record ('acc, 'aura, 'd) RuntimeGenesisConfig =
  balances :: "'acc BalancesGenesis"
  parachain_info :: ParachainInfoGenesis
  collator_selection :: "'acc CollatorSelectionGenesis"
  session :: "('acc, 'aura) SessionGenesis"
  polkadot_xcm :: PolkadotXcmGenesis
  sudo :: "'acc SudoGenesis"
  defaulted :: 'd

record ('acc, 'aura, 'd, 'json, 'id) genesis_env =
  get_account_id_from_seed :: "string \<Rightarrow> 'acc"
  get_collator_keys_from_seed :: "string \<Rightarrow> 'aura"
  XCM_VERSION :: u32
  Default :: 'd
  to_value :: "('acc, 'aura, 'd) RuntimeGenesisConfig \<Rightarrow> 'json option"
  json_to_string :: "'json \<Rightarrow> string option"
  DEV_RUNTIME_PRESET :: string
  LOCAL_TESTNET_RUNTIME_PRESET :: string
  PresetId_from :: "string \<Rightarrow> 'id"
  PresetId_try_into :: "'id \<Rightarrow> string option"

section \<open>The presets\<close>

definition SAFE_XCM_VERSION :: "('acc, 'aura, 'd, 'json, 'id) genesis_env \<Rightarrow> u32" where
  "SAFE_XCM_VERSION E = XCM_VERSION E"

definition template_session_keys :: "'aura \<Rightarrow> 'aura SessionKeys" where
  "template_session_keys keys = \<lparr>aura = keys\<rparr>"

text \<open>The configuration that \<open>testnet_genesis\<close> builds, and the function itself.\<close>

definition testnet_config ::
  "('acc, 'aura, 'd, 'json, 'id) genesis_env \<Rightarrow> ('acc \<times> 'aura) list \<Rightarrow> 'acc list \<Rightarrow> 'acc \<Rightarrow> ParaId \<Rightarrow>
   ('acc, 'aura, 'd) RuntimeGenesisConfig" where
  "testnet_config E invs endowed_accounts root para =
     \<lparr>balances = \<lparr>genesis_balances = map (\<lambda>k. (k, push_bit 60 1)) endowed_accounts\<rparr>,
      parachain_info = \<lparr>parachain_id = para\<rparr>,
      collator_selection =
        \<lparr>invulnerables = map (\<lambda>(acc, _). acc) invs, candidacy_bond = EXISTENTIAL_DEPOSIT * 16\<rparr>,
      session =
        \<lparr>genesis_keys = map (\<lambda>(acc, aura). (acc, acc, template_session_keys aura)) invs\<rparr>,
      polkadot_xcm = \<lparr>safe_xcm_version = Some (SAFE_XCM_VERSION E)\<rparr>,
      sudo = \<lparr>sudo_key = Some root\<rparr>,
      defaulted = Default E\<rparr>"

definition testnet_genesis ::
  "('acc, 'aura, 'd, 'json, 'id) genesis_env \<Rightarrow> ('acc \<times> 'aura) list \<Rightarrow> 'acc list \<Rightarrow> 'acc \<Rightarrow> ParaId \<Rightarrow>
   Panic + 'json" where
  "testnet_genesis E invs endowed_accounts root para =
     (case to_value E (testnet_config E invs endowed_accounts root para) of
        None \<Rightarrow> Inl (Panic ''Could not build genesis config.'')
      | Some v \<Rightarrow> Inr v)"

definition local_testnet_genesis ::
  "('acc, 'aura, 'd, 'json, 'id) genesis_env \<Rightarrow> Panic + 'json" where
  "local_testnet_genesis E =
     testnet_genesis E
       [(get_account_id_from_seed E ''Alice'', get_collator_keys_from_seed E ''Alice''),
        (get_account_id_from_seed E ''Bob'', get_collator_keys_from_seed E ''Bob'')]
       [get_account_id_from_seed E ''Alice'',
        get_account_id_from_seed E ''Bob'',
        get_account_id_from_seed E ''Charlie'',
        get_account_id_from_seed E ''Dave'',
        get_account_id_from_seed E ''Eve'',
        get_account_id_from_seed E ''Ferdie'',
        get_account_id_from_seed E ''Alice//stash'',
        get_account_id_from_seed E ''Bob//stash'',
        get_account_id_from_seed E ''Charlie//stash'',
        get_account_id_from_seed E ''Dave//stash'',
        get_account_id_from_seed E ''Eve//stash'',
        get_account_id_from_seed E ''Ferdie//stash'']
       (get_account_id_from_seed E ''Alice'')
       1000"

definition development_config_genesis ::
  "('acc, 'aura, 'd, 'json, 'id) genesis_env \<Rightarrow> Panic + 'json" where
  "development_config_genesis E =
     testnet_genesis E
       [(get_account_id_from_seed E ''Alice'', get_collator_keys_from_seed E ''Alice''),
        (get_account_id_from_seed E ''Bob'', get_collator_keys_from_seed E ''Bob'')]
       [get_account_id_from_seed E ''Alice'',
        get_account_id_from_seed E ''Bob'',
        get_account_id_from_seed E ''Charlie'',
        get_account_id_from_seed E ''Dave'',
        get_account_id_from_seed E ''Eve'',
        get_account_id_from_seed E ''Ferdie'',
        get_account_id_from_seed E ''Alice//stash'',
        get_account_id_from_seed E ''Bob//stash'',
        get_account_id_from_seed E ''Charlie//stash'',
        get_account_id_from_seed E ''Dave//stash'',
        get_account_id_from_seed E ''Eve//stash'',
        get_account_id_from_seed E ''Ferdie//stash'']
       (get_account_id_from_seed E ''Alice'')
       1000"

text \<open>
  A string is its list of bytes.  An id that is not a string (\<open>Err\<close> of \<open>try_into\<close>) or names no
  preset gives \<open>None\<close>.
\<close>

definition get_preset ::
  "('acc, 'aura, 'd, 'json, 'id) genesis_env \<Rightarrow> 'id \<Rightarrow> Panic + u8 list option" where
  "get_preset E pid =
     (let render = (\<lambda>patch. case json_to_string E patch of
            None \<Rightarrow> Inl (Panic ''serialization to json is expected to work. qed.'')
          | Some s \<Rightarrow> Inr (Some (map of_char s)))
      in case PresetId_try_into E pid of
           None \<Rightarrow> Inr None
         | Some name \<Rightarrow>
             if name = LOCAL_TESTNET_RUNTIME_PRESET E
             then (case local_testnet_genesis E of Inl p \<Rightarrow> Inl p | Inr patch \<Rightarrow> render patch)
             else if name = DEV_RUNTIME_PRESET E
             then (case development_config_genesis E of Inl p \<Rightarrow> Inl p | Inr patch \<Rightarrow> render patch)
             else Inr None)"

definition preset_names :: "('acc, 'aura, 'd, 'json, 'id) genesis_env \<Rightarrow> 'id list" where
  "preset_names E =
     [PresetId_from E (DEV_RUNTIME_PRESET E), PresetId_from E (LOCAL_TESTNET_RUNTIME_PRESET E)]"

text \<open>The accounts of the presets.\<close>

definition well_known_seeds :: "string list" where
  "well_known_seeds =
     [''Alice'', ''Bob'', ''Charlie'', ''Dave'', ''Eve'', ''Ferdie'',
      ''Alice//stash'', ''Bob//stash'', ''Charlie//stash'', ''Dave//stash'', ''Eve//stash'',
      ''Ferdie//stash'']"

text \<open>
  What the pallets demand of a genesis configuration before they build their storage from it:
  every account is endowed once and with at least the existential deposit, the issuance fits its
  type, the invulnerable collators are distinct, within their limit, able to pay their bond, and
  are exactly the accounts with session keys, each acting as its own validator; the sudo key can
  pay fees.
\<close>

definition genesis_wf :: "('acc, 'aura, 'd) RuntimeGenesisConfig \<Rightarrow> bool" where
  "genesis_wf g \<longleftrightarrow>
     (let funds = genesis_balances (balances g);
          invs = invulnerables (collator_selection g);
          keys = genesis_keys (session g)
      in distinct (map fst funds) \<and>
         (\<forall>(a, b) \<in> set funds. EXISTENTIAL_DEPOSIT \<le> b) \<and>
         (\<Sum>(a, b)\<leftarrow>funds. unat b) < 2 ^ 128 \<and>
         invs \<noteq> [] \<and> distinct invs \<and>
         length invs \<le> unat (MaxInvulnerables pallet_collator_selection_config) \<and>
         (\<forall>a \<in> set invs. \<exists>b. (a, b) \<in> set funds \<and>
            unat (candidacy_bond (collator_selection g)) + unat EXISTENTIAL_DEPOSIT \<le> unat b) \<and>
         map fst keys = invs \<and>
         (\<forall>(acc, validator, ks) \<in> set keys. validator = acc) \<and>
         (\<exists>root. sudo_key (sudo g) = Some root \<and> root \<in> set (map fst funds)))"

text \<open>
  The configuration that both presets are to serialise: Alice and Bob collate, the twelve
  well-known accounts are endowed, Alice is root, and the parachain is 1000.
\<close>

definition preset_config ::
  "('acc, 'aura, 'd, 'json, 'id) genesis_env \<Rightarrow> ('acc, 'aura, 'd) RuntimeGenesisConfig" where
  "preset_config E =
     testnet_config E
       (map (\<lambda>s. (get_account_id_from_seed E s, get_collator_keys_from_seed E s)) [''Alice'', ''Bob''])
       (map (get_account_id_from_seed E) well_known_seeds) (get_account_id_from_seed E ''Alice'') 1000"

text \<open>A concrete environment: seeds are their own accounts and keys.\<close>

definition reference_env ::
  "(string, string, unit, (string, string, unit) RuntimeGenesisConfig, string) genesis_env" where
  "reference_env =
     \<lparr>get_account_id_from_seed = (\<lambda>s. s), get_collator_keys_from_seed = (\<lambda>s. s), XCM_VERSION = 4,
      Default = (), to_value = Some,
      json_to_string = (\<lambda>g. Some (concat (map fst (genesis_balances (balances g))))),
      DEV_RUNTIME_PRESET = ''development'', LOCAL_TESTNET_RUNTIME_PRESET = ''local_testnet'',
      PresetId_from = (\<lambda>s. s), PresetId_try_into = Some\<rparr>"

section \<open>The environment interface\<close>

text \<open>
  The names of the two presets differ, a preset id is the text it was made from, serialisation
  of a configuration succeeds, and the well-known seeds derive different accounts.
\<close>

locale genesis_laws =
  fixes E :: "('acc, 'aura, 'd, 'json, 'id) genesis_env"
  assumes names_differ: "DEV_RUNTIME_PRESET E \<noteq> LOCAL_TESTNET_RUNTIME_PRESET E"
    and id_text: "PresetId_try_into E pid = Some s \<longleftrightarrow> pid = PresetId_from E s"
    and to_value_ok: "\<exists>j. to_value E g = Some j"
    and to_string_ok: "\<exists>s. json_to_string E j = Some s"
    and seeds_differ: "inj_on (get_account_id_from_seed E) (set well_known_seeds)"
begin

lemma id_inj: "PresetId_from E s = PresetId_from E t \<longleftrightarrow> s = t"
  using id_text by (metis option.inject)

lemma well_known_distinct: "distinct (map (get_account_id_from_seed E) well_known_seeds)"
  unfolding distinct_map using seeds_differ by (simp add: well_known_seeds_def)

end

lemma reference_env_laws: "genesis_laws reference_env"
  by unfold_locales (auto simp: reference_env_def)

interpretation reference_genesis: genesis_laws reference_env
  by (rule reference_env_laws)

section \<open>Lemmas\<close>

lemma endowment_value: "unat (push_bit 60 1 :: Balance) = 2 ^ 60"
  by (simp add: push_bit_eq_mult)

lemma testnet_config_wf:
  assumes "distinct endowed" "length endowed < 2 ^ 68"
    and "invs \<noteq> []" "distinct (map fst invs)" "length invs \<le> 20" "fst ` set invs \<subseteq> set endowed"
    and "root \<in> set endowed"
  shows "genesis_wf (testnet_config E invs endowed root para)"
proof -
  let ?g = "testnet_config E invs endowed root para"
  have funds: "genesis_balances (balances ?g) = map (\<lambda>k. (k, push_bit 60 1)) endowed"
    by (simp add: testnet_config_def)
  have "(\<Sum>(a, b)\<leftarrow>genesis_balances (balances ?g). unat b) = length endowed * 2 ^ 60"
    unfolding funds by (simp add: o_def endowment_value sum_list_triv)
  also have "\<dots> < 2 ^ 128" using assms(2) by simp
  finally have total: "(\<Sum>(a, b)\<leftarrow>genesis_balances (balances ?g). unat b) < 2 ^ 128" .
  have bond: "candidacy_bond (collator_selection ?g) = 16000000000"
    by (simp add: testnet_config_def unit_defs)
  have invs: "invulnerables (collator_selection ?g) = map fst invs"
    by (auto simp: testnet_config_def)
  have pays: "\<forall>a \<in> set (map fst invs). \<exists>b. (a, b) \<in> set (genesis_balances (balances ?g)) \<and>
      unat (candidacy_bond (collator_selection ?g)) + unat EXISTENTIAL_DEPOSIT \<le> unat b"
  proof
    fix a assume "a \<in> set (map fst invs)"
    then have "(a, push_bit 60 1) \<in> set (genesis_balances (balances ?g))"
      using assms(6) unfolding funds by auto
    then show "\<exists>b. (a, b) \<in> set (genesis_balances (balances ?g)) \<and>
        unat (candidacy_bond (collator_selection ?g)) + unat EXISTENTIAL_DEPOSIT \<le> unat b"
      by (intro exI [of _ "push_bit 60 1"]) (simp add: bond endowment_value unit_defs)
  qed
  show ?thesis
    unfolding genesis_wf_def Let_def using assms(1,3-5,7) total pays
    unfolding invs
    by (auto simp: funds invs o_def endowment_value unit_defs word_le_nat_alt
        pallet_collator_selection_config_def testnet_config_def split_def)
qed

context genesis_laws begin

lemma testnet_genesis_value:
  "\<exists>j. testnet_genesis E invs endowed root para = Inr j \<and>
     to_value E (testnet_config E invs endowed root para) = Some j"
  using to_value_ok [of "testnet_config E invs endowed root para"]
  by (auto simp: testnet_genesis_def)

lemma preset_config_wf: "genesis_wf (preset_config E)"
  unfolding preset_config_def using well_known_distinct
  by (intro testnet_config_wf) (auto simp: well_known_seeds_def)

lemma preset_config_fields:
  "map fst (genesis_balances (balances (preset_config E))) =
     map (get_account_id_from_seed E) well_known_seeds"
  "parachain_id (parachain_info (preset_config E)) = 1000"
  "safe_xcm_version (polkadot_xcm (preset_config E)) = Some (XCM_VERSION E)"
  by (simp_all add: preset_config_def testnet_config_def SAFE_XCM_VERSION_def o_def)

text \<open>Both presets serialise this one configuration.\<close>

lemma preset_serialised:
  assumes "pid \<in> set (preset_names E)"
  shows "\<exists>j s. to_value E (preset_config E) = Some j \<and> json_to_string E j = Some s \<and>
    get_preset E pid = Inr (Some (map of_char s))"
proof -
  obtain j where j: "to_value E (preset_config E) = Some j" using to_value_ok by blast
  obtain s where s: "json_to_string E j = Some s" using to_string_ok by blast
  have "local_testnet_genesis E = Inr j" "development_config_genesis E = Inr j"
    using j by (simp_all add: local_testnet_genesis_def development_config_genesis_def
        testnet_genesis_def well_known_seeds_def preset_config_def)
  with assms s names_differ have "get_preset E pid = Inr (Some (map of_char s))"
    by (auto simp: get_preset_def preset_names_def id_text [THEN iffD2, OF refl])
  with j s show ?thesis by blast
qed

lemma preset_value:
  assumes "pid \<in> set (preset_names E)"
  shows "\<exists>g j s. to_value E g = Some j \<and> json_to_string E j = Some s \<and>
    get_preset E pid = Inr (Some (map of_char s)) \<and> genesis_wf g \<and>
    map fst (genesis_balances (balances g)) = map (get_account_id_from_seed E) well_known_seeds \<and>
    parachain_id (parachain_info g) = 1000 \<and>
    safe_xcm_version (polkadot_xcm g) = Some (XCM_VERSION E)"
  using preset_serialised [OF assms] preset_config_wf preset_config_fields by blast

lemma unknown_preset: "pid \<notin> set (preset_names E) \<Longrightarrow> get_preset E pid = Inr None"
  by (cases "PresetId_try_into E pid") (auto simp: get_preset_def preset_names_def Let_def dest: id_text [THEN iffD1])

end

section \<open>Properties\<close>

text \<open>
  The genesis builder is total and agrees with its list: \<open>get_preset\<close> never panics, it
  returns a configuration exactly for the ids of \<open>preset_names\<close>, and these are two different ids.
\<close>

theorem presets_are_the_listed_ones:
  assumes "genesis_laws E"
  shows "((\<exists>bytes. get_preset E pid = Inr (Some bytes)) \<longleftrightarrow> pid \<in> set (preset_names E)) \<and>
    (\<exists>r. get_preset E pid = Inr r) \<and> distinct (preset_names E)"
proof (cases "pid \<in> set (preset_names E)")
  case True
  moreover have "distinct (preset_names E)"
    using genesis_laws.id_inj [OF assms] genesis_laws.names_differ [OF assms]
    by (simp add: preset_names_def)
  ultimately show ?thesis using genesis_laws.preset_value [OF assms True] by auto
next
  case False
  moreover have "distinct (preset_names E)"
    using genesis_laws.id_inj [OF assms] genesis_laws.names_differ [OF assms]
    by (simp add: preset_names_def)
  ultimately show ?thesis using genesis_laws.unknown_preset [OF assms False] by simp
qed

theorem presets_are_the_listed_ones_witness:
  "(\<exists>bytes. get_preset reference_env ''development'' = Inr (Some bytes)) \<and>
   \<not> (\<exists>bytes. get_preset reference_env ''staging'' = Inr (Some bytes))"
  using presets_are_the_listed_ones [OF reference_env_laws, of "''development''"]
    presets_are_the_listed_ones [OF reference_env_laws, of "''staging''"]
  by (simp add: preset_names_def reference_env_def)

text \<open>
  Every preset serialises a configuration that the pallets accept (\<open>genesis_wf\<close>): it endows
  the twelve well-known accounts once each, above the existential deposit and within the range of
  the issuance, its two collators hold their session keys and can pay their bond, the sudo key is
  endowed, and it is for parachain 1000.
\<close>

theorem presets_well_formed:
  assumes "genesis_laws E" and "pid \<in> set (preset_names E)"
  shows "\<exists>g j s. to_value E g = Some j \<and> json_to_string E j = Some s \<and>
    get_preset E pid = Inr (Some (map of_char s)) \<and> genesis_wf g \<and>
    map fst (genesis_balances (balances g)) = map (get_account_id_from_seed E) well_known_seeds \<and>
    parachain_id (parachain_info g) = 1000 \<and>
    safe_xcm_version (polkadot_xcm g) = Some (XCM_VERSION E)"
  by (rule genesis_laws.preset_value [OF assms])

theorem presets_well_formed_witness:
  "\<exists>g s. json_to_string reference_env g = Some s \<and>
     get_preset reference_env ''local_testnet'' = Inr (Some (map of_char s)) \<and> genesis_wf g"
  using presets_well_formed [OF reference_env_laws, of "''local_testnet''"]
  by (auto simp: preset_names_def reference_env_def)

text \<open>
  C35.  A freshly built chain is usable: an account that \<open>testnet_genesis\<close> endows can register as
  an artist in the first block, pays a tenth of a \<open>UNIT\<close> and keeps the rest, provided the genesis
  currency holds the endowments as plain balances (nothing of them locked, frozen or held), and the
  account of the pallet is another one and has room for the fee.
\<close>

theorem endowed_accounts_can_register:
  assumes "storage_layer layer"
    and "liquid_currency transfer (balances_ExistentialDeposit pallet_balances_config) free
           unrestricted"
    and "a \<in> set endowed" and "signer origin = Inr a"
    and "\<forall>(k, b) \<in> set (genesis_balances (balances (testnet_config E invs endowed root para))).
           free c k = unat b \<and> unrestricted c k"
    and "into_account TemplatePalletId \<noteq> a"
    and "free c (into_account TemplatePalletId) \<le> 2 ^ 127"
  shows "\<exists>s. dispatch layer (nft_pallet_config signer transfer into_account) origin RegisterArtist
      (genesis c) = (Inr (), s) \<and>
    storage_get (Artists s) a = Some True \<and> free (currency s) a = 2 ^ 60 - unat (UNIT div 10)"
proof -
  let ?T = "nft_pallet_config signer transfer into_account"
  have fee: "registration_fee ?T = 100000000000"
    by (simp add: registration_fee_def nft_pallet_config_def pallet_balances_config_def unit_defs)
  have "free c a = 2 ^ 60" "unrestricted c a"
    using assms(3,5) by (simp_all add: testnet_config_def endowment_value del: push_bit_numeral)
  with assms(6,7) obtain c' where
    "transfer a (into_account TemplatePalletId) 100000000000 KeepAlive c = (Inr (), c')"
    "free c' a = 2 ^ 60 - unat (100000000000 :: Balance)"
    using liquid_currency.transfer_pays [OF assms(2), of c a "into_account TemplatePalletId"
        100000000000]
    by (auto simp: pallet_balances_config_def unit_defs)
  then show ?thesis
    using assms(1,4) by (auto simp: dispatch_def storage_layer.layer_ok register_artist_def fee
        nft_pallet_config_simps genesis_def storage_defs deposit_event_def unit_defs)
qed

theorem endowed_accounts_can_register_witness:
  "\<exists>s. dispatch with_storage_layer
      (nft_pallet_config (\<lambda>origin. origin) (ledger_transfer (unat ExistentialDeposit)) (\<lambda>s. s))
      (Inr ''Alice'') RegisterArtist (genesis (\<lambda>a. if a = ''Alice'' then 2 ^ 60 else 0)) =
      (Inr (), s) \<and> storage_get (Artists s) ''Alice'' = Some True \<and>
    currency s ''Alice'' = 2 ^ 60 - unat (UNIT div 10)"
  by (rule endowed_accounts_can_register [where layer = with_storage_layer and free = "\<lambda>c x. c x"
        and unrestricted = "\<lambda>c x. True" and endowed = "[''Alice'']" and E = reference_env and invs = "[]" and root = "''Alice''"
        and para = 1000, OF reference_layer])
    (simp_all add: pallet_balances_config_def ledger_liquid testnet_config_def TemplatePalletId_def)

end
