(* ===== verification/Runtime_Apis.thy ===== *)
theory Runtime_Apis
  imports Runtime_Genesis "HOL-Library.Countable"
begin

text \<open>
  The runtime APIs, \<open>src/runtime/src/apis.rs\<close>, and the list of benchmarked pallets,
  \<open>src/runtime/src/benchmarks.rs\<close>.  Most methods hand their arguments on to \<open>Executive\<close> or to a pallet of
  the SDK; these are the parameter \<open>api_env\<close>.  A method works on the state \<open>'s\<close> of the chain; \<open>'v\<close>
  stands for the values of the SDK that the source passes on without looking into them.
\<close>

section \<open>The calls into the SDK\<close>

type_synonym ('s, 'a) api = "'s \<Rightarrow> (Panic + 'a) \<times> 's"

record ('s, 'v) api_env =
  Executive_execute_block :: "'v \<Rightarrow> ('s, unit) api"
  Executive_initialize_block :: "'v \<Rightarrow> ('s, 'v) api"
  Executive_apply_extrinsic :: "'v \<Rightarrow> ('s, 'v) api"
  Executive_finalize_block :: "('s, 'v) api"
  Executive_validate_transaction :: "'v \<Rightarrow> 'v \<Rightarrow> 'v \<Rightarrow> ('s, 'v) api"
  Executive_offchain_worker :: "'v \<Rightarrow> ('s, unit) api"
  Executive_try_runtime_upgrade :: "'v \<Rightarrow> ('s, 'v + Weight) api"
  Executive_try_execute_block :: "'v \<Rightarrow> bool \<Rightarrow> bool \<Rightarrow> 'v \<Rightarrow> ('s, 'v + Weight) api"
  unwrap_message :: "'v \<Rightarrow> string"
  Authorities_get :: "('s, 'v list) api"
  FixedVelocityConsensusHook_can_build_upon :: "u32 \<Rightarrow> u32 \<Rightarrow> u32 \<Rightarrow> 'v \<Rightarrow> u64 \<Rightarrow> ('s, bool) api"
  OpaqueMetadata_new :: "'v \<Rightarrow> 'v"
  Runtime_metadata :: 'v
  Runtime_metadata_at_version :: "u32 \<Rightarrow> 'v option"
  Runtime_metadata_versions :: "u32 list"
  create_extrinsics :: "'v \<Rightarrow> ('s, 'v list) api"
  check_extrinsics :: "'v \<Rightarrow> 'v \<Rightarrow> ('s, 'v) api"
  SessionKeys_generate :: "u8 list option \<Rightarrow> ('s, u8 list) api"
  SessionKeys_decode_into_raw_public_keys :: "u8 list \<Rightarrow> (u8 list \<times> 'v) list option"
  System_account_nonce :: "'v \<Rightarrow> ('s, Nonce) api"
  System_assert_last_event :: "'v \<Rightarrow> ('s, unit) api"
  ValidationFunctionStored :: 'v
  TransactionPayment_query_info :: "'v \<Rightarrow> u32 \<Rightarrow> ('s, 'v) api"
  TransactionPayment_query_fee_details :: "'v \<Rightarrow> u32 \<Rightarrow> ('s, 'v) api"
  TransactionPayment_query_call_info :: "'v \<Rightarrow> u32 \<Rightarrow> ('s, 'v) api"
  TransactionPayment_query_call_fee_details :: "'v \<Rightarrow> u32 \<Rightarrow> ('s, 'v) api"
  TransactionPayment_weight_to_fee :: "TransactionPaymentConfig \<Rightarrow> Weight \<Rightarrow> Weight \<Rightarrow> Balance"
  TransactionPayment_length_to_fee :: "TransactionPaymentConfig \<Rightarrow> u32 \<Rightarrow> Balance"
  builder_initial :: "DispatchClass \<Rightarrow> WeightsPerClass"
  builder_max_block :: "BlockWeightsBuilder \<Rightarrow> Weight"
  ParachainSystem_collect_collation_info :: "'v \<Rightarrow> ('s, 'v) api"
  ParachainSystem_initialize_for_set_code_benchmark :: "u32 \<Rightarrow> ('s, unit) api"
  list_benchmark :: "bool \<Rightarrow> string \<Rightarrow> string \<Rightarrow> 'v list \<Rightarrow> 'v list"
  AllPallets_storage_info :: "'v list"
  AllPallets_whitelisted_storage_keys :: "'v list"
  add_benchmark :: "'v \<Rightarrow> 'v list \<Rightarrow> string \<Rightarrow> string \<Rightarrow> 'v list \<Rightarrow> ('s, string + 'v list) api"
  bench_pallet :: "'v \<Rightarrow> string"
  helper_build_state :: "u8 list \<Rightarrow> ('s, string + unit) api"

text \<open>The value of \<open>unwrap\<close> on a result.\<close>

definition unwrap :: "('s, 'v) api_env \<Rightarrow> ('s, 'v + 'a) api \<Rightarrow> ('s, 'a) api" where
  "unwrap A m s =
     (case m s of
        (Inl p, s') \<Rightarrow> (Inl p, s')
      | (Inr (Inl e), s') \<Rightarrow> (Inl (Panic (unwrap_message A e)), s')
      | (Inr (Inr a), s') \<Rightarrow> (Inr a, s'))"

section \<open>Consensus and blocks\<close>

definition impl_slot_duration :: u64 where
  "impl_slot_duration = SLOT_DURATION"

definition impl_can_build_upon :: "('s, 'v) api_env \<Rightarrow> 'v \<Rightarrow> u64 \<Rightarrow> ('s, bool) api" where
  "impl_can_build_upon A included_hash slot =
     (case ConsensusHook of (slot_millis, velocity, capacity) \<Rightarrow>
        FixedVelocityConsensusHook_can_build_upon A slot_millis velocity capacity included_hash slot)"

definition AuraApi_slot_duration :: u64 where
  "AuraApi_slot_duration = impl_slot_duration"

definition AuraApi_authorities :: "('s, 'v) api_env \<Rightarrow> ('s, 'v list) api" where
  "AuraApi_authorities A = Authorities_get A"

definition AuraUnincludedSegmentApi_can_build_upon ::
  "('s, 'v) api_env \<Rightarrow> 'v \<Rightarrow> u64 \<Rightarrow> ('s, bool) api" where
  "AuraUnincludedSegmentApi_can_build_upon A included_hash slot = impl_can_build_upon A included_hash slot"

definition Core_version :: RuntimeVersion where
  "Core_version = VERSION"

definition Core_execute_block :: "('s, 'v) api_env \<Rightarrow> 'v \<Rightarrow> ('s, unit) api" where
  "Core_execute_block A block = Executive_execute_block A block"

definition Core_initialize_block :: "('s, 'v) api_env \<Rightarrow> 'v \<Rightarrow> ('s, 'v) api" where
  "Core_initialize_block A header = Executive_initialize_block A header"

definition Metadata_metadata :: "('s, 'v) api_env \<Rightarrow> 'v" where
  "Metadata_metadata A = OpaqueMetadata_new A (Runtime_metadata A)"

definition Metadata_metadata_at_version :: "('s, 'v) api_env \<Rightarrow> u32 \<Rightarrow> 'v option" where
  "Metadata_metadata_at_version A version = Runtime_metadata_at_version A version"

definition Metadata_metadata_versions :: "('s, 'v) api_env \<Rightarrow> u32 list" where
  "Metadata_metadata_versions A = Runtime_metadata_versions A"

definition BlockBuilder_apply_extrinsic :: "('s, 'v) api_env \<Rightarrow> 'v \<Rightarrow> ('s, 'v) api" where
  "BlockBuilder_apply_extrinsic A extrinsic = Executive_apply_extrinsic A extrinsic"

definition BlockBuilder_finalize_block :: "('s, 'v) api_env \<Rightarrow> ('s, 'v) api" where
  "BlockBuilder_finalize_block A = Executive_finalize_block A"

definition BlockBuilder_inherent_extrinsics :: "('s, 'v) api_env \<Rightarrow> 'v \<Rightarrow> ('s, 'v list) api" where
  "BlockBuilder_inherent_extrinsics A data = create_extrinsics A data"

definition BlockBuilder_check_inherents :: "('s, 'v) api_env \<Rightarrow> 'v \<Rightarrow> 'v \<Rightarrow> ('s, 'v) api" where
  "BlockBuilder_check_inherents A block data = check_extrinsics A data block"

definition TaggedTransactionQueue_validate_transaction ::
  "('s, 'v) api_env \<Rightarrow> 'v \<Rightarrow> 'v \<Rightarrow> 'v \<Rightarrow> ('s, 'v) api" where
  "TaggedTransactionQueue_validate_transaction A source tx block_hash =
     Executive_validate_transaction A source tx block_hash"

definition OffchainWorkerApi_offchain_worker :: "('s, 'v) api_env \<Rightarrow> 'v \<Rightarrow> ('s, unit) api" where
  "OffchainWorkerApi_offchain_worker A header = Executive_offchain_worker A header"

definition SessionKeys_generate_session_keys ::
  "('s, 'v) api_env \<Rightarrow> u8 list option \<Rightarrow> ('s, u8 list) api" where
  "SessionKeys_generate_session_keys A seed = SessionKeys_generate A seed"

definition SessionKeys_decode_session_keys ::
  "('s, 'v) api_env \<Rightarrow> u8 list \<Rightarrow> (u8 list \<times> 'v) list option" where
  "SessionKeys_decode_session_keys A encoded = SessionKeys_decode_into_raw_public_keys A encoded"

definition AccountNonceApi_account_nonce :: "('s, 'v) api_env \<Rightarrow> 'v \<Rightarrow> ('s, Nonce) api" where
  "AccountNonceApi_account_nonce A account = System_account_nonce A account"

definition CollectCollationInfo_collect_collation_info ::
  "('s, 'v) api_env \<Rightarrow> 'v \<Rightarrow> ('s, 'v) api" where
  "CollectCollationInfo_collect_collation_info A header = ParachainSystem_collect_collation_info A header"

section \<open>Fees\<close>

text \<open>\<open>RuntimeBlockWeights::get().max_block\<close>, which the payment pallet reads from its configuration too.\<close>

definition max_block :: "sdk \<Rightarrow> ('s, 'v) api_env \<Rightarrow> Weight" where
  "max_block K A = builder_max_block A (RuntimeBlockWeights K)"

definition TransactionPaymentApi_query_info :: "('s, 'v) api_env \<Rightarrow> 'v \<Rightarrow> u32 \<Rightarrow> ('s, 'v) api" where
  "TransactionPaymentApi_query_info A uxt len = TransactionPayment_query_info A uxt len"

definition TransactionPaymentApi_query_fee_details ::
  "('s, 'v) api_env \<Rightarrow> 'v \<Rightarrow> u32 \<Rightarrow> ('s, 'v) api" where
  "TransactionPaymentApi_query_fee_details A uxt len = TransactionPayment_query_fee_details A uxt len"

definition TransactionPaymentApi_query_weight_to_fee ::
  "sdk \<Rightarrow> ('s, 'v) api_env \<Rightarrow> Weight \<Rightarrow> Balance" where
  "TransactionPaymentApi_query_weight_to_fee K A weight =
     TransactionPayment_weight_to_fee A (pallet_transaction_payment_config K) (max_block K A) weight"

definition TransactionPaymentApi_query_length_to_fee ::
  "sdk \<Rightarrow> ('s, 'v) api_env \<Rightarrow> u32 \<Rightarrow> Balance" where
  "TransactionPaymentApi_query_length_to_fee K A len =
     TransactionPayment_length_to_fee A (pallet_transaction_payment_config K) len"

definition TransactionPaymentCallApi_query_call_info ::
  "('s, 'v) api_env \<Rightarrow> 'v \<Rightarrow> u32 \<Rightarrow> ('s, 'v) api" where
  "TransactionPaymentCallApi_query_call_info A call len = TransactionPayment_query_call_info A call len"

definition TransactionPaymentCallApi_query_call_fee_details ::
  "('s, 'v) api_env \<Rightarrow> 'v \<Rightarrow> u32 \<Rightarrow> ('s, 'v) api" where
  "TransactionPaymentCallApi_query_call_fee_details A call len =
     TransactionPayment_query_call_fee_details A call len"

definition TransactionPaymentCallApi_query_weight_to_fee ::
  "sdk \<Rightarrow> ('s, 'v) api_env \<Rightarrow> Weight \<Rightarrow> Balance" where
  "TransactionPaymentCallApi_query_weight_to_fee K A weight =
     TransactionPayment_weight_to_fee A (pallet_transaction_payment_config K) (max_block K A) weight"

definition TransactionPaymentCallApi_query_length_to_fee ::
  "sdk \<Rightarrow> ('s, 'v) api_env \<Rightarrow> u32 \<Rightarrow> Balance" where
  "TransactionPaymentCallApi_query_length_to_fee K A len =
     TransactionPayment_length_to_fee A (pallet_transaction_payment_config K) len"

section \<open>Try-runtime\<close>

definition TryRuntime_on_runtime_upgrade ::
  "sdk \<Rightarrow> ('s, 'v) api_env \<Rightarrow> 'v \<Rightarrow> ('s, Weight \<times> Weight) api" where
  "TryRuntime_on_runtime_upgrade K A checks s =
     (case unwrap A (Executive_try_runtime_upgrade A checks) s of
        (Inl p, s') \<Rightarrow> (Inl p, s')
      | (Inr weight, s') \<Rightarrow> (Inr (weight, max_block K A), s'))"

definition TryRuntime_execute_block ::
  "('s, 'v) api_env \<Rightarrow> 'v \<Rightarrow> bool \<Rightarrow> bool \<Rightarrow> 'v \<Rightarrow> ('s, Weight) api" where
  "TryRuntime_execute_block A block state_root_check signature_check select =
     unwrap A (Executive_try_execute_block A block state_root_check signature_check select)"

section \<open>Benchmarks\<close>

text \<open>The benchmarked pallets, by crate and by the type that runs their benchmarks.\<close>

definition define_benchmarks :: "(string \<times> string) list" where
  "define_benchmarks =
     [(''frame_system'', ''SystemBench::<Runtime>''),
      (''pallet_balances'', ''Balances''),
      (''pallet_session'', ''SessionBench::<Runtime>''),
      (''pallet_timestamp'', ''Timestamp''),
      (''pallet_message_queue'', ''MessageQueue''),
      (''pallet_sudo'', ''Sudo''),
      (''pallet_collator_selection'', ''CollatorSelection''),
      (''cumulus_pallet_parachain_system'', ''ParachainSystem''),
      (''cumulus_pallet_xcmp_queue'', ''XcmpQueue'')]"

fun list_benchmarks ::
  "('s, 'v) api_env \<Rightarrow> bool \<Rightarrow> (string \<times> string) list \<Rightarrow> 'v list \<Rightarrow> 'v list" where
  "list_benchmarks A extra [] list = list"
| "list_benchmarks A extra ((name, location) # benches) list =
     list_benchmarks A extra benches (list_benchmark A extra name location list)"

fun add_benchmarks ::
  "('s, 'v) api_env \<Rightarrow> 'v \<times> 'v list \<Rightarrow> (string \<times> string) list \<Rightarrow> 'v list \<Rightarrow>
   ('s, string + 'v list) api" where
  "add_benchmarks A params [] batches s = (Inr (Inr batches), s)"
| "add_benchmarks A params ((name, location) # benches) batches s =
     (case add_benchmark A (fst params) (snd params) name location batches s of
        (Inr (Inr batches'), s') \<Rightarrow> add_benchmarks A params benches batches' s'
      | stop \<Rightarrow> stop)"

definition Benchmark_benchmark_metadata :: "('s, 'v) api_env \<Rightarrow> bool \<Rightarrow> 'v list \<times> 'v list" where
  "Benchmark_benchmark_metadata A extra =
     (let list = list_benchmarks A extra define_benchmarks [];
          storage_info = AllPallets_storage_info A
      in (list, storage_info))"

definition setup_set_code_requirements ::
  "('s, 'v) api_env \<Rightarrow> u8 list \<Rightarrow> ('s, 'v + unit) api" where
  "setup_set_code_requirements A code s =
     (case ParachainSystem_initialize_for_set_code_benchmark A (of_nat (length code)) s of
        (Inl p, s') \<Rightarrow> (Inl p, s')
      | (Inr _, s') \<Rightarrow> (Inr (Inr ()), s'))"

definition verify_set_code :: "('s, 'v) api_env \<Rightarrow> ('s, unit) api" where
  "verify_set_code A = System_assert_last_event A (ValidationFunctionStored A)"

definition Benchmark_dispatch_benchmark ::
  "('s, 'v) api_env \<Rightarrow> 'v \<Rightarrow> ('s, string + 'v list) api" where
  "Benchmark_dispatch_benchmark A config s =
     (let whitelist = AllPallets_whitelisted_storage_keys A;
          params = (config, whitelist)
      in case add_benchmarks A params define_benchmarks [] s of
           (Inr (Inr batches), s') \<Rightarrow>
             (Inr (if batches = [] then Inl ''Benchmark not found for this pallet.''
                   else Inr batches), s')
         | stop \<Rightarrow> stop)"

section \<open>Genesis\<close>

text \<open>\<open>helper\<close> is the function \<open>get_preset\<close> of \<open>frame_support\<close>.\<close>

type_synonym 'id preset_helper =
  "'id option \<Rightarrow> ('id \<Rightarrow> Panic + u8 list option) \<Rightarrow> Panic + u8 list option"

definition GenesisBuilder_build_state :: "('s, 'v) api_env \<Rightarrow> u8 list \<Rightarrow> ('s, string + unit) api" where
  "GenesisBuilder_build_state A config = helper_build_state A config"

definition GenesisBuilder_get_preset ::
  "'id preset_helper \<Rightarrow> ('acc, 'aura, 'd, 'json, 'id) genesis_env \<Rightarrow> 'id option \<Rightarrow>
   Panic + u8 list option" where
  "GenesisBuilder_get_preset helper E pid = helper pid (get_preset E)"

definition GenesisBuilder_preset_names ::
  "('acc, 'aura, 'd, 'json, 'id) genesis_env \<Rightarrow> 'id list" where
  "GenesisBuilder_preset_names E = preset_names E"

section \<open>The interface of the SDK\<close>

text \<open>
  The largest weight of a block is the largest total that a class of calls may use, and mandatory
  calls start without a limit.  The payment pallet charges for a weight what the polynomial of its
  configuration gives for it, but never for more than a whole block, and for a length the
  configured factor for each byte, saturating.
\<close>

locale fee_api =
  fixes K :: sdk and A :: "('s, 'v) api_env"
  assumes largest_block:
      "builder_max_block A b =
         foldr (\<lambda>cls m. case max_total (for_class b cls (builder_initial A cls)) of
             None \<Rightarrow> m
           | Some w \<Rightarrow> from_parts (max (ref_time w) (ref_time m)) (max (proof_size w) (proof_size m)))
         [Normal, Operational, Mandatory] (from_parts 0 0)"
    and mandatory_unlimited: "max_total (builder_initial A Mandatory) = None"
    and capped_fee:
      "TransactionPayment_weight_to_fee A cfg mb w =
         weight_to_fee K (tx_WeightToFee cfg)
           (from_parts (min (ref_time w) (ref_time mb)) (min (proof_size w) (proof_size mb)))"
    and length_fee:
      "TransactionPayment_length_to_fee A cfg len = saturating_mul (ucast len) (tx_LengthToFee cfg)"

text \<open>A benchmark is run for the pallet it is registered for, and adds one batch if it runs to its end.\<close>

locale benchmark_api =
  fixes A :: "('s, 'v) api_env"
  assumes other_pallet:
      "bench_pallet A config \<noteq> name \<Longrightarrow>
         add_benchmark A config whitelist name location batches s = (Inr (Inr batches), s)"
begin

lemma add_benchmarks_skip:
  "bench_pallet A (fst params) \<notin> fst ` set benches \<Longrightarrow>
     add_benchmarks A params benches batches s = (Inr (Inr batches), s)"
  by (induction benches) (auto simp: other_pallet)

lemma add_benchmarks_append:
  "add_benchmarks A params (xs @ ys) batches s =
     (case add_benchmarks A params xs batches s of
        (Inr (Inr batches'), s') \<Rightarrow> add_benchmarks A params ys batches' s'
      | stop \<Rightarrow> stop)"
  by (induction xs arbitrary: batches s) (auto split: prod.splits sum.splits)

text \<open>Of benchmarks with different names exactly the one that is asked for is run.\<close>

lemma add_benchmarks_single:
  assumes "distinct (map fst benches)" and "(name, location) \<in> set benches"
    and "bench_pallet A (fst params) = name"
  shows "add_benchmarks A params benches batches s =
    add_benchmark A (fst params) (snd params) name location batches s"
proof -
  from assms(2) obtain xs ys where benches: "benches = xs @ (name, location) # ys"
    by (meson split_list)
  with assms have "name \<notin> fst ` set xs" "name \<notin> fst ` set ys" by auto
  with assms(3) show ?thesis
    by (simp add: benches add_benchmarks_append add_benchmarks_skip split: prod.splits sum.splits)
qed

end

text \<open>
  The genesis helpers: without an id the default configuration is served, and else what the given
  function makes of the id.  A text that does not parse as a configuration is refused, and for one
  that does the pallets' genesis builds are run on the configuration (\<open>build\<close>, which panics on a
  configuration they do not accept); the serialisation of a configuration parses to it.
\<close>

locale genesis_api = genesis_laws E
  for E :: "('acc, 'aura, 'd, 'json, 'id) genesis_env" +
  fixes A :: "('s, 'v) api_env"
    and helper :: "'id preset_helper"
    and default_json :: "u8 list"
    and parse :: "u8 list \<Rightarrow> ('acc, 'aura, 'd) RuntimeGenesisConfig option"
    and build :: "('acc, 'aura, 'd) RuntimeGenesisConfig \<Rightarrow> ('s, unit) api"
  assumes helper_default: "helper None f = Inr (Some default_json)"
    and helper_named: "helper (Some pid) f = f pid"
    and build_parsed:
      "parse bytes = Some g \<Longrightarrow> helper_build_state A bytes s =
         (case build g s of (Inl p, s') \<Rightarrow> (Inl p, s') | (Inr _, s') \<Rightarrow> (Inr (Inr ()), s'))"
    and build_rejected: "parse bytes = None \<Longrightarrow> \<exists>e. helper_build_state A bytes s = (Inr (Inl e), s)"
    and parse_serialised:
      "to_value E g = Some j \<Longrightarrow> json_to_string E j = Some t \<Longrightarrow> parse (map of_char t) = Some g"

section \<open>An instance of the laws\<close>

text \<open>
  The state of the chain is the genesis configuration it was built from, if any; a configuration
  with too many invulnerable collators makes the build panic.
\<close>

type_synonym sample_genesis = "(string, string, unit) RuntimeGenesisConfig"

definition genesis_code :: "sample_genesis \<Rightarrow> nat" where
  "genesis_code g =
     to_nat (genesis_balances (balances g), parachain_id (parachain_info g),
       invulnerables (collator_selection g), candidacy_bond (collator_selection g),
       map (\<lambda>(a, v, ks). (a, v, aura ks)) (genesis_keys (session g)),
       safe_xcm_version (polkadot_xcm g), sudo_key (sudo g))"

definition sample_genesis_env ::
  "(string, string, unit, sample_genesis, string) genesis_env" where
  "sample_genesis_env =
     reference_env\<lparr>json_to_string := (\<lambda>g. Some (replicate (genesis_code g) (CHR ''g'')))\<rparr>"

definition sample_parse :: "u8 list \<Rightarrow> sample_genesis option" where
  "sample_parse bytes =
     (if length bytes \<in> range genesis_code then Some (inv genesis_code (length bytes)) else None)"

definition sample_build :: "sample_genesis \<Rightarrow> (sample_genesis option, unit) api" where
  "sample_build g s =
     (if 20 < length (invulnerables (collator_selection g))
      then (Inl (Panic ''genesis invulnerables are more than T::MaxInvulnerables''), s)
      else (Inr (), Some g))"

definition sample_apis :: "(sample_genesis option, string) api_env" where
  "sample_apis =
     \<lparr>Executive_execute_block = (\<lambda>_ s. (Inr (), s)),
      Executive_initialize_block = (\<lambda>h s. (Inr h, s)),
      Executive_apply_extrinsic = (\<lambda>x s. (Inr x, s)),
      Executive_finalize_block = (\<lambda>s. (Inr ''header'', s)),
      Executive_validate_transaction = (\<lambda>_ _ _ s. (Inr ''valid'', s)),
      Executive_offchain_worker = (\<lambda>_ s. (Inr (), s)),
      Executive_try_runtime_upgrade = (\<lambda>_ s. (Inr (Inr (from_parts 5 0)), s)),
      Executive_try_execute_block = (\<lambda>_ _ _ _ s. (Inr (Inl ''bad state root''), s)),
      unwrap_message = (\<lambda>e. ''unwrap on an Err value: '' @ e),
      Authorities_get = (\<lambda>s. (Inr [''Alice''], s)),
      FixedVelocityConsensusHook_can_build_upon = (\<lambda>_ _ _ _ _ s. (Inr True, s)),
      OpaqueMetadata_new = (\<lambda>m. m), Runtime_metadata = ''metadata'',
      Runtime_metadata_at_version = (\<lambda>_. None), Runtime_metadata_versions = [14, 15],
      create_extrinsics = (\<lambda>_ s. (Inr [], s)), check_extrinsics = (\<lambda>_ _ s. (Inr ''ok'', s)),
      SessionKeys_generate = (\<lambda>_ s. (Inr [], s)),
      SessionKeys_decode_into_raw_public_keys = (\<lambda>_. None),
      System_account_nonce = (\<lambda>_ s. (Inr 0, s)),
      System_assert_last_event = (\<lambda>_ s. (Inr (), s)),
      ValidationFunctionStored = ''stored'',
      TransactionPayment_query_info = (\<lambda>_ _ s. (Inr ''info'', s)),
      TransactionPayment_query_fee_details = (\<lambda>_ _ s. (Inr ''details'', s)),
      TransactionPayment_query_call_info = (\<lambda>_ _ s. (Inr ''info'', s)),
      TransactionPayment_query_call_fee_details = (\<lambda>_ _ s. (Inr ''details'', s)),
      TransactionPayment_weight_to_fee = (\<lambda>cfg mb w. weight_to_fee reference_sdk (tx_WeightToFee cfg)
        (from_parts (min (ref_time w) (ref_time mb)) (min (proof_size w) (proof_size mb)))),
      TransactionPayment_length_to_fee = (\<lambda>cfg len. saturating_mul (ucast len) (tx_LengthToFee cfg)),
      builder_initial = (\<lambda>_. \<lparr>base_extrinsic = from_parts 0 0, max_total = None, reserved = None\<rparr>),
      builder_max_block = (\<lambda>b.
        foldr (\<lambda>cls m. case max_total (for_class b cls
            \<lparr>base_extrinsic = from_parts 0 0, max_total = None, reserved = None\<rparr>) of
             None \<Rightarrow> m
           | Some w \<Rightarrow> from_parts (max (ref_time w) (ref_time m)) (max (proof_size w) (proof_size m)))
         [Normal, Operational, Mandatory] (from_parts 0 0)),
      ParachainSystem_collect_collation_info = (\<lambda>_ s. (Inr ''info'', s)),
      ParachainSystem_initialize_for_set_code_benchmark = (\<lambda>_ s. (Inr (), s)),
      list_benchmark = (\<lambda>_ name _ list. list @ [name]),
      AllPallets_storage_info = [], AllPallets_whitelisted_storage_keys = [],
      add_benchmark = (\<lambda>config _ name _ batches s.
        (Inr (Inr (if config = name then batches @ [name] else batches)), s)),
      bench_pallet = (\<lambda>config. config),
      helper_build_state = (\<lambda>bytes s. case sample_parse bytes of
          None \<Rightarrow> (Inr (Inl ''invalid genesis''), s)
        | Some g \<Rightarrow> (case sample_build g s of
              (Inl p, s') \<Rightarrow> (Inl p, s') | (Inr _, s') \<Rightarrow> (Inr (Inr ()), s')))\<rparr>"

definition sample_helper :: "string preset_helper" where
  "sample_helper pid f = (case pid of None \<Rightarrow> Inr (Some []) | Some name \<Rightarrow> f name)"

lemma sample_fee_api: "fee_api reference_sdk sample_apis"
  by unfold_locales (simp_all add: sample_apis_def)

interpretation sample_fees: fee_api reference_sdk sample_apis
  by (rule sample_fee_api)

lemma sample_benchmark_api: "benchmark_api sample_apis"
  by unfold_locales (simp add: sample_apis_def)

interpretation sample_benchmarks: benchmark_api sample_apis
  by (rule sample_benchmark_api)

lemma genesis_code_inj: "inj genesis_code"
proof (rule injI)
  fix g h assume "genesis_code g = genesis_code h"
  moreover have "inj (\<lambda>(a :: string, v :: string, ks :: string SessionKeys). (a, v, aura ks))"
    by (auto intro!: injI SessionKeys.equality)
  ultimately show "g = h"
    by (cases g; cases h) (auto simp: genesis_code_def inj_map_eq_map
        intro!: BalancesGenesis.equality)
qed

lemma sample_genesis_api:
  "genesis_api sample_genesis_env sample_apis sample_helper [] sample_parse sample_build"
proof -
  have "genesis_laws sample_genesis_env"
    using reference_env_laws by (simp add: genesis_laws_def sample_genesis_env_def)
  moreover have "sample_parse (map of_char (replicate (genesis_code g) (CHR ''g''))) = Some g" for g
    by (simp add: sample_parse_def genesis_code_inj)
  ultimately show ?thesis
    by (intro genesis_api.intro genesis_api_axioms.intro)
      (auto simp: sample_helper_def sample_apis_def sample_genesis_env_def reference_env_def)
qed

interpretation sample_builder: genesis_api sample_genesis_env sample_apis sample_helper "[]" sample_parse
  sample_build
  by (rule sample_genesis_api)

section \<open>Properties\<close>

context fee_api begin

lemma runtime_max_block:
  assumes "sdk_laws K"
  shows "max_block K A = MAXIMUM_BLOCK_WEIGHT K"
proof -
  note sdk_laws.normal_share [OF assms, unfolded sdk_laws.max_block_weight [OF assms]]
  then show ?thesis
    by (simp add: max_block_def largest_block RuntimeBlockWeights_def RuntimeBlockWeights_class_def
        mandatory_unlimited sdk_laws.max_block_weight [OF assms] Let_def)
      (simp add: from_parts_def)
qed

end

text \<open>
  C39.  Fee queries: both payment APIs give the same answers; a byte costs ten \<open>MICRO_UNIT\<close>,
  without saturation for every length; and a weight costs a plank per 125 units of
  reference time up to the price of a full block, 16 \<open>MILLI_UNIT\<close>, which nothing exceeds.
\<close>

theorem fee_queries:
  assumes "sdk_laws K" and "fee_api K A"
  shows "TransactionPaymentCallApi_query_weight_to_fee K A w =
      TransactionPaymentApi_query_weight_to_fee K A w \<and>
    TransactionPaymentCallApi_query_length_to_fee K A len =
      TransactionPaymentApi_query_length_to_fee K A len \<and>
    unat (TransactionPaymentApi_query_length_to_fee K A len) = unat len * (10 * unat MICRO_UNIT) \<and>
    (125 dvd unat (ref_time w) \<longrightarrow>
      unat (TransactionPaymentApi_query_weight_to_fee K A w) =
        min (unat (ref_time w) div 125) (16 * unat MILLI_UNIT))"
proof (intro conjI impI)
  have "unat len < 2 ^ 32" using unsigned_less [of len, where 'a = nat] by simp
  moreover from this have up: "unat (ucast len :: u128) = unat len"
    by (simp add: unsigned_ucast_eq take_bit_nat_eq_self)
  ultimately have "unat (saturating_mul (ucast len) (10000000 :: u128)) = unat len * 10000000"
    by (simp add: unat_saturating_mul)
  then show "unat (TransactionPaymentApi_query_length_to_fee K A len) = unat len * (10 * unat MICRO_UNIT)"
    by (simp add: TransactionPaymentApi_query_length_to_fee_def fee_api.length_fee [OF assms(2)]
        pallet_transaction_payment_config_def TransactionByteFee_def MICRO_UNIT_def)
  assume dvd: "125 dvd unat (ref_time w)"
  let ?w = "from_parts (min (ref_time w) 2000000000000) (min (proof_size w) 5242880)"
  have ref: "unat (ref_time ?w) = min (unat (ref_time w)) 2000000000000"
    by (simp add: from_parts_def min_def word_le_nat_alt)
  then have "125 dvd unat (ref_time ?w)" using dvd by (simp add: min_def)
  from sdk_laws.weight_fee [OF assms(1) this]
  show "unat (TransactionPaymentApi_query_weight_to_fee K A w) =
      min (unat (ref_time w) div 125) (16 * unat MILLI_UNIT)"
    using ref
    by (auto simp: TransactionPaymentApi_query_weight_to_fee_def fee_api.capped_fee [OF assms(2)]
        fee_api.runtime_max_block [OF assms(2,1)] sdk_laws.max_block_weight [OF assms(1)]
        pallet_transaction_payment_config_def MILLI_UNIT_def from_parts_def min_def)
qed (simp_all add: TransactionPaymentCallApi_query_weight_to_fee_def
    TransactionPaymentApi_query_weight_to_fee_def TransactionPaymentCallApi_query_length_to_fee_def
    TransactionPaymentApi_query_length_to_fee_def)

theorem fee_queries_witness:
  "unat (TransactionPaymentApi_query_weight_to_fee reference_sdk sample_apis
      (from_parts 125000000 0)) = 1000000"
  using fee_queries [OF reference_laws sample_fee_api, of "from_parts 125000000 0" 0]
  by (simp add: from_parts_def MILLI_UNIT_def)

text \<open>
  Benchmarks: a request runs the benchmark of the one pallet it names and nothing else; a
  request for a pallet that is not registered fails and changes nothing.  The NFT pallet is not
  registered, so its weights cannot be measured.
\<close>

theorem benchmark_runs_named_pallet:
  assumes "benchmark_api A"
  shows "((bench_pallet A config, location) \<in> set define_benchmarks \<longrightarrow>
      Benchmark_dispatch_benchmark A config s =
        (case add_benchmark A config (AllPallets_whitelisted_storage_keys A) (bench_pallet A config)
                location [] s of
           (Inr (Inr batches), s') \<Rightarrow>
             (Inr (if batches = [] then Inl ''Benchmark not found for this pallet.'' else Inr batches), s')
         | stop \<Rightarrow> stop)) \<and>
    (bench_pallet A config \<notin> fst ` set define_benchmarks \<longrightarrow>
      Benchmark_dispatch_benchmark A config s =
        (Inr (Inl ''Benchmark not found for this pallet.''), s)) \<and>
    (bench_pallet A config = ''pallet_parachain_template'' \<longrightarrow>
      Benchmark_dispatch_benchmark A config s =
        (Inr (Inl ''Benchmark not found for this pallet.''), s))"
proof -
  have unknown: "Benchmark_dispatch_benchmark A config s =
      (Inr (Inl ''Benchmark not found for this pallet.''), s)"
    if "bench_pallet A config \<notin> fst ` set define_benchmarks"
    using that by (simp add: Benchmark_dispatch_benchmark_def benchmark_api.add_benchmarks_skip [OF assms])
  have "distinct (map fst define_benchmarks)"
    and "''pallet_parachain_template'' \<notin> fst ` set define_benchmarks"
    by (simp_all add: define_benchmarks_def)
  with unknown show ?thesis
    by (auto simp: Benchmark_dispatch_benchmark_def benchmark_api.add_benchmarks_single [OF assms])
qed

theorem benchmark_runs_named_pallet_witness:
  "Benchmark_dispatch_benchmark sample_apis ''pallet_parachain_template'' None =
     (Inr (Inl ''Benchmark not found for this pallet.''), None)"
proof -
  have "bench_pallet sample_apis ''pallet_parachain_template'' = ''pallet_parachain_template''"
    by (simp add: sample_apis_def)
  with benchmark_runs_named_pallet [OF sample_benchmark_api] show ?thesis by blast
qed

text \<open>
  C31.  Genesis through the API: every preset that the API lists is served; its bytes parse to the
  one preset configuration, which is well formed and for parachain 1000, so \<open>build_state\<close> never
  refuses them and does exactly what the pallets' genesis builds do on that configuration.
  Without an id the default configuration is served, and unlisted ids give nothing.
\<close>

theorem genesis_api_builds_presets:
  assumes "genesis_api E A helper default_json parse build"
  shows "(pid \<in> set (GenesisBuilder_preset_names E) \<longrightarrow>
      (\<exists>bytes. GenesisBuilder_get_preset helper E (Some pid) = Inr (Some bytes) \<and>
         parse bytes = Some (preset_config E) \<and>
         (\<forall>s. GenesisBuilder_build_state A bytes s =
            (case build (preset_config E) s of
               (Inl p, s') \<Rightarrow> (Inl p, s') | (Inr _, s') \<Rightarrow> (Inr (Inr ()), s'))))) \<and>
    genesis_wf (preset_config E) \<and> parachain_id (parachain_info (preset_config E)) = 1000 \<and>
    (pid \<notin> set (GenesisBuilder_preset_names E) \<longrightarrow>
      GenesisBuilder_get_preset helper E (Some pid) = Inr None) \<and>
    GenesisBuilder_get_preset helper E None = Inr (Some default_json)"
proof -
  have laws: "genesis_laws E" by (rule genesis_api.axioms(1) [OF assms])
  note api = genesis_api.helper_default [OF assms] genesis_api.helper_named [OF assms]
  have "\<exists>bytes. get_preset E pid = Inr (Some bytes) \<and> parse bytes = Some (preset_config E)"
    if "pid \<in> set (preset_names E)"
    using genesis_laws.preset_serialised [OF laws that] genesis_api.parse_serialised [OF assms] by metis
  then show ?thesis
    using genesis_api.build_parsed [OF assms, where g = "preset_config E"]
      genesis_laws.unknown_preset [OF laws] genesis_laws.preset_config_wf [OF laws]
      genesis_laws.preset_config_fields(2) [OF laws]
    by (auto simp: GenesisBuilder_get_preset_def GenesisBuilder_build_state_def
        GenesisBuilder_preset_names_def api)
qed

theorem genesis_api_builds_presets_witness:
  "\<exists>bytes. GenesisBuilder_get_preset sample_helper sample_genesis_env (Some ''development'') =
       Inr (Some bytes) \<and>
     GenesisBuilder_build_state sample_apis bytes None =
       (Inr (Inr ()), Some (preset_config sample_genesis_env))"
proof -
  have "''development'' \<in> set (GenesisBuilder_preset_names sample_genesis_env)"
    by (simp add: GenesisBuilder_preset_names_def preset_names_def sample_genesis_env_def
        reference_env_def)
  moreover have "sample_build (preset_config sample_genesis_env) None =
      (Inr (), Some (preset_config sample_genesis_env))"
    by (simp add: sample_build_def preset_config_def testnet_config_def)
  ultimately show ?thesis
    using genesis_api_builds_presets [OF sample_genesis_api, of "''development''"] by fastforce
qed

text \<open>
  The try-runtime methods panic exactly when the executive fails, and an upgrade is reported with
  the weight of a whole block to compare with.
\<close>

theorem try_runtime_unwraps:
  assumes "Executive_try_runtime_upgrade A checks s = (Inr r, s')"
  shows "TryRuntime_on_runtime_upgrade K A checks s =
    (case r of Inl e \<Rightarrow> (Inl (Panic (unwrap_message A e)), s') | Inr w \<Rightarrow> (Inr (w, max_block K A), s'))"
  using assms by (simp add: TryRuntime_on_runtime_upgrade_def unwrap_def split: sum.split)

end
