(* ===== verification/Xcm_Config.thy ===== *)
theory Xcm_Config
  imports Runtime_Config
begin

text \<open>
  The XCM configuration of the runtime, \<open>src/runtime/src/configs/xcm_config.rs\<close>, and the origin of
  privileged collator operations of \<open>src/runtime/src/configs/mod.rs\<close>.  The source puts filters,
  converters and barriers of the XCM crates together; these are the parameter \<open>xcm_sdk\<close>, with
  their documented behaviour in the locale \<open>xcm_laws\<close>.
\<close>

section \<open>Locations\<close>

text \<open>
  Of junctions, bodies and parts of a body, those that the source names, and \<open>Voice\<close>, the part that
  speaks for a body as a whole; \<open>'x\<close> stands for everything the source does not look into (other
  junctions, bodies and parts, networks).
\<close>

datatype 'x BodyId = Executive | Defense | OtherBody 'x

datatype 'x BodyPart = Voice | OtherPart 'x

datatype ('acc, 'x) Junction =
    Parachain u32
  | AccountId32 "'x option" 'acc
  | Plurality "'x BodyId" "'x BodyPart"
  | OtherJunction 'x

record ('acc, 'x) Location =
  parents :: u8
  interior :: "('acc, 'x) Junction list"

type_synonym ('acc, 'x) filter = "('acc, 'x) Location \<Rightarrow> bool"
type_synonym ('acc, 'x) converter = "('acc, 'x) Location \<Rightarrow> 'acc option"

text \<open>
  A barrier decides on the origin and the maximal weight of a message; it may change the message
  and its properties.
\<close>

type_synonym ('acc, 'x, 'i, 'p, 'e) ShouldExecute =
  "('acc, 'x) Location \<Rightarrow> Weight \<Rightarrow> 'i list \<times> 'p \<Rightarrow> ('e + unit) \<times> 'i list \<times> 'p"

record ('acc, 'x, 'i, 'p, 'e, 'o) xcm_sdk =
  ParentIsPreset :: "('acc, 'x) converter"
  SiblingParachainConvertsVia :: "('acc, 'x) converter"
  AccountId32Aliases :: "'x option \<Rightarrow> ('acc, 'x) converter"
  convert_first :: "('acc, 'x) converter list \<Rightarrow> ('acc, 'x) converter"
  IsVoiceOfBody :: "('acc, 'x) Location \<Rightarrow> 'x BodyId \<Rightarrow> ('acc, 'x) filter"
  EnsureRoot :: "'o \<Rightarrow> bool"
  EnsureXcm :: "('acc, 'x) filter \<Rightarrow> 'o \<Rightarrow> bool"
  should_execute_any ::
    "('acc, 'x, 'i, 'p, 'e) ShouldExecute list \<Rightarrow> ('acc, 'x, 'i, 'p, 'e) ShouldExecute"
  TrailingSetTopicAsId ::
    "('acc, 'x, 'i, 'p, 'e) ShouldExecute \<Rightarrow> ('acc, 'x, 'i, 'p, 'e) ShouldExecute"
  DenyThenTry ::
    "('acc, 'x, 'i, 'p, 'e) ShouldExecute \<Rightarrow> ('acc, 'x, 'i, 'p, 'e) ShouldExecute \<Rightarrow>
     ('acc, 'x, 'i, 'p, 'e) ShouldExecute"
  WithComputedOrigin ::
    "('acc, 'x, 'i, 'p, 'e) ShouldExecute \<Rightarrow> ('acc, 'x) Junction list \<Rightarrow> u32 \<Rightarrow>
     ('acc, 'x, 'i, 'p, 'e) ShouldExecute"
  DenyReserveTransferToRelayChain :: "('acc, 'x, 'i, 'p, 'e) ShouldExecute"
  TakeWeightCredit :: "('acc, 'x, 'i, 'p, 'e) ShouldExecute"
  AllowTopLevelPaidExecutionFrom :: "('acc, 'x) filter \<Rightarrow> ('acc, 'x, 'i, 'p, 'e) ShouldExecute"
  AllowExplicitUnpaidExecutionFrom :: "('acc, 'x) filter \<Rightarrow> ('acc, 'x, 'i, 'p, 'e) ShouldExecute"
  strip_topic :: "'i list \<times> 'p \<Rightarrow> 'i list \<times> 'p"
  computed_origin ::
    "('acc, 'x) Junction list \<Rightarrow> ('acc, 'x) Location \<Rightarrow> 'i list \<Rightarrow> ('acc, 'x) Location"

section \<open>The configuration\<close>

definition RelayLocation :: "('acc, 'x) Location" where
  "RelayLocation = \<lparr>parents = 1, interior = []\<rparr>"

definition RelayNetwork :: "'x option" where
  "RelayNetwork = None"

definition UniversalLocation :: "u32 \<Rightarrow> ('acc, 'x) Junction list" where
  "UniversalLocation parachain_id = [Parachain parachain_id]"

definition LocationToAccountId ::
  "('acc, 'x, 'i, 'p, 'e, 'o) xcm_sdk \<Rightarrow> ('acc, 'x) converter" where
  "LocationToAccountId X =
     convert_first X
       [ParentIsPreset X, SiblingParachainConvertsVia X, AccountId32Aliases X RelayNetwork]"

definition UnitWeightCost :: Weight where
  "UnitWeightCost = from_parts 1000000000 (64 * 1024)"

definition MaxInstructions :: u32 where
  "MaxInstructions = 100"

definition MaxAssetsIntoHolding :: u32 where
  "MaxAssetsIntoHolding = 64"

fun ParentOrParentsExecutivePlurality_contains :: "u8 \<times> ('acc, 'x) Junction list \<Rightarrow> bool" where
  "ParentOrParentsExecutivePlurality_contains (p, []) = (p = 1)"
| "ParentOrParentsExecutivePlurality_contains (p, [Plurality Executive part]) = (p = 1)"
| "ParentOrParentsExecutivePlurality_contains (p, _) = False"

text \<open>\<open>location.unpack()\<close> gives the number of parents and the junctions.\<close>

definition ParentOrParentsExecutivePlurality :: "('acc, 'x) filter" where
  "ParentOrParentsExecutivePlurality location =
     ParentOrParentsExecutivePlurality_contains (parents location, interior location)"

definition Everything :: "'a \<Rightarrow> bool" where
  "Everything x = True"

definition Barrier ::
  "('acc, 'x, 'i, 'p, 'e, 'o) xcm_sdk \<Rightarrow> u32 \<Rightarrow> ('acc, 'x, 'i, 'p, 'e) ShouldExecute" where
  "Barrier X parachain_id =
     TrailingSetTopicAsId X
       (DenyThenTry X
          (DenyReserveTransferToRelayChain X)
          (should_execute_any X
             [TakeWeightCredit X,
              WithComputedOrigin X
                (should_execute_any X
                   [AllowTopLevelPaidExecutionFrom X Everything,
                    AllowExplicitUnpaidExecutionFrom X ParentOrParentsExecutivePlurality])
                (UniversalLocation parachain_id)
                8]))"

definition StakingAdminBodyId :: "'x BodyId" where
  "StakingAdminBodyId = Defense"

definition CollatorSelectionUpdateOrigin ::
  "('acc, 'x, 'i, 'p, 'e, 'o) xcm_sdk \<Rightarrow> 'o \<Rightarrow> bool" where
  "CollatorSelectionUpdateOrigin X origin \<longleftrightarrow>
     EnsureRoot X origin \<or> EnsureXcm X (IsVoiceOfBody X RelayLocation StakingAdminBodyId) origin"

section \<open>The interface of the XCM crates\<close>

text \<open>
  Converters: the parent converts only from the parent's location, siblings only from a
  parachain next to this one, and an account alias only from a local account of no
  network or of the given one, to that account; a tuple of converters takes the first that
  succeeds.  Barriers: a tuple asks its members in turn until one accepts; \<open>DenyThenTry\<close> asks the
  second barrier only when the first does not refuse; \<open>TrailingSetTopicAsId\<close> asks the inner barrier
  about the message without its trailing topic; \<open>WithComputedOrigin\<close> asks the inner barrier
  about a rest of the message with the origin that at most the given number of skipped
  instructions compute; explicitly unpaid execution is for origins of the filter only.
\<close>

locale xcm_laws =
  fixes X :: "('acc, 'x, 'i, 'p, 'e, 'o) xcm_sdk"
  assumes parent_only: "(ParentIsPreset X loc \<noteq> None) \<longleftrightarrow> loc = \<lparr>parents = 1, interior = []\<rparr>"
    and sibling_only:
      "(SiblingParachainConvertsVia X loc \<noteq> None) \<longleftrightarrow>
         (\<exists>p. loc = \<lparr>parents = 1, interior = [Parachain p]\<rparr>)"
    and alias_id:
      "AccountId32Aliases X network loc = Some a \<longleftrightarrow>
         (\<exists>n. loc = \<lparr>parents = 0, interior = [AccountId32 n a]\<rparr> \<and> (n = None \<or> n = network))"
    and convert_none: "convert_first X [] loc = None"
    and convert_cons:
      "convert_first X (c # cs) loc = (case c loc of None \<Rightarrow> convert_first X cs loc | Some a \<Rightarrow> Some a)"
    and any_none: "\<exists>e. should_execute_any X [] org w m = (Inl e, m)"
    and any_cons:
      "should_execute_any X (A # As) org w m =
         (case A org w m of (Inr u, m') \<Rightarrow> (Inr u, m') | (Inl e, m') \<Rightarrow> should_execute_any X As org w m')"
    and deny_then_try:
      "DenyThenTry X D A org w m =
         (case D org w m of (Inl e, m') \<Rightarrow> (Inl e, m') | (Inr _, m') \<Rightarrow> A org w m')"
    and trailing_topic: "TrailingSetTopicAsId X A org w m = A org w (strip_topic X m)"
    and strip_rest: "fst (strip_topic X m) \<in> {fst m, butlast (fst m)}"
    and computed:
      "fst (WithComputedOrigin X A ul limit org w (ins, p)) = Inr () \<Longrightarrow>
         \<exists>k. k \<le> unat limit \<and> k \<le> length ins \<and>
             fst (A (computed_origin X ul org (take k ins)) w (drop k ins, p)) = Inr ()"
    and unpaid_from: "fst (AllowExplicitUnpaidExecutionFrom X F org w m) = Inr () \<Longrightarrow> F org"
    and deny_reads: "DenyReserveTransferToRelayChain X org w m = (Inr u, m') \<Longrightarrow> m' = m"
    and credit_refusal: "TakeWeightCredit X org w m = (Inl e, m') \<Longrightarrow> m' = m"
begin

lemma any_pair:
  assumes "fst (should_execute_any X [A, B] org w m) = Inr ()"
  shows "fst (A org w m) = Inr () \<or> (\<exists>e m'. A org w m = (Inl e, m') \<and> fst (B org w m') = Inr ())"
proof -
  obtain r m' where Pair: "A org w m = (r, m')"
    by (rule that [OF prod.collapse [symmetric]])
  show ?thesis
  proof (cases r)
    case (Inl e)
    with assms Pair have *: "fst (should_execute_any X [B] org w m') = Inr ()" by (simp add: any_cons)
    obtain e' where "should_execute_any X [] org w (snd (B org w m')) = (Inl e', snd (B org w m'))"
      using any_none by blast
    with * Inl Pair show ?thesis by (auto simp: any_cons split: prod.splits sum.splits)
  qed (use Pair in simp)
qed

lemma deny_try_accepts:
  assumes "fst (DenyThenTry X D A org w m) = Inr ()"
  shows "\<exists>m'. D org w m = (Inr (), m') \<and> fst (A org w m') = Inr ()"
  using assms by (auto simp: deny_then_try split: prod.splits sum.splits)

lemma account_of_location:
  "LocationToAccountId X loc =
     (case ParentIsPreset X loc of Some a \<Rightarrow> Some a | None \<Rightarrow>
        (case SiblingParachainConvertsVia X loc of Some a \<Rightarrow> Some a | None \<Rightarrow>
           AccountId32Aliases X RelayNetwork loc))"
  by (simp add: LocationToAccountId_def convert_cons convert_none split: option.split)

end

section \<open>An instance of the laws\<close>

text \<open>
  Instructions are numbers: 0 sets a topic, 1 asks for unpaid execution, 2 buys execution and 3
  transfers reserves to the relay chain.  The properties are the weight credit.
\<close>

primrec sample_any ::
  "('acc, 'x, nat, nat, unit) ShouldExecute list \<Rightarrow> ('acc, 'x, nat, nat, unit) ShouldExecute" where
  "sample_any [] org w m = (Inl (), m)"
| "sample_any (A # As) org w m =
     (case A org w m of (Inr u, m') \<Rightarrow> (Inr u, m') | (Inl e, m') \<Rightarrow> sample_any As org w m')"

definition sample_verdict :: "bool \<Rightarrow> 'm \<Rightarrow> (unit + unit) \<times> 'm" where
  "sample_verdict ok m = (if ok then Inr () else Inl (), m)"

definition sample_xcm :: "(nat, unit, nat, nat, unit, nat) xcm_sdk" where
  "sample_xcm =
     \<lparr>ParentIsPreset = (\<lambda>loc. if loc = RelayLocation then Some 0 else None),
      SiblingParachainConvertsVia = (\<lambda>loc. case interior loc of
          [Parachain p] \<Rightarrow> if parents loc = 1 then Some (unat p + 1) else None | _ \<Rightarrow> None),
      AccountId32Aliases = (\<lambda>network loc. case interior loc of
          [AccountId32 n a] \<Rightarrow> if parents loc = 0 \<and> (n = None \<or> n = network) then Some a else None
        | _ \<Rightarrow> None),
      convert_first =
        (\<lambda>cs loc. foldr (\<lambda>c r. case c loc of None \<Rightarrow> r | Some a \<Rightarrow> Some a) cs None),
      IsVoiceOfBody = (\<lambda>prefix body loc.
          parents loc = parents prefix \<and> interior loc = interior prefix @ [Plurality body Voice]),
      EnsureRoot = (\<lambda>origin. origin = 0),
      EnsureXcm = (\<lambda>F origin. origin = 1 \<and> F \<lparr>parents = 1, interior = [Plurality Defense Voice]\<rparr>),
      should_execute_any = sample_any,
      TrailingSetTopicAsId = (\<lambda>A org w m.
          A org w (if fst m \<noteq> [] \<and> last (fst m) = 0 then (butlast (fst m), snd m) else m)),
      DenyThenTry = (\<lambda>D A org w m.
          case D org w m of (Inl e, m') \<Rightarrow> (Inl e, m') | (Inr _, m') \<Rightarrow> A org w m'),
      WithComputedOrigin = (\<lambda>A ul limit. A),
      DenyReserveTransferToRelayChain = (\<lambda>org w m. sample_verdict (3 \<notin> set (fst m)) m),
      TakeWeightCredit = (\<lambda>org w m.
          if unat (ref_time w) \<le> snd m then (Inr (), (fst m, snd m - unat (ref_time w)))
          else (Inl (), m)),
      AllowTopLevelPaidExecutionFrom =
        (\<lambda>F org w m. sample_verdict (F org \<and> take 1 (fst m) = [2]) m),
      AllowExplicitUnpaidExecutionFrom =
        (\<lambda>F org w m. sample_verdict (F org \<and> take 1 (fst m) = [1]) m),
      strip_topic = (\<lambda>m.
          if fst m \<noteq> [] \<and> last (fst m) = 0 then (butlast (fst m), snd m) else m),
      computed_origin = (\<lambda>ul org ins. org)\<rparr>"

lemma sample_convert: "convert_first sample_xcm =
    (\<lambda>cs loc. foldr (\<lambda>c r. case c loc of None \<Rightarrow> r | Some a \<Rightarrow> Some a) cs None)"
  by (simp add: sample_xcm_def)

lemma sample_any_eq: "should_execute_any sample_xcm = sample_any"
  by (simp add: sample_xcm_def)

lemma sample_xcm_laws: "xcm_laws sample_xcm"
proof unfold_locales
  fix loc :: "(nat, unit) Location"
  show "(ParentIsPreset sample_xcm loc \<noteq> None) \<longleftrightarrow> loc = \<lparr>parents = 1, interior = []\<rparr>"
    by (simp add: sample_xcm_def RelayLocation_def)
  show "(SiblingParachainConvertsVia sample_xcm loc \<noteq> None) \<longleftrightarrow>
      (\<exists>p. loc = \<lparr>parents = 1, interior = [Parachain p]\<rparr>)"
    by (cases loc) (auto simp: sample_xcm_def split: list.splits Junction.splits)
  fix network a
  show "AccountId32Aliases sample_xcm network loc = Some a \<longleftrightarrow>
      (\<exists>n. loc = \<lparr>parents = 0, interior = [AccountId32 n a]\<rparr> \<and> (n = None \<or> n = network))"
    by (cases loc) (auto simp: sample_xcm_def split: list.splits Junction.splits)
next
  fix A :: "(nat, unit, nat, nat, unit) ShouldExecute" and ul limit org w ins p
  assume "fst (WithComputedOrigin sample_xcm A ul limit org w (ins, p)) = Inr ()"
  then show "\<exists>k\<le>unat limit. k \<le> length ins \<and>
      fst (A (computed_origin sample_xcm ul org (take k ins)) w (drop k ins, p)) = Inr ()"
    by (intro exI [of _ 0]) (simp add: sample_xcm_def)
qed (unfold sample_convert sample_any_eq, auto simp: sample_xcm_def sample_verdict_def split: if_splits)

interpretation sample_xcm: xcm_laws sample_xcm
  by (rule sample_xcm_laws)

section \<open>Properties\<close>

lemma free_execution_origins:
  "ParentOrParentsExecutivePlurality loc \<longleftrightarrow>
     parents loc = 1 \<and> (interior loc = [] \<or> (\<exists>part. interior loc = [Plurality Executive part]))"
proof -
  have "ParentOrParentsExecutivePlurality_contains (p, js) \<longleftrightarrow>
      p = 1 \<and> (js = [] \<or> (\<exists>part. js = [Plurality Executive part]))" for p :: u8 and js :: "('a, 'b) Junction list"
    by (induction "(p, js)" rule: ParentOrParentsExecutivePlurality_contains.induct) auto
  then show ?thesis by (simp add: ParentOrParentsExecutivePlurality_def)
qed

context xcm_laws begin

lemma converters_disjoint:
  "ParentIsPreset X loc = Some a \<Longrightarrow>
     SiblingParachainConvertsVia X loc = None \<and> AccountId32Aliases X n loc = None"
  "SiblingParachainConvertsVia X loc = Some a \<Longrightarrow>
     ParentIsPreset X loc = None \<and> AccountId32Aliases X n loc = None"
  "AccountId32Aliases X n loc = Some a \<Longrightarrow>
     ParentIsPreset X loc = None \<and> SiblingParachainConvertsVia X loc = None"
  using parent_only [of loc] sibling_only [of loc] alias_id [of n loc] by fastforce+

lemma convert_first_Some:
  "convert_first X cs loc = Some a \<Longrightarrow> \<exists>c \<in> set cs. c loc = Some a"
  by (induction cs) (auto simp: convert_none convert_cons split: option.splits)

lemma convert_first_None: "convert_first X cs loc = None \<longleftrightarrow> (\<forall>c \<in> set cs. c loc = None)"
  by (induction cs) (auto simp: convert_none convert_cons split: option.splits)

text \<open>Converters that never succeed together may be listed in any order.\<close>

lemma convert_order:
  assumes same: "set cs = set ds"
    and disjoint: "\<And>c d a. c \<in> set cs \<Longrightarrow> d \<in> set cs \<Longrightarrow> c loc = Some a \<Longrightarrow> c = d \<or> d loc = None"
  shows "convert_first X cs loc = convert_first X ds loc"
proof (cases "convert_first X cs loc")
  case None
  then show ?thesis using same by (metis convert_first_None)
next
  case (Some a)
  then obtain c where c: "c \<in> set cs" "c loc = Some a" using convert_first_Some by blast
  then obtain b where b: "convert_first X ds loc = Some b"
    using same convert_first_None by (metis option.distinct(1) option.exhaust)
  then obtain d where "d \<in> set ds" "d loc = Some b" using convert_first_Some by blast
  with c disjoint [of c d a] same Some b show ?thesis by auto
qed

end

text \<open>
  C36.  Admission of messages: a message that the barrier lets through is not a reserve
  transfer to the relay chain, and it is covered by weight credit, or it pays for its execution, or
  the origin that at most eight leading instructions compute is the relay chain or the
  executive plurality of the relay chain.
\<close>

theorem barrier_admission:
  assumes "xcm_laws X" and "fst (Barrier X parachain org w m) = Inr ()"
  shows "fst (DenyReserveTransferToRelayChain X org w (strip_topic X m)) = Inr () \<and>
    (fst (TakeWeightCredit X org w (strip_topic X m)) = Inr () \<or>
     (\<exists>k \<le> 8. \<exists>from rest.
        from = computed_origin X (UniversalLocation parachain) org (take k (fst (strip_topic X m))) \<and>
        rest = (drop k (fst (strip_topic X m)), snd (strip_topic X m)) \<and>
        (fst (AllowTopLevelPaidExecutionFrom X Everything from w rest) = Inr () \<or>
         (parents from = 1 \<and>
          (interior from = [] \<or> (\<exists>part. interior from = [Plurality Executive part]))))))"
proof -
  let ?m = "strip_topic X m"
  let ?inner = "should_execute_any X [AllowTopLevelPaidExecutionFrom X Everything,
    AllowExplicitUnpaidExecutionFrom X ParentOrParentsExecutivePlurality]"
  let ?computed = "WithComputedOrigin X ?inner (UniversalLocation parachain) 8"
  from assms(2) have "fst (DenyThenTry X (DenyReserveTransferToRelayChain X)
      (should_execute_any X [TakeWeightCredit X, ?computed]) org w ?m) = Inr ()"
    by (simp add: Barrier_def xcm_laws.trailing_topic [OF assms(1)])
  from xcm_laws.deny_try_accepts [OF assms(1) this]
  have deny: "fst (DenyReserveTransferToRelayChain X org w ?m) = Inr ()"
    and tried: "fst (should_execute_any X [TakeWeightCredit X, ?computed] org w ?m) = Inr ()"
    using xcm_laws.deny_reads [OF assms(1)] by fastforce+
  consider (credit) "fst (TakeWeightCredit X org w ?m) = Inr ()"
    | (computed) "fst (?computed org w (fst ?m, snd ?m)) = Inr ()"
    using xcm_laws.any_pair [OF assms(1) tried] xcm_laws.credit_refusal [OF assms(1)] by fastforce
  then show ?thesis
  proof cases
    case computed
    from xcm_laws.computed [OF assms(1) this] obtain k where "k \<le> 8"
      and inner: "fst (?inner (computed_origin X (UniversalLocation parachain) org (take k (fst ?m))) w
        (drop k (fst ?m), snd ?m)) = Inr ()"
      by auto
    with xcm_laws.any_pair [OF assms(1) inner] xcm_laws.unpaid_from [OF assms(1)] deny
    show ?thesis by (metis free_execution_origins)
  qed (use deny in simp)
qed

theorem barrier_admission_witness:
  "fst (Barrier sample_xcm 1000 RelayLocation (from_parts 5 0) ([1, 7, 0], 0)) = Inr () \<and>
   fst (DenyReserveTransferToRelayChain sample_xcm RelayLocation (from_parts 5 0)
     (strip_topic sample_xcm ([1, 7, 0], 0))) = Inr ()"
proof -
  have "fst (Barrier sample_xcm 1000 RelayLocation (from_parts 5 0) ([1, 7, 0], 0)) = Inr ()"
    by (simp add: Barrier_def sample_xcm_def sample_verdict_def from_parts_def RelayLocation_def
        ParentOrParentsExecutivePlurality_def Everything_def)
  with barrier_admission [OF sample_xcm_laws this] show ?thesis by blast
qed

text \<open>
  Sovereign accounts: exactly the relay chain, sibling parachains and local accounts
  without a network have an account here, a local account is its own, and the order in which the
  source lists the three conversions does not matter.
\<close>

theorem location_accounts:
  assumes "xcm_laws X"
  shows "(LocationToAccountId X loc \<noteq> None \<longleftrightarrow>
      loc = RelayLocation \<or> (\<exists>p. loc = \<lparr>parents = 1, interior = [Parachain p]\<rparr>) \<or>
      (\<exists>a. loc = \<lparr>parents = 0, interior = [AccountId32 None a]\<rparr>)) \<and>
    LocationToAccountId X \<lparr>parents = 0, interior = [AccountId32 None a]\<rparr> = Some a \<and>
    (\<forall>cs. set cs = {ParentIsPreset X, SiblingParachainConvertsVia X,
                   AccountId32Aliases X RelayNetwork} \<longrightarrow>
       convert_first X cs loc = LocationToAccountId X loc)"
proof (intro conjI allI impI)
  have own: "AccountId32Aliases X RelayNetwork l = Some b \<longleftrightarrow>
      l = \<lparr>parents = 0, interior = [AccountId32 None b]\<rparr>" for l b
    using xcm_laws.alias_id [OF assms, of RelayNetwork l b] by (auto simp: RelayNetwork_def)
  show "LocationToAccountId X loc \<noteq> None \<longleftrightarrow>
      loc = RelayLocation \<or> (\<exists>p. loc = \<lparr>parents = 1, interior = [Parachain p]\<rparr>) \<or>
      (\<exists>a. loc = \<lparr>parents = 0, interior = [AccountId32 None a]\<rparr>)"
    using xcm_laws.parent_only [OF assms, of loc] xcm_laws.sibling_only [OF assms, of loc] own [of loc]
    by (auto simp: xcm_laws.account_of_location [OF assms] RelayLocation_def split: option.splits)
  show "LocationToAccountId X \<lparr>parents = 0, interior = [AccountId32 None a]\<rparr> = Some a"
    using own [of "\<lparr>parents = 0, interior = [AccountId32 None a]\<rparr>" a]
      xcm_laws.converters_disjoint(3) [OF assms, of RelayNetwork _ a]
    by (simp add: xcm_laws.account_of_location [OF assms])
  show "convert_first X cs loc = LocationToAccountId X loc"
    if "set cs = {ParentIsPreset X, SiblingParachainConvertsVia X, AccountId32Aliases X RelayNetwork}" for cs
    unfolding LocationToAccountId_def
    by (rule xcm_laws.convert_order [OF assms])
      (use that in \<open>auto dest: xcm_laws.converters_disjoint [OF assms, where n = RelayNetwork]\<close>)
qed

theorem location_accounts_witness:
  "LocationToAccountId sample_xcm \<lparr>parents = 0, interior = [AccountId32 None 7]\<rparr> = Some 7"
  using location_accounts [OF sample_xcm_laws] by blast



end
