(* ===== verification/Xcm_Transact.thy ===== *)
theory Xcm_Transact
  imports Xcm_Config Nft_Properties
begin

text \<open>
  What messages from other chains may do here: the conversion of origins for \<open>Transact\<close>, the asset
  transactor, the executor's configuration, the router and the configuration of \<open>pallet_xcm\<close>, all in
  \<open>src/runtime/src/configs/xcm_config.rs\<close>.  The converters, adapters and routers that the source puts
  together are code of the XCM crates: the parameter \<open>xcm_parts\<close>, with their documented behaviour in
  the locale \<open>transact_laws\<close>.
\<close>

section \<open>Origins and assets\<close>

text \<open>
  The origins of this runtime: those of \<open>frame_system\<close>, of \<open>cumulus_pallet_xcm\<close> (\<open>Relay\<close>,
  \<open>SiblingParachain\<close>) and of \<open>pallet_xcm\<close> (\<open>Xcm\<close>, \<open>Response\<close>).
\<close>

datatype ('acc, 'x) RuntimeOrigin =
    Root
  | Signed 'acc
  | Unsigned
  | Relay
  | SiblingParachain u32
  | XcmOrigin "('acc, 'x) Location"
  | ResponseOrigin "('acc, 'x) Location"

datatype OriginKind = Native | SovereignAccount | Superuser | Xcm

datatype 'x Fungibility = Fungible Balance | NonFungible 'x

record ('acc, 'x) Asset =
  asset_id :: "('acc, 'x) Location"
  fungibility :: "'x Fungibility"

datatype 'x XcmError = AssetNotHandled | AccountIdConversionFailed | OtherXcmError 'x

datatype 'x SendError = NotApplicable | OtherSendError 'x

text \<open>A converter that does not apply gives the location back.\<close>

type_synonym ('acc, 'x) ConvertOrigin =
  "('acc, 'x) Location \<Rightarrow> OriginKind \<Rightarrow> ('acc, 'x) Location + ('acc, 'x) RuntimeOrigin"

text \<open>The credit that the deposit of an asset gives: to which account and how much.\<close>

type_synonym ('acc, 'x) Deposit =
  "('acc, 'x) Asset \<Rightarrow> ('acc, 'x) Location \<Rightarrow> 'x XcmError + 'acc \<times> Balance"

type_synonym ('acc, 'x, 'm, 't) SendXcm = "('acc, 'x) Location \<Rightarrow> 'm \<Rightarrow> 'x SendError + 't"

type_synonym ('acc, 'x) TryConvert =
  "('acc, 'x) RuntimeOrigin \<Rightarrow> ('acc, 'x) RuntimeOrigin + ('acc, 'x) Location"

record ('acc, 'x, 'm, 't) xcm_parts =
  SovereignSignedViaLocation :: "('acc, 'x) converter \<Rightarrow> ('acc, 'x) ConvertOrigin"
  RelayChainAsNative :: "('acc, 'x) RuntimeOrigin \<Rightarrow> ('acc, 'x) ConvertOrigin"
  SiblingParachainAsNative :: "(u32 \<Rightarrow> ('acc, 'x) RuntimeOrigin) \<Rightarrow> ('acc, 'x) ConvertOrigin"
  SignedAccountId32AsNative :: "'x option \<Rightarrow> ('acc, 'x) ConvertOrigin"
  XcmPassthrough :: "('acc, 'x) ConvertOrigin"
  convert_origin_any :: "('acc, 'x) ConvertOrigin list \<Rightarrow> ('acc, 'x) ConvertOrigin"
  IsConcrete :: "('acc, 'x) Location \<Rightarrow> ('acc, 'x) Asset \<Rightarrow> Balance option"
  FungibleAdapter_deposit ::
    "(('acc, 'x) Asset \<Rightarrow> Balance option) \<Rightarrow> ('acc, 'x) converter \<Rightarrow> ('acc, 'x) Deposit"
  NativeAsset :: "('acc, 'x) Asset \<Rightarrow> ('acc, 'x) Location \<Rightarrow> bool"
  SignedToAccountId32 :: "'x option \<Rightarrow> ('acc, 'x) TryConvert"
  EnsureXcmOrigin :: "('acc, 'x) TryConvert \<Rightarrow> ('acc, 'x) RuntimeOrigin \<Rightarrow> ('acc, 'x) Location option"
  ParentAsUmp :: "('acc, 'x, 'm, 't) SendXcm"
  XcmpQueue_send :: "('acc, 'x, 'm, 't) SendXcm"
  send_any :: "('acc, 'x, 'm, 't) SendXcm list \<Rightarrow> ('acc, 'x, 'm, 't) SendXcm"
  WithUniqueTopic :: "('acc, 'x, 'm, 't) SendXcm \<Rightarrow> ('acc, 'x, 'm, 't) SendXcm"
  with_topic :: "'m \<Rightarrow> 'm"

type_synonym ('acc, 'x, 'i, 'p, 'e) runtime_xcm = "('acc, 'x, 'i, 'p, 'e, ('acc, 'x) RuntimeOrigin) xcm_sdk"

section \<open>The configuration\<close>

definition RelayChainOrigin :: "('acc, 'x) RuntimeOrigin" where
  "RelayChainOrigin = Relay"

definition LocalAssetTransactor ::
  "('acc, 'x, 'i, 'p, 'e) runtime_xcm \<Rightarrow> ('acc, 'x, 'm, 't) xcm_parts \<Rightarrow> ('acc, 'x) Deposit" where
  "LocalAssetTransactor X Y =
     FungibleAdapter_deposit Y (IsConcrete Y RelayLocation) (LocationToAccountId X)"

definition XcmOriginToTransactDispatchOrigin ::
  "('acc, 'x, 'i, 'p, 'e) runtime_xcm \<Rightarrow> ('acc, 'x, 'm, 't) xcm_parts \<Rightarrow> ('acc, 'x) ConvertOrigin" where
  "XcmOriginToTransactDispatchOrigin X Y =
     convert_origin_any Y
       [SovereignSignedViaLocation Y (LocationToAccountId X),
        RelayChainAsNative Y RelayChainOrigin,
        SiblingParachainAsNative Y SiblingParachain,
        SignedAccountId32AsNative Y RelayNetwork,
        XcmPassthrough Y]"

definition Nothing :: "'a \<Rightarrow> bool" where
  "Nothing x = False"

definition LocalOriginToLocation ::
  "('acc, 'x, 'm, 't) xcm_parts \<Rightarrow> ('acc, 'x) TryConvert" where
  "LocalOriginToLocation Y = SignedToAccountId32 Y RelayNetwork"

definition XcmRouter :: "('acc, 'x, 'm, 't) xcm_parts \<Rightarrow> ('acc, 'x, 'm, 't) SendXcm" where
  "XcmRouter Y = WithUniqueTopic Y (send_any Y [ParentAsUmp Y, XcmpQueue_send Y])"

text \<open>The arguments of \<open>FixedWeightBounds\<close>: the cost of an instruction and the longest message.\<close>

definition Weigher :: "Weight \<times> u32" where
  "Weigher = (UnitWeightCost, MaxInstructions)"

text \<open>
  The executor's configuration: what its associated types fix.  Types that name a pallet of the SDK
  as the handler of responses, traps and subscriptions, and the empty tuples for asset locks,
  exchange, fees, exports and channel requests, carry nothing that is looked at here.
\<close>

record ('acc, 'x, 'i, 'p, 'e, 'm, 't, 'call) ExecutorConfig =
  ec_XcmSender :: "('acc, 'x, 'm, 't) SendXcm"
  ec_AssetTransactor :: "('acc, 'x) Deposit"
  ec_OriginConverter :: "('acc, 'x) ConvertOrigin"
  ec_IsReserve :: "('acc, 'x) Asset \<Rightarrow> ('acc, 'x) Location \<Rightarrow> bool"
  ec_IsTeleporter :: "('acc, 'x) Asset \<Rightarrow> ('acc, 'x) Location \<Rightarrow> bool"
  ec_UniversalLocation :: "('acc, 'x) Junction list"
  ec_Barrier :: "('acc, 'x, 'i, 'p, 'e) ShouldExecute"
  ec_Weigher :: "Weight \<times> u32"
  ec_Trader :: "WeightToFeeCoefficient list \<times> ('acc, 'x) Location"
  ec_MaxAssetsIntoHolding :: u32
  ec_UniversalAliases :: "('acc, 'x) Location \<times> ('acc, 'x) Junction \<Rightarrow> bool"
  ec_SafeCallFilter :: "'call \<Rightarrow> bool"
  ec_Aliasers :: "('acc, 'x) Location \<times> ('acc, 'x) Location \<Rightarrow> bool"

definition XcmConfig ::
  "sdk \<Rightarrow> ('acc, 'x, 'i, 'p, 'e) runtime_xcm \<Rightarrow> ('acc, 'x, 'm, 't) xcm_parts \<Rightarrow> u32 \<Rightarrow>
   ('acc, 'x, 'i, 'p, 'e, 'm, 't, 'call) ExecutorConfig" where
  "XcmConfig K X Y parachain_id =
     \<lparr>ec_XcmSender = XcmRouter Y,
      ec_AssetTransactor = LocalAssetTransactor X Y,
      ec_OriginConverter = XcmOriginToTransactDispatchOrigin X Y,
      ec_IsReserve = NativeAsset Y,
      ec_IsTeleporter = (\<lambda>_ _. False),
      ec_UniversalLocation = UniversalLocation parachain_id,
      ec_Barrier = Barrier X parachain_id,
      ec_Weigher = Weigher,
      ec_Trader = (WeightToFee_polynomial K, RelayLocation),
      ec_MaxAssetsIntoHolding = MaxAssetsIntoHolding,
      ec_UniversalAliases = Nothing,
      ec_SafeCallFilter = Everything,
      ec_Aliasers = Nothing\<rparr>"

record ('acc, 'x, 'm, 't, 'asset, 'msg) PalletXcmConfig =
  px_SendXcmOrigin :: "('acc, 'x) RuntimeOrigin \<Rightarrow> ('acc, 'x) Location option"
  px_XcmRouter :: "('acc, 'x, 'm, 't) SendXcm"
  px_ExecuteXcmOrigin :: "('acc, 'x) RuntimeOrigin \<Rightarrow> ('acc, 'x) Location option"
  px_XcmExecuteFilter :: "('acc, 'x) Location \<times> 'msg \<Rightarrow> bool"
  px_XcmTeleportFilter :: "('acc, 'x) Location \<times> 'asset list \<Rightarrow> bool"
  px_XcmReserveTransferFilter :: "('acc, 'x) Location \<times> 'asset list \<Rightarrow> bool"
  px_Weigher :: "Weight \<times> u32"
  px_UniversalLocation :: "('acc, 'x) Junction list"
  VERSION_DISCOVERY_QUEUE_SIZE :: u32
  px_SovereignAccountOf :: "('acc, 'x) converter"
  px_MaxLockers :: u32
  px_AdminOrigin :: "('acc, 'x) RuntimeOrigin \<Rightarrow> bool"
  px_MaxRemoteLockConsumers :: u32

definition pallet_xcm_config ::
  "('acc, 'x, 'i, 'p, 'e) runtime_xcm \<Rightarrow> ('acc, 'x, 'm, 't) xcm_parts \<Rightarrow> u32 \<Rightarrow>
   ('acc, 'x, 'm, 't, 'asset, 'msg) PalletXcmConfig" where
  "pallet_xcm_config X Y parachain_id =
     \<lparr>px_SendXcmOrigin = EnsureXcmOrigin Y (LocalOriginToLocation Y),
      px_XcmRouter = XcmRouter Y,
      px_ExecuteXcmOrigin = EnsureXcmOrigin Y (LocalOriginToLocation Y),
      px_XcmExecuteFilter = Nothing,
      px_XcmTeleportFilter = Everything,
      px_XcmReserveTransferFilter = Nothing,
      px_Weigher = Weigher,
      px_UniversalLocation = UniversalLocation parachain_id,
      VERSION_DISCOVERY_QUEUE_SIZE = 100,
      px_SovereignAccountOf = LocationToAccountId X,
      px_MaxLockers = 8,
      px_AdminOrigin = EnsureRoot X,
      px_MaxRemoteLockConsumers = 0\<rparr>"

section \<open>The interface of the XCM crates\<close>

text \<open>
  Origins: a sovereign conversion signs for the account of the location; the relay chain, a sibling
  and a local account are natively themselves; \<open>XcmPassthrough\<close> keeps the location.  Every
  converter serves one kind of origin only, and a tuple of converters takes the first that
  succeeds.  Assets: \<open>IsConcrete\<close> matches fungible assets with the given id, the adapter credits
  what its matcher matches to the account its converter gives, and \<open>NativeAsset\<close> trusts a chain with
  the asset that has its own location as id.  Routers: each answers \<open>NotApplicable\<close> for destinations that
  are not its own, and a tuple passes these on; \<open>WithUniqueTopic\<close> sends the message with a topic.
\<close>

locale transact_laws = xcm_laws X
  for X :: "('acc, 'x, 'i, 'p, 'e) runtime_xcm" +
  fixes Y :: "('acc, 'x, 'm, 't) xcm_parts"
  assumes sovereign:
      "SovereignSignedViaLocation Y conv loc kind =
         (if kind = SovereignAccount then case conv loc of Some a \<Rightarrow> Inr (Signed a) | None \<Rightarrow> Inl loc
          else Inl loc)"
    and relay_native:
      "RelayChainAsNative Y org loc kind =
         (if kind = Native \<and> loc = \<lparr>parents = 1, interior = []\<rparr> then Inr org else Inl loc)"
    and sibling_native:
      "SiblingParachainAsNative Y f loc kind = Inr org \<longleftrightarrow>
         kind = Native \<and> (\<exists>p. loc = \<lparr>parents = 1, interior = [Parachain p]\<rparr> \<and> org = f p)"
    and sibling_keeps: "SiblingParachainAsNative Y f loc kind = Inl loc' \<Longrightarrow> loc' = loc"
    and account_native:
      "SignedAccountId32AsNative Y network loc kind = Inr org \<longleftrightarrow>
         kind = Native \<and> (\<exists>n a. loc = \<lparr>parents = 0, interior = [AccountId32 n a]\<rparr> \<and>
           (n = None \<or> n = network) \<and> org = Signed a)"
    and account_keeps: "SignedAccountId32AsNative Y network loc kind = Inl loc' \<Longrightarrow> loc' = loc"
    and passthrough:
      "XcmPassthrough Y loc kind = (if kind = Xcm then Inr (XcmOrigin loc) else Inl loc)"
    and origin_none: "convert_origin_any Y [] loc kind = Inl loc"
    and origin_cons:
      "convert_origin_any Y (c # cs) loc kind =
         (case c loc kind of Inl loc' \<Rightarrow> convert_origin_any Y cs loc' kind | Inr org \<Rightarrow> Inr org)"
    and root_only: "EnsureRoot X org \<longleftrightarrow> org = Root"
    and xcm_only: "EnsureXcm X F org \<longleftrightarrow> (\<exists>loc. org = XcmOrigin loc \<and> F loc)"
    and voice:
      "IsVoiceOfBody X base body loc \<longleftrightarrow>
         loc = \<lparr>parents = parents base, interior = interior base @ [Plurality body Voice]\<rparr>"
    and concrete:
      "IsConcrete Y base asset = Some n \<longleftrightarrow> asset_id asset = base \<and> fungibility asset = Fungible n"
    and deposit_unmatched: "match asset = None \<Longrightarrow> FungibleAdapter_deposit Y match conv asset who = Inl AssetNotHandled"
    and deposit_nobody:
      "match asset = Some n \<Longrightarrow> conv who = None \<Longrightarrow>
         FungibleAdapter_deposit Y match conv asset who = Inl AccountIdConversionFailed"
    and deposit_credit:
      "FungibleAdapter_deposit Y match conv asset who = Inr (a, n) \<Longrightarrow>
         match asset = Some n \<and> conv who = Some a"
    and native_asset: "NativeAsset Y asset from \<longleftrightarrow> asset_id asset = from"
    and signed_location:
      "SignedToAccountId32 Y network org =
         (case org of Signed a \<Rightarrow> Inr \<lparr>parents = 0, interior = [AccountId32 network a]\<rparr> | _ \<Rightarrow> Inl org)"
    and ensure_location:
      "EnsureXcmOrigin Y attempt org =
         (case attempt org of
            Inr loc \<Rightarrow> Some loc
          | Inl org' \<Rightarrow> if org' = Root then Some \<lparr>parents = 0, interior = []\<rparr> else None)"
    and ump_parent:
      "ParentAsUmp Y dest msg = Inl NotApplicable \<longleftrightarrow> dest \<noteq> \<lparr>parents = 1, interior = []\<rparr>"
    and xcmp_sibling:
      "XcmpQueue_send Y dest msg = Inl NotApplicable \<longleftrightarrow>
         (\<forall>p. dest \<noteq> \<lparr>parents = 1, interior = [Parachain p]\<rparr>)"
    and send_none: "send_any Y [] dest msg = Inl NotApplicable"
    and send_cons:
      "send_any Y (r # rs) dest msg =
         (if r dest msg = Inl NotApplicable then send_any Y rs dest msg else r dest msg)"
    and unique_topic: "WithUniqueTopic Y r dest msg = r dest (with_topic Y msg)"
begin

text \<open>Each kind of origin is served by its own converters.\<close>

lemma sovereign_origin:
  "XcmOriginToTransactDispatchOrigin X Y loc SovereignAccount =
     (case LocationToAccountId X loc of Some a \<Rightarrow> Inr (Signed a) | None \<Rightarrow> Inl loc)"
  by (auto simp: XcmOriginToTransactDispatchOrigin_def origin_cons origin_none sovereign relay_native
      passthrough sibling_native account_native split: option.splits sum.splits
      dest: sibling_keeps account_keeps)

lemma xcm_origin:
  "XcmOriginToTransactDispatchOrigin X Y loc Xcm = Inr (XcmOrigin loc)"
  by (auto simp: XcmOriginToTransactDispatchOrigin_def origin_cons sovereign relay_native
      passthrough sibling_native account_native split: option.splits sum.splits
      dest: sibling_keeps account_keeps)

lemma superuser_origin:
  "XcmOriginToTransactDispatchOrigin X Y loc Superuser = Inl loc"
  by (auto simp: XcmOriginToTransactDispatchOrigin_def origin_cons origin_none sovereign relay_native
      passthrough sibling_native account_native split: option.splits sum.splits
      dest: sibling_keeps account_keeps)

lemma origin_step:
  assumes "\<forall>loc kind loc'. c loc kind = Inl loc' \<longrightarrow> loc' = loc"
  shows "convert_origin_any Y (c # cs) loc kind = Inr org \<longleftrightarrow>
    c loc kind = Inr org \<or> (\<forall>o'. c loc kind \<noteq> Inr o') \<and> convert_origin_any Y cs loc kind = Inr org"
  using assms by (cases "c loc kind") (auto simp: origin_cons)

lemma converters_keep:
  "\<forall>loc kind loc'. SovereignSignedViaLocation Y conv loc kind = Inl loc' \<longrightarrow> loc' = loc"
  "\<forall>loc kind loc'. RelayChainAsNative Y org loc kind = Inl loc' \<longrightarrow> loc' = loc"
  "\<forall>loc kind loc'. SiblingParachainAsNative Y f loc kind = Inl loc' \<longrightarrow> loc' = loc"
  "\<forall>loc kind loc'. SignedAccountId32AsNative Y network loc kind = Inl loc' \<longrightarrow> loc' = loc"
  "\<forall>loc kind loc'. XcmPassthrough Y loc kind = Inl loc' \<longrightarrow> loc' = loc"
  using sibling_keeps account_keeps
  by (auto simp: sovereign relay_native passthrough split: if_splits option.splits)

lemmas origin_steps = converters_keep [THEN origin_step]

lemma any_keeps:
  "\<forall>c \<in> set cs. \<forall>loc kind loc'. c loc kind = Inl loc' \<longrightarrow> loc' = loc \<Longrightarrow>
     convert_origin_any Y cs loc kind = Inl loc' \<Longrightarrow> loc' = loc"
  by (induction cs) (auto simp: origin_none origin_cons split: sum.splits)

lemma refusal_keeps:
  assumes "XcmOriginToTransactDispatchOrigin X Y loc kind = Inl loc'"
  shows "loc' = loc"
  using assms converters_keep unfolding XcmOriginToTransactDispatchOrigin_def
  by (intro any_keeps) simp_all

lemma native_origin:
  "XcmOriginToTransactDispatchOrigin X Y loc Native = Inr org \<longleftrightarrow>
     (loc = RelayLocation \<and> org = Relay) \<or>
     (\<exists>p. loc = \<lparr>parents = 1, interior = [Parachain p]\<rparr> \<and> org = SiblingParachain p) \<or>
     (\<exists>a. loc = \<lparr>parents = 0, interior = [AccountId32 None a]\<rparr> \<and> org = Signed a)"
  by (simp add: XcmOriginToTransactDispatchOrigin_def origin_steps origin_none sovereign relay_native
      passthrough sibling_native account_native RelayLocation_def RelayNetwork_def RelayChainOrigin_def)
    auto

lemma local_account: "LocationToAccountId X \<lparr>parents = 0, interior = [AccountId32 None a]\<rparr> = Some a"
proof -
  let ?loc = "\<lparr>parents = 0, interior = [AccountId32 None a]\<rparr>"
  have "AccountId32Aliases X RelayNetwork ?loc = Some a" by (simp add: alias_id)
  with converters_disjoint(3) [OF this] show ?thesis by (simp add: account_of_location)
qed

end

section \<open>An instance of the laws\<close>

text \<open>The instance of \<open>Xcm_Config\<close> with the origins of the runtime; a ticket is the queue it goes to.\<close>

definition sample_runtime_xcm :: "(nat, unit, nat, nat, unit) runtime_xcm" where
  "sample_runtime_xcm =
     \<lparr>ParentIsPreset = ParentIsPreset sample_xcm,
      SiblingParachainConvertsVia = SiblingParachainConvertsVia sample_xcm,
      AccountId32Aliases = AccountId32Aliases sample_xcm,
      convert_first = convert_first sample_xcm,
      IsVoiceOfBody = IsVoiceOfBody sample_xcm,
      EnsureRoot = (\<lambda>org. org = Root),
      EnsureXcm = (\<lambda>F org. case org of XcmOrigin loc \<Rightarrow> F loc | _ \<Rightarrow> False),
      should_execute_any = should_execute_any sample_xcm,
      TrailingSetTopicAsId = TrailingSetTopicAsId sample_xcm,
      DenyThenTry = DenyThenTry sample_xcm,
      WithComputedOrigin = WithComputedOrigin sample_xcm,
      DenyReserveTransferToRelayChain = DenyReserveTransferToRelayChain sample_xcm,
      TakeWeightCredit = TakeWeightCredit sample_xcm,
      AllowTopLevelPaidExecutionFrom = AllowTopLevelPaidExecutionFrom sample_xcm,
      AllowExplicitUnpaidExecutionFrom = AllowExplicitUnpaidExecutionFrom sample_xcm,
      strip_topic = strip_topic sample_xcm,
      computed_origin = computed_origin sample_xcm\<rparr>"

definition sample_parts :: "(nat, unit, nat list, string) xcm_parts" where
  "sample_parts =
     \<lparr>SovereignSignedViaLocation = (\<lambda>conv loc kind.
        if kind = SovereignAccount then case conv loc of Some a \<Rightarrow> Inr (Signed a) | None \<Rightarrow> Inl loc
        else Inl loc),
      RelayChainAsNative = (\<lambda>org loc kind.
        if kind = Native \<and> loc = \<lparr>parents = 1, interior = []\<rparr> then Inr org else Inl loc),
      SiblingParachainAsNative = (\<lambda>f loc kind. case interior loc of
          [Parachain p] \<Rightarrow> if kind = Native \<and> parents loc = 1 then Inr (f p) else Inl loc
        | _ \<Rightarrow> Inl loc),
      SignedAccountId32AsNative = (\<lambda>network loc kind. case interior loc of
          [AccountId32 n a] \<Rightarrow>
            if kind = Native \<and> parents loc = 0 \<and> (n = None \<or> n = network) then Inr (Signed a)
            else Inl loc
        | _ \<Rightarrow> Inl loc),
      XcmPassthrough = (\<lambda>loc kind. if kind = Xcm then Inr (XcmOrigin loc) else Inl loc),
      convert_origin_any = (\<lambda>cs loc kind.
        foldr (\<lambda>c k l. case c l kind of Inl l' \<Rightarrow> k l' | Inr org \<Rightarrow> Inr org) cs Inl loc),
      IsConcrete = (\<lambda>base asset. case fungibility asset of
          Fungible n \<Rightarrow> if asset_id asset = base then Some n else None | NonFungible _ \<Rightarrow> None),
      FungibleAdapter_deposit = (\<lambda>match conv asset who. case match asset of
          None \<Rightarrow> Inl AssetNotHandled
        | Some n \<Rightarrow> (case conv who of None \<Rightarrow> Inl AccountIdConversionFailed | Some a \<Rightarrow> Inr (a, n))),
      NativeAsset = (\<lambda>asset from. asset_id asset = from),
      SignedToAccountId32 = (\<lambda>network org. case org of
          Signed a \<Rightarrow> Inr \<lparr>parents = 0, interior = [AccountId32 network a]\<rparr> | _ \<Rightarrow> Inl org),
      EnsureXcmOrigin = (\<lambda>conv org. case conv org of
          Inr loc \<Rightarrow> Some loc
        | Inl org' \<Rightarrow> if org' = Root then Some \<lparr>parents = 0, interior = []\<rparr> else None),
      ParentAsUmp = (\<lambda>dest msg.
        if dest = \<lparr>parents = 1, interior = []\<rparr> then Inr ''ump'' else Inl NotApplicable),
      XcmpQueue_send = (\<lambda>dest msg. case interior dest of
          [Parachain p] \<Rightarrow> if parents dest = 1 then Inr ''xcmp'' else Inl NotApplicable
        | _ \<Rightarrow> Inl NotApplicable),
      send_any = (\<lambda>rs dest msg.
        foldr (\<lambda>r k. if r dest msg = Inl NotApplicable then k else r dest msg) rs (Inl NotApplicable)),
      WithUniqueTopic = (\<lambda>r dest msg. r dest (if 0 \<in> set msg then msg else msg @ [0])),
      with_topic = (\<lambda>msg. if 0 \<in> set msg then msg else msg @ [0])\<rparr>"

text \<open>The NFT pallet with the origins of the runtime, and a market with an artist on parachain 2000.\<close>

definition sample_market_config ::
  "(nat, (nat, unit) RuntimeOrigin, nat \<Rightarrow> nat, ServiceError) Config" where
  "sample_market_config =
     nft_pallet_config (\<lambda>org. case org of Signed a \<Rightarrow> Inr a | _ \<Rightarrow> Inl BadOrigin)
       (ledger_transfer 1000000000) (\<lambda>_. 0)"

definition sample_sibling_market :: "(nat, nat \<Rightarrow> nat) state" where
  "sample_sibling_market = (genesis (\<lambda>_. 0))\<lparr>Artists := [2001 \<mapsto> True]\<rparr>"

lemma sample_runtime_fields:
  "ParentIsPreset sample_runtime_xcm = ParentIsPreset sample_xcm"
  "SiblingParachainConvertsVia sample_runtime_xcm = SiblingParachainConvertsVia sample_xcm"
  "AccountId32Aliases sample_runtime_xcm = AccountId32Aliases sample_xcm"
  "convert_first sample_runtime_xcm = convert_first sample_xcm"
  "IsVoiceOfBody sample_runtime_xcm = IsVoiceOfBody sample_xcm"
  "should_execute_any sample_runtime_xcm = should_execute_any sample_xcm"
  "TrailingSetTopicAsId sample_runtime_xcm = TrailingSetTopicAsId sample_xcm"
  "DenyThenTry sample_runtime_xcm = DenyThenTry sample_xcm"
  "WithComputedOrigin sample_runtime_xcm = WithComputedOrigin sample_xcm"
  "DenyReserveTransferToRelayChain sample_runtime_xcm = DenyReserveTransferToRelayChain sample_xcm"
  "TakeWeightCredit sample_runtime_xcm = TakeWeightCredit sample_xcm"
  "AllowTopLevelPaidExecutionFrom sample_runtime_xcm = AllowTopLevelPaidExecutionFrom sample_xcm"
  "AllowExplicitUnpaidExecutionFrom sample_runtime_xcm = AllowExplicitUnpaidExecutionFrom sample_xcm"
  "strip_topic sample_runtime_xcm = strip_topic sample_xcm"
  "computed_origin sample_runtime_xcm = computed_origin sample_xcm"
  by (simp_all add: sample_runtime_xcm_def)

lemma sample_runtime_xcm_laws: "xcm_laws sample_runtime_xcm"
  using sample_xcm_laws unfolding xcm_laws_def sample_runtime_fields .

lemma location_eq: "loc = \<lparr>parents = n, interior = js\<rparr> \<longleftrightarrow> parents loc = n \<and> interior loc = js"
  by (cases loc) auto

lemma sample_any_origin: "convert_origin_any sample_parts = (\<lambda>cs loc kind.
    foldr (\<lambda>c k l. case c l kind of Inl l' \<Rightarrow> k l' | Inr org \<Rightarrow> Inr org) cs Inl loc)"
  by (simp add: sample_parts_def)

lemma sample_transact_laws: "transact_laws sample_runtime_xcm sample_parts"
  unfolding transact_laws_def transact_laws_axioms_def
  by (intro conjI allI sample_runtime_xcm_laws; (unfold sample_any_origin)?)
    (auto simp: sample_parts_def sample_runtime_xcm_def sample_xcm_def location_eq
      split: list.splits Junction.splits option.splits RuntimeOrigin.splits Fungibility.splits if_splits)

interpretation sample_transact: transact_laws sample_runtime_xcm sample_parts
  by (rule sample_transact_laws)

section \<open>Properties\<close>

text \<open>
  C32.  The origin a message acts with, by kind: a sovereign origin signs for the account of its
  location; natively only the relay chain, sibling parachains and local accounts are recognised,
  each as itself; a \<open>Superuser\<close> origin is refused for every location; an \<open>Xcm\<close> origin stays the
  location.  A refusal gives the location back, and no kind of origin ever becomes \<open>Root\<close>.
\<close>

theorem transact_origins:
  assumes "transact_laws X Y"
  shows "XcmOriginToTransactDispatchOrigin X Y loc SovereignAccount =
      (case LocationToAccountId X loc of Some a \<Rightarrow> Inr (Signed a) | None \<Rightarrow> Inl loc) \<and>
    (XcmOriginToTransactDispatchOrigin X Y loc Native = Inr org \<longleftrightarrow>
      (loc = RelayLocation \<and> org = Relay) \<or>
      (\<exists>p. loc = \<lparr>parents = 1, interior = [Parachain p]\<rparr> \<and> org = SiblingParachain p) \<or>
      (\<exists>a. loc = \<lparr>parents = 0, interior = [AccountId32 None a]\<rparr> \<and> org = Signed a)) \<and>
    XcmOriginToTransactDispatchOrigin X Y loc Superuser = Inl loc \<and>
    XcmOriginToTransactDispatchOrigin X Y loc Xcm = Inr (XcmOrigin loc) \<and>
    (XcmOriginToTransactDispatchOrigin X Y loc kind = Inl loc' \<longrightarrow> loc' = loc) \<and>
    XcmOriginToTransactDispatchOrigin X Y loc kind \<noteq> Inr Root"
proof -
  note laws = transact_laws.sovereign_origin [OF assms] transact_laws.native_origin [OF assms]
    transact_laws.xcm_origin [OF assms] transact_laws.superuser_origin [OF assms]
  have "XcmOriginToTransactDispatchOrigin X Y loc kind \<noteq> Inr Root"
    by (cases kind) (auto simp: laws split: option.split)
  with transact_laws.sovereign_origin [OF assms, of loc] transact_laws.native_origin [OF assms, of loc org]
    transact_laws.superuser_origin [OF assms, of loc] transact_laws.xcm_origin [OF assms, of loc]
    transact_laws.refusal_keeps [OF assms, of loc kind loc']
  show ?thesis by (intro conjI) simp_all
qed

theorem transact_origins_witness:
  "XcmOriginToTransactDispatchOrigin sample_runtime_xcm sample_parts RelayLocation Native = Inr Relay \<and>
   XcmOriginToTransactDispatchOrigin sample_runtime_xcm sample_parts RelayLocation Superuser \<noteq> Inr Root"
  using transact_origins [OF sample_transact_laws] by blast

text \<open>
  C25.  Who trades by message: when a call of the NFT pallet dispatched for a message from
  another location succeeds, the call is signed by the account of that location and by no other;
  a message with native origin can trade only from a local account, so the relay chain and
  sibling parachains act through their sovereign accounts alone.
\<close>

theorem nft_calls_by_message:
  assumes "transact_laws X Y" and "storage_layer layer"
    and "\<And>o'. ensure_signed T o' = (case o' of Signed a \<Rightarrow> Inr a | _ \<Rightarrow> Inl bad)"
    and "XcmOriginToTransactDispatchOrigin X Y loc kind = Inr origin"
    and "dispatch layer T origin call s = (Inr (), s')"
  shows "\<exists>a. origin = Signed a \<and> LocationToAccountId X loc = Some a \<and>
    (kind = SovereignAccount \<or> kind = Native \<and> parents loc = 0)"
proof -
  have "\<exists>a. ensure_signed T origin = Inr a"
    using assms(5) storage_layer.layer_ok [OF assms(2)]
    by (cases call) (auto simp: dispatch_def call_ok)
  then obtain a where a: "origin = Signed a" using assms(3) by (auto split: RuntimeOrigin.splits)
  show ?thesis
  proof (cases kind)
    case SovereignAccount
    with a assms(4) show ?thesis
      by (auto simp: transact_laws.sovereign_origin [OF assms(1)] split: option.splits)
  next
    case Native
    with a assms(4) transact_laws.local_account [OF assms(1)] show ?thesis
      by (auto simp: transact_laws.native_origin [OF assms(1)])
  qed (use a assms(4) transact_laws.superuser_origin [OF assms(1)]
      transact_laws.xcm_origin [OF assms(1)] in auto)
qed

theorem nft_calls_by_message_witness:
  "\<exists>origin s'. XcmOriginToTransactDispatchOrigin sample_runtime_xcm sample_parts
       \<lparr>parents = 1, interior = [Parachain 2000]\<rparr> SovereignAccount = Inr origin \<and>
     dispatch with_storage_layer sample_market_config origin (CreateCollection [7])
       sample_sibling_market = (Inr (), s') \<and>
     (\<exists>a. origin = Signed a \<and> LocationToAccountId sample_runtime_xcm
       \<lparr>parents = 1, interior = [Parachain 2000]\<rparr> = Some a)"
proof -
  let ?loc = "\<lparr>parents = 1, interior = [Parachain 2000]\<rparr>"
  have conv: "XcmOriginToTransactDispatchOrigin sample_runtime_xcm sample_parts ?loc SovereignAccount =
      Inr (Signed 2001)"
    by (simp add: sample_transact.sovereign_origin sample_transact.account_of_location)
      (simp add: sample_runtime_fields sample_xcm_def RelayLocation_def)
  have "\<exists>s'. create_collection sample_market_config (Signed 2001) [7] sample_sibling_market = (Inr (), s')"
    by (simp add: create_collection_ok sample_market_config_def nft_pallet_config_def
        sample_sibling_market_def)
  then obtain s' where run: "dispatch with_storage_layer sample_market_config (Signed 2001)
      (CreateCollection [7]) sample_sibling_market = (Inr (), s')"
    using rollback_layer.layer_ok by (metis call_body.simps(2) dispatch_def)
  have signer: "ensure_signed sample_market_config o' = (case o' of Signed a \<Rightarrow> Inr a | _ \<Rightarrow> Inl BadOrigin)"
    for o' by (simp add: sample_market_config_def nft_pallet_config_def)
  show ?thesis
    using nft_calls_by_message [OF sample_transact_laws rollback_layer.storage_layer_axioms signer conv run]
      conv run by blast
qed

text \<open>
  C24.  Only the relay chain can bring local currency into existence: an asset that the
  executor accepts from a chain as a reserve or a teleport and that it can deposit is a fungible
  amount of the relay chain's asset sent by the relay chain, and exactly this amount is credited to
  the account of the beneficiary.  Assets that other chains vouch for are refused as not handled.
\<close>

theorem only_relay_chain_mints:
  assumes "transact_laws X Y"
    and "ec_IsReserve (XcmConfig K X Y parachain) asset from \<or>
      ec_IsTeleporter (XcmConfig K X Y parachain) asset from"
  shows "(ec_AssetTransactor (XcmConfig K X Y parachain) asset who = Inr (a, n) \<longrightarrow>
      from = RelayLocation \<and> asset = \<lparr>asset_id = RelayLocation, fungibility = Fungible n\<rparr> \<and>
      LocationToAccountId X who = Some a) \<and>
    (from \<noteq> RelayLocation \<longrightarrow>
      ec_AssetTransactor (XcmConfig K X Y parachain) asset who = Inl AssetNotHandled)"
proof -
  have id: "asset_id asset = from"
    using assms(2) transact_laws.native_asset [OF assms(1)] by (simp add: XcmConfig_def)
  have unmatched: "IsConcrete Y RelayLocation asset = None" if "from \<noteq> RelayLocation"
    using that id transact_laws.concrete [OF assms(1), of RelayLocation asset]
    by (cases "IsConcrete Y RelayLocation asset") auto
  have credit: "IsConcrete Y RelayLocation asset = Some n \<and> LocationToAccountId X who = Some a"
    if "LocalAssetTransactor X Y asset who = Inr (a, n)"
    using that transact_laws.deposit_credit [OF assms(1)] unfolding LocalAssetTransactor_def by blast
  show ?thesis
    using id unmatched credit transact_laws.concrete [OF assms(1), of RelayLocation asset n]
      transact_laws.deposit_unmatched [OF assms(1), of "IsConcrete Y RelayLocation" asset]
    by (cases asset) (auto simp: XcmConfig_def LocalAssetTransactor_def)
qed

theorem only_relay_chain_mints_witness:
  "ec_AssetTransactor (XcmConfig reference_sdk sample_runtime_xcm sample_parts 1000)
     \<lparr>asset_id = \<lparr>parents = 1, interior = [Parachain 2000]\<rparr>, fungibility = Fungible 5\<rparr>
     \<lparr>parents = 0, interior = [AccountId32 None 7]\<rparr> = Inl AssetNotHandled"
proof -
  let ?from = "\<lparr>parents = 1, interior = [Parachain 2000]\<rparr>"
  have "ec_IsReserve (XcmConfig reference_sdk sample_runtime_xcm sample_parts 1000)
      \<lparr>asset_id = ?from, fungibility = Fungible 5\<rparr> ?from"
    by (simp add: XcmConfig_def sample_parts_def)
  moreover have "?from \<noteq> RelayLocation" by (simp add: RelayLocation_def)
  ultimately show ?thesis using only_relay_chain_mints [OF sample_transact_laws] by blast
qed

text \<open>
  C33.  Privileged operations by message: the origin of a message passes the check for collator
  operations exactly when the message comes, with an \<open>Xcm\<close> origin, from the voice of the relay
  chain's defense body (no other part of that body will do), and it never passes the check for the
  administration of \<open>pallet_xcm\<close>.
\<close>

theorem privileged_messages:
  assumes "transact_laws X Y"
    and "XcmOriginToTransactDispatchOrigin X Y loc kind = Inr origin"
  shows "(CollatorSelectionUpdateOrigin X origin \<longleftrightarrow>
      kind = Xcm \<and> loc = \<lparr>parents = 1, interior = [Plurality Defense Voice]\<rparr>) \<and>
    \<not> px_AdminOrigin (pallet_xcm_config X Y parachain) origin"
proof -
  note laws = transact_laws.sovereign_origin [OF assms(1)] transact_laws.native_origin [OF assms(1)]
    transact_laws.xcm_origin [OF assms(1)] transact_laws.superuser_origin [OF assms(1)]
    transact_laws.root_only [OF assms(1)] transact_laws.xcm_only [OF assms(1)]
  have "kind = Xcm \<and> origin = XcmOrigin loc \<or> kind \<noteq> Xcm \<and> (\<forall>l. origin \<noteq> XcmOrigin l)" "origin \<noteq> Root"
    using assms(2) by (cases kind; auto simp: laws split: option.splits)+
  then show ?thesis
    using transact_laws.voice [OF assms(1), of RelayLocation StakingAdminBodyId]
    by (auto simp: laws CollatorSelectionUpdateOrigin_def pallet_xcm_config_def RelayLocation_def
        StakingAdminBodyId_def)
qed

theorem privileged_messages_witness:
  "CollatorSelectionUpdateOrigin sample_runtime_xcm
     (XcmOrigin \<lparr>parents = 1, interior = [Plurality Defense Voice]\<rparr>) \<and>
   \<not> px_AdminOrigin (pallet_xcm_config sample_runtime_xcm sample_parts 1000)
       (XcmOrigin \<lparr>parents = 1, interior = [Plurality Defense Voice]\<rparr>)"
proof -
  let ?loc = "\<lparr>parents = 1, interior = [Plurality Defense Voice]\<rparr>"
  have "CollatorSelectionUpdateOrigin sample_runtime_xcm (XcmOrigin ?loc)"
    by (simp add: CollatorSelectionUpdateOrigin_def sample_transact.xcm_only)
      (simp add: sample_runtime_fields sample_xcm_def RelayLocation_def StakingAdminBodyId_def)
  with privileged_messages [OF sample_transact_laws sample_transact.xcm_origin] show ?thesis by blast
qed

text \<open>
  Routing: messages for the relay chain go to the upward queue, messages for a sibling
  parachain to the horizontal queue, in both cases with a topic; every other destination is
  refused as not applicable.
\<close>

theorem messages_routed_by_destination:
  assumes "transact_laws X Y"
  shows "XcmRouter Y RelayLocation msg = ParentAsUmp Y RelayLocation (with_topic Y msg) \<and>
    XcmRouter Y \<lparr>parents = 1, interior = [Parachain p]\<rparr> msg =
      XcmpQueue_send Y \<lparr>parents = 1, interior = [Parachain p]\<rparr> (with_topic Y msg) \<and>
    (XcmRouter Y dest msg = Inl NotApplicable \<longleftrightarrow>
      dest \<noteq> RelayLocation \<and> (\<forall>p. dest \<noteq> \<lparr>parents = 1, interior = [Parachain p]\<rparr>))"
  using transact_laws.ump_parent [OF assms] transact_laws.xcmp_sibling [OF assms]
  by (auto simp: XcmRouter_def RelayLocation_def transact_laws.unique_topic [OF assms]
      transact_laws.send_cons [OF assms] transact_laws.send_none [OF assms])

theorem messages_routed_by_destination_witness:
  "XcmRouter sample_parts RelayLocation [5] = Inr ''ump'' \<and>
   XcmRouter sample_parts \<lparr>parents = 2, interior = []\<rparr> [5] = Inl NotApplicable"
proof -
  have "ParentAsUmp sample_parts RelayLocation (with_topic sample_parts [5]) = Inr ''ump''"
    by (simp add: sample_parts_def RelayLocation_def)
  moreover have "\<lparr>parents = 2, interior = []\<rparr> \<noteq> RelayLocation" by (simp add: RelayLocation_def)
  ultimately show ?thesis
    using messages_routed_by_destination [OF sample_transact_laws, of "[5]" 0 "\<lparr>parents = 2, interior = []\<rparr>"]
    by simp
qed

text \<open>
  Local origins and \<open>pallet_xcm\<close>: every account may send messages, as itself, and so may root, as
  the chain; but no message may be executed locally and no reserve transferred.
\<close>

theorem local_origins_may_send:
  assumes "transact_laws X Y"
  shows "px_SendXcmOrigin (pallet_xcm_config X Y parachain) (Signed a) =
      Some \<lparr>parents = 0, interior = [AccountId32 None a]\<rparr> \<and>
    (px_SendXcmOrigin (pallet_xcm_config X Y parachain) origin \<noteq> None \<longleftrightarrow>
      origin = Root \<or> (\<exists>a. origin = Signed a)) \<and>
    \<not> px_XcmExecuteFilter (pallet_xcm_config X Y parachain) message \<and>
    \<not> px_XcmReserveTransferFilter (pallet_xcm_config X Y parachain) transfer"
  by (auto simp: pallet_xcm_config_def LocalOriginToLocation_def RelayNetwork_def Nothing_def
      transact_laws.signed_location [OF assms] transact_laws.ensure_location [OF assms]
      split: RuntimeOrigin.splits)

end
