(* ===== verification/Runtime_Extrinsic.thy ===== *)
theory Runtime_Extrinsic
  imports Xcm_Transact
begin

text \<open>
  Transactions: the types \<open>Address\<close>, \<open>SignedExtra\<close>, \<open>UncheckedExtrinsic\<close> and \<open>Executive\<close> of
  \<open>src/runtime/src/lib.rs\<close>.  A signed transaction passes the signed extensions of the runtime in
  turn, its call is dispatched to its pallet, and the extensions have the last word.  The extensions
  and the executive are code of the SDK: the parameter \<open>tx_sdk\<close>, with their documented behaviour in
  the locale \<open>tx_laws\<close>.
\<close>

section \<open>Types\<close>

text \<open>\<open>MultiAddress<AccountId, ()>\<close>.\<close>

datatype 'acc Address = Id 'acc | Index unit | Raw "u8 list" | Address32 "u8 list" | Address20 "u8 list"

text \<open>The calls of the runtime: those of the NFT pallet, and those of the pallets of the SDK.\<close>

datatype ('acc, 'oc) RuntimeCall = NftCall "'acc Call" | OtherCall 'oc

record ('acc, 'sig, 'extra, 'oc) UncheckedExtrinsic =
  signature :: "('acc Address \<times> 'sig \<times> 'extra) option"
  xt_function :: "('acc, 'oc) RuntimeCall"

text \<open>The state of the chain: what the NFT pallet reads and writes, and the rest.\<close>

record ('acc, 'cur, 'rest) chain_state =
  pallet_state :: "('acc, 'cur) state"
  rest :: 'rest

text \<open>
  An extension looks at the signer, its data in the transaction, the call and the encoded length
  before the call is dispatched, and at the outcome afterwards.
\<close>

record ('acc, 'extra, 'oc, 'st, 'r, 'e) SignedExtension =
  pre_dispatch :: "'acc \<Rightarrow> 'extra \<Rightarrow> ('acc, 'oc) RuntimeCall \<Rightarrow> nat \<Rightarrow> 'st \<Rightarrow> 'e + 'st"
  post_dispatch :: "'acc \<Rightarrow> 'extra \<Rightarrow> ('acc, 'oc) RuntimeCall \<Rightarrow> 'r \<Rightarrow> 'st \<Rightarrow> 'e + 'st"

type_synonym ('acc, 'x, 'oc, 'st, 'r) dispatcher =
  "('acc, 'x) RuntimeOrigin \<Rightarrow> ('acc, 'oc) RuntimeCall \<Rightarrow> 'st \<Rightarrow> 'r \<times> 'st"

record ('acc, 'sig, 'extra, 'x, 'oc, 'st, 'r, 'e) tx_sdk =
  CheckNonZeroSender :: "('acc, 'extra, 'oc, 'st, 'r, 'e) SignedExtension"
  CheckSpecVersion :: "('acc, 'extra, 'oc, 'st, 'r, 'e) SignedExtension"
  CheckTxVersion :: "('acc, 'extra, 'oc, 'st, 'r, 'e) SignedExtension"
  CheckGenesis :: "('acc, 'extra, 'oc, 'st, 'r, 'e) SignedExtension"
  CheckEra :: "('acc, 'extra, 'oc, 'st, 'r, 'e) SignedExtension"
  CheckNonce :: "('acc, 'extra, 'oc, 'st, 'r, 'e) SignedExtension"
  CheckWeight :: "('acc, 'extra, 'oc, 'st, 'r, 'e) SignedExtension"
  ChargeTransactionPayment :: "('acc, 'extra, 'oc, 'st, 'r, 'e) SignedExtension"
  StorageWeightReclaim :: "('acc, 'extra, 'oc, 'st, 'r, 'e) SignedExtension"
  CheckMetadataHash :: "('acc, 'extra, 'oc, 'st, 'r, 'e) SignedExtension"
  pre_all :: "('acc, 'extra, 'oc, 'st, 'r, 'e) SignedExtension list \<Rightarrow>
    'acc \<Rightarrow> 'extra \<Rightarrow> ('acc, 'oc) RuntimeCall \<Rightarrow> nat \<Rightarrow> 'st \<Rightarrow> 'e + 'st"
  post_all :: "('acc, 'extra, 'oc, 'st, 'r, 'e) SignedExtension list \<Rightarrow>
    'acc \<Rightarrow> 'extra \<Rightarrow> ('acc, 'oc) RuntimeCall \<Rightarrow> 'r \<Rightarrow> 'st \<Rightarrow> 'e + 'st"
  lookup :: "'acc Address \<Rightarrow> 'acc option"
  signature_valid :: "'sig \<Rightarrow> 'acc \<Rightarrow> 'extra \<Rightarrow> ('acc, 'oc) RuntimeCall \<Rightarrow> bool"
  encoded_len :: "('acc, 'sig, 'extra, 'oc) UncheckedExtrinsic \<Rightarrow> nat"
  extra_nonce :: "'extra \<Rightarrow> Nonce"
  frame_executive_apply :: "('acc, 'extra, 'oc, 'st, 'r, 'e) SignedExtension list \<Rightarrow>
    RuntimePallet list \<Rightarrow> ('acc, 'x, 'oc, 'st, 'r) dispatcher \<Rightarrow>
    ('acc, 'sig, 'extra, 'oc) UncheckedExtrinsic \<Rightarrow> 'st \<Rightarrow> ('e + 'r) \<times> 'st"

section \<open>The composition\<close>

definition SignedExtra ::
  "('acc, 'sig, 'extra, 'x, 'oc, 'st, 'r, 'e) tx_sdk \<Rightarrow>
   ('acc, 'extra, 'oc, 'st, 'r, 'e) SignedExtension list" where
  "SignedExtra P =
     [CheckNonZeroSender P,
      CheckSpecVersion P,
      CheckTxVersion P,
      CheckGenesis P,
      CheckEra P,
      CheckNonce P,
      CheckWeight P,
      ChargeTransactionPayment P,
      StorageWeightReclaim P,
      CheckMetadataHash P]"

text \<open>A call goes to its pallet; \<open>other\<close> stands for the pallets of the SDK.\<close>

definition RuntimeCall_dispatch ::
  "('acc, 'cur, 'u) layer \<Rightarrow> ('acc, ('acc, 'x) RuntimeOrigin, 'cur, 'u) Config \<Rightarrow>
   (('acc, 'x) RuntimeOrigin \<Rightarrow> 'oc \<Rightarrow> ('acc, 'cur, 'rest) chain_state \<Rightarrow>
     ('u DispatchError + unit) \<times> ('acc, 'cur, 'rest) chain_state) \<Rightarrow>
   ('acc, 'x, 'oc, ('acc, 'cur, 'rest) chain_state, 'u DispatchError + unit) dispatcher" where
  "RuntimeCall_dispatch layer T other origin call st =
     (case call of
        NftCall c \<Rightarrow>
          let (res, s') = dispatch layer T origin c (pallet_state st)
          in (res, st\<lparr>pallet_state := s'\<rparr>)
      | OtherCall c \<Rightarrow> other origin c st)"

text \<open>The executive of this runtime, with its extensions, its pallets and its calls.\<close>

definition Executive_apply where
  "Executive_apply P layer T other =
     frame_executive_apply P (SignedExtra P) AllPalletsWithSystem (RuntimeCall_dispatch layer T other)"

text \<open>The transactions of a block are applied in turn; each has to be applicable.\<close>

inductive executes for P layer T other where
  executes_Nil: "executes P layer T other st [] st"
| executes_Cons:
    "Executive_apply P layer T other xt st = (Inr res, st1) \<Longrightarrow> executes P layer T other st1 xts st' \<Longrightarrow>
       executes P layer T other st (xt # xts) st'"

inductive_simps executes_Nil_iff [simp]: "executes P layer T other st [] st'"

inductive_simps executes_Cons_iff: "executes P layer T other st (xt # xts) st'"

text \<open>Signed transactions to the NFT pallet.\<close>

definition nft_tx :: "('acc, 'sig, 'extra, 'oc) UncheckedExtrinsic \<Rightarrow> bool" where
  "nft_tx xt \<longleftrightarrow> signature xt \<noteq> None \<and> (case xt_function xt of NftCall _ \<Rightarrow> True | OtherCall _ \<Rightarrow> False)"

definition signed_by :: "'acc \<Rightarrow> ('acc, 'sig, 'extra, 'oc) UncheckedExtrinsic \<Rightarrow> bool" where
  "signed_by who xt \<longleftrightarrow> (case signature xt of Some (addr, _) \<Rightarrow> addr = Id who | None \<Rightarrow> False)"

text \<open>Nothing of the pallet but the currency differs.\<close>

definition same_but_currency :: "('acc, 'cur) state \<Rightarrow> ('acc, 'cur) state \<Rightarrow> bool" where
  "same_but_currency s s' \<longleftrightarrow> s' = s\<lparr>currency := currency s'\<rparr>"

lemma same_but_currency_refl: "same_but_currency s s"
  by (simp add: same_but_currency_def)

lemma same_but_currency_trans:
  "same_but_currency s t \<Longrightarrow> same_but_currency t u \<Longrightarrow> same_but_currency s u"
  unfolding same_but_currency_def by (metis state.surjective state.update_convs(6))

lemma consistent_without_currency: "storage_consistent (s\<lparr>currency := c\<rparr>) \<longleftrightarrow> storage_consistent s"
  by (simp add: storage_consistent_def artists_wf_def collections_wf_def nfts_wf_def
      collection_ids_below_def collection_known_def item_ids_below_def listed_exist_def
      existing_listed_def listed_once_def)

lemma same_but_currency_consistent:
  "same_but_currency s s' \<Longrightarrow> storage_consistent s' \<longleftrightarrow> storage_consistent s"
  unfolding same_but_currency_def using consistent_without_currency by metis

section \<open>The interface of the SDK\<close>

text \<open>
  The extensions beside \<open>CheckNonce\<close>, which do not touch nonces.
\<close>

definition other_extensions ::
  "('acc, 'sig, 'extra, 'x, 'oc, 'st, 'r, 'e) tx_sdk \<Rightarrow>
   ('acc, 'extra, 'oc, 'st, 'r, 'e) SignedExtension set" where
  "other_extensions P =
     {CheckNonZeroSender P, CheckSpecVersion P, CheckTxVersion P, CheckGenesis P, CheckEra P,
      CheckWeight P, ChargeTransactionPayment P, StorageWeightReclaim P, CheckMetadataHash P}"

text \<open>
  A tuple of extensions runs its members in their order and stops at the first error.  A signed
  transaction that the executive applies has an address of a known account and a valid signature of
  it, passes all extensions, and has its call dispatched with the signer's origin; what the
  extensions do afterwards must succeed as well.  \<open>CheckNonce\<close> accepts only the current nonce of the
  signer and increments it.  Extensions change balances at most: nothing else that the pallet reads.
\<close>

locale tx_laws =
  fixes P :: "('acc, 'sig, 'extra, 'x, 'oc, ('acc, 'cur, 'rest) chain_state, 'u DispatchError + unit, 'e) tx_sdk"
    and nonce_of :: "'rest \<Rightarrow> 'acc \<Rightarrow> Nonce"
  assumes pre_none: "pre_all P [] who x c len st = Inr st"
    and pre_cons:
      "pre_all P (ext # exts) who x c len st =
         (case pre_dispatch ext who x c len st of
            Inl err \<Rightarrow> Inl err | Inr st1 \<Rightarrow> pre_all P exts who x c len st1)"
    and post_none: "post_all P [] who x c res st = Inr st"
    and post_cons:
      "post_all P (ext # exts) who x c res st =
         (case post_dispatch ext who x c res st of
            Inl err \<Rightarrow> Inl err | Inr st1 \<Rightarrow> post_all P exts who x c res st1)"
    and lookup_id: "lookup P addr = Some who \<longleftrightarrow> addr = Id who"
    and apply_signed:
      "frame_executive_apply P exts pallets disp xt st = (Inr res, st') \<Longrightarrow>
         signature xt = Some (addr, sg, x) \<Longrightarrow>
         \<exists>who st1 st2. lookup P addr = Some who \<and> signature_valid P sg who x (xt_function xt) \<and>
           pre_all P exts who x (xt_function xt) (encoded_len P xt) st = Inr st1 \<and>
           disp (Signed who) (xt_function xt) st1 = (res, st2) \<and>
           post_all P exts who x (xt_function xt) res st2 = Inr st'"
    and check_nonce:
      "pre_dispatch (CheckNonce P) who x c len st = Inr st' \<Longrightarrow>
         extra_nonce P x = nonce_of (rest st) who \<and>
         nonce_of (rest st') = (nonce_of (rest st))(who := nonce_of (rest st) who + 1)"
    and pre_keeps_nonces:
      "ext \<in> other_extensions P \<Longrightarrow> pre_dispatch ext who x c len st = Inr st' \<Longrightarrow>
         nonce_of (rest st') = nonce_of (rest st)"
    and pre_keeps_pallet:
      "ext \<in> insert (CheckNonce P) (other_extensions P) \<Longrightarrow> pre_dispatch ext who x c len st = Inr st' \<Longrightarrow>
         same_but_currency (pallet_state st) (pallet_state st')"
    and post_keeps:
      "ext \<in> insert (CheckNonce P) (other_extensions P) \<Longrightarrow> post_dispatch ext who x c res st = Inr st' \<Longrightarrow>
         nonce_of (rest st') = nonce_of (rest st) \<and> same_but_currency (pallet_state st) (pallet_state st')"
begin

lemma extension_set: "set (SignedExtra P) = insert (CheckNonce P) (other_extensions P)"
  by (auto simp: SignedExtra_def other_extensions_def)

lemma pre_all_Cons:
  "pre_all P (ext # exts) who x c len st = Inr st' \<longleftrightarrow>
     (\<exists>st1. pre_dispatch ext who x c len st = Inr st1 \<and> pre_all P exts who x c len st1 = Inr st')"
  by (cases "pre_dispatch ext who x c len st") (simp_all add: pre_cons)

lemma post_all_Cons:
  "post_all P (ext # exts) who x c res st = Inr st' \<longleftrightarrow>
     (\<exists>st1. post_dispatch ext who x c res st = Inr st1 \<and> post_all P exts who x c res st1 = Inr st')"
  by (cases "post_dispatch ext who x c res st") (simp_all add: post_cons)

text \<open>A relation that every member keeps is kept by the whole tuple.\<close>

lemma pre_all_induct:
  assumes "pre_all P exts who x c len st = Inr st'"
    and "\<And>st. R st st" and "\<And>s t u. R s t \<Longrightarrow> R t u \<Longrightarrow> R s u"
    and "\<And>ext s t. ext \<in> set exts \<Longrightarrow> pre_dispatch ext who x c len s = Inr t \<Longrightarrow> R s t"
  shows "R st st'"
  using assms(1,4)
proof (induction exts arbitrary: st)
  case (Cons ext exts)
  then obtain st1 where "pre_dispatch ext who x c len st = Inr st1" "pre_all P exts who x c len st1 = Inr st'"
    by (auto simp: pre_all_Cons)
  with Cons show ?case by (meson assms(3) list.set_intros)
qed (simp add: pre_none assms(2))

lemma post_all_induct:
  assumes "post_all P exts who x c res st = Inr st'"
    and "\<And>st. R st st" and "\<And>s t u. R s t \<Longrightarrow> R t u \<Longrightarrow> R s u"
    and "\<And>ext s t. ext \<in> set exts \<Longrightarrow> post_dispatch ext who x c res s = Inr t \<Longrightarrow> R s t"
  shows "R st st'"
  using assms(1,4)
proof (induction exts arbitrary: st)
  case (Cons ext exts)
  then obtain st1 where "post_dispatch ext who x c res st = Inr st1" "post_all P exts who x c res st1 = Inr st'"
    by (auto simp: post_all_Cons)
  with Cons show ?case by (meson assms(3) list.set_intros)
qed (simp add: post_none assms(2))

lemma extras_keep_pallet:
  "pre_all P (SignedExtra P) who x c len st = Inr st' \<Longrightarrow>
     same_but_currency (pallet_state st) (pallet_state st')"
  by (erule pre_all_induct)
    (auto intro: same_but_currency_refl same_but_currency_trans pre_keeps_pallet simp: extension_set)

lemma post_extras_keep:
  "post_all P (SignedExtra P) who x c res st = Inr st' \<Longrightarrow>
     nonce_of (rest st') = nonce_of (rest st) \<and> same_but_currency (pallet_state st) (pallet_state st')"
  by (erule post_all_induct)
    (use post_keeps in \<open>auto intro: same_but_currency_refl same_but_currency_trans simp: extension_set\<close>)

text \<open>The nonce is checked once, against the value at the start.\<close>

lemma pre_all_append:
  "pre_all P (xs @ ys) who x c len st = Inr st' \<longleftrightarrow>
     (\<exists>st1. pre_all P xs who x c len st = Inr st1 \<and> pre_all P ys who x c len st1 = Inr st')"
  by (induction xs arbitrary: st) (auto simp: pre_none pre_all_Cons)

lemma others_keep_nonces:
  "pre_all P exts who x c len st = Inr st' \<Longrightarrow> set exts \<subseteq> other_extensions P \<Longrightarrow>
     nonce_of (rest st') = nonce_of (rest st)"
  by (erule pre_all_induct) (auto dest: pre_keeps_nonces)

lemma extras_check_nonce:
  assumes "pre_all P (SignedExtra P) who x c len st = Inr st'"
  shows "extra_nonce P x = nonce_of (rest st) who \<and>
    nonce_of (rest st') = (nonce_of (rest st))(who := nonce_of (rest st) who + 1)"
proof -
  have "SignedExtra P = take 5 (SignedExtra P) @ [CheckNonce P] @ drop 6 (SignedExtra P)"
    by (simp add: SignedExtra_def)
  with assms have "pre_all P (take 5 (SignedExtra P) @ [CheckNonce P] @ drop 6 (SignedExtra P))
      who x c len st = Inr st'" by metis
  then obtain a b where "pre_all P (take 5 (SignedExtra P)) who x c len st = Inr a"
    "pre_dispatch (CheckNonce P) who x c len a = Inr b"
    "pre_all P (drop 6 (SignedExtra P)) who x c len b = Inr st'"
    unfolding pre_all_append by (auto simp: pre_all_Cons pre_none)
  then show ?thesis
    using others_keep_nonces [of "take 5 (SignedExtra P)"] others_keep_nonces [of "drop 6 (SignedExtra P)"]
      check_nonce [of who x c len a b]
    by (simp add: SignedExtra_def other_extensions_def)
qed

text \<open>One transaction to the NFT pallet.\<close>

lemma apply_nft:
  assumes "Executive_apply P layer T other xt st = (Inr res, st')"
    and "signature xt = Some (addr, sg, x)" and "xt_function xt = NftCall c"
  shows "\<exists>who s1 s2. addr = Id who \<and> signature_valid P sg who x (NftCall c) \<and>
    extra_nonce P x = nonce_of (rest st) who \<and>
    nonce_of (rest st') = (nonce_of (rest st))(who := nonce_of (rest st) who + 1) \<and>
    same_but_currency (pallet_state st) s1 \<and> dispatch layer T (Signed who) c s1 = (res, s2) \<and>
    same_but_currency s2 (pallet_state st')"
proof -
  obtain who st1 st2 where who: "lookup P addr = Some who" "signature_valid P sg who x (NftCall c)"
    and pre: "pre_all P (SignedExtra P) who x (NftCall c) (encoded_len P xt) st = Inr st1"
    and call: "RuntimeCall_dispatch layer T other (Signed who) (NftCall c) st1 = (res, st2)"
    and post: "post_all P (SignedExtra P) who x (NftCall c) res st2 = Inr st'"
    using apply_signed [OF assms(1) [unfolded Executive_apply_def] assms(2)] assms(3) by auto
  from call obtain s2 where s2: "dispatch layer T (Signed who) c (pallet_state st1) = (res, s2)"
    "st2 = st1\<lparr>pallet_state := s2\<rparr>"
    by (auto simp: RuntimeCall_dispatch_def split: prod.splits)
  show ?thesis
    using who lookup_id extras_keep_pallet [OF pre] extras_check_nonce [OF pre] post_extras_keep [OF post] s2
    by auto
qed

lemma apply_nft_tx:
  assumes "Executive_apply P layer T other xt st = (Inr res, st')" and "nft_tx xt"
  obtains who sg x c s1 s2 where "signature xt = Some (Id who, sg, x)"
    "extra_nonce P x = nonce_of (rest st) who"
    "nonce_of (rest st') = (nonce_of (rest st))(who := nonce_of (rest st) who + 1)"
    "same_but_currency (pallet_state st) s1" "dispatch layer T (Signed who) c s1 = (res, s2)"
    "same_but_currency s2 (pallet_state st')"
proof -
  obtain addr sg x c where xt: "signature xt = Some (addr, sg, x)" "xt_function xt = NftCall c"
    using assms(2) by (auto simp: nft_tx_def split: RuntimeCall.splits)
  from apply_nft [OF assms(1) xt] xt(1) that show thesis by blast
qed

text \<open>Nonces count the transactions of an account.\<close>

lemma executes_nonces:
  "executes P layer T other st xts st' \<Longrightarrow> \<forall>xt \<in> set xts. nft_tx xt \<Longrightarrow>
     nonce_of (rest st') who = nonce_of (rest st) who + of_nat (length (filter (signed_by who) xts))"
proof (induction rule: executes.induct)
  case (executes_Cons xt st res st1 xts st')
  then obtain w sg x where "signature xt = Some (Id w, sg, x)"
    "nonce_of (rest st1) = (nonce_of (rest st))(w := nonce_of (rest st) w + 1)"
    by (meson apply_nft_tx list.set_intros(1))
  with executes_Cons show ?case by (auto simp: signed_by_def)
qed simp

lemma executes_append:
  "executes P layer T other st (xs @ ys) st' \<longleftrightarrow>
     (\<exists>st1. executes P layer T other st xs st1 \<and> executes P layer T other st1 ys st')"
  by (induction xs arbitrary: st) (auto simp: executes_Cons_iff)

lemma executes_consistent:
  assumes "storage_layer layer"
  shows "executes P layer T other st xts st' \<Longrightarrow> \<forall>xt \<in> set xts. nft_tx xt \<Longrightarrow>
    storage_consistent (pallet_state st) \<Longrightarrow> storage_consistent (pallet_state st')"
proof (induction rule: executes.induct)
  case (executes_Cons xt st res st1 xts st')
  then obtain who c s1 s2 where "same_but_currency (pallet_state st) s1"
    "dispatch layer T (Signed who) c s1 = (res, s2)" "same_but_currency s2 (pallet_state st1)"
    by (meson apply_nft_tx list.set_intros(1))
  moreover from this(1) executes_Cons.prems(2) have "storage_consistent s1"
    by (simp add: same_but_currency_consistent)
  ultimately have "storage_consistent (pallet_state st1)"
    using chain_consistent [OF assms, of s1 T "[(Signed who, c)]"]
    by (simp add: same_but_currency_consistent)
  with executes_Cons show ?case by simp
qed simp

end

section \<open>An instance of the laws\<close>

text \<open>
  Accounts are numbers and sign with themselves; the data of a transaction is its nonce, the rest
  of the state holds the nonces, and a transaction costs one unit.
\<close>

primrec sample_pre where
  "sample_pre [] who x c len st = Inr st"
| "sample_pre (ext # exts) who x c len st =
     (case pre_dispatch ext who x c len st of Inl err \<Rightarrow> Inl err | Inr st1 \<Rightarrow> sample_pre exts who x c len st1)"

primrec sample_post where
  "sample_post [] who x c res st = Inr st"
| "sample_post (ext # exts) who x c res st =
     (case post_dispatch ext who x c res st of
        Inl err \<Rightarrow> Inl err | Inr st1 \<Rightarrow> sample_post exts who x c res st1)"

type_synonym sample_chain_state = "(nat, nat \<Rightarrow> nat, nat \<Rightarrow> Nonce) chain_state"
type_synonym sample_outcome = "ServiceError DispatchError + unit"
type_synonym sample_extension =
  "(nat, Nonce, unit, sample_chain_state, sample_outcome, unit) SignedExtension"

definition sample_pass :: sample_extension where
  "sample_pass = \<lparr>pre_dispatch = (\<lambda>who x c len st. Inr st), post_dispatch = (\<lambda>who x c res st. Inr st)\<rparr>"

definition sample_nonce :: sample_extension where
  "sample_nonce =
     \<lparr>pre_dispatch = (\<lambda>who x c len st.
        if x = rest st who then Inr (st\<lparr>rest := (rest st)(who := rest st who + 1)\<rparr>) else Inl ()),
      post_dispatch = (\<lambda>who x c res st. Inr st)\<rparr>"

definition sample_charge :: sample_extension where
  "sample_charge =
     \<lparr>pre_dispatch = (\<lambda>who x c len st.
        let cur = currency (pallet_state st)
        in if cur who = 0 then Inl ()
           else Inr (st\<lparr>pallet_state := (pallet_state st)\<lparr>currency := cur(who := cur who - 1)\<rparr>\<rparr>)),
      post_dispatch = (\<lambda>who x c res st. Inr st)\<rparr>"

definition sample_tx ::
  "(nat, nat, Nonce, unit, unit, sample_chain_state, sample_outcome, unit) tx_sdk" where
  "sample_tx =
     \<lparr>CheckNonZeroSender = sample_pass, CheckSpecVersion = sample_pass, CheckTxVersion = sample_pass,
      CheckGenesis = sample_pass, CheckEra = sample_pass, CheckNonce = sample_nonce,
      CheckWeight = sample_pass, ChargeTransactionPayment = sample_charge,
      StorageWeightReclaim = sample_pass, CheckMetadataHash = sample_pass,
      pre_all = sample_pre, post_all = sample_post,
      lookup = (\<lambda>addr. case addr of Id a \<Rightarrow> Some a | _ \<Rightarrow> None),
      signature_valid = (\<lambda>sg who x c. sg = who),
      encoded_len = (\<lambda>xt. 0),
      extra_nonce = (\<lambda>x. x),
      frame_executive_apply = (\<lambda>exts pallets disp xt st.
        case signature xt of
          Some (Id who, sg, x) \<Rightarrow>
            if sg \<noteq> who then (Inl (), st)
            else (case sample_pre exts who x (xt_function xt) 0 st of
                    Inl e \<Rightarrow> (Inl e, st)
                  | Inr st1 \<Rightarrow>
                      (case disp (Signed who) (xt_function xt) st1 of
                         (res, st2) \<Rightarrow>
                           (case sample_post exts who x (xt_function xt) res st2 of
                              Inl e \<Rightarrow> (Inl e, st) | Inr st3 \<Rightarrow> (Inr res, st3))))
        | _ \<Rightarrow> (Inl (), st))\<rparr>"

lemmas sample_extension_defs = sample_pass_def sample_nonce_def sample_charge_def

lemma sample_tuples: "pre_all sample_tx = sample_pre" "post_all sample_tx = sample_post"
  by (simp_all add: sample_tx_def)

lemma sample_tx_laws: "tx_laws sample_tx (\<lambda>nonces. nonces)"
proof unfold_locales
  fix ext :: sample_extension and who x c len st st'
  assume "ext \<in> other_extensions sample_tx" and step: "pre_dispatch ext who x c len st = Inr st'"
  then have "ext \<in> {sample_pass, sample_charge}"
    by (auto simp: other_extensions_def sample_tx_def)
  with step show "rest st' = rest st"
    by (auto simp: sample_extension_defs Let_def split: if_splits)
next
  fix ext :: sample_extension and who x c len st st'
  assume "ext \<in> insert (CheckNonce sample_tx) (other_extensions sample_tx)"
    and step: "pre_dispatch ext who x c len st = Inr st'"
  then have "ext \<in> {sample_pass, sample_nonce, sample_charge}"
    by (auto simp: other_extensions_def sample_tx_def)
  with step show "same_but_currency (pallet_state st) (pallet_state st')"
    by (auto simp: sample_extension_defs Let_def same_but_currency_def split: if_splits)
next
  fix ext :: sample_extension and who x c res st st'
  assume "ext \<in> insert (CheckNonce sample_tx) (other_extensions sample_tx)"
    and step: "post_dispatch ext who x c res st = Inr st'"
  then have "ext \<in> {sample_pass, sample_nonce, sample_charge}"
    by (auto simp: other_extensions_def sample_tx_def)
  with step show "rest st' = rest st \<and> same_but_currency (pallet_state st) (pallet_state st')"
    by (auto simp: sample_extension_defs same_but_currency_def)
next
  fix exts pallets disp and xt :: "(nat, nat, Nonce, unit) UncheckedExtrinsic" and st res st' addr sg x
  assume "frame_executive_apply sample_tx exts pallets disp xt st = (Inr res, st')"
    and "signature xt = Some (addr, sg, x)"
  then show "\<exists>who st1 st2. lookup sample_tx addr = Some who \<and>
      signature_valid sample_tx sg who x (xt_function xt) \<and>
      pre_all sample_tx exts who x (xt_function xt) (encoded_len sample_tx xt) st = Inr st1 \<and>
      disp (Signed who) (xt_function xt) st1 = (res, st2) \<and>
      post_all sample_tx exts who x (xt_function xt) res st2 = Inr st'"
    by (auto simp: sample_tx_def split: Address.splits if_splits sum.splits prod.splits)
qed (unfold sample_tuples, auto simp: sample_tx_def sample_nonce_def split: Address.splits if_splits)

interpretation sample_tx: tx_laws sample_tx "\<lambda>nonces. nonces"
  by (rule sample_tx_laws)

text \<open>Account 1 registers as an artist.\<close>

definition sample_chain_start :: sample_chain_state where
  "sample_chain_start = \<lparr>pallet_state = genesis sample_balances, rest = (\<lambda>_. 0)\<rparr>"

definition sample_registration :: "(nat, nat, Nonce, unit) UncheckedExtrinsic" where
  "sample_registration = \<lparr>signature = Some (Id 1, 1, 0), xt_function = NftCall RegisterArtist\<rparr>"

definition sample_other ::
  "(nat, unit) RuntimeOrigin \<Rightarrow> unit \<Rightarrow> sample_chain_state \<Rightarrow> sample_outcome \<times> sample_chain_state" where
  "sample_other origin c st = (Inr (), st)"

abbreviation sample_apply where
  "sample_apply \<equiv> Executive_apply sample_tx with_storage_layer sample_market_config sample_other"

abbreviation sample_executes where
  "sample_executes \<equiv> executes sample_tx with_storage_layer sample_market_config sample_other"

lemma sample_registration_applies:
  "\<exists>st'. sample_apply sample_registration sample_chain_start = (Inr (Inr ()), st') \<and>
     Artists (pallet_state st') 1 = Some True"
  by (simp add: Executive_apply_def sample_tx_def sample_registration_def SignedExtra_def sample_extension_defs
      sample_chain_start_def RuntimeCall_dispatch_def dispatch_def with_storage_layer_def register_artist_def
      sample_market_config_def nft_pallet_config_def pallet_balances_config_def unit_defs genesis_def
      sample_balances_def ledger_transfer_def registration_fee_def storage_defs deposit_event_def Let_def)

section \<open>Properties\<close>

text \<open>
  C19.  A signed transaction to the NFT pallet has, when it is applied, exactly the effect of one
  call dispatched for its signer: the address is that of the signer, the signature is valid, the
  nonce is the signer's and is used up, and beside the currency, from which fees are
  taken, nothing of the pallet changes before or after the call.
\<close>

theorem transaction_is_one_call:
  assumes "tx_laws P nonce_of" and "Executive_apply P layer T other xt st = (Inr res, st')"
    and "signature xt = Some (addr, sg, x)" and "xt_function xt = NftCall call"
  shows "\<exists>who before after. addr = Id who \<and> signature_valid P sg who x (NftCall call) \<and>
    extra_nonce P x = nonce_of (rest st) who \<and>
    nonce_of (rest st') = (nonce_of (rest st))(who := nonce_of (rest st) who + 1) \<and>
    same_but_currency (pallet_state st) before \<and>
    dispatch layer T (Signed who) call before = (res, after) \<and>
    same_but_currency after (pallet_state st')"
  using tx_laws.apply_nft [OF assms] .

theorem transaction_is_one_call_witness:
  "\<exists>st' before after. sample_apply sample_registration sample_chain_start = (Inr (Inr ()), st') \<and>
     rest st' 1 = 1 \<and> dispatch with_storage_layer sample_market_config (Signed 1) RegisterArtist before =
       (Inr (), after) \<and> same_but_currency after (pallet_state st')"
proof -
  obtain st' where st': "sample_apply sample_registration sample_chain_start = (Inr (Inr ()), st')"
    using sample_registration_applies by blast
  have xt: "signature sample_registration = Some (Id 1, 1, 0)"
    "xt_function sample_registration = NftCall RegisterArtist"
    by (simp_all add: sample_registration_def)
  show ?thesis
    using transaction_is_one_call [OF sample_tx_laws st' xt] st' by (auto simp: sample_chain_start_def)
qed

text \<open>
  C18.  No transaction is replayed: a signed transaction to the NFT pallet that was applied is not
  applicable again after any further such transactions, as long as fewer than the range of a
  nonce lie between.
\<close>

theorem no_replay:
  assumes "tx_laws P nonce_of" and "\<forall>t \<in> set (xt # between). nft_tx t"
    and "length between + 1 < 2 ^ 32"
  shows "\<not> executes P layer T other st (xt # between @ [xt]) st'"
proof
  assume "executes P layer T other st (xt # between @ [xt]) st'"
  then obtain st1 res st2 where run: "executes P layer T other st (xt # between) st1"
    and again: "Executive_apply P layer T other xt st1 = (Inr res, st2)"
    using tx_laws.executes_append [OF assms(1), of layer T other st "xt # between" "[xt]" st']
    by (auto simp: executes_Cons_iff)
  from run obtain res0 st0 where first: "Executive_apply P layer T other xt st = (Inr res0, st0)"
    by (auto simp: executes_Cons_iff)
  have nft: "nft_tx xt" using assms(2) by simp
  obtain who sg x where who: "signature xt = Some (Id who, sg, x)" "extra_nonce P x = nonce_of (rest st) who"
    by (rule tx_laws.apply_nft_tx [OF assms(1) first nft])
  have "extra_nonce P x = nonce_of (rest st1) who"
    by (rule tx_laws.apply_nft_tx [OF assms(1) again nft]) (use who(1) in auto)
  moreover let ?n = "length (filter (signed_by who) (xt # between))"
  have "nonce_of (rest st1) who = nonce_of (rest st) who + of_nat ?n"
    by (rule tx_laws.executes_nonces [OF assms(1) run assms(2)])
  ultimately have "(of_nat ?n :: Nonce) = 0" using who(2) by (metis add_cancel_right_right)
  moreover have "0 < ?n" "?n < 2 ^ 32"
    using who(1) assms(3) by (simp_all add: signed_by_def le_less_trans [OF length_filter_le])
  ultimately show False by (simp add: word_of_nat_eq_0_iff nat_dvd_not_less)
qed

theorem no_replay_witness:
  "(\<exists>st'. sample_executes sample_chain_start [sample_registration] st') \<and>
   \<not> (\<exists>st'. sample_executes sample_chain_start [sample_registration, sample_registration] st')"
proof -
  have "\<not> sample_executes sample_chain_start [sample_registration, sample_registration] st'" for st'
    using no_replay [OF sample_tx_laws, of sample_registration "[]" with_storage_layer sample_market_config
        sample_other sample_chain_start st']
    by (simp add: nft_tx_def sample_registration_def)
  then show ?thesis using sample_registration_applies by (auto simp: executes_Cons_iff)
qed

text \<open>
  Transactions keep the storage of the pallet consistent, whatever fees are charged and
  whatever the outcome of their calls.
\<close>

theorem transactions_keep_consistent:
  assumes "tx_laws P nonce_of" and "storage_layer layer"
    and "executes P layer T other st xts st'" and "\<forall>xt \<in> set xts. nft_tx xt"
    and "storage_consistent (pallet_state st)"
  shows "storage_consistent (pallet_state st')"
  by (rule tx_laws.executes_consistent [OF assms])

theorem transactions_keep_consistent_witness:
  "\<exists>st'. sample_executes sample_chain_start [sample_registration] st' \<and>
     Artists (pallet_state st') 1 = Some True \<and> storage_consistent (pallet_state st')"
proof -
  obtain st' where st': "sample_executes sample_chain_start [sample_registration] st'"
    "Artists (pallet_state st') 1 = Some True"
    using sample_registration_applies by (auto simp: executes_Cons_iff)
  have "storage_consistent (pallet_state st')"
    by (rule transactions_keep_consistent [OF sample_tx_laws reference_layer st'(1)])
      (simp_all add: nft_tx_def sample_registration_def sample_chain_start_def storage_consistent_genesis)
  with st' show ?thesis by blast
qed

end
