(* ===== verification/Runtime_Messages.thy ===== *)
theory Runtime_Messages
  imports Xcm_Transact
begin

text \<open>
  Inbound messages: how \<open>src/runtime/src/configs/mod.rs\<close> connects the pallets that messages pass on
  their way in.  \<open>ParachainSystem\<close> hands downward messages to \<open>DmpQueue\<close>, \<open>XcmpQueue\<close> hands those of
  sibling parachains on under their number, both into the message queue, which keeps one queue for each
  origin and serves it with the message processor.  The adapters and the pallets are code of the SDK:
  the parameter \<open>message_sdk\<close>, with their documented behaviour in the locale \<open>message_laws\<close>.
\<close>

section \<open>Types\<close>

datatype AggregateMessageOrigin = Here | Parent | Sibling u32

type_synonym message = "u8 list"
type_synonym 'q enqueue = "AggregateMessageOrigin \<Rightarrow> message \<Rightarrow> 'q \<Rightarrow> 'q"
type_synonym ('err, 'st) process =
  "message \<Rightarrow> AggregateMessageOrigin \<Rightarrow> Weight \<Rightarrow> 'st \<Rightarrow> ('err + bool) \<times> 'st"
type_synonym ('acc, 'x, 'i, 'st) execute = "('acc, 'x) Location \<Rightarrow> 'i list \<Rightarrow> Weight \<Rightarrow> 'st \<Rightarrow> bool \<times> 'st"

text \<open>\<open>'q\<close> is the state of the queues, \<open>'fp\<close> the footprint of a queue, \<open>'st\<close> the state of the chain.\<close>

record ('acc, 'x, 'i, 'p, 'e, 'm, 't, 'call, 'q, 'fp, 'err, 'st) message_sdk =
  EnqueueWithOrigin :: "'q enqueue \<Rightarrow> AggregateMessageOrigin \<Rightarrow> message \<Rightarrow> 'q \<Rightarrow> 'q"
  TransformOrigin :: "'q enqueue \<Rightarrow> (u32 \<Rightarrow> AggregateMessageOrigin) \<Rightarrow> u32 \<Rightarrow> message \<Rightarrow> 'q \<Rightarrow> 'q"
  ParaIdToSibling :: "u32 \<Rightarrow> AggregateMessageOrigin"
  NarrowOriginToSibling_changed ::
    "(u32 \<Rightarrow> 'fp \<Rightarrow> 'q \<Rightarrow> 'q) \<Rightarrow> AggregateMessageOrigin \<Rightarrow> 'fp \<Rightarrow> 'q \<Rightarrow> 'q"
  NarrowOriginToSibling_paused :: "(u32 \<Rightarrow> 'q \<Rightarrow> bool) \<Rightarrow> AggregateMessageOrigin \<Rightarrow> 'q \<Rightarrow> bool"
  MessageQueue_enqueue :: "'q enqueue"
  MessageQueue_queued :: "'q \<Rightarrow> AggregateMessageOrigin \<Rightarrow> message list"
  XcmpQueue_changed :: "u32 \<Rightarrow> 'fp \<Rightarrow> 'q \<Rightarrow> 'q"
  XcmpQueue_paused :: "u32 \<Rightarrow> 'q \<Rightarrow> bool"
  NoopMessageProcessor :: "('err, 'st) process"
  ProcessXcmMessage :: "('acc, 'x, 'i, 'st) execute \<Rightarrow> ('err, 'st) process"
  XcmExecutor ::
    "('acc, 'x, 'i, 'p, 'e, 'm, 't, 'call) ExecutorConfig \<Rightarrow> ('acc, 'x, 'i, 'st) execute"
  origin_into_location :: "AggregateMessageOrigin \<Rightarrow> ('acc, 'x) Location"
  decode_message :: "message \<Rightarrow> 'i list option"
  initial_properties :: 'p

section \<open>The configuration\<close>

definition RelayOrigin :: AggregateMessageOrigin where
  "RelayOrigin = Parent"

definition DmpQueue ::
  "('acc, 'x, 'i, 'p, 'e, 'm, 't, 'call, 'q, 'fp, 'err, 'st) message_sdk \<Rightarrow> message \<Rightarrow> 'q \<Rightarrow> 'q" where
  "DmpQueue M = EnqueueWithOrigin M (MessageQueue_enqueue M) RelayOrigin"

definition XcmpQueue_XcmpQueue ::
  "('acc, 'x, 'i, 'p, 'e, 'm, 't, 'call, 'q, 'fp, 'err, 'st) message_sdk \<Rightarrow> u32 \<Rightarrow> message \<Rightarrow> 'q \<Rightarrow> 'q" where
  "XcmpQueue_XcmpQueue M = TransformOrigin M (MessageQueue_enqueue M) (ParaIdToSibling M)"

definition QueueChangeHandler ::
  "('acc, 'x, 'i, 'p, 'e, 'm, 't, 'call, 'q, 'fp, 'err, 'st) message_sdk \<Rightarrow>
   AggregateMessageOrigin \<Rightarrow> 'fp \<Rightarrow> 'q \<Rightarrow> 'q" where
  "QueueChangeHandler M = NarrowOriginToSibling_changed M (XcmpQueue_changed M)"

definition QueuePausedQuery ::
  "('acc, 'x, 'i, 'p, 'e, 'm, 't, 'call, 'q, 'fp, 'err, 'st) message_sdk \<Rightarrow>
   AggregateMessageOrigin \<Rightarrow> 'q \<Rightarrow> bool" where
  "QueuePausedQuery M = NarrowOriginToSibling_paused M (XcmpQueue_paused M)"

text \<open>The flag is the feature \<open>runtime-benchmarks\<close>.\<close>

definition MessageProcessor ::
  "bool \<Rightarrow> sdk \<Rightarrow> ('acc, 'x, 'i, 'p, 'e) runtime_xcm \<Rightarrow> ('acc, 'x, 'm, 't) xcm_parts \<Rightarrow> u32 \<Rightarrow>
   ('acc, 'x, 'i, 'p, 'e, 'm, 't, 'call, 'q, 'fp, 'err, 'st) message_sdk \<Rightarrow> ('err, 'st) process" where
  "MessageProcessor runtime_benchmarks K X Y parachain_id M =
     (if runtime_benchmarks then NoopMessageProcessor M
      else ProcessXcmMessage M (XcmExecutor M (XcmConfig K X Y parachain_id)))"

text \<open>A message arrives from the relay chain or on the channel of a sibling parachain.\<close>

datatype inbound = FromRelay message | FromSibling u32 message

primrec deliver ::
  "('acc, 'x, 'i, 'p, 'e, 'm, 't, 'call, 'q, 'fp, 'err, 'st) message_sdk \<Rightarrow> inbound \<Rightarrow> 'q \<Rightarrow> 'q" where
  "deliver M (FromRelay msg) q = DmpQueue M msg q"
| "deliver M (FromSibling p msg) q = XcmpQueue_XcmpQueue M p msg q"

text \<open>What each sender sent, in its order.\<close>

primrec sent_on :: "AggregateMessageOrigin \<Rightarrow> inbound \<Rightarrow> message list" where
  "sent_on origin (FromRelay msg) = (if origin = Parent then [msg] else [])"
| "sent_on origin (FromSibling p msg) = (if origin = Sibling p then [msg] else [])"

section \<open>The interface of the SDK\<close>

text \<open>
  The message queue appends to the queue of the origin and leaves the others alone.
  \<open>EnqueueWithOrigin\<close> fixes the origin, \<open>TransformOrigin\<close> converts it, \<open>ParaIdToSibling\<close> converts to
  the sibling of that number, \<open>NarrowOriginToSibling\<close> passes only questions about siblings on.  The
  processor decodes a message and has it executed with the location of its origin; the executor
  executes only what the barrier of its configuration accepts.
\<close>

locale message_laws =
  fixes M :: "('acc, 'x, 'i, 'p, 'e, 'm, 't, 'call, 'q, 'fp, 'err, 'st) message_sdk"
  assumes enqueue:
      "MessageQueue_queued M (MessageQueue_enqueue M origin msg q) =
         (MessageQueue_queued M q)(origin := MessageQueue_queued M q origin @ [msg])"
    and with_origin: "EnqueueWithOrigin M enq origin msg q = enq origin msg q"
    and transform: "TransformOrigin M enq f p msg q = enq (f p) msg q"
    and para_sibling: "ParaIdToSibling M p = Sibling p"
    and narrow_changed:
      "NarrowOriginToSibling_changed M changed origin fp q =
         (case origin of Sibling p \<Rightarrow> changed p fp q | _ \<Rightarrow> q)"
    and narrow_paused:
      "NarrowOriginToSibling_paused M paused origin q = (case origin of Sibling p \<Rightarrow> paused p q | _ \<Rightarrow> False)"
    and location_here: "origin_into_location M Here = \<lparr>parents = 0, interior = []\<rparr>"
    and location_parent: "origin_into_location M Parent = \<lparr>parents = 1, interior = []\<rparr>"
    and location_sibling: "origin_into_location M (Sibling p) = \<lparr>parents = 1, interior = [Parachain p]\<rparr>"
    and process_executes:
      "ProcessXcmMessage M exec msg origin w st = (Inr True, st') \<Longrightarrow>
         \<exists>ins. decode_message M msg = Some ins \<and> exec (origin_into_location M origin) ins w st = (True, st')"
    and executor_asks:
      "XcmExecutor M cfg loc ins w st = (True, st') \<Longrightarrow>
         \<exists>w'. fst (ec_Barrier cfg loc w' (ins, initial_properties M)) = Inr ()"
begin

lemma deliver_queued:
  "MessageQueue_queued M (deliver M msg q) origin = MessageQueue_queued M q origin @ sent_on origin msg"
  by (cases msg)
    (simp_all add: DmpQueue_def XcmpQueue_XcmpQueue_def RelayOrigin_def enqueue with_origin transform
      para_sibling)

lemma deliveries_queued:
  "MessageQueue_queued M (fold (deliver M) msgs q) origin =
     MessageQueue_queued M q origin @ concat (map (sent_on origin) msgs)"
  by (induction msgs arbitrary: q) (simp_all add: deliver_queued)

lemma processed_barrier:
  assumes "MessageProcessor False K X Y parachain M msg origin w st = (Inr True, st')"
  shows "\<exists>ins w'. decode_message M msg = Some ins \<and>
    fst (Barrier X parachain (origin_into_location M origin) w' (ins, initial_properties M)) = Inr ()"
proof -
  have "ProcessXcmMessage M (XcmExecutor M (XcmConfig K X Y parachain)) msg origin w st = (Inr True, st')"
    using assms by (simp add: MessageProcessor_def)
  from process_executes [OF this] obtain ins where ins: "decode_message M msg = Some ins"
    "XcmExecutor M (XcmConfig K X Y parachain) (origin_into_location M origin) ins w st = (True, st')"
    by blast
  from executor_asks [OF ins(2)] ins(1) show ?thesis by (auto simp: XcmConfig_def)
qed

end

lemma set_sent_on:
  "msg \<in> set (concat (map (sent_on origin) msgs)) \<longleftrightarrow>
     (origin = Parent \<and> FromRelay msg \<in> set msgs) \<or> (\<exists>p. origin = Sibling p \<and> FromSibling p msg \<in> set msgs)"
proof -
  have "msg \<in> set (sent_on origin i) \<longleftrightarrow>
      (origin = Parent \<and> i = FromRelay msg) \<or> (\<exists>p. origin = Sibling p \<and> i = FromSibling p msg)" for i
    by (cases i) auto
  then show ?thesis by auto
qed

section \<open>An instance of the laws\<close>

text \<open>
  A message is the list of its instructions, the queues are a function, and the state of the
  chain is the list of executed messages with their locations.
\<close>

definition sample_messages ::
  "(nat, unit, nat, nat, unit, nat list, string, unit,
    AggregateMessageOrigin \<Rightarrow> message list, unit, unit, ((nat, unit) Location \<times> nat list) list) message_sdk" where
  "sample_messages =
     \<lparr>EnqueueWithOrigin = (\<lambda>enq. enq),
      TransformOrigin = (\<lambda>enq f p. enq (f p)),
      ParaIdToSibling = Sibling,
      NarrowOriginToSibling_changed = (\<lambda>changed origin fp q.
        case origin of Sibling p \<Rightarrow> changed p fp q | _ \<Rightarrow> q),
      NarrowOriginToSibling_paused = (\<lambda>paused origin q.
        case origin of Sibling p \<Rightarrow> paused p q | _ \<Rightarrow> False),
      MessageQueue_enqueue = (\<lambda>origin msg q. q(origin := q origin @ [msg])),
      MessageQueue_queued = (\<lambda>q. q),
      XcmpQueue_changed = (\<lambda>p fp q. q),
      XcmpQueue_paused = (\<lambda>p q. True),
      NoopMessageProcessor = (\<lambda>msg origin w st. (Inr True, st)),
      ProcessXcmMessage = (\<lambda>exec msg origin w st.
        case exec (case origin of Here \<Rightarrow> \<lparr>parents = 0, interior = []\<rparr> | Parent \<Rightarrow> \<lparr>parents = 1, interior = []\<rparr>
                 | Sibling p \<Rightarrow> \<lparr>parents = 1, interior = [Parachain p]\<rparr>) (map unat msg) w st of
          (ok, st') \<Rightarrow> (Inr ok, st')),
      XcmExecutor = (\<lambda>cfg loc ins w st.
        case ec_Barrier cfg loc w (ins, 0) of
          (Inr _, _) \<Rightarrow> (True, st @ [(loc, ins)]) | (Inl _, _) \<Rightarrow> (False, st)),
      origin_into_location = (\<lambda>origin. case origin of Here \<Rightarrow> \<lparr>parents = 0, interior = []\<rparr>
        | Parent \<Rightarrow> \<lparr>parents = 1, interior = []\<rparr> | Sibling p \<Rightarrow> \<lparr>parents = 1, interior = [Parachain p]\<rparr>),
      decode_message = (\<lambda>msg. Some (map unat msg)),
      initial_properties = 0\<rparr>"

lemma sample_message_laws: "message_laws sample_messages"
proof unfold_locales
  fix cfg :: "(nat, unit, nat, nat, unit, nat list, string, unit) ExecutorConfig" and loc ins w st st'
  assume "XcmExecutor sample_messages cfg loc ins w st = (True, st')"
  then show "\<exists>w'. fst (ec_Barrier cfg loc w' (ins, initial_properties sample_messages)) = Inr ()"
    by (intro exI [of _ w]) (auto simp: sample_messages_def split: prod.splits sum.splits)
qed (auto simp: sample_messages_def split: AggregateMessageOrigin.splits prod.splits)

interpretation sample_messages: message_laws sample_messages
  by (rule sample_message_laws)

section \<open>Properties\<close>

text \<open>
  C23.  Inbound channels are kept apart: after any deliveries, the queue of an origin holds, behind
  what it held before, exactly the messages of that sender in the order they were sent.  A
  message that the processor then executes was sent by the chain whose location it is executed
  with, the relay chain or the sibling of that number, and the barrier has accepted it for this
  location.  Suspending the channel of a sibling never pauses messages of the relay chain.
\<close>

theorem inbound_channels_apart:
  assumes "message_laws M"
    and q: "q = fold (deliver M) msgs q0" and empty: "\<And>o'. MessageQueue_queued M q0 o' = []"
  shows "MessageQueue_queued M q origin = concat (map (sent_on origin) msgs) \<and>
    \<not> QueuePausedQuery M RelayOrigin q \<and>
    (msg \<in> set (MessageQueue_queued M q origin) \<and>
     MessageProcessor False K X Y parachain M msg origin w st = (Inr True, st') \<longrightarrow>
       (\<exists>loc ins w'. decode_message M msg = Some ins \<and>
          fst (Barrier X parachain loc w' (ins, initial_properties M)) = Inr () \<and>
          loc = origin_into_location M origin \<and>
          (loc = RelayLocation \<and> FromRelay msg \<in> set msgs \<or>
           (\<exists>p. loc = \<lparr>parents = 1, interior = [Parachain p]\<rparr> \<and> FromSibling p msg \<in> set msgs))))"
proof (intro conjI impI)
  show queued: "MessageQueue_queued M q origin = concat (map (sent_on origin) msgs)"
    by (simp add: q empty message_laws.deliveries_queued [OF assms(1)])
  show "\<not> QueuePausedQuery M RelayOrigin q"
    by (simp add: QueuePausedQuery_def RelayOrigin_def message_laws.narrow_paused [OF assms(1)])
  assume run: "msg \<in> set (MessageQueue_queued M q origin) \<and>
    MessageProcessor False K X Y parachain M msg origin w st = (Inr True, st')"
  then have "(origin = Parent \<and> FromRelay msg \<in> set msgs) \<or>
      (\<exists>p. origin = Sibling p \<and> FromSibling p msg \<in> set msgs)"
    unfolding queued set_sent_on by blast
  moreover obtain ins w' where "decode_message M msg = Some ins"
    "fst (Barrier X parachain (origin_into_location M origin) w' (ins, initial_properties M)) = Inr ()"
    using message_laws.processed_barrier [OF assms(1)] run by blast
  ultimately show "\<exists>loc ins w'. decode_message M msg = Some ins \<and>
      fst (Barrier X parachain loc w' (ins, initial_properties M)) = Inr () \<and>
      loc = origin_into_location M origin \<and>
      (loc = RelayLocation \<and> FromRelay msg \<in> set msgs \<or>
       (\<exists>p. loc = \<lparr>parents = 1, interior = [Parachain p]\<rparr> \<and> FromSibling p msg \<in> set msgs))"
    by (auto simp: RelayLocation_def message_laws.location_parent [OF assms(1)]
        message_laws.location_sibling [OF assms(1)])
qed

theorem inbound_channels_apart_witness:
  "MessageQueue_queued sample_messages
     (fold (deliver sample_messages) [FromSibling 7 [2], FromRelay [1, 5], FromSibling 7 [3]] (\<lambda>_. []))
     (Sibling 7) = [[2], [3]] \<and>
   (\<exists>w'. fst (Barrier sample_runtime_xcm 1000 RelayLocation w' ([1, 5], 0)) = Inr ())"
proof -
  let ?msgs = "[FromSibling 7 [2], FromRelay [1, 5], FromSibling 7 [3]]"
  let ?q = "fold (deliver sample_messages) ?msgs (\<lambda>_. [])"
  have empty: "MessageQueue_queued sample_messages (\<lambda>_. []) o' = []" for o'
    by (simp add: sample_messages_def)
  note apart = inbound_channels_apart [OF sample_message_laws refl empty, of ?msgs]
  have queued: "MessageQueue_queued sample_messages ?q Parent = [[1, 5]]"
    "MessageQueue_queued sample_messages ?q (Sibling 7) = [[2], [3]]"
    using apart [of Parent] apart [of "Sibling 7"] by simp_all
  have sent: "[1, 5] \<in> set (MessageQueue_queued sample_messages ?q Parent)"
    unfolding queued by simp
  have run: "MessageProcessor False reference_sdk sample_runtime_xcm sample_parts 1000 sample_messages
      [1, 5] Parent (from_parts 5 0) [] = (Inr True, [(RelayLocation, [1, 5])])"
    by (simp add: MessageProcessor_def sample_messages_def XcmConfig_def Barrier_def sample_runtime_fields
        sample_xcm_def sample_verdict_def from_parts_def RelayLocation_def
        ParentOrParentsExecutivePlurality_def Everything_def)
  have "\<exists>loc ins w'. decode_message sample_messages [1, 5] = Some ins \<and>
      fst (Barrier sample_runtime_xcm 1000 loc w' (ins, initial_properties sample_messages)) = Inr () \<and>
      loc = origin_into_location sample_messages Parent"
    using apart [of Parent "[1, 5]" reference_sdk sample_runtime_xcm sample_parts 1000 "from_parts 5 0" "[]"]
      run sent by blast
  with queued show ?thesis
    by (auto simp: RelayLocation_def sample_messages_def)
qed

end
