(* ===== verification/Runtime_Sessions.thy ===== *)
theory Runtime_Sessions
  imports Runtime_Genesis
begin

text \<open>
  Sessions and the authors of blocks, as \<open>src/runtime/src/configs/mod.rs\<close> puts them together: the session
  pallet rotates after a fixed period, takes its validators from the collator selection and tells
  Aura about their keys; the authorship pallet finds the author of a block through Aura and the
  session pallet and tells the collator selection, which pays it.  These pallets are code of the SDK: the
  parameter \<open>session_sdk\<close>, with their documented behaviour in the locale \<open>session_laws\<close>.
\<close>

section \<open>State\<close>

text \<open>
  What the four pallets keep: the validators of the session, the keys queued for the next one with
  the flag that they differ, the keys that accounts have registered, the authorities of Aura, and the
  state of the collator selection, which is not looked into.
\<close>

record ('acc, 'aura, 'c) session_state =
  Session_Validators :: "'acc list"
  Session_QueuedKeys :: "('acc \<times> 'aura SessionKeys) list"
  Session_QueuedChanged :: bool
  Session_NextKeys :: "'acc \<rightharpoonup> 'aura SessionKeys"
  Aura_Authorities :: "'aura list"
  Collators :: 'c

type_synonym ('acc, 'aura, 'c) session_manager = "'c \<Rightarrow> 'acc list \<times> 'c"
type_synonym ('acc, 'aura) session_handler =
  "bool \<Rightarrow> ('acc \<times> 'aura SessionKeys) list \<Rightarrow> 'aura list \<Rightarrow> 'aura list"

record ('acc, 'aura, 'c, 'digest) session_sdk =
  PeriodicSessions :: "u32 \<Rightarrow> u32 \<Rightarrow> BlockNumber \<Rightarrow> bool"
  Session_hook ::
    "(BlockNumber \<Rightarrow> bool) \<Rightarrow> ('acc, 'aura, 'c) session_manager \<Rightarrow> ('acc, 'aura) session_handler \<Rightarrow>
     BlockNumber \<Rightarrow> ('acc, 'aura, 'c) session_state \<Rightarrow> ('acc, 'aura, 'c) session_state"
  Authorship_hook ::
    "(('acc, 'aura, 'c) session_state \<Rightarrow> 'digest \<Rightarrow> 'acc option) \<Rightarrow> ('acc \<Rightarrow> 'c \<Rightarrow> 'c) \<Rightarrow>
     'digest \<Rightarrow> ('acc, 'aura, 'c) session_state \<Rightarrow> ('acc, 'aura, 'c) session_state"
  CollatorSelection_new_session :: "CollatorSelectionConfig \<Rightarrow> ('acc, 'aura, 'c) session_manager"
  CollatorSelection_note_author :: "'acc \<Rightarrow> 'c \<Rightarrow> 'c"
  Aura_on_new_session :: "AuraConfig \<Rightarrow> bool \<Rightarrow> ('acc \<times> 'aura) list \<Rightarrow> 'aura list \<Rightarrow> 'aura list"
  Aura_find_author :: "'aura list \<Rightarrow> 'digest \<Rightarrow> nat option"
  FindAccountFromAuthorIndex ::
    "('digest \<Rightarrow> nat option) \<Rightarrow> 'acc list \<Rightarrow> 'digest \<Rightarrow> 'acc option"
  digest_slot :: "'digest \<Rightarrow> nat option"
  CollatorSelection_genesis :: "'acc CollatorSelectionGenesis \<Rightarrow> 'c"
  Aura_on_genesis_session :: "AuraConfig \<Rightarrow> ('acc \<times> 'aura) list \<Rightarrow> 'aura list"
  Session_genesis ::
    "('acc, 'aura, 'c) session_manager \<Rightarrow> (('acc \<times> 'aura SessionKeys) list \<Rightarrow> 'aura list) \<Rightarrow>
     ('acc, 'aura) SessionGenesis \<Rightarrow> 'c \<Rightarrow> ('acc, 'aura, 'c) session_state"

section \<open>The configuration\<close>

definition ShouldEndSession :: "('acc, 'aura, 'c, 'digest) session_sdk \<Rightarrow> BlockNumber \<Rightarrow> bool" where
  "ShouldEndSession Z now =
     PeriodicSessions Z (session_Period pallet_session_config) (session_Offset pallet_session_config) now"

definition SessionManager ::
  "('acc, 'aura, 'c, 'digest) session_sdk \<Rightarrow> ('acc, 'aura, 'c) session_manager" where
  "SessionManager Z = CollatorSelection_new_session Z pallet_collator_selection_config"

text \<open>\<open>SessionKeys\<close> has one field, whose pallet is the only key provider.\<close>

definition SessionHandler ::
  "('acc, 'aura, 'c, 'digest) session_sdk \<Rightarrow> ('acc, 'aura) session_handler" where
  "SessionHandler Z changed validators =
     Aura_on_new_session Z pallet_aura_config changed (map (\<lambda>(a, keys). (a, aura keys)) validators)"

definition SessionHandler_genesis ::
  "('acc, 'aura, 'c, 'digest) session_sdk \<Rightarrow> ('acc \<times> 'aura SessionKeys) list \<Rightarrow> 'aura list" where
  "SessionHandler_genesis Z validators =
     Aura_on_genesis_session Z pallet_aura_config (map (\<lambda>(a, keys). (a, aura keys)) validators)"

text \<open>
  The session at genesis: the collator selection is built from its part of the configuration, and
  after it the session pallet, which asks it for the first two sets of validators.
\<close>

definition genesis_session ::
  "('acc, 'aura, 'c, 'digest) session_sdk \<Rightarrow> ('acc, 'aura, 'd) RuntimeGenesisConfig \<Rightarrow>
   ('acc, 'aura, 'c) session_state" where
  "genesis_session Z g =
     Session_genesis Z (SessionManager Z) (SessionHandler_genesis Z) (session g)
       (CollatorSelection_genesis Z (collator_selection g))"

definition FindAuthor ::
  "('acc, 'aura, 'c, 'digest) session_sdk \<Rightarrow> ('acc, 'aura, 'c) session_state \<Rightarrow> 'digest \<Rightarrow> 'acc option" where
  "FindAuthor Z st =
     FindAccountFromAuthorIndex Z (Aura_find_author Z (Aura_Authorities st)) (Session_Validators st)"

definition EventHandler :: "('acc, 'aura, 'c, 'digest) session_sdk \<Rightarrow> 'acc \<Rightarrow> 'c \<Rightarrow> 'c" where
  "EventHandler Z = CollatorSelection_note_author Z"

text \<open>
  The initialisation of a block runs the hooks of the pallets in the order of their declaration.
  Of the hooks, those of two pallets touch this state.
\<close>

primrec on_initialize ::
  "('acc, 'aura, 'c, 'digest) session_sdk \<Rightarrow> BlockNumber \<Rightarrow> 'digest \<Rightarrow> RuntimePallet \<Rightarrow>
   ('acc, 'aura, 'c) session_state \<Rightarrow> ('acc, 'aura, 'c) session_state" where
  "on_initialize Z n d Authorship = Authorship_hook Z (FindAuthor Z) (EventHandler Z) d"
| "on_initialize Z n d Session = Session_hook Z (ShouldEndSession Z) (SessionManager Z) (SessionHandler Z) n"
| "on_initialize Z n d System = id"
| "on_initialize Z n d ParachainSystem = id"
| "on_initialize Z n d Timestamp = id"
| "on_initialize Z n d ParachainInfo = id"
| "on_initialize Z n d Balances = id"
| "on_initialize Z n d TransactionPayment = id"
| "on_initialize Z n d Sudo = id"
| "on_initialize Z n d CollatorSelection = id"
| "on_initialize Z n d Aura = id"
| "on_initialize Z n d AuraExt = id"
| "on_initialize Z n d XcmpQueue = id"
| "on_initialize Z n d PolkadotXcm = id"
| "on_initialize Z n d CumulusXcm = id"
| "on_initialize Z n d MessageQueue = id"
| "on_initialize Z n d TemplatePallet = id"

definition initialize_block ::
  "('acc, 'aura, 'c, 'digest) session_sdk \<Rightarrow> BlockNumber \<Rightarrow> 'digest \<Rightarrow>
   ('acc, 'aura, 'c) session_state \<Rightarrow> ('acc, 'aura, 'c) session_state" where
  "initialize_block Z n d = fold (on_initialize Z n d) AllPalletsWithSystem"

section \<open>Chains\<close>

text \<open>
  The accounts with a key that is registered for them.  The calls of a block register and purge keys
  and change the collator selection, but neither sessions nor authorities (root could overwrite
  any storage and replace the runtime; such blocks are not considered).
\<close>

definition registered :: "('acc, 'aura, 'c) session_state \<Rightarrow> ('acc \<times> 'aura) set" where
  "registered st = {(a, aura ks) |a ks. Session_NextKeys st a = Some ks}"

definition calls_keep_session ::
  "('acc, 'aura, 'c) session_state \<Rightarrow> ('acc, 'aura, 'c) session_state \<Rightarrow> bool" where
  "calls_keep_session st st' \<longleftrightarrow>
     Session_Validators st' = Session_Validators st \<and> Session_QueuedKeys st' = Session_QueuedKeys st \<and>
     Session_QueuedChanged st' = Session_QueuedChanged st \<and> Aura_Authorities st' = Aura_Authorities st"

text \<open>
  A chain of blocks; \<open>own\<close> collects the keys that were registered at its start or after any of its
  blocks.
\<close>

inductive session_chain for Z st0 where
  chain_start: "session_chain Z st0 (registered st0) st0"
| chain_block:
    "session_chain Z st0 own st \<Longrightarrow> calls_keep_session (initialize_block Z n d st) st' \<Longrightarrow>
       session_chain Z st0 (own \<union> registered st') st'"

text \<open>The authorities begin with the keys of a list of validators.\<close>

definition keys_listed :: "('acc \<times> 'aura SessionKeys) list \<Rightarrow> 'aura list \<Rightarrow> bool" where
  "keys_listed ks auths \<longleftrightarrow> take (length ks) auths = map (aura \<circ> snd) ks"

definition keys_held :: "('acc \<times> 'aura) set \<Rightarrow> ('acc \<times> 'aura SessionKeys) list \<Rightarrow> bool" where
  "keys_held own ks \<longleftrightarrow> (\<forall>(a, k) \<in> set ks. (a, aura k) \<in> own)"

text \<open>
  The invariant: the authorities are the keys of the validators, and what is queued was registered
  by its accounts, is within the limits, and equal to the present session unless it is marked as
  changed.
\<close>

definition session_inv ::
  "('acc \<times> 'aura) set \<Rightarrow> ('acc, 'aura, 'c) session_state \<Rightarrow> bool" where
  "session_inv own st \<longleftrightarrow>
     (\<exists>ks. map fst ks = Session_Validators st \<and> keys_listed ks (Aura_Authorities st) \<and> keys_held own ks) \<and>
     keys_held own (Session_QueuedKeys st) \<and>
     length (Session_QueuedKeys st) \<le> unat (MaxAuthorities pallet_aura_config) \<and>
     (\<not> Session_QueuedChanged st \<longrightarrow> keys_listed (Session_QueuedKeys st) (Aura_Authorities st)) \<and>
     registered st \<subseteq> own"

text \<open>The validators of a list that have registered keys, with these keys.\<close>

definition load_keys ::
  "('acc \<rightharpoonup> 'aura SessionKeys) \<Rightarrow> 'acc list \<Rightarrow> ('acc \<times> 'aura SessionKeys) list" where
  "load_keys next validators = List.map_filter (\<lambda>a. map_option (Pair a) (next a)) validators"

lemma load_keys_set: "(a, k) \<in> set (load_keys next vs) \<longleftrightarrow> a \<in> set vs \<and> next a = Some k"
  by (auto simp: load_keys_def List.map_filter_def image_iff)

lemma load_keys_length: "length (load_keys next vs) \<le> length vs"
  by (simp add: load_keys_def List.map_filter_def)

lemma load_keys_all: "set vs \<subseteq> dom next \<Longrightarrow> map fst (load_keys next vs) = vs"
  by (induction vs) (auto simp: load_keys_def List.map_filter_def)

lemma keys_held_mono: "keys_held own ks \<Longrightarrow> own \<subseteq> own' \<Longrightarrow> keys_held own' ks"
  by (auto simp: keys_held_def)

lemma load_keys_held: "keys_held (registered st) (load_keys (Session_NextKeys st) vs)"
  by (auto simp: keys_held_def load_keys_set registered_def)

section \<open>The interface of the SDK\<close>

text \<open>
  Sessions: \<open>PeriodicSessions\<close> ends a session at the offset and after every further period.  The
  session pallet then makes the queued validators the present ones, tells its handler, asks its
  manager for new validators and queues those that have registered keys, with these keys; it marks
  the queue as changed unless it is what has just been activated.  Aura takes the keys of the new
  session, no more than its limit, and ignores an empty list.  The collator selection returns no more than
  its invulnerables and candidates.  Authors: Aura names the authority that the slot selects; its index
  selects the validator; the authorship pallet reports the author that is found.

  Genesis: the session pallet registers the configured keys, takes the first validators and, for the
  queue, the next ones from its manager, and tells its handler about the queued keys, which become
  the authorities of Aura.  The collator selection starts without candidates, so it elects just its
  invulnerables, in an order of its own, and electing changes nothing.
\<close>

locale session_laws =
  fixes Z :: "('acc, 'aura, 'c, 'digest) session_sdk"
  assumes periodic:
      "PeriodicSessions Z period offset now \<longleftrightarrow>
         offset \<le> now \<and> (unat now - unat offset) mod unat period = 0"
    and hook_skips: "\<not> end_session n \<Longrightarrow> Session_hook Z end_session manager handler n st = st"
    and hook_rotates:
      "end_session n \<Longrightarrow> st' = Session_hook Z end_session manager handler n st \<Longrightarrow>
         Session_Validators st' = map fst (Session_QueuedKeys st) \<and>
         Aura_Authorities st' =
           handler (Session_QueuedChanged st) (Session_QueuedKeys st) (Aura_Authorities st) \<and>
         Session_QueuedKeys st' =
           load_keys (Session_NextKeys st) (fst (manager (Collators st))) \<and>
         Collators st' = snd (manager (Collators st)) \<and>
         Session_NextKeys st' = Session_NextKeys st \<and>
         (\<not> Session_QueuedChanged st' \<longrightarrow> Session_QueuedKeys st' = Session_QueuedKeys st)"
    and authorship:
      "Authorship_hook Z finder handle d st =
         (case finder st d of None \<Rightarrow> st | Some a \<Rightarrow> st\<lparr>Collators := handle a (Collators st)\<rparr>)"
    and collators_bounded:
      "length (fst (CollatorSelection_new_session Z cfg c)) \<le> unat (MaxInvulnerables cfg) + unat (MaxCandidates cfg)"
    and aura_changes:
      "Aura_on_new_session Z acfg changed keys auths =
         (if changed \<and> keys \<noteq> [] then take (unat (MaxAuthorities acfg)) (map snd keys) else auths)"
    and aura_author:
      "Aura_find_author Z auths d =
         (case digest_slot Z d of
            Some slot \<Rightarrow> if auths = [] then None else Some (slot mod length auths) | None \<Rightarrow> None)"
    and author_index:
      "FindAccountFromAuthorIndex Z author_idx validators d =
         (case author_idx d of
            Some i \<Rightarrow> if i < length validators then Some (validators ! i) else None | None \<Rightarrow> None)"
    and session_genesis:
      "distinct (map (fst \<circ> snd) (genesis_keys sg)) \<Longrightarrow> st = Session_genesis Z manager tell sg c \<Longrightarrow>
         manager c = (vs0, c1) \<Longrightarrow> manager c1 = (vs1, c2) \<Longrightarrow>
         Session_NextKeys st = map_of (map snd (genesis_keys sg)) \<and>
         Session_Validators st = vs0 \<and>
         Session_QueuedKeys st = load_keys (Session_NextKeys st) vs1 \<and>
         \<not> Session_QueuedChanged st \<and>
         Aura_Authorities st = tell (Session_QueuedKeys st) \<and> Collators st = c2"
    and genesis_collators:
      "distinct (invulnerables cg) \<Longrightarrow> length (invulnerables cg) \<le> unat (MaxInvulnerables cfg) \<Longrightarrow>
         \<exists>vs. CollatorSelection_new_session Z cfg (CollatorSelection_genesis Z cg) =
             (vs, CollatorSelection_genesis Z cg) \<and> distinct vs \<and> set vs = set (invulnerables cg)"
    and aura_genesis:
      "length keys \<le> unat (MaxAuthorities acfg) \<Longrightarrow> Aura_on_genesis_session Z acfg keys = map snd keys"
begin

text \<open>All elected collators fit into the authorities.\<close>

lemma elected_fit:
  "length (fst (SessionManager Z c)) \<le> unat (MaxAuthorities pallet_aura_config)"
  using collators_bounded [of pallet_collator_selection_config c]
  by (simp add: SessionManager_def pallet_collator_selection_config_def pallet_aura_config_def)

lemma handler_lists_keys:
  assumes "length ks \<le> unat (MaxAuthorities pallet_aura_config)" and "\<not> changed \<longrightarrow> keys_listed ks auths"
  shows "keys_listed ks (SessionHandler Z changed ks auths)"
proof -
  have keys: "map snd (map (\<lambda>(a, k). (a, aura k)) ks) = map (aura \<circ> snd) ks" by auto
  show ?thesis
    using assms by (cases "ks = []") (auto simp: SessionHandler_def aura_changes keys keys_listed_def)
qed

lemma rotation_keeps_inv:
  assumes inv: "session_inv own st"
  shows "session_inv own (Session_hook Z (ShouldEndSession Z) (SessionManager Z) (SessionHandler Z) n st)"
proof (cases "ShouldEndSession Z n")
  case True
  define st' where "st' = Session_hook Z (ShouldEndSession Z) (SessionManager Z) (SessionHandler Z) n st"
  note rot = hook_rotates [OF True st'_def]
  from inv have queue: "keys_held own (Session_QueuedKeys st)"
    "length (Session_QueuedKeys st) \<le> unat (MaxAuthorities pallet_aura_config)"
    "\<not> Session_QueuedChanged st \<longrightarrow> keys_listed (Session_QueuedKeys st) (Aura_Authorities st)"
    "registered st \<subseteq> own"
    by (simp_all add: session_inv_def)
  have listed: "keys_listed (Session_QueuedKeys st) (Aura_Authorities st')"
    using rot handler_lists_keys [OF queue(2,3)] by simp
  moreover have "keys_held own (Session_QueuedKeys st')"
    using rot keys_held_mono [OF load_keys_held queue(4)] by simp
  moreover have "length (Session_QueuedKeys st') \<le> unat (MaxAuthorities pallet_aura_config)"
    using rot order_trans [OF load_keys_length elected_fit] by simp
  moreover have "registered st' \<subseteq> own"
    using rot queue(4) by (simp add: registered_def)
  ultimately show ?thesis
    unfolding st'_def [symmetric] session_inv_def using rot queue by auto
qed (simp add: hook_skips inv)

lemma note_keeps_inv: "session_inv own (st\<lparr>Collators := c\<rparr>) \<longleftrightarrow> session_inv own st"
  by (simp add: session_inv_def registered_def)

text \<open>
  The author is found before the session rotates, with the validators and the authorities of the
  parent block.
\<close>

lemma initialize_block_eq:
  "initialize_block Z n d st =
     Session_hook Z (ShouldEndSession Z) (SessionManager Z) (SessionHandler Z) n
       (case FindAuthor Z st d of
          None \<Rightarrow> st | Some a \<Rightarrow> st\<lparr>Collators := CollatorSelection_note_author Z a (Collators st)\<rparr>)"
  by (simp add: initialize_block_def AllPalletsWithSystem_def authorship EventHandler_def)

lemma initialize_keeps_inv: "session_inv own st \<Longrightarrow> session_inv own (initialize_block Z n d st)"
  unfolding initialize_block_eq
  by (intro rotation_keeps_inv) (simp add: note_keeps_inv split: option.split)

lemma calls_keep_inv:
  assumes "session_inv own st" and "calls_keep_session st st'"
  shows "session_inv (own \<union> registered st') st'"
  using assms keys_held_mono [of own _ "own \<union> registered st'"]
  unfolding session_inv_def calls_keep_session_def by auto

lemma chain_inv:
  "session_chain Z st0 own st \<Longrightarrow> session_inv (registered st0) st0 \<Longrightarrow> session_inv own st"
  by (induction rule: session_chain.induct) (auto intro: initialize_keeps_inv calls_keep_inv)

text \<open>The session that is built from a well-formed configuration satisfies the invariant.\<close>

lemma genesis_inv:
  assumes "genesis_wf g"
  shows "session_inv (registered (genesis_session Z g)) (genesis_session Z g)"
proof -
  define st where "st = genesis_session Z g"
  let ?c = "CollatorSelection_genesis Z (collator_selection g)"
  let ?invs = "invulnerables (collator_selection g)"
  from assms have invs: "distinct ?invs" "length ?invs \<le> unat (MaxInvulnerables pallet_collator_selection_config)"
    and keys: "map fst (genesis_keys (session g)) = ?invs"
      "\<forall>(acc, validator, ks) \<in> set (genesis_keys (session g)). validator = acc"
    by (simp_all add: genesis_wf_def Let_def)
  have validators: "map (fst \<circ> snd) (genesis_keys (session g)) = ?invs"
    unfolding keys(1) [symmetric] using keys(2) by (auto intro!: map_cong)
  obtain vs where elected: "SessionManager Z ?c = (vs, ?c)" "set vs = set ?invs"
    using genesis_collators [OF invs] by (auto simp: SessionManager_def)
  have "distinct (map (fst \<circ> snd) (genesis_keys (session g)))" using validators invs(1) by simp
  from session_genesis [OF this st_def [unfolded genesis_session_def] elected(1) elected(1)]
  have built: "Session_NextKeys st = map_of (map snd (genesis_keys (session g)))"
    "Session_Validators st = vs" "Session_QueuedKeys st = load_keys (Session_NextKeys st) vs"
    "\<not> Session_QueuedChanged st"
    "Aura_Authorities st = SessionHandler_genesis Z (Session_QueuedKeys st)"
    by simp_all
  have "dom (Session_NextKeys st) = set ?invs"
    unfolding built(1) validators [symmetric] by (simp add: dom_map_of_conv_image_fst image_image)
  with elected(2) have fst_queue: "map fst (Session_QueuedKeys st) = vs"
    unfolding built(3) by (intro load_keys_all) simp
  have fits: "length (Session_QueuedKeys st) \<le> unat (MaxAuthorities pallet_aura_config)"
    using order_trans [OF load_keys_length elected_fit [of ?c]] elected(1) by (simp add: built(3))
  then have "Aura_Authorities st = map (aura \<circ> snd) (Session_QueuedKeys st)"
    by (simp add: built(5) SessionHandler_genesis_def aura_genesis) (auto simp: o_def split_def)
  then have listed: "keys_listed (Session_QueuedKeys st) (Aura_Authorities st)"
    by (simp add: keys_listed_def)
  have held: "keys_held (registered st) (Session_QueuedKeys st)"
    unfolding built(3) by (rule load_keys_held)
  show ?thesis
    unfolding st_def [symmetric] session_inv_def using fst_queue built(2) listed held fits
    by (intro conjI exI [of _ "Session_QueuedKeys st"]) simp_all
qed

lemma author_found:
  assumes "session_inv own st" and "FindAuthor Z st d = Some a"
  shows "\<exists>slot i. digest_slot Z d = Some slot \<and> i = slot mod length (Aura_Authorities st) \<and>
    i < length (Session_Validators st) \<and> a = Session_Validators st ! i \<and>
    (a, Aura_Authorities st ! i) \<in> own"
proof -
  from assms(2) obtain slot i where i: "digest_slot Z d = Some slot"
    "i = slot mod length (Aura_Authorities st)" "i < length (Session_Validators st)"
    "a = Session_Validators st ! i"
    by (auto simp: FindAuthor_def author_index aura_author split: option.splits if_splits)
  from assms(1) obtain ks where ks: "map fst ks = Session_Validators st"
    "take (length ks) (Aura_Authorities st) = map (aura \<circ> snd) ks" "keys_held own ks"
    by (auto simp: session_inv_def keys_listed_def)
  have "length ks = length (Session_Validators st)" using ks(1) by (metis length_map)
  with i(3) have less: "i < length ks" by simp
  have "Aura_Authorities st ! i = take (length ks) (Aura_Authorities st) ! i" using less by simp
  also have "\<dots> = aura (snd (ks ! i))" unfolding ks(2) using less by simp
  finally have "Aura_Authorities st ! i = aura (snd (ks ! i))" .
  moreover have "a = fst (ks ! i)" using i(4) ks(1) less by (metis nth_map)
  moreover have "ks ! i \<in> set ks" using less by simp
  ultimately have "(a, Aura_Authorities st ! i) \<in> own"
    using ks(3) by (auto simp: keys_held_def split: prod.splits)
  with i show ?thesis by blast
qed

end

section \<open>An instance of the laws\<close>

text \<open>
  Accounts and keys are names and digests are slots; the collator selection keeps the accounts it
  elects and the authors it has been told of.
\<close>

definition sample_sessions ::
  "(string, string, string list \<times> string list, nat) session_sdk" where
  "sample_sessions =
     \<lparr>PeriodicSessions = (\<lambda>period offset now.
        offset \<le> now \<and> (unat now - unat offset) mod unat period = 0),
      Session_hook = (\<lambda>end_session manager handler n st.
        if end_session n then
          let (new, c) = manager (Collators st);
              queued = load_keys (Session_NextKeys st) new
          in st\<lparr>Session_Validators := map fst (Session_QueuedKeys st),
                Aura_Authorities :=
                  handler (Session_QueuedChanged st) (Session_QueuedKeys st) (Aura_Authorities st),
                Session_QueuedKeys := queued,
                Session_QueuedChanged := (queued \<noteq> Session_QueuedKeys st),
                Collators := c\<rparr>
        else st),
      Authorship_hook = (\<lambda>finder handle d st.
        case finder st d of None \<Rightarrow> st | Some a \<Rightarrow> st\<lparr>Collators := handle a (Collators st)\<rparr>),
      CollatorSelection_new_session = (\<lambda>cfg c.
        (take (unat (MaxInvulnerables cfg) + unat (MaxCandidates cfg)) (fst c), c)),
      CollatorSelection_note_author = (\<lambda>a c. (fst c, a # snd c)),
      Aura_on_new_session = (\<lambda>cfg changed keys auths.
        if changed \<and> keys \<noteq> [] then take (unat (MaxAuthorities cfg)) (map snd keys) else auths),
      Aura_find_author = (\<lambda>auths d. if auths = [] then None else Some (d mod length auths)),
      FindAccountFromAuthorIndex = (\<lambda>author_idx validators d.
        case author_idx d of
          Some i \<Rightarrow> if i < length validators then Some (validators ! i) else None | None \<Rightarrow> None),
      digest_slot = Some,
      CollatorSelection_genesis = (\<lambda>cg. (invulnerables cg, [])),
      Aura_on_genesis_session = (\<lambda>cfg keys. map snd keys),
      Session_genesis = (\<lambda>manager handler sg c.
        let next = map_of (map snd (genesis_keys sg));
            (vs0, c1) = manager c;
            (vs1, c2) = manager c1;
            queued = load_keys next vs1
        in \<lparr>Session_Validators = vs0, Session_QueuedKeys = queued, Session_QueuedChanged = False,
            Session_NextKeys = next, Aura_Authorities = handler queued, Collators = c2\<rparr>)\<rparr>"

lemma sample_session_laws: "session_laws sample_sessions"
proof unfold_locales
  fix end_session :: "BlockNumber \<Rightarrow> bool" and n manager handler
    and st st' :: "(string, string, string list \<times> string list) session_state"
  assume "end_session n" and "st' = Session_hook sample_sessions end_session manager handler n st"
  then show "Session_Validators st' = map fst (Session_QueuedKeys st) \<and>
      Aura_Authorities st' =
        handler (Session_QueuedChanged st) (Session_QueuedKeys st) (Aura_Authorities st) \<and>
      Session_QueuedKeys st' = load_keys (Session_NextKeys st) (fst (manager (Collators st))) \<and>
      Collators st' = snd (manager (Collators st)) \<and>
      Session_NextKeys st' = Session_NextKeys st \<and>
      (\<not> Session_QueuedChanged st' \<longrightarrow> Session_QueuedKeys st' = Session_QueuedKeys st)"
    by (cases "manager (Collators st)") (simp add: sample_sessions_def Let_def)
qed (auto simp: sample_sessions_def Let_def)

interpretation sample_sessions: session_laws sample_sessions
  by (rule sample_session_laws)

text \<open>The session of the presets: Alice and Bob, each with a key of the same name.\<close>

lemma sample_genesis_session:
  "genesis_session sample_sessions (preset_config reference_env) =
     \<lparr>Session_Validators = [''Alice'', ''Bob''],
      Session_QueuedKeys = [(''Alice'', \<lparr>aura = ''Alice''\<rparr>), (''Bob'', \<lparr>aura = ''Bob''\<rparr>)],
      Session_QueuedChanged = False,
      Session_NextKeys = [''Alice'' \<mapsto> \<lparr>aura = ''Alice''\<rparr>, ''Bob'' \<mapsto> \<lparr>aura = ''Bob''\<rparr>],
      Aura_Authorities = [''Alice'', ''Bob''],
      Collators = ([''Alice'', ''Bob''], [])\<rparr>"
  by (simp add: genesis_session_def sample_sessions_def SessionManager_def SessionHandler_genesis_def
      preset_config_def testnet_config_def template_session_keys_def reference_env_def
      pallet_collator_selection_config_def load_keys_def List.map_filter_def fun_upd_twist)

section \<open>Properties\<close>

text \<open>
  C16.  The author of a block: on any chain of blocks from the genesis of a well-formed
  configuration, the account found as the author is the validator at the index that the slot selects
  among the authorities, and the authority at this index is a key that this account has registered,
  at genesis or in a block of the chain.  The author is found and noted before the session may
  rotate in the same block, so with the validators and authorities under which the block was
  produced.
\<close>

theorem author_holds_authority_key:
  assumes "session_laws Z" and "genesis_wf g"
    and "session_chain Z (genesis_session Z g) own st"
  shows "(FindAuthor Z st d = Some a \<longrightarrow>
      (\<exists>slot i. digest_slot Z d = Some slot \<and> i = slot mod length (Aura_Authorities st) \<and>
         i < length (Session_Validators st) \<and> a = Session_Validators st ! i \<and>
         (a, Aura_Authorities st ! i) \<in> own)) \<and>
    initialize_block Z n d st =
      Session_hook Z (ShouldEndSession Z) (SessionManager Z) (SessionHandler Z) n
        (case FindAuthor Z st d of
           None \<Rightarrow> st
         | Some a \<Rightarrow> st\<lparr>Collators := CollatorSelection_note_author Z a (Collators st)\<rparr>)"
  using session_laws.author_found [OF assms(1) session_laws.chain_inv [OF assms(1,3)
        session_laws.genesis_inv [OF assms(1,2)]], of d a]
    session_laws.initialize_block_eq [OF assms(1), of n d st]
  by blast

theorem author_holds_authority_key_witness:
  "FindAuthor sample_sessions (genesis_session sample_sessions (preset_config reference_env)) 1 =
     Some ''Bob'' \<and>
   (''Bob'', ''Bob'') \<in> registered (genesis_session sample_sessions (preset_config reference_env))"
proof -
  let ?st = "genesis_session sample_sessions (preset_config reference_env)"
  have found: "FindAuthor sample_sessions ?st 1 = Some ''Bob''"
    unfolding sample_genesis_session by (simp add: FindAuthor_def sample_sessions_def)
  have "\<exists>slot i. digest_slot sample_sessions 1 = Some slot \<and>
      i = slot mod length (Aura_Authorities ?st) \<and> i < length (Session_Validators ?st) \<and>
      ''Bob'' = Session_Validators ?st ! i \<and> (''Bob'', Aura_Authorities ?st ! i) \<in> registered ?st"
    using author_holds_authority_key [OF sample_session_laws reference_genesis.preset_config_wf chain_start]
      found by blast
  moreover have "digest_slot sample_sessions = Some" by (simp add: sample_sessions_def)
  moreover have "Aura_Authorities ?st = [''Alice'', ''Bob'']" by (simp add: sample_genesis_session)
  ultimately have "(''Bob'', ''Bob'') \<in> registered ?st" by auto
  with found show ?thesis by blast
qed

text \<open>
  C17.  Sessions end regularly: a session ends exactly at the multiples of 3600 blocks, six hours of
  blocks, so that among any 3600 successive blocks exactly one ends a session, and
  collators are given just this time before they are considered absent.
\<close>

theorem sessions_end_every_six_hours:
  assumes "session_laws Z" and "unat m + 3600 < 2 ^ 32"
  shows "(ShouldEndSession Z n \<longleftrightarrow> 3600 dvd unat n) \<and>
    (\<exists>!n. m < n \<and> n \<le> m + 3600 \<and> ShouldEndSession Z n) \<and>
    unat (KickThreshold pallet_collator_selection_config) = 3600 \<and>
    3600 * unat MILLI_SECS_PER_BLOCK = 6 * 60 * 60 * 1000"
proof -
  have ends: "ShouldEndSession Z n \<longleftrightarrow> 3600 dvd unat n" for n
    by (simp add: ShouldEndSession_def session_laws.periodic [OF assms(1)] pallet_session_config_def
        Period_def Offset_def time_defs mod_eq_0_iff_dvd)
  define k where "k = 3600 * (unat m div 3600 + 1)"
  have range: "unat m < k" "k \<le> unat m + 3600" "3600 dvd k"
    using dividend_less_times_div [of 3600 "unat m"] times_div_less_eq_dividend [of 3600 "unat m"]
    by (simp_all add: k_def)
  have only: "j = k" if "unat m < j" "j \<le> unat m + 3600" "3600 dvd j" for j :: nat
    using that range by (auto elim!: dvdE)
  have top: "unat (m + 3600) = unat m + 3600"
    using assms(2) by (simp add: unat_word_ariths)
  have cast: "unat (of_nat k :: u32) = k"
    using range(2) assms(2) by (intro unat_of_nat_small) simp
  have "\<exists>!n. m < n \<and> n \<le> m + 3600 \<and> 3600 dvd unat n"
  proof (rule ex1I [of _ "of_nat k"])
    from cast range top show "m < of_nat k \<and> of_nat k \<le> m + 3600 \<and> 3600 dvd unat (of_nat k :: u32)"
      by (simp add: word_less_nat_alt word_le_nat_alt)
  next
    fix n assume "m < n \<and> n \<le> m + 3600 \<and> 3600 dvd unat n"
    then have "unat n = k" using top by (intro only) (simp_all add: word_less_nat_alt word_le_nat_alt)
    with cast show "n = of_nat k" by (simp add: word_unat_eq_iff)
  qed
  with ends show ?thesis
    by (simp add: pallet_collator_selection_config_def Period_def time_defs)
qed

theorem sessions_end_every_six_hours_witness:
  "ShouldEndSession sample_sessions 7200 \<and> \<not> ShouldEndSession sample_sessions 7201"
proof -
  have "unat (0 :: BlockNumber) + 3600 < 2 ^ 32" by simp
  note ends = sessions_end_every_six_hours [OF sample_session_laws this]
  show ?thesis using ends [of 7200] ends [of 7201] by simp
qed

end
