(* ===== verification/Node_Cli.thy ===== *)
theory Node_Cli
  imports Runtime_Genesis
begin

text \<open>
  The command line of the collator node: the chain specifications of \<open>src/node/src/chain_spec.rs\<close>,
  the relay chain arguments of \<open>src/node/src/cli.rs\<close>, and from \<open>src/node/src/command.rs\<close> the
  choice of a chain specification and the configuration of the embedded relay chain node.  A trait
  whose methods the source implements or calls is a record of its methods.  What the binary
  takes from the SDK, from the build and from the file system is the parameter \<open>node_env\<close>.
\<close>

section \<open>Chain specifications\<close>

type_synonym Path = "string list"

definition path_join :: "Path \<Rightarrow> string \<Rightarrow> Path" where
  "path_join p s = p @ [s]"

record Extensions =
  relay_chain :: string
  para_id :: u32

datatype ChainType = Development | Local

datatype Value = JString string | JNumber int

type_synonym Properties = "string \<rightharpoonup> Value"

text \<open>What the source hands to \<open>ChainSpec::builder\<close>; \<open>None\<close> where it does not call the setter.\<close>

record ChainSpecBuilder =
  code :: "u8 list"
  extensions :: Extensions
  chain_name :: string
  spec_id :: string
  chain_type :: ChainType
  genesis_preset :: string
  protocol_id :: "string option"
  properties :: "Properties option"

text \<open>A specification is built here or read from a JSON file.\<close>

datatype 'j ChainSpec = Built ChainSpecBuilder | FromJson 'j

record ('j, 'rspec, 'base) node_env =
  WASM_BINARY :: "u8 list option"
  from_json_file :: "Path \<Rightarrow> string + 'j"
  path_from :: "string \<Rightarrow> Path"
  get_extension :: "'j ChainSpec \<Rightarrow> Extensions option"
  polkadot_load_spec :: "string \<Rightarrow> string + 'rspec"
  executable_name :: string
  SUBSTRATE_CLI_IMPL_VERSION :: string
  CARGO_PKG_AUTHORS :: string
  parse_from :: "string list \<Rightarrow> 'base option"

definition Extensions_try_get ::
  "('j, 'rspec, 'base) node_env \<Rightarrow> 'j ChainSpec \<Rightarrow> Extensions option" where
  "Extensions_try_get N spec = get_extension N spec"

definition wasm_binary :: "('j, 'rspec, 'base) node_env \<Rightarrow> Panic + u8 list" where
  "wasm_binary N =
     (case WASM_BINARY N of
        None \<Rightarrow> Inl (Panic ''WASM binary was not built, please build it!'')
      | Some wasm \<Rightarrow> Inr wasm)"

text \<open>\<open>development_config\<close> fills \<open>properties\<close> and drops them.\<close>

definition development_config ::
  "('acc, 'aura, 'd, 'json, 'id) genesis_env \<Rightarrow> ('j, 'rspec, 'base) node_env \<Rightarrow>
   Panic + ChainSpecBuilder" where
  "development_config E N =
     (let props0 = Map.empty;
          props1 = props0(''tokenSymbol'' \<mapsto> JString ''UNIT'');
          props2 = props1(''tokenDecimals'' \<mapsto> JNumber 12);
          props3 = props2(''ss58Format'' \<mapsto> JNumber 42)
      in case wasm_binary N of
           Inl p \<Rightarrow> Inl p
         | Inr wasm \<Rightarrow> Inr
             \<lparr>code = wasm,
              extensions = \<lparr>relay_chain = ''rococo-local'', para_id = 1000\<rparr>,
              chain_name = ''Development'',
              spec_id = ''dev'',
              chain_type = Development,
              genesis_preset = DEV_RUNTIME_PRESET E,
              protocol_id = None,
              properties = None\<rparr>)"

definition local_testnet_config ::
  "('acc, 'aura, 'd, 'json, 'id) genesis_env \<Rightarrow> ('j, 'rspec, 'base) node_env \<Rightarrow>
   Panic + ChainSpecBuilder" where
  "local_testnet_config E N =
     (let props0 = Map.empty;
          props1 = props0(''tokenSymbol'' \<mapsto> JString ''UNIT'');
          props2 = props1(''tokenDecimals'' \<mapsto> JNumber 12);
          props3 = props2(''ss58Format'' \<mapsto> JNumber 42)
      in case wasm_binary N of
           Inl p \<Rightarrow> Inl p
         | Inr wasm \<Rightarrow> Inr
             \<lparr>code = wasm,
              extensions = \<lparr>relay_chain = ''rococo-local'', para_id = 1000\<rparr>,
              chain_name = ''Local Testnet'',
              spec_id = ''local_testnet'',
              chain_type = Local,
              genesis_preset = LOCAL_TESTNET_RUNTIME_PRESET E,
              protocol_id = Some ''template-local'',
              properties = Some props3\<rparr>)"

text \<open>The outer sum is a panic, the inner one the \<open>Result\<close> of the source.\<close>

definition load_spec ::
  "('acc, 'aura, 'd, 'json, 'id) genesis_env \<Rightarrow> ('j, 'rspec, 'base) node_env \<Rightarrow> string \<Rightarrow>
   Panic + (string + 'j ChainSpec)" where
  "load_spec E N name =
     (let build = (\<lambda>spec. case spec of Inl p \<Rightarrow> Inl p | Inr s \<Rightarrow> Inr (Inr (Built s)))
      in if name = ''dev'' then build (development_config E N)
         else if name = ''template-rococo'' then build (local_testnet_config E N)
         else if name = '''' \<or> name = ''local'' then build (local_testnet_config E N)
         else (case from_json_file N (path_from N name) of
                 Inl e \<Rightarrow> Inr (Inl e)
               | Inr j \<Rightarrow> Inr (Inr (FromJson j))))"

section \<open>The two command line interfaces\<close>

record 'spec SubstrateCli =
  impl_name :: string
  impl_version :: string
  description :: string
  author :: string
  support_url :: string
  copyright_start_year :: "32 word"
  cli_load_spec :: "string \<Rightarrow> Panic + (string + 'spec)"

definition description_text :: "string \<Rightarrow> string" where
  "description_text exe =
     ''Parachain Collator Template'' @ [CHR 0x0A, CHR 0x0A] @
     ''The command-line arguments provided first will be '' @
     ''passed to the parachain node, while the arguments provided after -- will be passed '' @
     ''to the relay chain node.'' @ [CHR 0x0A, CHR 0x0A] @
     exe @ '' <parachain-args> -- <relay-chain-args>''"

definition Cli_SubstrateCli ::
  "('acc, 'aura, 'd, 'json, 'id) genesis_env \<Rightarrow> ('j, 'rspec, 'base) node_env \<Rightarrow>
   'j ChainSpec SubstrateCli" where
  "Cli_SubstrateCli E N =
     \<lparr>impl_name = ''Parachain Collator Template'',
      impl_version = SUBSTRATE_CLI_IMPL_VERSION N,
      description = description_text (executable_name N),
      author = CARGO_PKG_AUTHORS N,
      support_url = ''https://github.com/paritytech/polkadot-sdk/issues/new'',
      copyright_start_year = 2020,
      cli_load_spec = load_spec E N\<rparr>"

text \<open>The relay chain side loads its specification with the Polkadot command line.\<close>

definition RelayChainCli_SubstrateCli ::
  "('j, 'rspec, 'base) node_env \<Rightarrow> 'rspec SubstrateCli" where
  "RelayChainCli_SubstrateCli N =
     \<lparr>impl_name = ''Parachain Collator Template'',
      impl_version = SUBSTRATE_CLI_IMPL_VERSION N,
      description = description_text (executable_name N),
      author = CARGO_PKG_AUTHORS N,
      support_url = ''https://github.com/paritytech/polkadot-sdk/issues/new'',
      copyright_start_year = 2020,
      cli_load_spec = (\<lambda>name. Inr (polkadot_load_spec N name))\<rparr>"

section \<open>The relay chain command line\<close>

record 'base RelayChainCli =
  base :: 'base
  chain_id :: "string option"
  base_path :: "Path option"

record 'spec Configuration =
  config_chain_spec :: 'spec
  config_base_path :: Path

text \<open>\<open>None\<close>: the argument parser has rejected the arguments and ended the process.\<close>

definition RelayChainCli_new ::
  "('j, 'rspec, 'base) node_env \<Rightarrow> ('j ChainSpec, 'more) Configuration_scheme \<Rightarrow> string list \<Rightarrow>
   'base RelayChainCli option" where
  "RelayChainCli_new N para_config relay_chain_args =
     (let extension = Extensions_try_get N (config_chain_spec para_config);
          cid = map_option relay_chain extension;
          path = path_join (config_base_path para_config) ''polkadot''
      in case parse_from N relay_chain_args of
           None \<Rightarrow> None
         | Some b \<Rightarrow> Some \<lparr>base = b, chain_id = cid, base_path = Some path\<rparr>)"

record DefaultConfigurationValues =
  p2p_listen_port :: u16
  rpc_listen_port :: u16
  prometheus_listen_port :: u16

definition RelayChainCli_defaults :: DefaultConfigurationValues where
  "RelayChainCli_defaults =
     \<lparr>p2p_listen_port = 30334, rpc_listen_port = 9945, prometheus_listen_port = 9616\<rparr>"

text \<open>
  The methods of \<open>CliConfiguration\<close> that the source implements.  \<open>'e\<close> is the error of the
  \<open>Result\<close>s, \<open>'r\<close> stands for the results the source passes on without looking at them, and of the
  shared parameters the source reads only the base path.
\<close>

record ('e, 'r, 'spec) CliConfiguration =
  cc_shared_base_path :: "'e + Path option"
  cc_shared_params :: 'r
  cc_import_params :: "'r option"
  cc_network_params :: "'r option"
  cc_keystore_params :: "'r option"
  cc_base_path :: "'e + Path option"
  cc_rpc_addr :: "u16 \<Rightarrow> 'e + 'r list option"
  cc_prometheus_config :: "u16 \<Rightarrow> 'spec \<Rightarrow> 'e + 'r option"
  cc_init :: "string \<Rightarrow> string \<Rightarrow> Panic + ('e + unit)"
  cc_chain_id :: "bool \<Rightarrow> 'e + string"
  cc_role :: "bool \<Rightarrow> 'e + 'r"
  cc_transaction_pool :: "bool \<Rightarrow> 'e + 'r"
  cc_trie_cache_maximum_size :: "'e + nat option"
  cc_rpc_methods :: "'e + 'r"
  cc_rpc_max_connections :: "'e + u32"
  cc_rpc_cors :: "bool \<Rightarrow> 'e + string list option"
  cc_default_heap_pages :: "'e + u64 option"
  cc_force_authoring :: "'e + bool"
  cc_disable_grandpa :: "'e + bool"
  cc_max_runtime_instances :: "'e + nat option"
  cc_announce_block :: "'e + bool"
  cc_telemetry_endpoints :: "'spec \<Rightarrow> 'e + 'r option"
  cc_node_name :: "'e + string"

definition RelayChainCli_base_path ::
  "('e, 'r, 'spec) CliConfiguration RelayChainCli \<Rightarrow> 'e + Path option" where
  "RelayChainCli_base_path self =
     (case cc_shared_base_path (base self) of
        Inl e \<Rightarrow> Inl e
      | Inr None \<Rightarrow> Inr (base_path self)
      | Inr (Some p) \<Rightarrow> Inr (Some p))"

definition RelayChainCli_chain_id ::
  "('e, 'r, 'spec) CliConfiguration RelayChainCli \<Rightarrow> bool \<Rightarrow> 'e + string" where
  "RelayChainCli_chain_id self is_dev =
     (case cc_chain_id (base self) is_dev of
        Inl e \<Rightarrow> Inl e
      | Inr cid \<Rightarrow> Inr (if cid = [] then case_option [] (\<lambda>c. c) (chain_id self) else cid))"

definition RelayChainCli_CliConfiguration ::
  "('e, 'r, 'spec) CliConfiguration RelayChainCli \<Rightarrow> ('e, 'r, 'spec) CliConfiguration" where
  "RelayChainCli_CliConfiguration self =
     \<lparr>cc_shared_base_path = cc_shared_base_path (base self),
      cc_shared_params = cc_shared_params (base self),
      cc_import_params = cc_import_params (base self),
      cc_network_params = cc_network_params (base self),
      cc_keystore_params = cc_keystore_params (base self),
      cc_base_path = RelayChainCli_base_path self,
      cc_rpc_addr = (\<lambda>default_listen_port. cc_rpc_addr (base self) default_listen_port),
      cc_prometheus_config =
        (\<lambda>default_listen_port chain_spec.
           cc_prometheus_config (base self) default_listen_port chain_spec),
      cc_init =
        (\<lambda>_ _. Inl (Panic
           ''internal error: entered unreachable code: PolkadotCli is never initialized; qed'')),
      cc_chain_id = RelayChainCli_chain_id self,
      cc_role = (\<lambda>is_dev. cc_role (base self) is_dev),
      cc_transaction_pool = (\<lambda>is_dev. cc_transaction_pool (base self) is_dev),
      cc_trie_cache_maximum_size = cc_trie_cache_maximum_size (base self),
      cc_rpc_methods = cc_rpc_methods (base self),
      cc_rpc_max_connections = cc_rpc_max_connections (base self),
      cc_rpc_cors = (\<lambda>is_dev. cc_rpc_cors (base self) is_dev),
      cc_default_heap_pages = cc_default_heap_pages (base self),
      cc_force_authoring = cc_force_authoring (base self),
      cc_disable_grandpa = cc_disable_grandpa (base self),
      cc_max_runtime_instances = cc_max_runtime_instances (base self),
      cc_announce_block = cc_announce_block (base self),
      cc_telemetry_endpoints = (\<lambda>chain_spec. cc_telemetry_endpoints (base self) chain_spec),
      cc_node_name = cc_node_name (base self)\<rparr>"

text \<open>The ids that name a specification built into the node.\<close>

definition builtin_ids :: "string set" where
  "builtin_ids = {''dev'', ''template-rococo'', [], ''local''}"

text \<open>What the built-in configurations have in common with the runtime.\<close>

definition fits_runtime :: "('acc, 'aura, 'd, 'json, 'id) genesis_env \<Rightarrow> ChainSpecBuilder \<Rightarrow> bool" where
  "fits_runtime E s \<longleftrightarrow>
     extensions s = \<lparr>relay_chain = ''rococo-local'', para_id = 1000\<rparr> \<and>
     genesis_preset s \<in> {DEV_RUNTIME_PRESET E, LOCAL_TESTNET_RUNTIME_PRESET E} \<and>
     (\<forall>ps. properties s = Some ps \<longrightarrow>
        ps ''ss58Format'' = Some (JNumber 42) \<and> ps ''tokenDecimals'' = Some (JNumber 12))"

text \<open>A concrete environment and a concrete relay chain command.\<close>

definition sample_base :: "(string, string, string) CliConfiguration" where
  "sample_base =
     \<lparr>cc_shared_base_path = Inr None, cc_shared_params = [], cc_import_params = None,
      cc_network_params = None, cc_keystore_params = None, cc_base_path = Inr None,
      cc_rpc_addr = (\<lambda>_. Inr None), cc_prometheus_config = (\<lambda>_ _. Inr None),
      cc_init = (\<lambda>_ _. Inr (Inr ())), cc_chain_id = (\<lambda>dev. Inr (if dev then ''dev'' else [])),
      cc_role = (\<lambda>_. Inr []), cc_transaction_pool = (\<lambda>_. Inr []),
      cc_trie_cache_maximum_size = Inr None, cc_rpc_methods = Inr [], cc_rpc_max_connections = Inr 100,
      cc_rpc_cors = (\<lambda>_. Inr None), cc_default_heap_pages = Inr None,
      cc_force_authoring = Inr False, cc_disable_grandpa = Inr False,
      cc_max_runtime_instances = Inr None, cc_announce_block = Inr True,
      cc_telemetry_endpoints = (\<lambda>_. Inr None), cc_node_name = Inr ''relay''\<rparr>"

definition reference_node ::
  "(Extensions option, string, (string, string, string) CliConfiguration) node_env" where
  "reference_node =
     \<lparr>WASM_BINARY = Some [0, 97, 115, 109], from_json_file = (\<lambda>_. Inl ''no such file''),
      path_from = (\<lambda>s. [s]),
      get_extension = (\<lambda>spec. case spec of Built s \<Rightarrow> Some (extensions s) | FromJson e \<Rightarrow> e),
      polkadot_load_spec = (\<lambda>_. Inr ''rococo-local''), executable_name = ''node'',
      SUBSTRATE_CLI_IMPL_VERSION = ''0.1.0'', CARGO_PKG_AUTHORS = ''authors'',
      parse_from = (\<lambda>_. Some sample_base)\<rparr>"

section \<open>The environment interface\<close>

text \<open>The extension of a specification that was built with one is that one.\<close>

locale node_laws =
  fixes N :: "('j, 'rspec, 'base) node_env"
  assumes built_extension: "get_extension N (Built s) = Some (extensions s)"
begin

lemma built_try_get: "Extensions_try_get N (Built s) = Some (extensions s)"
  by (simp add: Extensions_try_get_def built_extension)

end

lemma reference_node_laws: "node_laws reference_node"
  by unfold_locales (simp add: reference_node_def)

interpretation reference_cli: node_laws reference_node
  by (rule reference_node_laws)

section \<open>Lemmas\<close>

text \<open>
  Opening a specification: only the environment of the build decides between the two outcomes
  of a built-in configuration.
\<close>

lemma development_config_simps:
  "WASM_BINARY N = None \<Longrightarrow> \<exists>p. development_config E N = Inl p"
  "WASM_BINARY N = Some wasm \<Longrightarrow> \<exists>s. development_config E N = Inr s"
  by (simp_all add: development_config_def wasm_binary_def Let_def)

lemma local_testnet_config_simps:
  "WASM_BINARY N = None \<Longrightarrow> \<exists>p. local_testnet_config E N = Inl p"
  "WASM_BINARY N = Some wasm \<Longrightarrow> \<exists>s. local_testnet_config E N = Inr s"
  by (simp_all add: local_testnet_config_def wasm_binary_def Let_def)

lemma development_config_fits: "development_config E N = Inr s \<Longrightarrow> fits_runtime E s"
  by (cases "WASM_BINARY N") (auto simp: development_config_def wasm_binary_def fits_runtime_def)

lemma local_testnet_config_fits: "local_testnet_config E N = Inr s \<Longrightarrow> fits_runtime E s"
  by (cases "WASM_BINARY N") (auto simp: local_testnet_config_def wasm_binary_def fits_runtime_def)

lemma load_spec_builtin_eq:
  assumes "name \<in> builtin_ids"
  obtains spec where "load_spec E N name = (case spec of Inl p \<Rightarrow> Inl p | Inr s \<Rightarrow> Inr (Inr (Built s)))"
    and "spec \<in> {development_config E N, local_testnet_config E N}"
  using assms by (auto simp: load_spec_def builtin_ids_def)

lemma load_spec_builtin:
  assumes "name \<in> builtin_ids" "WASM_BINARY N = Some wasm"
  shows "\<exists>s. load_spec E N name = Inr (Inr (Built s)) \<and> fits_runtime E s"
  using assms(1)
proof (rule load_spec_builtin_eq [of _ E N])
  fix spec
  assume "load_spec E N name = (case spec of Inl p \<Rightarrow> Inl p | Inr s \<Rightarrow> Inr (Inr (Built s)))"
    and "spec \<in> {development_config E N, local_testnet_config E N}"
  then show ?thesis
    using development_config_simps(2) [OF assms(2), of E] local_testnet_config_simps(2) [OF assms(2), of E]
    by (auto dest: development_config_fits local_testnet_config_fits)
qed

lemma load_spec_unbuilt:
  assumes "name \<in> builtin_ids" "WASM_BINARY N = None"
  shows "\<exists>p. load_spec E N name = Inl p"
  using assms(1)
proof (rule load_spec_builtin_eq [of _ E N])
  fix spec
  assume "load_spec E N name = (case spec of Inl p \<Rightarrow> Inl p | Inr s \<Rightarrow> Inr (Inr (Built s)))"
    and "spec \<in> {development_config E N, local_testnet_config E N}"
  then show ?thesis
    using development_config_simps(1) [OF assms(2), of E] local_testnet_config_simps(1) [OF assms(2), of E]
    by auto
qed

lemma load_spec_file:
  "name \<notin> builtin_ids \<Longrightarrow> load_spec E N name =
     (case from_json_file N (path_from N name) of
        Inl e \<Rightarrow> Inr (Inl e) | Inr j \<Rightarrow> Inr (Inr (FromJson j)))"
  by (simp add: load_spec_def builtin_ids_def)

lemma load_spec_Built:
  assumes "load_spec E N name = Inr (Inr (Built s))"
  shows "fits_runtime E s"
proof (cases "name \<in> builtin_ids")
  case True
  with assms load_spec_builtin [OF True, of N _ E] load_spec_unbuilt [OF True, of N E]
  show ?thesis by (cases "WASM_BINARY N") auto
next
  case False
  with assms show ?thesis by (simp add: load_spec_file split: sum.splits)
qed

text \<open>The relay chain node and a parachain node on the usual ports can share a host.\<close>

lemma relay_ports_distinct:
  "distinct [p2p_listen_port RelayChainCli_defaults, rpc_listen_port RelayChainCli_defaults,
     prometheus_listen_port RelayChainCli_defaults, 30333, 9944, 9615]"
  by (simp add: RelayChainCli_defaults_def)

section \<open>Properties\<close>

text \<open>
  Loading a specification: the four built-in ids never reach the file system and fail only
  by the panic of a binary without runtime; every other id is read as a file, whose error is
  returned, and never panics.
\<close>

theorem load_spec_outcomes:
  "((\<exists>p. cli_load_spec (Cli_SubstrateCli E N) name = Inl p) \<longleftrightarrow> name \<in> builtin_ids \<and> WASM_BINARY N = None) \<and>
   ((\<exists>s. cli_load_spec (Cli_SubstrateCli E N) name = Inr (Inr (Built s))) \<longleftrightarrow>
      name \<in> builtin_ids \<and> WASM_BINARY N \<noteq> None) \<and>
   (cli_load_spec (Cli_SubstrateCli E N) name = Inr (Inl e) \<longleftrightarrow>
      name \<notin> builtin_ids \<and> from_json_file N (path_from N name) = Inl e) \<and>
   (cli_load_spec (Cli_SubstrateCli E N) name = Inr (Inr (FromJson j)) \<longleftrightarrow>
      name \<notin> builtin_ids \<and> from_json_file N (path_from N name) = Inr j)"
proof (cases "name \<in> builtin_ids")
  case True
  then show ?thesis
    using load_spec_builtin [OF True, of N _ E] load_spec_unbuilt [OF True, of N E]
    by (cases "WASM_BINARY N") (auto simp: Cli_SubstrateCli_def)
next
  case False
  then show ?thesis by (auto simp: Cli_SubstrateCli_def load_spec_file split: sum.splits)
qed

text \<open>
  C37.  The built-in specifications fit the runtime: the preset they name is one the runtime
  provides, its configuration is well formed and for the parachain id of the specification, and
  the properties shown to wallets, where there are any, agree with the runtime (address prefix,
  decimals of a \<open>UNIT\<close>).
\<close>

theorem builtin_specs_match_runtime:
  assumes "genesis_laws E" and "load_spec E N name = Inr (Inr (Built s))"
  shows "(\<exists>g j t. to_value E g = Some j \<and> json_to_string E j = Some t \<and>
      get_preset E (PresetId_from E (genesis_preset s)) = Inr (Some (map of_char t)) \<and>
      genesis_wf g \<and> parachain_id (parachain_info g) = para_id (extensions s)) \<and>
    (\<forall>ps. properties s = Some ps \<longrightarrow>
      ps ''ss58Format'' = Some (JNumber (uint SS58Prefix)) \<and>
      (\<exists>d. ps ''tokenDecimals'' = Some (JNumber (int d)) \<and> 10 ^ d = unat UNIT))"
proof -
  note built = load_spec_Built [OF assms(2), unfolded fits_runtime_def]
  have "PresetId_from E (genesis_preset s) \<in> set (preset_names E)"
    using built by (auto simp: preset_names_def)
  from genesis_laws.preset_value [OF assms(1) this] obtain g j t where
    "to_value E g = Some j" "json_to_string E j = Some t" "genesis_wf g"
    "get_preset E (PresetId_from E (genesis_preset s)) = Inr (Some (map of_char t))"
    "parachain_id (parachain_info g) = 1000"
    by blast
  moreover have "\<exists>d. (12 :: int) = int d \<and> 10 ^ d = unat UNIT"
    by (intro exI [of _ 12]) (simp add: UNIT_def)
  ultimately show ?thesis using built by (auto simp: SS58Prefix_def)
qed

theorem builtin_specs_match_runtime_witness:
  "\<exists>s g j t. load_spec reference_env reference_node ''local'' = Inr (Inr (Built s)) \<and>
     to_value reference_env g = Some j \<and> json_to_string reference_env j = Some t \<and>
     get_preset reference_env (PresetId_from reference_env (genesis_preset s)) =
       Inr (Some (map of_char t)) \<and>
     genesis_wf g \<and> parachain_id (parachain_info g) = para_id (extensions s)"
proof -
  obtain s where s: "load_spec reference_env reference_node ''local'' = Inr (Inr (Built s))"
    using load_spec_builtin [of "''local''" reference_node "[0, 97, 115, 109]" reference_env]
    by (auto simp: builtin_ids_def reference_node_def)
  with builtin_specs_match_runtime [OF reference_env_laws s] show ?thesis by blast
qed

text \<open>
  The relay chain command line is its base command with exactly three methods replaced:
  base path, chain id and \<open>init\<close>, which must never be called; every other method is passed on
  to the method of the same name.
\<close>

theorem relay_cli_overrides:
  "RelayChainCli_CliConfiguration cli =
     (base cli)\<lparr>cc_base_path := RelayChainCli_base_path cli,
       cc_chain_id := RelayChainCli_chain_id cli,
       cc_init := \<lambda>_ _. Inl (Panic
         ''internal error: entered unreachable code: PolkadotCli is never initialized; qed'')\<rparr>"
  by (cases "base cli") (simp add: RelayChainCli_CliConfiguration_def)

text \<open>
  C38.  Where the embedded relay chain runs: a base path or chain id given after the separator is
  used.  Otherwise the base path is the directory \<open>polkadot\<close> below the one of the parachain, and
  the chain is the one that the extension of the parachain's specification names, for
  specifications read from a file as for built-in ones (the empty id when there is no extension);
  for the built-in ones that is \<open>rococo-local\<close>.
\<close>

theorem relay_chain_fallbacks:
  assumes "node_laws N" and "RelayChainCli_new N cfg args = Some cli"
    and "cc_shared_base_path (base cli) = Inr given_path"
    and "cc_chain_id (base cli) dev = Inr given_id"
  shows "cc_base_path (RelayChainCli_CliConfiguration cli) =
      Inr (Some (case given_path of Some p \<Rightarrow> p | None \<Rightarrow> config_base_path cfg @ [''polkadot''])) \<and>
    (given_id \<noteq> [] \<longrightarrow> cc_chain_id (RelayChainCli_CliConfiguration cli) dev = Inr given_id) \<and>
    (given_id = [] \<longrightarrow> cc_chain_id (RelayChainCli_CliConfiguration cli) dev =
      Inr (case get_extension N (config_chain_spec cfg) of
             Some ext \<Rightarrow> relay_chain ext | None \<Rightarrow> [])) \<and>
    (given_id = [] \<and> load_spec E N name = Inr (Inr (Built s)) \<and> config_chain_spec cfg = Built s \<longrightarrow>
      cc_chain_id (RelayChainCli_CliConfiguration cli) dev = Inr ''rococo-local'')"
proof (intro conjI impI)
  have cli: "base_path cli = Some (config_base_path cfg @ [''polkadot''])"
    "chain_id cli = map_option relay_chain (get_extension N (config_chain_spec cfg))"
    using assms(2)
    by (auto simp: RelayChainCli_new_def Extensions_try_get_def Let_def path_join_def
        split: option.splits)
  show "cc_base_path (RelayChainCli_CliConfiguration cli) =
      Inr (Some (case given_path of Some p \<Rightarrow> p | None \<Rightarrow> config_base_path cfg @ [''polkadot'']))"
    using assms(3) cli(1)
    by (simp add: RelayChainCli_CliConfiguration_def RelayChainCli_base_path_def split: option.split)
  show "cc_chain_id (RelayChainCli_CliConfiguration cli) dev = Inr given_id" if "given_id \<noteq> []"
    using assms(4) that by (simp add: RelayChainCli_CliConfiguration_def RelayChainCli_chain_id_def)
  show extension: "cc_chain_id (RelayChainCli_CliConfiguration cli) dev =
      Inr (case get_extension N (config_chain_spec cfg) of Some ext \<Rightarrow> relay_chain ext | None \<Rightarrow> [])"
    if "given_id = []"
    using assms(4) cli(2) that
    by (simp add: RelayChainCli_CliConfiguration_def RelayChainCli_chain_id_def split: option.split)
  show "cc_chain_id (RelayChainCli_CliConfiguration cli) dev = Inr ''rococo-local''"
    if "given_id = [] \<and> load_spec E N name = Inr (Inr (Built s)) \<and> config_chain_spec cfg = Built s"
    using extension that load_spec_Built [of E N name s, unfolded fits_runtime_def]
      node_laws.built_extension [OF assms(1), of s]
    by simp
qed

theorem relay_chain_fallbacks_witness:
  "\<exists>s cli. load_spec reference_env reference_node ''local'' = Inr (Inr (Built s)) \<and>
     RelayChainCli_new reference_node \<lparr>config_chain_spec = Built s, config_base_path = [''data'']\<rparr> [] =
       Some cli \<and>
     cc_base_path (RelayChainCli_CliConfiguration cli) = Inr (Some [''data'', ''polkadot'']) \<and>
     cc_chain_id (RelayChainCli_CliConfiguration cli) False = Inr ''rococo-local''"
proof -
  obtain s where s: "load_spec reference_env reference_node ''local'' = Inr (Inr (Built s))"
    using load_spec_builtin [of "''local''" reference_node "[0, 97, 115, 109]" reference_env]
    by (auto simp: builtin_ids_def reference_node_def)
  let ?cfg = "\<lparr>config_chain_spec = Built s, config_base_path = [''data'']\<rparr>"
  obtain cli where cli: "RelayChainCli_new reference_node ?cfg [] = Some cli"
    and b: "base cli = sample_base"
    by (simp add: RelayChainCli_new_def Let_def reference_node_def)
  have "cc_shared_base_path (base cli) = Inr None" "cc_chain_id (base cli) False = Inr []"
    by (simp_all add: b sample_base_def)
  from relay_chain_fallbacks [OF reference_node_laws cli this, of reference_env "''local''" s] s cli
  show ?thesis by auto
qed

end
