(* ===== verification/Node_Effects.thy ===== *)
theory Node_Effects
  imports Frame_Prelude "HOL-Library.Sublist"
begin

text \<open>
  Effectful code of the node.  A computation is its outcome together with the list of the
  effects it has had, in order: calls into the SDK, tasks spawned, files written.  A call into the
  SDK is recorded as an effect whether it succeeds or not.  The source's \<open>?\<close> is \<open>bind_io\<close>: an
  error, a panic or the end of the process stops the rest.
\<close>

section \<open>Computations\<close>

datatype ('x, 'a) outcome = Ok 'a | Err 'x | Panicked Panic | Exited

type_synonym ('ev, 'x, 'a) io = "('x, 'a) outcome \<times> 'ev list"

definition ret :: "'a \<Rightarrow> ('ev, 'x, 'a) io" where
  "ret a = (Ok a, [])"

definition raise :: "'x \<Rightarrow> ('ev, 'x, 'a) io" where
  "raise e = (Err e, [])"

definition panic :: "string \<Rightarrow> ('ev, 'x, 'a) io" where
  "panic s = (Panicked (Panic s), [])"

definition exit_io :: "('ev, 'x, 'a) io" where
  "exit_io = (Exited, [])"

definition emit :: "'ev \<Rightarrow> ('ev, 'x, unit) io" where
  "emit ev = (Ok (), [ev])"

definition call_io :: "'ev \<Rightarrow> 'x + 'a \<Rightarrow> ('ev, 'x, 'a) io" where
  "call_io ev r = (case r of Inl e \<Rightarrow> Err e | Inr a \<Rightarrow> Ok a, [ev])"

definition bind_io :: "('ev, 'x, 'a) io \<Rightarrow> ('a \<Rightarrow> ('ev, 'x, 'b) io) \<Rightarrow> ('ev, 'x, 'b) io" where
  "bind_io m f =
     (case fst m of
        Ok a \<Rightarrow> (fst (f a), snd m @ snd (f a))
      | Err e \<Rightarrow> (Err e, snd m)
      | Panicked p \<Rightarrow> (Panicked p, snd m)
      | Exited \<Rightarrow> (Exited, snd m))"

definition when_io :: "bool \<Rightarrow> ('ev, 'x, unit) io \<Rightarrow> ('ev, 'x, unit) io" where
  "when_io b m = (if b then m else ret ())"

text \<open>An error converted, and effects seen as effects of a caller.\<close>

primrec map_err_outcome :: "('x \<Rightarrow> 'y) \<Rightarrow> ('x, 'a) outcome \<Rightarrow> ('y, 'a) outcome" where
  "map_err_outcome f (Ok a) = Ok a"
| "map_err_outcome f (Err e) = Err (f e)"
| "map_err_outcome f (Panicked p) = Panicked p"
| "map_err_outcome f Exited = Exited"

definition embed_io :: "('ev \<Rightarrow> 'fv) \<Rightarrow> ('x \<Rightarrow> 'y) \<Rightarrow> ('ev, 'x, 'a) io \<Rightarrow> ('fv, 'y, 'a) io" where
  "embed_io g f m = (map_err_outcome f (fst m), map g (snd m))"

text \<open>The value of an \<open>expect\<close>.\<close>

definition expect_io :: "string \<Rightarrow> 'a option \<Rightarrow> ('ev, 'x, 'a) io" where
  "expect_io msg v = (case v of None \<Rightarrow> panic msg | Some a \<Rightarrow> ret a)"

section \<open>Properties of computations\<close>

text \<open>Every effect is in \<open>P\<close>.\<close>

definition effects_in :: "('ev \<Rightarrow> bool) \<Rightarrow> ('ev, 'x, 'a) io \<Rightarrow> bool" where
  "effects_in P m \<longleftrightarrow> (\<forall>ev \<in> set (snd m). P ev)"

text \<open>
  A computation stops at a failure: \<open>F ev\<close> is the error with which the call \<open>ev\<close> answers, if it
  does.  When the outcome is an error, the last call answered with this error and no call before it
  failed; otherwise no call failed at all.  So a failed call is never followed by anything, no
  error is swallowed, and no error comes from nowhere.
\<close>

definition stops_at_failure :: "('ev \<Rightarrow> 'x option) \<Rightarrow> ('ev, 'x, 'a) io \<Rightarrow> bool" where
  "stops_at_failure F m \<longleftrightarrow>
     (case fst m of
        Err e \<Rightarrow> \<exists>before ev. snd m = before @ [ev] \<and> F ev = Some e \<and> (\<forall>ev' \<in> set before. F ev' = None)
      | _ \<Rightarrow> \<forall>ev \<in> set (snd m). F ev = None)"

definition no_panic :: "('ev, 'x, 'a) io \<Rightarrow> bool" where
  "no_panic m \<longleftrightarrow> (\<forall>p. fst m \<noteq> Panicked p) \<and> fst m \<noteq> Exited"

text \<open>
  A run follows a protocol, a list of phases, when its effects go through exactly these phases if
  it succeeds, and through the first of them if it stops early.
\<close>

definition follows :: "('ev \<Rightarrow> 'p) \<Rightarrow> 'p list \<Rightarrow> ('ev, 'x, 'a) io \<Rightarrow> bool" where
  "follows ph xs m \<longleftrightarrow>
     (case fst m of Ok _ \<Rightarrow> map ph (snd m) = xs | _ \<Rightarrow> prefix (map ph (snd m)) xs)"

named_theorems io_defs \<open>definitions of the basic computations\<close>
named_theorems io_rules \<open>introduction rules for properties of computations\<close>

lemmas basic_io_defs [io_defs] = ret_def raise_def panic_def exit_io_def emit_def call_io_def expect_io_def

subsection \<open>Laws\<close>

lemma bind_ret [simp]: "bind_io (ret a) f = f a"
  by (simp add: bind_io_def ret_def)

lemma bind_ret_right: "bind_io m ret = m"
  by (cases m; cases "fst m") (simp_all add: bind_io_def ret_def)

lemma bind_assoc: "bind_io (bind_io m f) g = bind_io m (\<lambda>a. bind_io (f a) g)"
proof (cases "fst m")
  case (Ok a)
  then show ?thesis by (cases "fst (f a)") (simp_all add: bind_io_def)
qed (simp_all add: bind_io_def)

lemma bind_emit: "bind_io (emit ev) f = (fst (f ()), ev # snd (f ()))"
  by (simp add: bind_io_def emit_def)

lemma bind_call [simp]:
  "bind_io (call_io ev (Inl e)) f = (Err e, [ev])"
  "bind_io (call_io ev (Inr a)) f = (fst (f a), ev # snd (f a))"
  by (simp_all add: bind_io_def call_io_def)

lemma outcome_raise [simp]: "fst (raise e) = Err e" "snd (raise e) = []"
  by (simp_all add: raise_def)

lemma outcome_ret [simp]: "fst (ret a) = Ok a" "snd (ret a) = []"
  by (simp_all add: ret_def)

lemma bind_prefix [simp]: "bind_io (Ok a, t) f = (fst (f a), t @ snd (f a))"
  by (simp add: bind_io_def)

lemma bind_raise [simp]: "bind_io (raise e) f = raise e"
  by (simp add: bind_io_def raise_def)

lemma bind_keeps_effect: "ev \<in> set (snd m) \<Longrightarrow> ev \<in> set (snd (bind_io m f))"
  by (cases "fst m") (simp_all add: bind_io_def)

subsection \<open>Inversion\<close>

text \<open>A sequence returns exactly when both parts do; its effects are theirs, in order.\<close>

lemma bind_Ok:
  "bind_io m f = (Ok b, t) \<longleftrightarrow> (\<exists>a t1 t2. m = (Ok a, t1) \<and> f a = (Ok b, t2) \<and> t = t1 @ t2)"
proof (cases "fst m")
  case (Ok a)
  then show ?thesis by (cases m; cases "f a") (auto simp: bind_io_def)
qed (auto simp: bind_io_def)

lemma bind_OkE:
  assumes "bind_io m f = (Ok b, t)"
  obtains a t1 t2 where "m = (Ok a, t1)" "f a = (Ok b, t2)" "t = t1 @ t2"
  using assms by (auto simp: bind_Ok)

lemma fst_bind_Ok: "fst (bind_io m f) = Ok b \<longleftrightarrow> (\<exists>a. fst m = Ok a \<and> fst (f a) = Ok b)"
  by (cases "fst m") (simp_all add: bind_io_def)

lemma ret_Ok: "ret a = (Ok b, t) \<longleftrightarrow> a = b \<and> t = []"
  by (auto simp: ret_def)

lemma emit_Ok: "emit ev = (Ok u, t) \<longleftrightarrow> t = [ev]"
  by (auto simp: emit_def)

lemma call_Ok: "call_io ev r = (Ok a, t) \<longleftrightarrow> r = Inr a \<and> t = [ev]"
  by (auto simp: call_io_def split: sum.splits)

lemma when_Ok: "when_io b m = (Ok u, t) \<longleftrightarrow> (if b then m = (Ok (), t) else t = [])"
  by (auto simp: when_io_def ret_def)

lemma expect_Ok: "expect_io s v = (Ok a, t) \<longleftrightarrow> v = Some a \<and> t = []"
  by (auto simp: expect_io_def panic_def ret_def split: option.splits)

lemma exit_Ok: "exit_io \<noteq> (Ok a, t)"
  by (simp add: exit_io_def)

lemma raise_Ok: "raise e \<noteq> (Ok a, t)"
  by (simp add: raise_def)

lemma embed_Ok: "embed_io g f m = (Ok a, t) \<longleftrightarrow> (\<exists>t'. m = (Ok a, t') \<and> t = map g t')"
  by (cases m; cases "fst m") (auto simp: embed_io_def)

lemmas io_Ok = ret_Ok emit_Ok call_Ok when_Ok expect_Ok exit_Ok raise_Ok embed_Ok

subsection \<open>Rules for properties\<close>

lemma effects_bind [io_rules]:
  "effects_in P m \<Longrightarrow> (\<And>a. effects_in P (f a)) \<Longrightarrow> effects_in P (bind_io m f)"
  by (cases "fst m") (auto simp: effects_in_def bind_io_def)

lemma effects_basic [io_rules]:
  "effects_in P (ret a)" "effects_in P (raise e)" "effects_in P (panic s)"
  "effects_in P (expect_io s v)" "effects_in P exit_io"
  "P ev \<Longrightarrow> effects_in P (emit ev)" "P ev \<Longrightarrow> effects_in P (call_io ev r)"
  "(b \<Longrightarrow> effects_in P m') \<Longrightarrow> effects_in P (when_io b m')"
  by (auto simp: effects_in_def io_defs when_io_def split: option.split)

lemma effects_cases [io_rules]:
  "(\<And>a b. effects_in P (f a b)) \<Longrightarrow> effects_in P (case p of (a, b) \<Rightarrow> f a b)"
  "effects_in P m \<Longrightarrow> (\<And>a. effects_in P (g a)) \<Longrightarrow> effects_in P (case v of None \<Rightarrow> m | Some a \<Rightarrow> g a)"
  "(\<And>a. effects_in P (h a)) \<Longrightarrow> (\<And>b. effects_in P (k b)) \<Longrightarrow> effects_in P (case r of Inl a \<Rightarrow> h a | Inr b \<Rightarrow> k b)"
  "effects_in P m \<Longrightarrow> effects_in P m' \<Longrightarrow> effects_in P (if c then m else m')"
  by (auto split: prod.split option.split sum.split)

lemma effects_embed: "effects_in P (embed_io g f m) \<longleftrightarrow> effects_in (\<lambda>ev. P (g ev)) m"
  by (simp add: effects_in_def embed_io_def)

lemma stops_bind [io_rules]:
  assumes "stops_at_failure F m" and "\<And>a. stops_at_failure F (f a)"
  shows "stops_at_failure F (bind_io m f)"
proof (cases "fst m")
  case (Ok a)
  with assms(1) have before: "\<forall>ev \<in> set (snd m). F ev = None" by (simp add: stops_at_failure_def)
  show ?thesis
  proof (cases "fst (f a)")
    case (Err e)
    with assms(2) [of a] obtain tr ev where "snd (f a) = tr @ [ev]" "F ev = Some e"
      "\<forall>ev' \<in> set tr. F ev' = None"
      by (auto simp: stops_at_failure_def)
    with Ok Err before have "snd (bind_io m f) = (snd m @ tr) @ [ev]" "F ev = Some e"
      "\<forall>ev' \<in> set (snd m @ tr). F ev' = None" "fst (bind_io m f) = Err e"
      by (auto simp: bind_io_def)
    then show ?thesis unfolding stops_at_failure_def by fastforce
  qed (use Ok before assms(2) [of a] in \<open>auto simp: stops_at_failure_def bind_io_def\<close>)
qed (use assms(1) in \<open>auto simp: stops_at_failure_def bind_io_def\<close>)

lemma stops_basic [io_rules]:
  "stops_at_failure F (ret a)" "stops_at_failure F (panic s)" "stops_at_failure F (expect_io s v)"
  "F ev = None \<Longrightarrow> stops_at_failure F (emit ev)"
  "F ev = (case r of Inl e \<Rightarrow> Some e | Inr _ \<Rightarrow> None) \<Longrightarrow> stops_at_failure F (call_io ev r)"
  "(b \<Longrightarrow> stops_at_failure F m') \<Longrightarrow> stops_at_failure F (when_io b m')"
  by (auto simp: stops_at_failure_def io_defs when_io_def split: option.splits sum.splits)

lemma stops_cases [io_rules]:
  "(\<And>a b. stops_at_failure F (f a b)) \<Longrightarrow> stops_at_failure F (case p of (a, b) \<Rightarrow> f a b)"
  "stops_at_failure F m \<Longrightarrow> (\<And>a. stops_at_failure F (g a)) \<Longrightarrow>
     stops_at_failure F (case v of None \<Rightarrow> m | Some a \<Rightarrow> g a)"
  "(\<And>a. stops_at_failure F (h a)) \<Longrightarrow> (\<And>b. stops_at_failure F (k b)) \<Longrightarrow>
     stops_at_failure F (case r of Inl a \<Rightarrow> h a | Inr b \<Rightarrow> k b)"
  "stops_at_failure F m \<Longrightarrow> stops_at_failure F m' \<Longrightarrow> stops_at_failure F (if c then m else m')"
  by (auto split: prod.split option.split sum.split)

text \<open>A failed call in the trace is the last effect, and its error is the outcome.\<close>

lemma stops_failed_call:
  assumes "stops_at_failure F m" and "snd m = before @ ev # after" and "F ev = Some e"
  shows "fst m = Err e \<and> after = [] \<and> (\<forall>ev' \<in> set before. F ev' = None)"
proof (cases "fst m")
  case (Err e')
  with assms(1) obtain tr ev' where tr: "snd m = tr @ [ev']" "F ev' = Some e'"
    "\<forall>ev'' \<in> set tr. F ev'' = None"
    by (auto simp: stops_at_failure_def)
  with assms(2,3) show ?thesis
    using Err by (cases after rule: rev_cases) auto
qed (use assms in \<open>auto simp: stops_at_failure_def\<close>)

lemma stops_error:
  "stops_at_failure F m \<Longrightarrow> fst m = Err e \<Longrightarrow> \<exists>before ev. snd m = before @ [ev] \<and> F ev = Some e"
  by (auto simp: stops_at_failure_def)

lemma no_panic_bind [io_rules]:
  "no_panic m \<Longrightarrow> (\<And>a. fst m = Ok a \<Longrightarrow> no_panic (f a)) \<Longrightarrow> no_panic (bind_io m f)"
  by (cases "fst m") (auto simp: no_panic_def bind_io_def)

lemma no_panic_basic [io_rules]:
  "no_panic (ret a)" "no_panic (raise e)" "no_panic (emit ev)" "no_panic (call_io ev r)"
  "(b \<Longrightarrow> no_panic m') \<Longrightarrow> no_panic (when_io b m')" "v \<noteq> None \<Longrightarrow> no_panic (expect_io s v)"
  by (auto simp: no_panic_def io_defs when_io_def split: sum.split)


lemma no_panic_cases [io_rules]:
  "(\<And>a b. p = (a, b) \<Longrightarrow> no_panic (f a b)) \<Longrightarrow> no_panic (case p of (a, b) \<Rightarrow> f a b)"
  "no_panic m \<Longrightarrow> (\<And>a. no_panic (g a)) \<Longrightarrow> no_panic (case v of None \<Rightarrow> m | Some a \<Rightarrow> g a)"
  "(\<And>a. no_panic (h a)) \<Longrightarrow> (\<And>b. no_panic (k b)) \<Longrightarrow>
     no_panic (case r of Inl a \<Rightarrow> h a | Inr b \<Rightarrow> k b)"
  "no_panic m \<Longrightarrow> no_panic m' \<Longrightarrow> no_panic (if c then m else m')"
  by (auto split: prod.split option.split sum.split)

subsection \<open>Following a protocol\<close>

lemma follows_bind:
  assumes "follows ph xs m" and "\<And>a. fst m = Ok a \<Longrightarrow> follows ph ys (f a)"
  shows "follows ph (xs @ ys) (bind_io m f)"
proof (cases "fst m")
  case (Ok a)
  with assms(1) assms(2) [OF Ok] show ?thesis
    by (cases "fst (f a)") (auto simp: follows_def bind_io_def)
qed (use assms(1) in \<open>auto simp: follows_def bind_io_def intro: prefix_prefix\<close>)

lemma follows_bind_Nil:
  "follows ph [] m \<Longrightarrow> (\<And>a. fst m = Ok a \<Longrightarrow> follows ph xs (f a)) \<Longrightarrow> follows ph xs (bind_io m f)"
  using follows_bind [of ph "[]" m xs f] by simp

lemma follows_bind_Cons:
  "follows ph [x] m \<Longrightarrow> (\<And>a. fst m = Ok a \<Longrightarrow> follows ph xs (f a)) \<Longrightarrow>
     follows ph (x # xs) (bind_io m f)"
  using follows_bind [of ph "[x]" m xs f] by simp

lemma follows_bind_ret: "follows ph xs m \<Longrightarrow> follows ph xs (bind_io m (\<lambda>a. ret (g a)))"
  by (cases "fst m") (auto simp: follows_def bind_io_def ret_def)

lemma follows_prod:
  "(\<And>a b. p = (a, b) \<Longrightarrow> follows ph xs (f a b)) \<Longrightarrow> follows ph xs (case p of (a, b) \<Rightarrow> f a b)"
  by (cases p) simp

lemma follows_basic:
  "follows ph [] (ret a)" "follows ph [] (raise e)" "follows ph [] (expect_io s v)"
  "ph ev = x \<Longrightarrow> follows ph [x] (emit ev)" "ph ev = x \<Longrightarrow> follows ph [x] (call_io ev r)"
  "(b \<Longrightarrow> follows ph xs m) \<Longrightarrow> follows ph (if b then xs else []) (when_io b m)"
  by (auto simp: follows_def io_defs when_io_def split: option.split sum.split)

lemma fst_call_Ok: "fst (call_io ev r) = Ok a \<longleftrightarrow> r = Inr a"
  by (auto simp: call_io_def split: sum.splits)

end
