(* ===== verification/Node_Service.thy ===== *)
theory Node_Service
  imports Node_Cli Node_Effects
begin

text \<open>
  The service of the collator node, \<open>src/node/src/service.rs\<close>, with the RPC extensions of
  \<open>src/node/src/rpc.rs\<close>.  The source assembles parts of the SDK; the type \<open>'v\<close> stands for all
  values of the SDK that the source passes on without looking into them (clients, backends,
  handles, futures), \<open>'x\<close> for the errors of the SDK, and the functions the source calls are the
  parameter \<open>service_sdk\<close>.  Shared pointers are the values they point to.
\<close>

section \<open>Configuration\<close>

text \<open>The fields of \<open>Configuration\<close> that the node reads, beside those of the command line.\<close>

record ('spec, 'v) NodeConfiguration = "'spec Configuration" +
  telemetry_endpoints :: "'v list option"
  default_heap_pages :: "u64 option"
  wasm_method :: 'v
  max_runtime_instances :: nat
  runtime_cache_size :: u8
  transaction_pool_options :: 'v
  is_authority :: bool
  prometheus_registry :: "'v option"
  network_config :: 'v
  offchain_worker_enabled :: bool
  database :: 'v
  database_path :: "Path option"
  tokio_handle :: 'v

datatype 'x NodeError = Sdk 'x | TelemetryError 'x | Application 'x

datatype HeapAllocStrategy = Dynamic "u32 option" | Static u32

text \<open>Durations are in milliseconds.\<close>

type_synonym Duration = nat

definition duration_from_secs :: "nat \<Rightarrow> Duration" where
  "duration_from_secs n = n * 1000"

definition duration_from_millis :: "nat \<Rightarrow> Duration" where
  "duration_from_millis n = n"

datatype DARecoveryProfile = Collator | FullNode

datatype CollatorSybilResistance = Resistant | Unresistant

section \<open>Arguments of the calls into the SDK\<close>

record 'v ExecutorBuilder =
  execution_method :: 'v
  onchain_heap_alloc_strategy :: HeapAllocStrategy
  offchain_heap_alloc_strategy :: HeapAllocStrategy
  builder_max_runtime_instances :: nat
  builder_runtime_cache_size :: u8

record ('c, 'v) BuildNetworkParams =
  bn_parachain_config :: 'c
  bn_net_config :: 'v
  bn_client :: 'v
  bn_transaction_pool :: 'v
  bn_para_id :: ParaId
  bn_spawn_handle :: 'v
  bn_relay_chain_interface :: 'v
  bn_import_queue :: 'v
  bn_sybil_resistance_level :: CollatorSybilResistance

record 'v OffchainWorkerOptions =
  ow_runtime_api_provider :: 'v
  ow_keystore :: "'v option"
  ow_offchain_db :: "'v option"
  ow_transaction_pool :: "'v option"
  ow_network_provider :: 'v
  ow_is_validator :: bool
  ow_enable_http_requests :: bool
  ow_custom_extensions :: "'v \<Rightarrow> 'v list"

record ('c, 'v, 'x) SpawnTasksParams =
  st_rpc_builder :: "'v \<Rightarrow> 'x + 'v"
  st_client :: 'v
  st_transaction_pool :: 'v
  st_task_manager :: 'v
  st_config :: 'c
  st_keystore :: 'v
  st_backend :: 'v
  st_network :: 'v
  st_sync_service :: 'v
  st_system_rpc_tx :: 'v
  st_tx_handler_controller :: 'v
  st_telemetry :: "'v option"

record 'v StartRelayChainTasksParams =
  rt_client :: 'v
  rt_announce_block :: "'v \<Rightarrow> 'v option \<Rightarrow> 'v"
  rt_para_id :: ParaId
  rt_relay_chain_interface :: 'v
  rt_task_manager :: 'v
  rt_da_recovery_profile :: DARecoveryProfile
  rt_import_queue :: 'v
  rt_relay_chain_slot_duration :: Duration
  rt_recovery_handle :: 'v
  rt_sync_service :: 'v

record ('v, 'x) AuraParams =
  au_create_inherent_data_providers :: "'v \<Rightarrow> unit \<Rightarrow> 'x + unit"
  au_block_import :: 'v
  au_para_client :: 'v
  au_para_backend :: 'v
  au_relay_client :: 'v
  au_code_hash_provider :: "'v \<Rightarrow> 'v option"
  au_keystore :: 'v
  au_collator_key :: 'v
  au_para_id :: ParaId
  au_overseer_handle :: 'v
  au_relay_chain_slot_duration :: Duration
  au_proposer :: 'v
  au_collator_service :: 'v
  au_authoring_duration :: Duration
  au_reinitialize :: bool

section \<open>The SDK\<close>

text \<open>
  \<open>build_network\<close> returns the network, the system RPC channel, the transaction handler
  controller, the network starter and the sync service.
\<close>

record ('c, 'v, 'x) service_sdk =
  TelemetryWorker_new :: "nat \<Rightarrow> 'x + 'v"
  worker_handle :: "'v \<Rightarrow> 'v"
  new_telemetry :: "'v \<Rightarrow> 'v list \<Rightarrow> 'v"
  telemetry_handle :: "'v \<Rightarrow> 'v"
  worker_run :: "'v \<Rightarrow> 'v"
  DEFAULT_HEAP_ALLOC_STRATEGY :: HeapAllocStrategy
  build_executor :: "'v ExecutorBuilder \<Rightarrow> 'v"
  new_full_parts_record_import :: "'c \<Rightarrow> 'v option \<Rightarrow> 'v \<Rightarrow> bool \<Rightarrow> 'x + 'v \<times> 'v \<times> 'v \<times> 'v"
  spawn_handle :: "'v \<Rightarrow> 'v"
  spawn_essential_handle :: "'v \<Rightarrow> 'v"
  BasicPool_new_full :: "'v \<Rightarrow> bool \<Rightarrow> 'v option \<Rightarrow> 'v \<Rightarrow> 'v \<Rightarrow> 'v"
  ParachainBlockImport_new :: "'v \<Rightarrow> 'v \<Rightarrow> 'v"
  timestamp_from_system_time :: 'v
  fully_verifying_import_queue ::
    "'v \<Rightarrow> 'v \<Rightarrow> ('v \<Rightarrow> 'v \<Rightarrow> 'x + 'v) \<Rightarrow> 'v \<Rightarrow> 'v option \<Rightarrow> 'v option \<Rightarrow> 'v"
  ProposerFactory_with_proof_recording :: "'v \<Rightarrow> 'v \<Rightarrow> 'v \<Rightarrow> 'v option \<Rightarrow> 'v option \<Rightarrow> 'v"
  Proposer_new :: "'v \<Rightarrow> 'v"
  CollatorService_new :: "'v \<Rightarrow> 'v \<Rightarrow> ('v \<Rightarrow> 'v option \<Rightarrow> 'v) \<Rightarrow> 'v \<Rightarrow> 'v"
  code_at :: "'v \<Rightarrow> 'v \<Rightarrow> 'x + 'v"
  validation_code_hash :: "'v \<Rightarrow> 'v"
  aura_run :: "('v, 'x) AuraParams \<Rightarrow> 'v"
  prepare_node_config :: "'c \<Rightarrow> 'c"
  FullNetworkConfiguration_new :: "'v \<Rightarrow> 'v option \<Rightarrow> 'v"
  build_relay_chain_interface ::
    "'v \<Rightarrow> 'c \<Rightarrow> 'v option \<Rightarrow> 'v \<Rightarrow> 'v \<Rightarrow> 'v option \<Rightarrow> 'x + 'v \<times> 'v option"
  import_queue_service :: "'v \<Rightarrow> 'v"
  build_network :: "('c, 'v) BuildNetworkParams \<Rightarrow> 'x + 'v \<times> 'v \<times> 'v \<times> 'v \<times> 'v"
  OffchainWorkers_new :: "'v OffchainWorkerOptions \<Rightarrow> 'v"
  OffchainWorkers_run :: "'v \<Rightarrow> 'v \<Rightarrow> 'v \<Rightarrow> 'v"
  keystore_of :: "'v \<Rightarrow> 'v"
  offchain_storage :: "'v \<Rightarrow> 'v option"
  OffchainTransactionPoolFactory_new :: "'v \<Rightarrow> 'v"
  spawn_tasks :: "('c, 'v, 'x) SpawnTasksParams \<Rightarrow> 'x + unit"
  check_hardware :: "'v \<Rightarrow> bool \<Rightarrow> 'x + unit"
  initialize_hwbench_telemetry :: "'v \<Rightarrow> 'v \<Rightarrow> 'v"
  sync_announce_block :: "'v \<Rightarrow> 'v \<Rightarrow> 'v option \<Rightarrow> 'v"
  overseer_handle_of :: "'v \<Rightarrow> 'x + 'v"
  start_relay_chain_tasks :: "'v StartRelayChainTasksParams \<Rightarrow> 'x + unit"
  RpcModule_new :: 'v
  System_rpc :: "'v \<Rightarrow> 'v \<Rightarrow> 'v"
  TransactionPayment_rpc :: "'v \<Rightarrow> 'v"
  rpc_merge :: "'v \<Rightarrow> 'v \<Rightarrow> 'x + 'v"

text \<open>
  The effects: the fallible calls with their arguments, and what happens without an answer.
  \<open>Spawn\<close> carries the handle, the name and the group of the task and its future.
\<close>

datatype ('c, 'v, 'x) Effect =
    NewTelemetryWorker nat
  | NewFullParts 'c "'v option" 'v bool
  | Spawn 'v string "string option" 'v
  | BuildRelayChainInterface 'v 'c "'v option" 'v 'v "'v option"
  | BuildNetwork "('c, 'v) BuildNetworkParams"
  | SpawnTasks "('c, 'v, 'x) SpawnTasksParams"
  | PrintHwbench 'v
  | WarnHardware 'x
  | OverseerHandle 'v
  | StartRelayChainTasks "'v StartRelayChainTasksParams"
  | StartNetwork 'v

type_synonym ('c, 'v, 'x, 'a) service_io = "(('c, 'v, 'x) Effect, 'x NodeError, 'a) io"

section \<open>RPC extensions\<close>

record 'v FullDeps =
  deps_client :: 'v
  deps_pool :: 'v

definition create_full :: "('c, 'v, 'x) service_sdk \<Rightarrow> 'v FullDeps \<Rightarrow> 'x + 'v" where
  "create_full S deps =
     (case rpc_merge S (RpcModule_new S) (System_rpc S (deps_client deps) (deps_pool deps)) of
        Inl e \<Rightarrow> Inl e
      | Inr module1 \<Rightarrow>
          (case rpc_merge S module1 (TransactionPayment_rpc S (deps_client deps)) of
             Inl e \<Rightarrow> Inl e
           | Inr module2 \<Rightarrow> Inr module2))"

section \<open>Partial components\<close>

record 'v PartialComponents =
  pc_backend :: 'v
  pc_client :: 'v
  pc_import_queue :: 'v
  pc_keystore_container :: 'v
  pc_task_manager :: 'v
  pc_transaction_pool :: 'v
  pc_block_import :: 'v
  pc_telemetry :: "'v option"
  pc_telemetry_worker_handle :: "'v option"

definition build_import_queue ::
  "('c, 'v, 'x) service_sdk \<Rightarrow> 'v \<Rightarrow> 'v \<Rightarrow> ('spec, 'v) NodeConfiguration \<Rightarrow> 'v option \<Rightarrow> 'v \<Rightarrow> 'v"
  where
  "build_import_queue S client block_import config telemetry task_manager =
     fully_verifying_import_queue S
       client
       block_import
       (\<lambda>_ _. let timestamp = timestamp_from_system_time S in Inr timestamp)
       (spawn_essential_handle S task_manager)
       (prometheus_registry config)
       telemetry"

text \<open>Telemetry is set up when there are endpoints; an empty list counts as none.\<close>

definition new_telemetry_worker ::
  "(('spec, 'v) NodeConfiguration, 'v, 'x) service_sdk \<Rightarrow> ('spec, 'v) NodeConfiguration \<Rightarrow>
   (('spec, 'v) NodeConfiguration, 'v, 'x, ('v \<times> 'v) option) service_io" where
  "new_telemetry_worker S config =
     (case telemetry_endpoints config of
        None \<Rightarrow> ret None
      | Some endpoints \<Rightarrow>
          if endpoints = [] then ret None
          else
            bind_io (call_io (NewTelemetryWorker 16)
                       (map_sum TelemetryError id (TelemetryWorker_new S 16))) (\<lambda>worker.
            let telemetry = new_telemetry S (worker_handle S worker) endpoints
            in ret (Some (worker, telemetry))))"

text \<open>The cast of the page count from 64 to 32 bits truncates.\<close>

definition heap_alloc_strategy ::
  "('c, 'v, 'x) service_sdk \<Rightarrow> u64 option \<Rightarrow> HeapAllocStrategy" where
  "heap_alloc_strategy S pages =
     (case pages of None \<Rightarrow> DEFAULT_HEAP_ALLOC_STRATEGY S | Some h \<Rightarrow> Static (ucast h))"

definition executor_builder ::
  "('c, 'v, 'x) service_sdk \<Rightarrow> ('spec, 'v) NodeConfiguration \<Rightarrow> 'v ExecutorBuilder" where
  "executor_builder S config =
     (let heap_pages = heap_alloc_strategy S (default_heap_pages config)
      in \<lparr>execution_method = wasm_method config,
          onchain_heap_alloc_strategy = heap_pages,
          offchain_heap_alloc_strategy = heap_pages,
          builder_max_runtime_instances = max_runtime_instances config,
          builder_runtime_cache_size = runtime_cache_size config\<rparr>)"

definition new_partial ::
  "(('spec, 'v) NodeConfiguration, 'v, 'x) service_sdk \<Rightarrow> ('spec, 'v) NodeConfiguration \<Rightarrow>
   (('spec, 'v) NodeConfiguration, 'v, 'x, 'v PartialComponents) service_io" where
  "new_partial S config =
     bind_io (new_telemetry_worker S config) (\<lambda>telemetry.
     let executor = build_executor S (executor_builder S config);
         tel_handle = map_option (\<lambda>(_, telemetry). telemetry_handle S telemetry) telemetry
     in
     bind_io (call_io (NewFullParts config tel_handle executor True)
                (map_sum Sdk id (new_full_parts_record_import S config tel_handle executor True)))
       (\<lambda>(client, backend, keystore_container, task_manager).
     let telemetry_worker_handle = map_option (\<lambda>(worker, _). worker_handle S worker) telemetry
     in
     bind_io (case telemetry of
                None \<Rightarrow> ret None
              | Some (worker, telemetry) \<Rightarrow>
                  bind_io (emit (Spawn (spawn_handle S task_manager) ''telemetry'' None
                                   (worker_run S worker)))
                    (\<lambda>_. ret (Some telemetry)))
       (\<lambda>telemetry.
     let transaction_pool =
           BasicPool_new_full S (transaction_pool_options config) (is_authority config)
             (prometheus_registry config) (spawn_essential_handle S task_manager) client;
         block_import = ParachainBlockImport_new S client backend;
         import_queue =
           build_import_queue S client block_import config
             (map_option (telemetry_handle S) telemetry) task_manager
     in ret \<lparr>pc_backend = backend, pc_client = client, pc_import_queue = import_queue,
             pc_keystore_container = keystore_container, pc_task_manager = task_manager,
             pc_transaction_pool = transaction_pool, pc_block_import = block_import,
             pc_telemetry = telemetry,
             pc_telemetry_worker_handle = telemetry_worker_handle\<rparr>)))"

section \<open>Starting the node\<close>

definition aura_params ::
  "('c, 'v, 'x) service_sdk \<Rightarrow> 'v \<Rightarrow> 'v \<Rightarrow> 'v \<Rightarrow> 'v option \<Rightarrow> 'v option \<Rightarrow> 'v \<Rightarrow> 'v \<Rightarrow> 'v \<Rightarrow> 'v \<Rightarrow>
   Duration \<Rightarrow> ParaId \<Rightarrow> 'v \<Rightarrow> 'v \<Rightarrow> ('v \<Rightarrow> 'v option \<Rightarrow> 'v) \<Rightarrow> ('v, 'x) AuraParams" where
  "aura_params S client backend block_import registry telemetry task_manager
     relay_chain_interface transaction_pool keystore relay_chain_slot_duration para collator_key
     overseer_handle announce_block =
     (let proposer_factory =
            ProposerFactory_with_proof_recording S (spawn_handle S task_manager) client
              transaction_pool registry telemetry;
          proposer = Proposer_new S proposer_factory;
          collator_service =
            CollatorService_new S client (spawn_handle S task_manager) announce_block client
      in \<lparr>au_create_inherent_data_providers = (\<lambda>_ _. Inr ()),
          au_block_import = block_import,
          au_para_client = client,
          au_para_backend = backend,
          au_relay_client = relay_chain_interface,
          au_code_hash_provider =
            (\<lambda>block_hash. case code_at S client block_hash of
                Inl _ \<Rightarrow> None | Inr c \<Rightarrow> Some (validation_code_hash S c)),
          au_keystore = keystore,
          au_collator_key = collator_key,
          au_para_id = para,
          au_overseer_handle = overseer_handle,
          au_relay_chain_slot_duration = relay_chain_slot_duration,
          au_proposer = proposer,
          au_collator_service = collator_service,
          au_authoring_duration = duration_from_millis 2000,
          au_reinitialize = False\<rparr>)"

definition start_consensus ::
  "('c, 'v, 'x) service_sdk \<Rightarrow> 'v \<Rightarrow> 'v \<Rightarrow> 'v \<Rightarrow> 'v option \<Rightarrow> 'v option \<Rightarrow> 'v \<Rightarrow> 'v \<Rightarrow> 'v \<Rightarrow> 'v \<Rightarrow>
   Duration \<Rightarrow> ParaId \<Rightarrow> 'v \<Rightarrow> 'v \<Rightarrow> ('v \<Rightarrow> 'v option \<Rightarrow> 'v) \<Rightarrow> ('c, 'v, 'x, unit) service_io" where
  "start_consensus S client backend block_import registry telemetry task_manager
     relay_chain_interface transaction_pool keystore relay_chain_slot_duration para collator_key
     overseer_handle announce_block =
     (let params =
            aura_params S client backend block_import registry telemetry task_manager
              relay_chain_interface transaction_pool keystore relay_chain_slot_duration para
              collator_key overseer_handle announce_block;
          fut = aura_run S params
      in bind_io (emit (Spawn (spawn_essential_handle S task_manager) ''aura'' None fut))
           (\<lambda>_. ret ()))"

text \<open>The blocks of \<open>start_parachain_node\<close> that depend on the configuration and on the benchmark.\<close>

definition start_offchain_workers ::
  "(('spec, 'v) NodeConfiguration, 'v, 'x) service_sdk \<Rightarrow> ('spec, 'v) NodeConfiguration \<Rightarrow>
   'v PartialComponents \<Rightarrow> 'v \<Rightarrow> (('spec, 'v) NodeConfiguration, 'v, 'x, unit) service_io" where
  "start_offchain_workers S parachain_config params network =
     when_io (offchain_worker_enabled parachain_config)
       (emit (Spawn (spawn_handle S (pc_task_manager params))
          ''offchain-workers-runner'' (Some ''offchain-work'')
          (OffchainWorkers_run S
             (OffchainWorkers_new S
                \<lparr>ow_runtime_api_provider = pc_client params,
                 ow_keystore = Some (keystore_of S (pc_keystore_container params)),
                 ow_offchain_db = offchain_storage S (pc_backend params),
                 ow_transaction_pool =
                   Some (OffchainTransactionPoolFactory_new S (pc_transaction_pool params)),
                 ow_network_provider = network,
                 ow_is_validator = is_authority parachain_config,
                 ow_enable_http_requests = False,
                 ow_custom_extensions = (\<lambda>_. [])\<rparr>)
             (pc_client params)
             (spawn_handle S (pc_task_manager params)))))"

definition report_hwbench ::
  "('c, 'v, 'x) service_sdk \<Rightarrow> bool \<Rightarrow> 'v \<Rightarrow> 'v option \<Rightarrow> 'v option \<Rightarrow> ('c, 'v, 'x, unit) service_io"
  where
  "report_hwbench S validator task_manager telemetry hwbench =
     (case hwbench of
        None \<Rightarrow> ret ()
      | Some bench \<Rightarrow>
          bind_io (emit (PrintHwbench bench)) (\<lambda>_.
          bind_io (case check_hardware S bench False of
                     Inl err \<Rightarrow> when_io validator (emit (WarnHardware err))
                   | Inr _ \<Rightarrow> ret ()) (\<lambda>_.
          case telemetry of
            None \<Rightarrow> ret ()
          | Some tel \<Rightarrow>
              emit (Spawn (spawn_handle S task_manager) ''telemetry_hwbench'' None
                      (initialize_hwbench_telemetry S (telemetry_handle S tel) bench)))))"

text \<open>The branch for validators.\<close>

definition start_collation where
  "start_collation S validator client backend block_import registry telemetry task_manager
     relay_chain_interface transaction_pool keystore_container relay_chain_slot_duration para
     collator_key overseer_handle announce_block =
     when_io validator
       (bind_io (expect_io ''Command line arguments do not allow this. qed'' collator_key) (\<lambda>key.
        start_consensus S client backend block_import registry
          (map_option (telemetry_handle S) telemetry) task_manager relay_chain_interface
          transaction_pool (keystore_of S keystore_container) relay_chain_slot_duration para key
          overseer_handle announce_block))"

text \<open>
  Everything before the network is started; the result is what remains to be used: the network
  starter, the task manager and the client.
\<close>

definition assemble_parachain_node ::
  "(('spec, 'v) NodeConfiguration, 'v, 'x) service_sdk \<Rightarrow> ('spec, 'v) NodeConfiguration \<Rightarrow> 'v \<Rightarrow> 'v \<Rightarrow>
   ParaId \<Rightarrow> 'v option \<Rightarrow> (('spec, 'v) NodeConfiguration, 'v, 'x, 'v \<times> 'v \<times> 'v) service_io" where
  "assemble_parachain_node S config polkadot_config collator_options para hwbench =
     (let parachain_config = prepare_node_config S config in
     bind_io (new_partial S parachain_config) (\<lambda>params.
     let telemetry = pc_telemetry params;
         registry = prometheus_registry parachain_config;
         net_config = FullNetworkConfiguration_new S (network_config parachain_config) registry;
         client = pc_client params;
         backend = pc_backend params;
         task_manager = pc_task_manager params;
         worker = pc_telemetry_worker_handle params
     in
     bind_io (call_io
         (BuildRelayChainInterface polkadot_config parachain_config worker task_manager
            collator_options hwbench)
         (map_sum Application id
            (build_relay_chain_interface S polkadot_config parachain_config worker task_manager
               collator_options hwbench)))
       (\<lambda>(relay_chain_interface, collator_key).
     let validator = is_authority parachain_config;
         transaction_pool = pc_transaction_pool params;
         import_queue_serv = import_queue_service S (pc_import_queue params);
         network_params =
           \<lparr>bn_parachain_config = parachain_config, bn_net_config = net_config,
            bn_client = client, bn_transaction_pool = transaction_pool, bn_para_id = para,
            bn_spawn_handle = spawn_handle S task_manager,
            bn_relay_chain_interface = relay_chain_interface,
            bn_import_queue = pc_import_queue params,
            bn_sybil_resistance_level = Resistant\<rparr>
     in
     bind_io (call_io (BuildNetwork network_params) (map_sum Sdk id (build_network S network_params)))
       (\<lambda>(network, system_rpc_tx, tx_handler_controller, start_network, sync_service).
     bind_io (start_offchain_workers S parachain_config params network) (\<lambda>_.
     let rpc_builder =
           (\<lambda>_. create_full S \<lparr>deps_client = client, deps_pool = transaction_pool\<rparr>);
         tasks =
           \<lparr>st_rpc_builder = rpc_builder, st_client = client,
            st_transaction_pool = transaction_pool, st_task_manager = task_manager,
            st_config = parachain_config,
            st_keystore = keystore_of S (pc_keystore_container params), st_backend = backend,
            st_network = network, st_sync_service = sync_service,
            st_system_rpc_tx = system_rpc_tx,
            st_tx_handler_controller = tx_handler_controller, st_telemetry = telemetry\<rparr>
     in
     bind_io (call_io (SpawnTasks tasks) (map_sum Sdk id (spawn_tasks S tasks))) (\<lambda>_.
     bind_io (report_hwbench S validator task_manager telemetry hwbench) (\<lambda>_.
     let announce_block = (\<lambda>hash data. sync_announce_block S sync_service hash data);
         relay_chain_slot_duration = duration_from_secs 6
     in
     bind_io (call_io (OverseerHandle relay_chain_interface)
         (map_sum Application id (overseer_handle_of S relay_chain_interface)))
       (\<lambda>overseer_handle.
     let relay_tasks =
           \<lparr>rt_client = client, rt_announce_block = announce_block, rt_para_id = para,
            rt_relay_chain_interface = relay_chain_interface, rt_task_manager = task_manager,
            rt_da_recovery_profile = (if validator then Collator else FullNode),
            rt_import_queue = import_queue_serv,
            rt_relay_chain_slot_duration = relay_chain_slot_duration,
            rt_recovery_handle = overseer_handle, rt_sync_service = sync_service\<rparr>
     in
     bind_io (call_io (StartRelayChainTasks relay_tasks)
         (map_sum Sdk id (start_relay_chain_tasks S relay_tasks)))
       (\<lambda>_.
     bind_io
       (start_collation S validator client backend (pc_block_import params) registry telemetry
          task_manager relay_chain_interface transaction_pool (pc_keystore_container params)
          relay_chain_slot_duration para collator_key overseer_handle announce_block)
       (\<lambda>_.
     ret (start_network, task_manager, client)))))))))))"

definition start_parachain_node ::
  "(('spec, 'v) NodeConfiguration, 'v, 'x) service_sdk \<Rightarrow> ('spec, 'v) NodeConfiguration \<Rightarrow> 'v \<Rightarrow> 'v \<Rightarrow>
   ParaId \<Rightarrow> 'v option \<Rightarrow> (('spec, 'v) NodeConfiguration, 'v, 'x, 'v \<times> 'v) service_io" where
  "start_parachain_node S parachain_config polkadot_config collator_options para hwbench =
     bind_io (assemble_parachain_node S parachain_config polkadot_config collator_options para
                hwbench)
       (\<lambda>(start_network, task_manager, client).
     bind_io (emit (StartNetwork start_network)) (\<lambda>_.
     ret (task_manager, client)))"

end
