(* ===== verification/Node_Startup.thy ===== *)
theory Node_Startup
  imports Node_Service
begin

text \<open>
  What a start of the node does: the startup protocol as a list of phases, the laws of the SDK
  that it rests on, and the theorems about \<open>new_partial\<close>, \<open>start_parachain_node\<close> and the RPC
  extensions.
\<close>

section \<open>Which calls fail\<close>

text \<open>The error with which the SDK answers a call, as the node reports it.\<close>

definition answer_error :: "('x \<Rightarrow> 'y) \<Rightarrow> 'x + 'a \<Rightarrow> 'y option" where
  "answer_error f r = (case r of Inl e \<Rightarrow> Some (f e) | Inr _ \<Rightarrow> None)"

fun effect_error :: "('c, 'v, 'x) service_sdk \<Rightarrow> ('c, 'v, 'x) Effect \<Rightarrow> 'x NodeError option" where
  "effect_error S (NewTelemetryWorker n) = answer_error TelemetryError (TelemetryWorker_new S n)"
| "effect_error S (NewFullParts c t e record) =
     answer_error Sdk (new_full_parts_record_import S c t e record)"
| "effect_error S (BuildRelayChainInterface pc c w tm opts hw) =
     answer_error Application (build_relay_chain_interface S pc c w tm opts hw)"
| "effect_error S (BuildNetwork p) = answer_error Sdk (build_network S p)"
| "effect_error S (SpawnTasks p) = answer_error Sdk (spawn_tasks S p)"
| "effect_error S (OverseerHandle r) = answer_error Application (overseer_handle_of S r)"
| "effect_error S (StartRelayChainTasks p) = answer_error Sdk (start_relay_chain_tasks S p)"
| "effect_error S _ = None"

section \<open>The startup protocol\<close>

text \<open>
  The phases of a start and their order, as the configuration, the presence of a benchmark and
  its verdict determine them.
\<close>

datatype Phase =
    TelemetryWorker | ClientParts | TelemetryTask | RelayChainInterface | Network
  | OffchainWorkers | RpcAndPool | HardwareReport | HardwareWarning | HardwareTelemetry
  | Overseer | RelayChainTasks | Consensus | NetworkStart | OtherTask

fun task_phase :: "string \<Rightarrow> Phase" where
  "task_phase name =
     (if name = ''telemetry'' then TelemetryTask
      else if name = ''offchain-workers-runner'' then OffchainWorkers
      else if name = ''telemetry_hwbench'' then HardwareTelemetry
      else if name = ''aura'' then Consensus
      else OtherTask)"

primrec phase_of :: "('c, 'v, 'x) Effect \<Rightarrow> Phase" where
  "phase_of (NewTelemetryWorker n) = TelemetryWorker"
| "phase_of (NewFullParts c t e r) = ClientParts"
| "phase_of (Spawn h name grp fut) = task_phase name"
| "phase_of (BuildRelayChainInterface pc c w tm opts hw) = RelayChainInterface"
| "phase_of (BuildNetwork p) = Network"
| "phase_of (SpawnTasks p) = RpcAndPool"
| "phase_of (PrintHwbench b) = HardwareReport"
| "phase_of (WarnHardware e) = HardwareWarning"
| "phase_of (OverseerHandle r) = Overseer"
| "phase_of (StartRelayChainTasks p) = RelayChainTasks"
| "phase_of (StartNetwork n) = NetworkStart"

definition has_telemetry :: "('spec, 'v) NodeConfiguration \<Rightarrow> bool" where
  "has_telemetry config \<longleftrightarrow> telemetry_endpoints config \<notin> {None, Some []}"

definition too_weak :: "('c, 'v, 'x) service_sdk \<Rightarrow> 'v \<Rightarrow> bool" where
  "too_weak S bench \<longleftrightarrow> (case check_hardware S bench False of Inl _ \<Rightarrow> True | Inr _ \<Rightarrow> False)"

definition partial_phases :: "('spec, 'v) NodeConfiguration \<Rightarrow> Phase list" where
  "partial_phases config =
     (if has_telemetry config then [TelemetryWorker] else []) @ [ClientParts] @
     (if has_telemetry config then [TelemetryTask] else [])"

definition hardware_phases :: "('c, 'v, 'x) service_sdk \<Rightarrow> bool \<Rightarrow> bool \<Rightarrow> 'v option \<Rightarrow> Phase list" where
  "hardware_phases S authority tel hwbench =
     (case hwbench of
        None \<Rightarrow> []
      | Some bench \<Rightarrow>
          HardwareReport # (if too_weak S bench \<and> authority then [HardwareWarning] else []) @
          (if tel then [HardwareTelemetry] else []))"

definition startup_phases ::
  "(('spec, 'v) NodeConfiguration, 'v, 'x) service_sdk \<Rightarrow> ('spec, 'v) NodeConfiguration \<Rightarrow>
   'v option \<Rightarrow> Phase list" where
  "startup_phases S config hwbench =
     partial_phases config @ [RelayChainInterface, Network] @
     (if offchain_worker_enabled config then [OffchainWorkers] else []) @ [RpcAndPool] @
     hardware_phases S (is_authority config) (has_telemetry config) hwbench @
     [Overseer, RelayChainTasks] @ (if is_authority config then [Consensus] else []) @
     [NetworkStart]"

text \<open>What every effect of a start that carries a parachain id or a slot duration looks like.\<close>

definition consensus_effect ::
  "('c, 'v, 'x) service_sdk \<Rightarrow> bool \<Rightarrow> ParaId \<Rightarrow> ('c, 'v, 'x) Effect \<Rightarrow> bool" where
  "consensus_effect S authority para ev \<longleftrightarrow>
     (\<forall>h g fut. ev = Spawn h ''aura'' g fut \<longrightarrow>
        authority \<and>
        (\<exists>tm p. h = spawn_essential_handle S tm \<and> fut = aura_run S p \<and> au_para_id p = para \<and>
           au_authoring_duration p = 2000 \<and> au_relay_chain_slot_duration p = 6000)) \<and>
     (\<forall>p. ev = StartRelayChainTasks p \<longrightarrow>
        rt_para_id p = para \<and> rt_relay_chain_slot_duration p = 6000 \<and>
        rt_da_recovery_profile p = (if authority then Collator else FullNode)) \<and>
     (\<forall>p. ev = BuildNetwork p \<longrightarrow> bn_para_id p = para \<and> bn_sybil_resistance_level p = Resistant)"

text \<open>
  A concrete SDK: values are names, and every call succeeds; an RPC module is the string of its
  methods, one letter each.  A concrete configuration of a collator with telemetry.
\<close>

definition sample_sdk :: "('c, string, string) service_sdk" where
  "sample_sdk =
     \<lparr>TelemetryWorker_new = (\<lambda>_. Inr ''worker''), worker_handle = (\<lambda>w. w @ '' handle''),
      new_telemetry = (\<lambda>_ _. ''telemetry''), telemetry_handle = (\<lambda>t. t @ '' handle''),
      worker_run = (\<lambda>w. ''run '' @ w), DEFAULT_HEAP_ALLOC_STRATEGY = Static 2048,
      build_executor = (\<lambda>_. ''executor''),
      new_full_parts_record_import = (\<lambda>_ _ _ _. Inr (''client'', ''backend'', ''keys'', ''tasks'')),
      spawn_handle = (\<lambda>t. t), spawn_essential_handle = (\<lambda>t. ''essential '' @ t),
      BasicPool_new_full = (\<lambda>_ _ _ _ _. ''pool''), ParachainBlockImport_new = (\<lambda>_ _. ''import''),
      timestamp_from_system_time = ''now'',
      fully_verifying_import_queue = (\<lambda>_ _ _ _ _ _. ''queue''),
      ProposerFactory_with_proof_recording = (\<lambda>_ _ _ _ _. ''factory''),
      Proposer_new = (\<lambda>f. ''proposer''), CollatorService_new = (\<lambda>_ _ _ _. ''collator''),
      code_at = (\<lambda>_ _. Inr ''code''), validation_code_hash = (\<lambda>c. ''hash of '' @ c),
      aura_run = (\<lambda>_. ''aura''), prepare_node_config = (\<lambda>c. c),
      FullNetworkConfiguration_new = (\<lambda>_ _. ''net config''),
      build_relay_chain_interface = (\<lambda>_ _ _ _ _ _. Inr (''relay'', Some ''key'')),
      import_queue_service = (\<lambda>q. q),
      build_network = (\<lambda>_. Inr (''network'', ''rpc tx'', ''tx handler'', ''starter'', ''sync'')),
      OffchainWorkers_new = (\<lambda>_. ''offchain''), OffchainWorkers_run = (\<lambda>w _ _. w),
      keystore_of = (\<lambda>k. k), offchain_storage = (\<lambda>_. None),
      OffchainTransactionPoolFactory_new = (\<lambda>p. p), spawn_tasks = (\<lambda>_. Inr ()),
      check_hardware = (\<lambda>_ _. Inr ()), initialize_hwbench_telemetry = (\<lambda>_ _. ''hwbench''),
      sync_announce_block = (\<lambda>_ h _. h), overseer_handle_of = (\<lambda>_. Inr ''overseer''),
      start_relay_chain_tasks = (\<lambda>_. Inr ()), RpcModule_new = [],
      System_rpc = (\<lambda>_ _. ''ndj''), TransactionPayment_rpc = (\<lambda>_. ''qi''),
      rpc_merge = (\<lambda>m n.
        if set m \<inter> set n = {} then Inr (m @ n) else Inl ''method already registered'')\<rparr>"

abbreviation sample_service ::
  "((unit ChainSpec, string) NodeConfiguration, string, string) service_sdk" where
  "sample_service \<equiv> sample_sdk"

definition sample_node :: "(unit ChainSpec, string) NodeConfiguration" where
  "sample_node =
     \<lparr>config_chain_spec = FromJson (), config_base_path = [''data''],
      telemetry_endpoints = Some [''wss://telemetry''], default_heap_pages = None,
      wasm_method = ''compiled'', max_runtime_instances = 8, runtime_cache_size = 2,
      transaction_pool_options = ''pool options'', is_authority = True,
      prometheus_registry = None, network_config = ''network'',
      offchain_worker_enabled = True, database = ''db'', database_path = Some [''data'', ''db''],
      tokio_handle = ''tokio''\<rparr>"

section \<open>The SDK interface\<close>

text \<open>
  \<open>prepare_node_config\<close> turns off the announcement of blocks, a field that no code here reads;
  and a node that is an authority gets a collator key with the interface to the relay chain.
\<close>

locale service_laws =
  fixes S :: "(('spec, 'v) NodeConfiguration, 'v, 'x) service_sdk"
  assumes prepare_keeps: "prepare_node_config S config = config"
    and authority_key:
      "build_relay_chain_interface S pc config w tm opts hw = Inr (relay, key) \<Longrightarrow>
         is_authority config \<Longrightarrow> key \<noteq> None"

text \<open>
  Merging RPC modules: \<open>methods\<close> are the names a module answers to; merging fails exactly when a
  name is taken, and otherwise joins the names.
\<close>

locale rpc_laws =
  fixes S :: "('c, 'v, 'x) service_sdk"
    and methods :: "'v \<Rightarrow> 'name set"
  assumes new_module: "methods (RpcModule_new S) = {}"
    and merge_ok:
      "methods m \<inter> methods n = {} \<Longrightarrow>
         \<exists>k. rpc_merge S m n = Inr k \<and> methods k = methods m \<union> methods n"
    and merge_clash: "methods m \<inter> methods n \<noteq> {} \<Longrightarrow> \<exists>e. rpc_merge S m n = Inl e"

lemma sample_rpc_laws: "rpc_laws sample_service set"
  by unfold_locales (auto simp: sample_sdk_def)

interpretation sample_rpc: rpc_laws sample_service set
  by (rule sample_rpc_laws)

lemma sample_service_laws: "service_laws sample_sdk"
  by unfold_locales (auto simp: sample_sdk_def)

interpretation sample_service: service_laws sample_service
  by (rule sample_service_laws)

section \<open>Lemmas\<close>

lemma answer_error_Some: "answer_error f r = Some e \<longleftrightarrow> (\<exists>x. r = Inl x \<and> e = f x)"
  by (auto simp: answer_error_def split: sum.splits)

lemma map_sum_Inl: "map_sum f id r = Inl e \<longleftrightarrow> (\<exists>x. r = Inl x \<and> e = f x)"
  by (cases r) auto

lemma map_sum_Inr: "map_sum f id r = Inr a \<longleftrightarrow> r = Inr a"
  by (cases r) auto

lemmas service_defs = start_parachain_node_def assemble_parachain_node_def new_partial_def
  new_telemetry_worker_def start_offchain_workers_def report_hwbench_def start_collation_def start_consensus_def Let_def

lemma startup_stops:
  "stops_at_failure (effect_error S) (start_parachain_node S c pc opts para hw)"
  unfolding service_defs
  by (intro io_rules) (auto simp: answer_error_def split: sum.split)

subsection \<open>The parts of a start\<close>

lemma telemetry_worker_follows:
  "follows phase_of (if has_telemetry c then [TelemetryWorker] else []) (new_telemetry_worker S c)"
proof (cases "has_telemetry c")
  case True
  then obtain eps where "telemetry_endpoints c = Some eps" "eps \<noteq> []"
    by (auto simp: has_telemetry_def)
  with True show ?thesis
    by (auto simp: new_telemetry_worker_def intro!: follows_bind_Cons follows_basic)
next
  case False
  then have "new_telemetry_worker S c = ret None"
    by (auto simp: has_telemetry_def new_telemetry_worker_def)
  with False show ?thesis by (simp add: follows_basic)
qed

lemma telemetry_worker_result:
  "fst (new_telemetry_worker S c) = Ok t \<Longrightarrow> t \<noteq> None \<longleftrightarrow> has_telemetry c"
  by (auto simp: new_telemetry_worker_def has_telemetry_def fst_bind_Ok Let_def ret_def
      split: option.splits if_splits)

lemma telemetry_task_follows:
  "(t \<noteq> None \<longleftrightarrow> b) \<Longrightarrow> follows phase_of (if b then [TelemetryTask] else [])
     (case t of None \<Rightarrow> ret None
      | Some (worker, telemetry) \<Rightarrow>
          bind_io (emit (Spawn h ''telemetry'' None (worker_run S worker))) (\<lambda>_. ret (Some telemetry)))"
  by (auto intro!: follows_bind_ret follows_basic split: option.split prod.split)

lemma new_partial_follows: "follows phase_of (partial_phases c) (new_partial S c)"
  unfolding new_partial_def partial_phases_def Let_def
  by (intro follows_bind telemetry_worker_follows follows_prod follows_bind_ret follows_basic
      telemetry_task_follows) (erule telemetry_worker_result | simp)+

lemma new_partial_telemetry:
  assumes "fst (new_partial S c) = Ok params"
  shows "pc_telemetry params \<noteq> None \<longleftrightarrow> has_telemetry c"
  using assms telemetry_worker_result [of S c]
  by (auto simp: new_partial_def fst_bind_Ok Let_def ret_def emit_def split: option.splits prod.splits)

lemma offchain_follows:
  "follows phase_of (if offchain_worker_enabled c then [OffchainWorkers] else [])
     (start_offchain_workers S c params network)"
  unfolding start_offchain_workers_def by (intro follows_basic) simp

lemma hwbench_follows:
  assumes tel: "telemetry \<noteq> None \<longleftrightarrow> b"
  shows "follows phase_of (hardware_phases S validator b hwbench)
     (report_hwbench S validator tm telemetry hwbench)"
proof (cases hwbench)
  case (Some bench)
  have warn: "follows phase_of (if too_weak S bench \<and> validator then [HardwareWarning] else [])
      (case check_hardware S bench False of
         Inl err \<Rightarrow> when_io validator (emit (WarnHardware err)) | Inr _ \<Rightarrow> ret ())"
    by (cases validator) (auto simp: too_weak_def when_io_def intro!: follows_basic split: sum.split)
  have send: "follows phase_of (if b then [HardwareTelemetry] else [])
      (case telemetry of None \<Rightarrow> ret () | Some tel \<Rightarrow>
         emit (Spawn (spawn_handle S tm) ''telemetry_hwbench'' None
           (initialize_hwbench_telemetry S (telemetry_handle S tel) bench)))"
    using tel by (auto intro!: follows_basic split: option.split)
  show ?thesis
    unfolding report_hwbench_def hardware_phases_def Some option.case
    by (intro follows_bind_Cons follows_bind [OF warn] send follows_basic) simp
qed (simp add: report_hwbench_def hardware_phases_def follows_basic)

lemma consensus_follows:
  "follows phase_of [Consensus]
     (start_consensus S client backend bi reg tel tm relay pool ks slot para key overseer announce)"
  unfolding start_consensus_def Let_def by (intro follows_bind_Cons follows_basic) simp

lemma consensus_if_follows:
  "follows phase_of (if validator then [Consensus] else [])
     (start_collation S validator client backend bi reg tel tm relay pool ks slot para key overseer announce)"
  unfolding start_collation_def by (intro follows_basic follows_bind_Nil consensus_follows)

lemma assemble_follows:
  assumes "service_laws S"
  shows "follows phase_of
    (partial_phases c @ RelayChainInterface # Network #
       (if offchain_worker_enabled c then [OffchainWorkers] else []) @ RpcAndPool #
       hardware_phases S (is_authority c) (has_telemetry c) hw @ Overseer # RelayChainTasks #
       (if is_authority c then [Consensus] else []))
    (assemble_parachain_node S c pc opts para hw)"
  unfolding assemble_parachain_node_def Let_def service_laws.prepare_keeps [OF assms]
  apply (rule follows_bind [OF new_partial_follows], rule follows_bind_Cons, rule follows_basic, simp)
  apply (rule follows_prod, rule follows_bind_Cons, rule follows_basic, simp)
  apply (rule follows_prod)+
  apply (rule follows_bind [OF offchain_follows], rule follows_bind_Cons, rule follows_basic, simp)
  apply (rule follows_bind, rule hwbench_follows, erule new_partial_telemetry)
  apply (rule follows_bind_Cons, rule follows_basic, simp)
  apply (rule follows_bind_Cons, rule follows_basic, simp)
  apply (rule follows_bind_ret, rule consensus_if_follows)
  done

lemma startup_follows:
  assumes "service_laws S"
  shows "follows phase_of (startup_phases S c hw) (start_parachain_node S c pc opts para hw)"
proof -
  have phases: "startup_phases S c hw =
      (partial_phases c @ RelayChainInterface # Network #
       (if offchain_worker_enabled c then [OffchainWorkers] else []) @ RpcAndPool #
       hardware_phases S (is_authority c) (has_telemetry c) hw @ Overseer # RelayChainTasks #
       (if is_authority c then [Consensus] else [])) @ [NetworkStart]"
    by (simp add: startup_phases_def)
  show ?thesis
    unfolding phases start_parachain_node_def
    by (intro follows_bind [OF assemble_follows [OF assms]] follows_prod follows_bind_ret
        follows_basic) simp
qed

lemma startup_no_panic:
  assumes "service_laws S"
  shows "no_panic (start_parachain_node S c pc opts para hw)"
  unfolding service_defs service_laws.prepare_keeps [OF assms]
  by (intro io_rules)
    (auto simp: fst_call_Ok map_sum_Inr dest: service_laws.authority_key [OF assms])

lemma startup_consensus:
  assumes "service_laws S"
  shows "effects_in (consensus_effect S (is_authority c) para)
    (start_parachain_node S c pc opts para hw)"
  unfolding service_defs service_laws.prepare_keeps [OF assms]
  by (intro io_rules)
    (auto simp: consensus_effect_def aura_params_def Let_def duration_from_secs_def
      duration_from_millis_def)

lemma start_fails_in_assembly:
  assumes "\<And>x. fst (start_parachain_node S c pc opts para hw) \<noteq> Ok x"
  shows "snd (start_parachain_node S c pc opts para hw) = snd (assemble_parachain_node S c pc opts para hw)"
    and "\<And>x. fst (assemble_parachain_node S c pc opts para hw) \<noteq> Ok x"
  using assms unfolding start_parachain_node_def
  by (cases "fst (assemble_parachain_node S c pc opts para hw)";
      auto simp: bind_io_def emit_def ret_def split: prod.splits)+

section \<open>Properties\<close>

text \<open>
  C26.  The startup protocol: a successful start goes through exactly the phases that the
  configuration demands, in their order, so the relay chain is reached before the network is built,
  consensus runs exactly on authorities, and the network starts last.  A start that fails has gone
  through the first of these phases and has not started the network.
\<close>

theorem node_startup_protocol:
  assumes "service_laws S" and "start_parachain_node S c pc opts para hw = (r, trace)"
  shows "(\<exists>x. r = Ok x) \<and> map phase_of trace = startup_phases S c hw \<or>
    (\<forall>x. r \<noteq> Ok x) \<and> prefix (map phase_of trace) (startup_phases S c hw) \<and>
      NetworkStart \<notin> phase_of ` set trace"
proof (cases "\<exists>x. r = Ok x")
  case True
  then show ?thesis
    using startup_follows [OF assms(1), of c hw pc opts para] assms(2) by (auto simp: follows_def)
next
  case False
  then have "\<And>x. fst (start_parachain_node S c pc opts para hw) \<noteq> Ok x" using assms(2) by auto
  from start_fails_in_assembly [OF this] have
    assembly: "trace = snd (assemble_parachain_node S c pc opts para hw)"
    "\<And>x. fst (assemble_parachain_node S c pc opts para hw) \<noteq> Ok x"
    using assms(2) by auto
  with assemble_follows [OF assms(1), of c hw pc opts para]
  have "prefix (map phase_of trace)
      (partial_phases c @ RelayChainInterface # Network #
       (if offchain_worker_enabled c then [OffchainWorkers] else []) @ RpcAndPool #
       hardware_phases S (is_authority c) (has_telemetry c) hw @ Overseer # RelayChainTasks #
       (if is_authority c then [Consensus] else []))"
    by (auto simp: follows_def split: outcome.splits)
  from set_mono_prefix [OF this] have "NetworkStart \<notin> phase_of ` set trace"
    by (auto simp: partial_phases_def hardware_phases_def split: if_splits option.splits)
  then show ?thesis
    using False startup_follows [OF assms(1), of c hw pc opts para] assms(2)
    by (auto simp: follows_def split: outcome.splits)
qed

lemma sample_start:
  "\<exists>trace. start_parachain_node sample_service sample_node ''relay config'' ''options'' 1000 None =
     (Ok (''tasks'', ''client''), trace)"
  unfolding service_defs
  by (simp add: sample_sdk_def sample_node_def bind_io_def io_defs when_io_def
      aura_params_def Let_def)

theorem node_startup_protocol_witness:
  "\<exists>trace. start_parachain_node sample_service sample_node ''relay config'' ''options'' 1000 None =
     (Ok (''tasks'', ''client''), trace) \<and>
   map phase_of trace =
     [TelemetryWorker, ClientParts, TelemetryTask, RelayChainInterface, Network, OffchainWorkers,
      RpcAndPool, Overseer, RelayChainTasks, Consensus, NetworkStart]"
proof -
  obtain trace where t: "start_parachain_node sample_service sample_node ''relay config'' ''options''
      1000 None = (Ok (''tasks'', ''client''), trace)"
    using sample_start by blast
  from node_startup_protocol [OF sample_service_laws t] t show ?thesis
    by (auto simp: startup_phases_def partial_phases_def hardware_phases_def has_telemetry_def
        sample_node_def)
qed

text \<open>
  C27.  Failures of a start: a call that answers with an error is the last thing that happens, and
  its error is the outcome of the start; so nothing happens after a failure, no error is swallowed,
  and a start that succeeds had no failed call.  Conversely the error of a failed start is the
  answer to its last call; and the \<open>expect\<close> on the collator key never panics.
\<close>

theorem node_startup_failures:
  assumes "service_laws S"
  shows "(\<forall>before ev after e. snd (start_parachain_node S c pc opts para hw) = before @ ev # after \<and>
      effect_error S ev = Some e \<longrightarrow>
      fst (start_parachain_node S c pc opts para hw) = Err e \<and> after = []) \<and>
    (\<forall>e. fst (start_parachain_node S c pc opts para hw) = Err e \<longrightarrow>
      (\<exists>before ev. snd (start_parachain_node S c pc opts para hw) = before @ [ev] \<and>
         effect_error S ev = Some e)) \<and>
    (\<forall>p. fst (start_parachain_node S c pc opts para hw) \<noteq> Panicked p)"
  using stops_failed_call [OF startup_stops] stops_error [OF startup_stops]
    startup_no_panic [OF assms, of c pc opts para hw]
  unfolding no_panic_def by meson

theorem node_startup_failures_witness:
  "service_laws (sample_service\<lparr>build_network := \<lambda>_. Inl ''no network''\<rparr>) \<and>
   fst (start_parachain_node (sample_service\<lparr>build_network := \<lambda>_. Inl ''no network''\<rparr>) sample_node
     ''relay config'' ''options'' 1000 None) = Err (Sdk ''no network'') \<and>
   (\<exists>before ev. snd (start_parachain_node (sample_service\<lparr>build_network := \<lambda>_. Inl ''no network''\<rparr>)
     sample_node ''relay config'' ''options'' 1000 None) = before @ [ev] \<and>
     effect_error (sample_service\<lparr>build_network := \<lambda>_. Inl ''no network''\<rparr>) ev =
       Some (Sdk ''no network''))"
proof -
  let ?S = "sample_service\<lparr>build_network := \<lambda>_. Inl ''no network''\<rparr>"
  have laws: "service_laws ?S" by unfold_locales (auto simp: sample_sdk_def)
  have "fst (start_parachain_node ?S sample_node ''relay config'' ''options'' 1000 None) =
      Err (Sdk ''no network'')"
    unfolding service_defs
    by (simp add: sample_sdk_def sample_node_def bind_io_def io_defs when_io_def)
  with laws node_startup_failures [OF laws] show ?thesis by blast
qed

text \<open>
  C28.  Collation matches the runtime: the authoring task exists only on authorities and is
  essential, it and the relay chain tasks work for the given parachain, the authoring time is
  exactly the computation that a block may contain, and the slot duration is the one
  that the runtime's consensus hook expects.
\<close>

theorem collation_matches_runtime:
  assumes "service_laws S" and "sdk_laws K"
    and "ev \<in> set (snd (start_parachain_node S c pc opts para hw))"
  shows "(\<forall>h g fut. ev = Spawn h ''aura'' g fut \<longrightarrow>
      is_authority c \<and>
      (\<exists>tm p. h = spawn_essential_handle S tm \<and> fut = aura_run S p \<and> au_para_id p = para \<and>
         au_authoring_duration p * unat (WEIGHT_REF_TIME_PER_MILLIS K) =
           unat (ref_time (MAXIMUM_BLOCK_WEIGHT K)) \<and>
         au_relay_chain_slot_duration p =
           unat (hook_slot_millis (cumulus_pallet_parachain_system_config K)))) \<and>
    (\<forall>p. ev = StartRelayChainTasks p \<longrightarrow>
      rt_para_id p = para \<and>
      rt_relay_chain_slot_duration p =
        unat (hook_slot_millis (cumulus_pallet_parachain_system_config K)))"
proof -
  have "consensus_effect S (is_authority c) para ev"
    using startup_consensus [OF assms(1)] assms(3) unfolding effects_in_def by blast
  moreover have "2000 * unat (WEIGHT_REF_TIME_PER_MILLIS K) = unat (ref_time (MAXIMUM_BLOCK_WEIGHT K))"
    by (simp add: sdk_laws.constants [OF assms(2)] sdk_laws.max_block_weight [OF assms(2)]
        from_parts_def)
  moreover have "unat (hook_slot_millis (cumulus_pallet_parachain_system_config K)) = 6000"
    by (simp add: cumulus_pallet_parachain_system_config_def RELAY_CHAIN_SLOT_DURATION_MILLIS_def)
  ultimately show ?thesis unfolding consensus_effect_def by fastforce
qed

lemma sample_aura:
  "Spawn ''essential tasks'' ''aura'' None ''aura'' \<in>
     set (snd (start_parachain_node sample_service sample_node ''relay config'' ''options'' 1000 None))"
  unfolding service_defs
  by (simp add: sample_sdk_def sample_node_def bind_io_def io_defs when_io_def)

theorem collation_matches_runtime_witness:
  "\<exists>p :: (string, string) AuraParams. au_para_id p = 1000 \<and>
     au_authoring_duration p * unat (WEIGHT_REF_TIME_PER_MILLIS reference_sdk) =
       unat (ref_time (MAXIMUM_BLOCK_WEIGHT reference_sdk))"
  using collation_matches_runtime [OF sample_service_laws reference_laws sample_aura] by blast

text \<open>
  The heap of the runtime: client parts are built once, for the given configuration and with
  import recording, and a configured page count reaches both heaps only modulo \<open>2 ^ 32\<close>.
\<close>

theorem executor_heap_pages:
  assumes "NewFullParts c' t executor record_import \<in> set (snd (new_partial S c))"
  shows "c' = c \<and> record_import \<and> (\<exists>b. executor = build_executor S b \<and>
    onchain_heap_alloc_strategy b = offchain_heap_alloc_strategy b \<and>
    (\<forall>h. default_heap_pages c = Some h \<longrightarrow>
       (\<exists>w. onchain_heap_alloc_strategy b = Static w \<and> unat w = unat h mod 2 ^ 32)))"
proof -
  let ?P = "\<lambda>ev. \<forall>c' t ex r. ev = NewFullParts c' t ex r \<longrightarrow>
    c' = c \<and> r \<and> ex = build_executor S (executor_builder S c)"
  have "effects_in ?P (new_partial S c)"
    unfolding service_defs by (intro io_rules) simp_all
  then have "c' = c" "record_import" "executor = build_executor S (executor_builder S c)"
    using assms unfolding effects_in_def by blast+
  then show ?thesis
    by (auto simp: executor_builder_def heap_alloc_strategy_def Let_def unsigned_ucast_eq
        take_bit_eq_mod intro!: exI [of _ "executor_builder S c"])
qed

theorem executor_heap_pages_witness:
  "\<exists>c' t ex r b. NewFullParts c' t ex r \<in>
       set (snd (new_partial sample_service (sample_node\<lparr>default_heap_pages := Some (2 ^ 32)\<rparr>))) \<and>
     ex = build_executor sample_service b \<and> onchain_heap_alloc_strategy b = Static 0"
proof -
  let ?c = "sample_node\<lparr>default_heap_pages := Some (2 ^ 32)\<rparr>"
  have ev: "NewFullParts ?c (Some ''telemetry handle'') ''executor'' True \<in>
      set (snd (new_partial sample_service ?c))"
    unfolding service_defs by (simp add: sample_sdk_def sample_node_def bind_io_def io_defs)
  from executor_heap_pages [OF ev] obtain b w where
    "''executor'' = build_executor sample_service b" "onchain_heap_alloc_strategy b = Static w"
    "unat w = unat (2 ^ 32 :: u64) mod 2 ^ 32"
    by auto
  moreover from this have "w = 0" by (simp add: unat_eq_zero)
  ultimately show ?thesis using ev by blast
qed

text \<open>
  The RPC extension offers exactly the methods of the system and of the transaction
  payment module, and is refused exactly when the two share a method.
\<close>

theorem rpc_extension_methods:
  assumes "rpc_laws S methods"
  shows "(\<exists>m. create_full S deps = Inr m \<and>
      methods m = methods (System_rpc S (deps_client deps) (deps_pool deps)) \<union>
        methods (TransactionPayment_rpc S (deps_client deps))) \<longleftrightarrow>
    methods (System_rpc S (deps_client deps) (deps_pool deps)) \<inter>
      methods (TransactionPayment_rpc S (deps_client deps)) = {}"
proof -
  let ?s = "System_rpc S (deps_client deps) (deps_pool deps)"
  let ?t = "TransactionPayment_rpc S (deps_client deps)"
  obtain k where k: "rpc_merge S (RpcModule_new S) ?s = Inr k" "methods k = methods ?s"
    using rpc_laws.merge_ok [OF assms, of "RpcModule_new S" ?s] rpc_laws.new_module [OF assms] by auto
  show ?thesis
  proof (cases "methods ?s \<inter> methods ?t = {}")
    case True
    with k rpc_laws.merge_ok [OF assms, of k ?t] show ?thesis by (auto simp: create_full_def)
  next
    case False
    with k rpc_laws.merge_clash [OF assms, of k ?t] show ?thesis by (auto simp: create_full_def)
  qed
qed

theorem rpc_extension_methods_witness:
  "\<exists>m. create_full sample_service \<lparr>deps_client = ''client'', deps_pool = ''pool''\<rparr> = Inr m \<and>
     set m = set ''ndjqi''"
proof -
  have "set (System_rpc sample_service ''client'' ''pool'') \<inter>
      set (TransactionPayment_rpc sample_service ''client'') = {}"
    by (simp add: sample_sdk_def)
  with rpc_extension_methods [OF sample_rpc_laws,
      of "\<lparr>deps_client = ''client'', deps_pool = ''pool''\<rparr>"]
  obtain m where "create_full sample_service \<lparr>deps_client = ''client'', deps_pool = ''pool''\<rparr> = Inr m"
    "set m = set (System_rpc sample_service ''client'' ''pool'') \<union>
      set (TransactionPayment_rpc sample_service ''client'')"
    by auto
  then show ?thesis by (auto simp: sample_sdk_def)
qed

end
