(* ===== verification/Node_Command.thy ===== *)
theory Node_Command
  imports Node_Startup
begin

text \<open>
  The entry point of the node: the sub-commands of \<open>src/node/src/cli.rs\<close>, their dispatch by
  \<open>command::run\<close> in \<open>src/node/src/command.rs\<close>, and \<open>src/node/src/main.rs\<close>.  The implementations of
  the sub-commands and the runner are code of the SDK: the parameter \<open>command_env\<close>.
\<close>

section \<open>The command line\<close>

text \<open>
  \<open>'cmd\<close> stands for the arguments of the sub-commands.  Of the benchmark commands,
  \<open>OtherBenchmark\<close> are those that the source does not name.
\<close>

datatype 'cmd BenchmarkCmd =
    BenchPallet 'cmd | BenchBlock 'cmd | BenchStorage 'cmd | BenchMachine 'cmd | OtherBenchmark 'cmd

datatype 'cmd Subcommand =
    BuildSpec 'cmd
  | CheckBlock 'cmd
  | ExportBlocks 'cmd
  | ExportState 'cmd
  | ImportBlocks 'cmd
  | Revert 'cmd
  | PurgeChain 'cmd
  | ExportGenesisHead 'cmd
  | ExportGenesisWasm 'cmd
  | Benchmark "'cmd BenchmarkCmd"

record 'cmd Cli =
  subcommand :: "'cmd Subcommand option"
  run_cmd :: 'cmd
  no_hardware_benchmarks :: bool
  relay_chain_args :: "string list"

text \<open>What a runner is created for: a sub-command or the node itself.\<close>

datatype 'cmd RunnerFor = ForSubcommand "'cmd Subcommand" | ForNode 'cmd

datatype 'x CliError = Input string | ServiceError "'x NodeError" | CliSdk 'x

section \<open>Calls into the SDK\<close>

text \<open>
  The \<open>run\<close> methods of the sub-commands with the arguments that the source computes.  Constant
  arguments are left out: no limit on the blocks to revert, and the reference hardware.
\<close>

datatype ('cmd, 'j, 'v) CommandCall =
    BuildSpec_run 'cmd "'j ChainSpec" 'v
  | CheckBlock_run 'cmd 'v 'v
  | ExportBlocks_run 'cmd 'v 'v
  | ExportState_run 'cmd 'v "'j ChainSpec"
  | ImportBlocks_run 'cmd 'v 'v
  | Revert_run 'cmd 'v 'v
  | PurgeChain_run 'cmd "('j ChainSpec, 'v) NodeConfiguration" 'v
  | ExportGenesisHead_run 'cmd 'v
  | ExportGenesisWasm_run 'cmd "'j ChainSpec"
  | BenchPallet_run 'cmd "'j ChainSpec"
  | BenchBlock_run 'cmd 'v
  | BenchStorage_run 'cmd "('j ChainSpec, 'v) NodeConfiguration" 'v 'v 'v
  | BenchMachine_run 'cmd "('j ChainSpec, 'v) NodeConfiguration"

type_synonym ('x, 'v) relay_command = "('x, 'v, 'v) CliConfiguration"
type_synonym ('j, 'v, 'x) cli_env = "('j, 'v, ('x, 'v) relay_command) node_env"
type_synonym ('j, 'v, 'x) node_sdk = "(('j ChainSpec, 'v) NodeConfiguration, 'v, 'x) service_sdk"

record ('cmd, 'j, 'v, 'x) command_env =
  create_runner :: "'cmd RunnerFor \<Rightarrow> 'x CliError + ('j ChainSpec, 'v) NodeConfiguration"
  command_run :: "('cmd, 'j, 'v) CommandCall \<Rightarrow> 'x CliError + unit"
  normalize :: "'cmd \<Rightarrow> 'cmd"
  collator_options_of :: "'cmd \<Rightarrow> 'v"
  shared_params_chain :: "'cmd \<Rightarrow> string option"
  create_configuration :: "'v SubstrateCli \<Rightarrow> ('x, 'v) relay_command \<Rightarrow> 'v \<Rightarrow> 'x + 'v"
  display_error :: "'x \<Rightarrow> string"
  gather_hwbench :: "Path \<Rightarrow> 'v"
  expose_db :: "'v \<Rightarrow> 'v"
  expose_storage :: "'v \<Rightarrow> 'v"
  until_exit :: "'v \<Rightarrow> 'x CliError + unit"
  feature_runtime_benchmarks :: bool

datatype ('cmd, 'j, 'v, 'x) CommandEffect =
    CreateRunner "'cmd RunnerFor"
  | InService "(('j ChainSpec, 'v) NodeConfiguration, 'v, 'x) Effect"
  | RunCommand "('cmd, 'j, 'v) CommandCall"
  | CreateRelayConfiguration "('x, 'v) relay_command" 'v
  | CreateDirAll Path
  | GatherHwbench Path
  | LogInfo string
  | RunUntilExit 'v

type_synonym ('cmd, 'j, 'v, 'x, 'a) command_io = "(('cmd, 'j, 'v, 'x) CommandEffect, 'x CliError, 'a) io"

section \<open>The dispatch\<close>

text \<open>A runner runs its closure on the configuration it was created with.\<close>

definition with_runner ::
  "('cmd, 'j, 'v, 'x) command_env \<Rightarrow> 'cmd RunnerFor \<Rightarrow>
   (('j ChainSpec, 'v) NodeConfiguration \<Rightarrow> ('cmd, 'j, 'v, 'x, unit) command_io) \<Rightarrow>
   ('cmd, 'j, 'v, 'x, unit) command_io" where
  "with_runner C cmd closure =
     bind_io (call_io (CreateRunner cmd) (create_runner C cmd)) closure"

definition execute ::
  "('cmd, 'j, 'v, 'x) command_env \<Rightarrow> ('cmd, 'j, 'v) CommandCall \<Rightarrow> ('cmd, 'j, 'v, 'x, unit) command_io"
  where
  "execute C call = call_io (RunCommand call) (command_run C call)"

definition with_partial ::
  "('j, 'v, 'x) node_sdk \<Rightarrow> ('j ChainSpec, 'v) NodeConfiguration \<Rightarrow>
   ('v PartialComponents \<Rightarrow> ('cmd, 'j, 'v, 'x, unit) command_io) \<Rightarrow>
   ('cmd, 'j, 'v, 'x, unit) command_io" where
  "with_partial S config k = bind_io (embed_io InService ServiceError (new_partial S config)) k"

text \<open>The macro \<open>construct_async_run\<close>.\<close>

definition construct_async_run ::
  "('cmd, 'j, 'v, 'x) command_env \<Rightarrow> ('j, 'v, 'x) node_sdk \<Rightarrow> 'cmd RunnerFor \<Rightarrow>
   ('v PartialComponents \<Rightarrow> ('j ChainSpec, 'v) NodeConfiguration \<Rightarrow> ('cmd, 'j, 'v) CommandCall) \<Rightarrow>
   ('cmd, 'j, 'v, 'x, unit) command_io" where
  "construct_async_run C S cmd body =
     with_runner C cmd (\<lambda>config.
     with_partial S config (\<lambda>components.
     execute C (body components config)))"

text \<open>
  The configuration of the embedded relay chain node from the arguments after the separator, as the
  branches for \<open>PurgeChain\<close> and for the node build it.
\<close>

definition relay_configuration ::
  "('j, 'v, 'x) cli_env \<Rightarrow> ('cmd, 'j, 'v, 'x) command_env \<Rightarrow> 'cmd Cli \<Rightarrow>
   ('j ChainSpec, 'v) NodeConfiguration \<Rightarrow> ('cmd, 'j, 'v, 'x, 'v) command_io" where
  "relay_configuration N C cli config =
     (case RelayChainCli_new N config (executable_name N # relay_chain_args cli) of
        None \<Rightarrow> exit_io
      | Some polkadot_cli \<Rightarrow>
          let settings = RelayChainCli_CliConfiguration polkadot_cli
          in call_io (CreateRelayConfiguration settings (tokio_handle config))
               (map_sum (\<lambda>err. Input (''Relay chain argument error: '' @ display_error C err)) id
                  (create_configuration C (RelayChainCli_SubstrateCli N) settings
                     (tokio_handle config))))"

definition run_benchmark ::
  "('cmd, 'j, 'v, 'x) command_env \<Rightarrow> ('j, 'v, 'x) node_sdk \<Rightarrow> 'cmd BenchmarkCmd \<Rightarrow>
   ('cmd, 'j, 'v, 'x, unit) command_io" where
  "run_benchmark C S bench =
     with_runner C (ForSubcommand (Benchmark bench)) (\<lambda>config.
     case bench of
       BenchPallet cmd \<Rightarrow>
         if feature_runtime_benchmarks C then execute C (BenchPallet_run cmd (config_chain_spec config))
         else raise (Input (''Benchmarking wasn't enabled when building the node. '' @
                            ''You can enable it with `--features runtime-benchmarks`.''))
     | BenchBlock cmd \<Rightarrow>
         with_partial S config (\<lambda>partials. execute C (BenchBlock_run cmd (pc_client partials)))
     | BenchStorage cmd \<Rightarrow>
         if \<not> feature_runtime_benchmarks C
         then raise (Input (''Compile with --features=runtime-benchmarks '' @
                            ''to enable storage benchmarks.''))
         else with_partial S config (\<lambda>partials.
           let db = expose_db C (pc_backend partials);
               storage = expose_storage C (pc_backend partials)
           in execute C (BenchStorage_run cmd config (pc_client partials) db storage))
     | BenchMachine cmd \<Rightarrow> execute C (BenchMachine_run cmd config)
     | OtherBenchmark _ \<Rightarrow> raise (Input ''Benchmarking sub-command unsupported''))"

text \<open>
  The hardware benchmark.  The argument of \<open>then_some\<close> is evaluated before the flag is looked at.
\<close>

definition hardware_benchmark ::
  "('cmd, 'j, 'v, 'x) command_env \<Rightarrow> 'cmd Cli \<Rightarrow> ('j ChainSpec, 'v) NodeConfiguration \<Rightarrow>
   ('cmd, 'j, 'v, 'x, 'v option) command_io" where
  "hardware_benchmark C cli config =
     bind_io
       (case database_path config of
          None \<Rightarrow> ret None
        | Some path \<Rightarrow>
            bind_io (emit (CreateDirAll path)) (\<lambda>_.
            bind_io (emit (GatherHwbench path)) (\<lambda>_.
            ret (Some (gather_hwbench C path)))))
       (\<lambda>bench. ret (if \<not> no_hardware_benchmarks cli then bench else None))"

definition run_node ::
  "('j, 'v, 'x) cli_env \<Rightarrow> ('cmd, 'j, 'v, 'x) command_env \<Rightarrow> ('j, 'v, 'x) node_sdk \<Rightarrow> 'cmd Cli \<Rightarrow>
   ('cmd, 'j, 'v, 'x, unit) command_io" where
  "run_node N C S cli =
     with_runner C (ForNode (normalize C (run_cmd cli))) (\<lambda>config.
     let collator_options = collator_options_of C (run_cmd cli) in
     bind_io (hardware_benchmark C cli config) (\<lambda>hwbench.
     bind_io (case Extensions_try_get N (config_chain_spec config) of
                None \<Rightarrow> raise (Input ''Could not find parachain ID in chain-spec.'')
              | Some e \<Rightarrow> ret (para_id e)) (\<lambda>para.
     bind_io (relay_configuration N C cli config) (\<lambda>polkadot_config.
     bind_io (emit (LogInfo (''Is collating: '' @ (if is_authority config then ''yes'' else ''no''))))
       (\<lambda>_.
     bind_io (embed_io InService ServiceError
                (start_parachain_node S config polkadot_config collator_options para hwbench))
       (\<lambda>(task_manager, client).
     call_io (RunUntilExit task_manager) (until_exit C task_manager)))))))"

definition lift_load_spec ::
  "Panic + (string + 'j ChainSpec) \<Rightarrow> ('cmd, 'j, 'v, 'x, 'j ChainSpec) command_io" where
  "lift_load_spec r =
     (case r of
        Inl p \<Rightarrow> (Panicked p, [])
      | Inr (Inl msg) \<Rightarrow> raise (Input msg)
      | Inr (Inr spec) \<Rightarrow> ret spec)"

definition run_command ::
  "('acc, 'aura, 'd, 'json, 'id) genesis_env \<Rightarrow> ('j, 'v, 'x) cli_env \<Rightarrow>
   ('cmd, 'j, 'v, 'x) command_env \<Rightarrow> ('j, 'v, 'x) node_sdk \<Rightarrow> 'cmd Cli \<Rightarrow>
   ('cmd, 'j, 'v, 'x, unit) command_io" where
  "run_command E N C S cli =
     (case subcommand cli of
        Some (BuildSpec cmd) \<Rightarrow>
          with_runner C (ForSubcommand (BuildSpec cmd)) (\<lambda>config.
          execute C (BuildSpec_run cmd (config_chain_spec config) (network_config config)))
      | Some (CheckBlock cmd) \<Rightarrow>
          construct_async_run C S (ForSubcommand (CheckBlock cmd)) (\<lambda>components config.
          CheckBlock_run cmd (pc_client components) (pc_import_queue components))
      | Some (ExportBlocks cmd) \<Rightarrow>
          construct_async_run C S (ForSubcommand (ExportBlocks cmd)) (\<lambda>components config.
          ExportBlocks_run cmd (pc_client components) (database config))
      | Some (ExportState cmd) \<Rightarrow>
          construct_async_run C S (ForSubcommand (ExportState cmd)) (\<lambda>components config.
          ExportState_run cmd (pc_client components) (config_chain_spec config))
      | Some (ImportBlocks cmd) \<Rightarrow>
          construct_async_run C S (ForSubcommand (ImportBlocks cmd)) (\<lambda>components config.
          ImportBlocks_run cmd (pc_client components) (pc_import_queue components))
      | Some (Revert cmd) \<Rightarrow>
          construct_async_run C S (ForSubcommand (Revert cmd)) (\<lambda>components config.
          Revert_run cmd (pc_client components) (pc_backend components))
      | Some (PurgeChain cmd) \<Rightarrow>
          with_runner C (ForSubcommand (PurgeChain cmd)) (\<lambda>config.
          bind_io (relay_configuration N C cli config) (\<lambda>polkadot_config.
          execute C (PurgeChain_run cmd config polkadot_config)))
      | Some (ExportGenesisHead cmd) \<Rightarrow>
          with_runner C (ForSubcommand (ExportGenesisHead cmd)) (\<lambda>config.
          with_partial S config (\<lambda>partials.
          execute C (ExportGenesisHead_run cmd (pc_client partials))))
      | Some (ExportGenesisWasm cmd) \<Rightarrow>
          with_runner C (ForSubcommand (ExportGenesisWasm cmd)) (\<lambda>config.
          bind_io (lift_load_spec (cli_load_spec (Cli_SubstrateCli E N)
                     (case_option [] (\<lambda>chain. chain) (shared_params_chain C cmd)))) (\<lambda>spec.
          execute C (ExportGenesisWasm_run cmd spec)))
      | Some (Benchmark bench) \<Rightarrow> run_benchmark C S bench
      | None \<Rightarrow> run_node N C S cli)"

text \<open>\<open>main\<close> runs the dispatch on the parsed command line.\<close>

definition node_main ::
  "('acc, 'aura, 'd, 'json, 'id) genesis_env \<Rightarrow> ('j, 'v, 'x) cli_env \<Rightarrow>
   ('cmd, 'j, 'v, 'x) command_env \<Rightarrow> ('j, 'v, 'x) node_sdk \<Rightarrow> 'cmd Cli \<Rightarrow>
   ('cmd, 'j, 'v, 'x, unit) command_io" where
  "node_main E N C S from_args = run_command E N C S from_args"

section \<open>Which command a call belongs to\<close>

primrec command_of :: "('cmd, 'j, 'v) CommandCall \<Rightarrow> 'cmd Subcommand" where
  "command_of (BuildSpec_run cmd spec net) = BuildSpec cmd"
| "command_of (CheckBlock_run cmd client queue) = CheckBlock cmd"
| "command_of (ExportBlocks_run cmd client db) = ExportBlocks cmd"
| "command_of (ExportState_run cmd client spec) = ExportState cmd"
| "command_of (ImportBlocks_run cmd client queue) = ImportBlocks cmd"
| "command_of (Revert_run cmd client backend) = Revert cmd"
| "command_of (PurgeChain_run cmd config relay) = PurgeChain cmd"
| "command_of (ExportGenesisHead_run cmd client) = ExportGenesisHead cmd"
| "command_of (ExportGenesisWasm_run cmd spec) = ExportGenesisWasm cmd"
| "command_of (BenchPallet_run cmd spec) = Benchmark (BenchPallet cmd)"
| "command_of (BenchBlock_run cmd client) = Benchmark (BenchBlock cmd)"
| "command_of (BenchStorage_run cmd config client db storage) = Benchmark (BenchStorage cmd)"
| "command_of (BenchMachine_run cmd config) = Benchmark (BenchMachine cmd)"

text \<open>The sub-commands that work on a client, and hence open the database.\<close>

fun needs_client :: "'cmd Subcommand \<Rightarrow> bool" where
  "needs_client (CheckBlock cmd) = True"
| "needs_client (ExportBlocks cmd) = True"
| "needs_client (ExportState cmd) = True"
| "needs_client (ImportBlocks cmd) = True"
| "needs_client (Revert cmd) = True"
| "needs_client (ExportGenesisHead cmd) = True"
| "needs_client (Benchmark (BenchBlock cmd)) = True"
| "needs_client (Benchmark (BenchStorage cmd)) = True"
| "needs_client _ = False"

fun runs_command :: "('cmd, 'j, 'v, 'x) CommandEffect \<Rightarrow> bool" where
  "runs_command (RunCommand call) = True"
| "runs_command _ = False"

fun in_service :: "('cmd, 'j, 'v, 'x) CommandEffect \<Rightarrow> bool" where
  "in_service (InService ev) = True"
| "in_service _ = False"

fun service_effects ::
  "('cmd, 'j, 'v, 'x) CommandEffect list \<Rightarrow> (('j ChainSpec, 'v) NodeConfiguration, 'v, 'x) Effect list"
  where
  "service_effects [] = []"
| "service_effects (ev # evs) =
     (case ev of InService e \<Rightarrow> e # service_effects evs | _ \<Rightarrow> service_effects evs)"

text \<open>
  A computation runs its command last: nothing follows the command, whose answer is the outcome,
  and success means that the command has run.
\<close>

definition runs_last ::
  "('cmd, 'j, 'v, 'x) command_env \<Rightarrow> 'cmd Subcommand \<Rightarrow> ('cmd, 'j, 'v, 'x, unit) command_io \<Rightarrow> bool" where
  "runs_last C sub m \<longleftrightarrow>
     (\<forall>before call after. snd m = before @ RunCommand call # after \<longrightarrow>
        after = [] \<and> command_of call = sub \<and> fst m = fst (execute C call)) \<and>
     (fst m = Ok () \<longrightarrow> (\<exists>call. RunCommand call \<in> set (snd m)))"

text \<open>A concrete environment of the commands, whose runner works on the given specification.\<close>

definition sample_command ::
  "Extensions option ChainSpec \<Rightarrow> (nat, Extensions option, string, string) command_env" where
  "sample_command spec =
     \<lparr>create_runner = (\<lambda>_. Inr
        \<lparr>config_chain_spec = spec,
         config_base_path = [''data''], telemetry_endpoints = None, default_heap_pages = None,
         wasm_method = ''compiled'', max_runtime_instances = 8, runtime_cache_size = 2,
         transaction_pool_options = ''pool options'', is_authority = False,
         prometheus_registry = None, network_config = ''network'',
         offchain_worker_enabled = False, database = ''db'',
         database_path = Some [''data'', ''db''], tokio_handle = ''tokio''\<rparr>),
      command_run = (\<lambda>_. Inr ()), normalize = (\<lambda>c. c), collator_options_of = (\<lambda>_. ''options''),
      shared_params_chain = (\<lambda>_. None), create_configuration = (\<lambda>_ _ _. Inr ''relay config''),
      display_error = (\<lambda>e. e), gather_hwbench = (\<lambda>_. ''bench''), expose_db = (\<lambda>b. b),
      expose_storage = (\<lambda>b. b), until_exit = (\<lambda>_. Inr ()), feature_runtime_benchmarks = False\<rparr>"

definition sample_cli :: "nat Cli" where
  "sample_cli =
     \<lparr>subcommand = None, run_cmd = 0, no_hardware_benchmarks = True, relay_chain_args = []\<rparr>"

abbreviation sample_cli_service :: "(Extensions option, string, string) node_sdk" where
  "sample_cli_service \<equiv> sample_sdk"

section \<open>Lemmas\<close>

lemma runs_last_bind:
  assumes quiet: "effects_in (\<lambda>ev. \<not> runs_command ev) m" and rest: "\<And>a. runs_last C sub (f a)"
  shows "runs_last C sub (bind_io m f)"
proof (cases "fst m")
  case (Ok a)
  have "after = [] \<and> command_of call = sub \<and> fst (f a) = fst (execute C call)"
    if "snd m @ snd (f a) = before @ RunCommand call # after" for before call after
  proof -
    have "RunCommand call \<notin> set (snd m)" using quiet by (force simp: effects_in_def)
    with that obtain rest where "snd (f a) = rest @ RunCommand call # after"
      by (auto simp: append_eq_append_conv2 append_eq_Cons_conv)
    then show ?thesis using assms(2) [of a] unfolding runs_last_def by blast
  qed
  then show ?thesis
    using Ok rest [of a] by (auto simp: runs_last_def bind_io_def)
qed (use quiet in \<open>force simp: runs_last_def bind_io_def effects_in_def\<close>)+

lemma runs_last_execute: "command_of call = sub \<Longrightarrow> runs_last C sub (execute C call)"
  by (auto simp: runs_last_def execute_def call_io_def Cons_eq_append_conv)

lemma runs_last_raise: "runs_last C sub (raise e)"
  by (simp add: runs_last_def raise_def)

lemma effects_service [io_rules]:
  "(\<And>ev. P (InService ev)) \<Longrightarrow> effects_in P (embed_io InService f m)"
  by (subst effects_embed) (simp add: effects_in_def)

lemma effects_partial [io_rules]:
  "(\<And>ev. P (InService ev)) \<Longrightarrow> (\<And>p. effects_in P (k p)) \<Longrightarrow> effects_in P (with_partial S config k)"
  unfolding with_partial_def
  by (intro effects_bind effects_service)

lemma runs_last_partial:
  "(\<And>p. runs_last C sub (k p)) \<Longrightarrow> runs_last C sub (with_partial S config k)"
  unfolding with_partial_def
  by (intro runs_last_bind effects_service) simp_all

lemma runs_last_runner:
  "(\<And>config. runs_last C sub (k config)) \<Longrightarrow> runs_last C sub (with_runner C r k)"
  unfolding with_runner_def by (intro runs_last_bind effects_basic) simp_all

lemma effects_relay [io_rules]:
  "(\<And>s h. P (CreateRelayConfiguration s h)) \<Longrightarrow> effects_in P (relay_configuration N C cli config)"
  unfolding relay_configuration_def Let_def by (intro io_rules)

lemma effects_load_spec [io_rules]: "effects_in P (lift_load_spec r)"
  by (auto simp: lift_load_spec_def effects_in_def io_defs split: sum.split)

lemmas runs_last_rules = runs_last_runner runs_last_partial runs_last_execute runs_last_raise
  runs_last_bind effects_relay effects_load_spec

lemma run_command_runs_last:
  assumes "subcommand cli = Some sub"
  shows "runs_last C sub (run_command E N C S cli)"
proof (cases sub)
  case (Benchmark bench)
  then show ?thesis
    using assms unfolding run_command_def run_benchmark_def
    by (cases bench) (auto simp: Let_def intro!: runs_last_rules)
qed (use assms in \<open>auto simp: run_command_def construct_async_run_def intro!: runs_last_rules\<close>)

lemma effects_execute [io_rules]: "P (RunCommand call) \<Longrightarrow> effects_in P (execute C call)"
  unfolding execute_def by (rule effects_basic)

lemma effects_runner [io_rules]:
  "P (CreateRunner r) \<Longrightarrow> (\<And>config. effects_in P (k config)) \<Longrightarrow> effects_in P (with_runner C r k)"
  unfolding with_runner_def by (intro io_rules)

lemma run_command_no_client:
  assumes "subcommand cli = Some sub" and "\<not> needs_client sub"
  shows "effects_in (\<lambda>ev. \<not> in_service ev) (run_command E N C S cli)"
proof (cases sub)
  case (Benchmark bench)
  then show ?thesis
    using assms unfolding run_command_def run_benchmark_def
    by (cases bench) (auto intro!: io_rules)
qed (use assms in \<open>auto simp: run_command_def intro!: io_rules\<close>)

lemma service_effects_append [simp]: "service_effects (xs @ ys) = service_effects xs @ service_effects ys"
  by (induction xs) (auto split: CommandEffect.split)

lemma service_effects_embed [simp]: "service_effects (map InService evs) = evs"
  by (induction evs) simp_all

lemma service_effects_none: "\<forall>ev \<in> set evs. \<not> in_service ev \<Longrightarrow> service_effects evs = []"
  by (induction evs) (auto split: CommandEffect.split)

lemma client_command_phases:
  assumes "with_runner C r (\<lambda>config. with_partial S config (\<lambda>p. execute C (call p config))) = (Ok (), t)"
  shows "\<exists>config. create_runner C r = Inr config \<and>
    map phase_of (service_effects t) = partial_phases config"
proof -
  from assms obtain config p t1 u where c: "create_runner C r = Inr config"
    and p: "new_partial S config = (Ok p, t1)"
    and t: "t = CreateRunner r # map InService t1 @ [u]" and "u = RunCommand (call p config)"
    by (auto simp: with_runner_def with_partial_def execute_def bind_Ok io_Ok)
  moreover have "map phase_of t1 = partial_phases config"
    using new_partial_follows [of config S] p by (simp add: follows_def)
  ultimately show ?thesis by auto
qed

lemma run_node_quiet:
  assumes "create_runner C (ForNode (normalize C (run_cmd cli))) = Inr config"
    and "Extensions_try_get N (config_chain_spec config) = Some ext"
    and ours: "\<And>ev. \<not> in_service ev \<Longrightarrow> P ev"
    and start: "\<And>pc hw. (no_hardware_benchmarks cli \<Longrightarrow> hw = None) \<Longrightarrow> effects_in (\<lambda>ev. P (InService ev))
      (start_parachain_node S config pc (collator_options_of C (run_cmd cli)) (para_id ext) hw)"
  shows "effects_in P (run_node N C S cli)"
proof -
  have bench: "no_hardware_benchmarks cli \<Longrightarrow> hw = None"
    if "fst (hardware_benchmark C cli config) = Ok hw" for hw
    using that by (auto simp: hardware_benchmark_def fst_bind_Ok ret_def)
  have rest: "effects_in P (bind_io (relay_configuration N C cli config) (\<lambda>pc.
      bind_io (emit (LogInfo s)) (\<lambda>_.
      bind_io (embed_io InService ServiceError
        (start_parachain_node S config pc (collator_options_of C (run_cmd cli)) (para_id ext) hw))
      (\<lambda>(tm, client). call_io (RunUntilExit tm) (until_exit C tm)))))"
    if "no_hardware_benchmarks cli \<Longrightarrow> hw = None" for s hw
    using start [of hw] that
    by (intro effects_bind effects_relay effects_basic effects_cases effects_embed [THEN iffD2] ours)
      simp_all
  have "effects_in P (hardware_benchmark C cli config)"
    unfolding hardware_benchmark_def by (intro io_rules ours) simp_all
  then show ?thesis
    using rest bench ours [of "CreateRunner (ForNode (normalize C (run_cmd cli)))"] assms(1,2)
    by (cases "fst (hardware_benchmark C cli config)")
      (auto simp: run_node_def with_runner_def Let_def effects_in_def bind_io_def [of "hardware_benchmark C cli config"])
qed

lemma sample_relay:
  fixes config :: "(Extensions option ChainSpec, string) NodeConfiguration"
  shows "\<exists>settings. relay_configuration reference_node (sample_command spec) cli config =
    (Ok ''relay config'', [CreateRelayConfiguration settings (tokio_handle config)])"
  by (simp add: relay_configuration_def RelayChainCli_new_def reference_node_def sample_command_def
      call_io_def Let_def)

lemma sample_start_networks:
  assumes "telemetry_endpoints config = None" "\<not> is_authority config" "\<not> offchain_worker_enabled config"
  shows "\<exists>p. BuildNetwork p \<in> set (snd (start_parachain_node sample_sdk config pc opts para None))"
  using assms
  by (simp add: service_defs sample_sdk_def when_io_def bind_emit bind_io_def [of "emit _"] emit_def
      exI [of _ "_"])

lemma sample_networks:
  assumes "Extensions_try_get reference_node spec = Some ext"
  shows "\<exists>p. InService (BuildNetwork p) \<in> set (snd (node_main reference_env reference_node
    (sample_command spec) sample_cli_service sample_cli))"
proof -
  let ?C = "sample_command spec"
  obtain config where runner: "create_runner ?C (ForNode (normalize ?C (run_cmd sample_cli))) = Inr config"
    and config: "config_chain_spec config = spec" "telemetry_endpoints config = None"
      "\<not> is_authority config" "\<not> offchain_worker_enabled config"
      "database_path config = Some [''data'', ''db'']"
    by (simp add: sample_command_def)
  obtain settings where relay: "relay_configuration reference_node ?C sample_cli config =
      (Ok ''relay config'', [CreateRelayConfiguration settings (tokio_handle config)])"
    using sample_relay by blast
  let ?start = "start_parachain_node sample_cli_service config ''relay config''
      (collator_options_of ?C (run_cmd sample_cli)) (para_id ext) None"
  obtain p where "BuildNetwork p \<in> set (snd ?start)"
    using sample_start_networks [OF config(2-4)] by blast
  then have "InService (BuildNetwork p) \<in> set (snd (embed_io InService ServiceError ?start))"
    by (simp add: embed_io_def)
  then have "InService (BuildNetwork p) \<in> set (snd (bind_io (embed_io InService ServiceError ?start) k))"
    for k :: "string \<times> string \<Rightarrow> (nat, Extensions option, string, string, unit) command_io"
    by (rule bind_keeps_effect)
  moreover have "subcommand sample_cli = None" "no_hardware_benchmarks sample_cli"
    by (simp_all add: sample_cli_def)
  ultimately have "InService (BuildNetwork p) \<in> set (snd (node_main reference_env reference_node
      ?C sample_cli_service sample_cli))"
    using assms config(1,5)
    by (simp add: node_main_def run_command_def run_node_def with_runner_def hardware_benchmark_def
        runner relay bind_emit Let_def)
  then show ?thesis ..
qed

section \<open>Properties\<close>

text \<open>
  C30.  Sub-commands: a sub-command that succeeds has run its own command, the command is the
  last thing that happens, and its answer is the outcome of the process.
\<close>

theorem subcommand_runs_once:
  assumes "subcommand cli = Some sub" and "run_command E N C S cli = (r, trace)"
  shows "(r = Ok () \<longrightarrow> (\<exists>before call. trace = before @ [RunCommand call] \<and> command_of call = sub \<and>
      command_run C call = Inr ())) \<and>
    (\<forall>before call after. trace = before @ RunCommand call # after \<longrightarrow>
      after = [] \<and> command_of call = sub \<and>
      r = (case command_run C call of Inl e \<Rightarrow> Err e | Inr _ \<Rightarrow> Ok ()))"
proof -
  have last: "after = [] \<and> command_of call = sub \<and> r = fst (execute C call)"
    if "trace = before @ RunCommand call # after" for before call after
    using run_command_runs_last [OF assms(1), of C E N S] assms(2) that unfolding runs_last_def by auto
  have "\<exists>before call. trace = before @ [RunCommand call] \<and> command_of call = sub \<and>
      command_run C call = Inr ()" if ok: "r = Ok ()"
  proof -
    from run_command_runs_last [OF assms(1), of C E N S] assms(2) ok
    obtain call where "RunCommand call \<in> set trace" unfolding runs_last_def by auto
    then obtain before after where t: "trace = before @ RunCommand call # after"
      by (meson split_list)
    from last [OF t] have "fst (execute C call) = r" and "after = []" "command_of call = sub"
      by blast+
    moreover from this(1) ok have "command_run C call = Inr ()"
      unfolding execute_def by (simp only: fst_call_Ok)
    ultimately show ?thesis using t by blast
  qed
  moreover have "after = [] \<and> command_of call = sub \<and>
      r = (case command_run C call of Inl e \<Rightarrow> Err e | Inr _ \<Rightarrow> Ok ())"
    if "trace = before @ RunCommand call # after" for before call after
    using last [OF that] by (auto simp: execute_def call_io_def split: sum.splits)
  ultimately show ?thesis by (intro conjI allI impI) metis+
qed

theorem subcommand_runs_once_witness:
  "\<exists>before call. snd (run_command reference_env reference_node (sample_command (FromJson None)) sample_cli_service
      \<lparr>subcommand = Some (Revert 7), run_cmd = 0, no_hardware_benchmarks = False,
       relay_chain_args = []\<rparr>) = before @ [RunCommand call] \<and> command_of call = Revert 7"
proof -
  let ?cli = "\<lparr>subcommand = Some (Revert 7), run_cmd = 0, no_hardware_benchmarks = False,
    relay_chain_args = []\<rparr>"
  let ?run = "run_command reference_env reference_node (sample_command (FromJson None)) sample_cli_service ?cli"
  have "fst ?run = Ok ()"
    by (simp add: run_command_def construct_async_run_def with_runner_def with_partial_def
        execute_def new_partial_def new_telemetry_worker_def sample_command_def sample_sdk_def
        bind_io_def io_defs embed_io_def Let_def)
  with subcommand_runs_once [of ?cli "Revert 7" reference_env reference_node "sample_command (FromJson None)"
      sample_cli_service "fst ?run" "snd ?run"]
  have "\<exists>before call. snd ?run = before @ [RunCommand call] \<and> command_of call = Revert 7 \<and>
      command_run (sample_command (FromJson None)) call = Inr ()"
    by (metis Cli.select_convs(1) prod.collapse)
  then show ?thesis by blast
qed

text \<open>
  Only sub-commands that work on the client open the database: the others touch no part
  of the service, and those that do build exactly the client parts, never the network or consensus.
\<close>

theorem client_opened_only_where_needed:
  assumes "subcommand cli = Some sub" and "run_command E N C S cli = (r, trace)"
  shows "(\<not> needs_client sub \<longrightarrow> service_effects trace = []) \<and>
    (needs_client sub \<and> r = Ok () \<longrightarrow>
      (\<exists>config. create_runner C (ForSubcommand sub) = Inr config \<and>
         map phase_of (service_effects trace) = partial_phases config))"
proof (intro conjI impI)
  show "service_effects trace = []" if "\<not> needs_client sub"
    using run_command_no_client [OF assms(1) that, of E N C S] assms(2)
    by (simp add: effects_in_def service_effects_none)
  assume needed: "needs_client sub \<and> r = Ok ()"
  have "\<exists>call. run_command E N C S cli =
      with_runner C (ForSubcommand sub) (\<lambda>config. with_partial S config (\<lambda>p. execute C (call p config)))"
  proof (cases sub)
    case (Benchmark bench)
    show ?thesis
    proof (cases bench)
      case (BenchStorage cmd)
      with needed assms Benchmark have "feature_runtime_benchmarks C"
        by (auto simp: run_command_def run_benchmark_def with_runner_def bind_Ok io_Ok
            split: if_splits)
      with BenchStorage assms(1) Benchmark show ?thesis
        by (auto simp: run_command_def run_benchmark_def Let_def)
    qed (use needed assms(1) Benchmark in \<open>auto simp: run_command_def run_benchmark_def\<close>)
  qed (use needed assms(1) in \<open>auto simp: run_command_def construct_async_run_def\<close>)
  then show "\<exists>config. create_runner C (ForSubcommand sub) = Inr config \<and>
      map phase_of (service_effects trace) = partial_phases config"
    using needed assms(2) client_command_phases [of C "ForSubcommand sub" S] by fastforce
qed

theorem client_opened_only_where_needed_witness:
  "service_effects (snd (run_command reference_env reference_node (sample_command (FromJson None)) sample_cli_service
      \<lparr>subcommand = Some (PurgeChain 7), run_cmd = 0, no_hardware_benchmarks = False,
       relay_chain_args = []\<rparr>)) = []"
  using client_opened_only_where_needed [of "\<lparr>subcommand = Some (PurgeChain 7), run_cmd = 0,
      no_hardware_benchmarks = False, relay_chain_args = []\<rparr>" "PurgeChain 7"]
  by (metis Cli.select_convs(1) needs_client.simps(10) prod.collapse)

text \<open>
  C29.  The node serves the parachain of its genesis: started on a built-in specification, every
  network it builds is for the parachain id that the genesis preset of that specification
  stores on chain.
\<close>

theorem node_serves_its_parachain:
  assumes "service_laws S" and "node_laws N" and "genesis_laws E"
    and "subcommand cli = None"
    and "create_runner C (ForNode (normalize C (run_cmd cli))) = Inr config"
    and "load_spec E N name = Inr (Inr (Built s))" and "config_chain_spec config = Built s"
    and "InService (BuildNetwork p) \<in> set (snd (node_main E N C S cli))"
  shows "\<exists>g j t. to_value E g = Some j \<and> json_to_string E j = Some t \<and>
    get_preset E (PresetId_from E (genesis_preset s)) = Inr (Some (map of_char t)) \<and>
    genesis_wf g \<and> parachain_id (parachain_info g) = bn_para_id p"
proof -
  note built = load_spec_Built [OF assms(6), unfolded fits_runtime_def]
  let ?P = "\<lambda>ev. \<forall>p. ev = InService (BuildNetwork p) \<longrightarrow> bn_para_id p = 1000"
  have "effects_in ?P (run_node N C S cli)"
  proof (rule run_node_quiet [OF assms(5)])
    show "Extensions_try_get N (config_chain_spec config) = Some (extensions s)"
      using node_laws.built_try_get [OF assms(2)] assms(7) by simp
    show "effects_in (\<lambda>ev. ?P (InService ev)) (start_parachain_node S config pc
        (collator_options_of C (run_cmd cli)) (para_id (extensions s)) hw)" for pc hw
      using startup_consensus [OF assms(1), of config "para_id (extensions s)"] built
      by (force simp: effects_in_def consensus_effect_def)
  qed auto
  then have "bn_para_id p = 1000"
    using assms(4,8) by (auto simp: node_main_def run_command_def effects_in_def)
  moreover have "PresetId_from E (genesis_preset s) \<in> set (preset_names E)"
    using built by (auto simp: preset_names_def)
  ultimately show ?thesis using genesis_laws.preset_value [OF assms(3)] by metis
qed

theorem node_serves_its_parachain_witness:
  "\<exists>s p. load_spec reference_env reference_node ''local'' = Inr (Inr (Built s)) \<and>
     InService (BuildNetwork p) \<in> set (snd (node_main reference_env reference_node
       (sample_command (Built s)) sample_cli_service sample_cli)) \<and>
     (\<exists>g. genesis_wf g \<and> to_value reference_env g \<noteq> None \<and>
        parachain_id (parachain_info g) = bn_para_id p)"
proof -
  obtain s where s: "load_spec reference_env reference_node ''local'' = Inr (Inr (Built s))"
    using load_spec_builtin [of "''local''" reference_node "[0, 97, 115, 109]" reference_env]
    by (auto simp: builtin_ids_def reference_node_def)
  let ?C = "sample_command (Built s)"
  have ext: "Extensions_try_get reference_node (Built s) = Some (extensions s)"
    by (rule node_laws.built_try_get [OF reference_node_laws])
  obtain config where runner: "create_runner ?C (ForNode (normalize ?C (run_cmd sample_cli))) = Inr config"
    and spec: "config_chain_spec config = Built s"
    by (simp add: sample_command_def)
  obtain p where p: "InService (BuildNetwork p) \<in>
      set (snd (node_main reference_env reference_node ?C sample_cli_service sample_cli))"
    using sample_networks [OF ext] by blast
  have "subcommand sample_cli = None" by (simp add: sample_cli_def)
  from node_serves_its_parachain [OF sample_service_laws reference_node_laws reference_env_laws this
      runner s spec p] s p show ?thesis by (metis option.distinct(1))
qed

text \<open>
  Without a parachain id in the specification the node refuses to start with an input
  error, before the relay chain arguments are looked at and before any part of the service exists.
\<close>

theorem node_needs_parachain_id:
  assumes "subcommand cli = None"
    and "create_runner C (ForNode (normalize C (run_cmd cli))) = Inr config"
    and "Extensions_try_get N (config_chain_spec config) = None"
  shows "fst (node_main E N C S cli) = Err (Input ''Could not find parachain ID in chain-spec.'') \<and>
    service_effects (snd (node_main E N C S cli)) = [] \<and>
    (\<forall>settings h. CreateRelayConfiguration settings h \<notin> set (snd (node_main E N C S cli)))"
  using assms
  by (cases "database_path config")
    (simp_all add: node_main_def run_command_def run_node_def with_runner_def hardware_benchmark_def
      Let_def bind_emit bind_assoc)

theorem node_needs_parachain_id_witness:
  "fst (node_main reference_env reference_node (sample_command (FromJson None)) sample_cli_service
     sample_cli) = Err (Input ''Could not find parachain ID in chain-spec.'')"
proof -
  have "subcommand sample_cli = None" by (simp add: sample_cli_def)
  moreover obtain config where "create_runner (sample_command (FromJson None))
      (ForNode (normalize (sample_command (FromJson None)) (run_cmd sample_cli))) = Inr config"
    "config_chain_spec config = FromJson None"
    by (simp add: sample_command_def)
  moreover have "Extensions_try_get reference_node (FromJson None) = None"
    by (simp add: Extensions_try_get_def reference_node_def)
  ultimately show ?thesis using node_needs_parachain_id [of sample_cli] by metis
qed

text \<open>
  The flag that disables hardware benchmarks does not: the benchmark runs whenever there is a
  database path, and the flag only keeps its result from being reported.
\<close>

theorem hardware_benchmark_ignores_flag:
  assumes "subcommand cli = None"
    and "create_runner C (ForNode (normalize C (run_cmd cli))) = Inr config"
    and "database_path config = Some path"
  shows "GatherHwbench path \<in> set (snd (node_main E N C S cli)) \<and>
    (no_hardware_benchmarks cli \<longrightarrow>
      (\<forall>bench. InService (PrintHwbench bench) \<notin> set (snd (node_main E N C S cli))))"
proof (intro conjI impI)
  show "GatherHwbench path \<in> set (snd (node_main E N C S cli))"
    using assms
    by (simp add: node_main_def run_command_def run_node_def with_runner_def hardware_benchmark_def
        bind_emit bind_assoc Let_def)
  assume flag: "no_hardware_benchmarks cli"
  let ?P = "\<lambda>ev. \<forall>bench. ev \<noteq> InService (PrintHwbench bench)"
  have "effects_in ?P (node_main E N C S cli)"
  proof (cases "Extensions_try_get N (config_chain_spec config)")
    case None
    with assms show ?thesis
      by (simp add: node_main_def run_command_def run_node_def with_runner_def hardware_benchmark_def
          bind_emit bind_assoc Let_def effects_in_def)
  next
    case (Some ext)
    have "effects_in (\<lambda>ev. ?P (InService ev)) (start_parachain_node S config pc opts para None)"
      for pc opts para
      unfolding service_defs option.case(1) by (intro io_rules) simp_all
    with run_node_quiet [OF assms(2) Some, of ?P S] flag have "effects_in ?P (run_node N C S cli)"
      by fastforce
    with assms(1) show ?thesis by (simp add: node_main_def run_command_def)
  qed
  then show "\<forall>bench. InService (PrintHwbench bench) \<notin> set (snd (node_main E N C S cli))"
    by (auto simp: effects_in_def)
qed

theorem hardware_benchmark_ignores_flag_witness:
  "no_hardware_benchmarks sample_cli \<and>
   GatherHwbench [''data'', ''db''] \<in> set (snd (node_main reference_env reference_node
     (sample_command (FromJson None)) sample_cli_service sample_cli))"
proof -
  have "subcommand sample_cli = None" "no_hardware_benchmarks sample_cli"
    by (simp_all add: sample_cli_def)
  moreover obtain config where "create_runner (sample_command (FromJson None))
      (ForNode (normalize (sample_command (FromJson None)) (run_cmd sample_cli))) = Inr config"
    "database_path config = Some [''data'', ''db'']"
    by (simp add: sample_command_def)
  ultimately show ?thesis using hardware_benchmark_ignores_flag [of sample_cli] by metis
qed

end
