(* ===== verification/Build_Scripts.thy ===== *)
theory Build_Scripts
  imports Node_Cli
begin

text \<open>
  The build scripts \<open>src/runtime/build.rs\<close> and \<open>src/node/build.rs\<close>: which steps of the SDK's builders they
  run, and that the token they put into the metadata hash is the one of the runtime and of the chain
  specifications.
\<close>

datatype build_step =
    WasmBuilder_init_with_defaults
  | enable_metadata_hash string u8
  | WasmBuilder_build
  | WasmBuilder_build_using_defaults
  | generate_cargo_keys
  | rerun_if_git_head_changed

text \<open>The flags are the features \<open>std\<close> and \<open>metadata-hash\<close>.\<close>

definition runtime_build_main :: "bool \<Rightarrow> bool \<Rightarrow> build_step list" where
  "runtime_build_main std metadata_hash =
     (if std \<and> metadata_hash then
        [WasmBuilder_init_with_defaults, enable_metadata_hash ''UNIT'' 12, WasmBuilder_build]
      else if std \<and> \<not> metadata_hash then [WasmBuilder_build_using_defaults]
      else [])"

definition node_build_main :: "build_step list" where
  "node_build_main = [generate_cargo_keys, rerun_if_git_head_changed]"

lemma load_spec_token:
  assumes "load_spec E N name = Inr (Inr (Built s))" and "properties s = Some ps"
  shows "ps ''tokenSymbol'' = Some (JString ''UNIT'') \<and> ps ''tokenDecimals'' = Some (JNumber 12)"
  using assms
  by (auto simp: load_spec_def development_config_def local_testnet_config_def Let_def
      split: if_splits sum.splits)

text \<open>
  The token in the metadata hash: it is there exactly when the runtime is built natively with the
  feature for it, its decimals make one \<open>UNIT\<close> of the runtime, and a built-in chain specification
  that shows a token to wallets shows the same symbol and decimals.
\<close>

theorem metadata_hash_token:
  assumes "enable_metadata_hash symbol decimals \<in> set (runtime_build_main std metadata_hash)"
  shows "std \<and> metadata_hash \<and> 10 ^ unat decimals = unat UNIT \<and>
    (load_spec E N name = Inr (Inr (Built s)) \<and> properties s = Some ps \<longrightarrow>
      ps ''tokenSymbol'' = Some (JString symbol) \<and>
      ps ''tokenDecimals'' = Some (JNumber (uint decimals)))"
  using assms load_spec_token [of E N name s ps]
  by (auto simp: runtime_build_main_def UNIT_def split: if_splits)

theorem metadata_hash_token_witness:
  "enable_metadata_hash ''UNIT'' 12 \<in> set (runtime_build_main True True) \<and>
   10 ^ unat (12 :: u8) = unat UNIT"
proof -
  have token: "enable_metadata_hash ''UNIT'' 12 \<in> set (runtime_build_main True True)"
    by (simp add: runtime_build_main_def)
  with metadata_hash_token [OF token] show ?thesis by blast
qed

end
