(* ===== verification/Spec2Isabelle.thy ===== *)
theory Spec2Isabelle
  imports Nft_Raw Runtime_Apis Runtime_Extrinsic Runtime_Messages Runtime_Sessions Node_Command Build_Scripts
begin

text \<open>
  \<^bold>\<open>A parachain with an NFT marketplace.\<close>

  The program is a Polkadot parachain: a FRAME pallet with the marketplace
  (\<open>src/pallets/template\<close>), the runtime that configures it beside the pallets of the SDK
  (\<open>src/runtime\<close>), and the collator node that runs the runtime next to an embedded relay chain
  node (\<open>src/node\<close>).  Artists register for a fee, create collections and put NFTs into them;
  an NFT can be transferred or burned by its owner and bought by anybody until it is sold.  The
  runtime fixes the currency, the fees, the block weights and the genesis state; the node chooses
  a chain specification, which names a genesis preset of the runtime.

  \<^bold>\<open>Theories.\<close>

  \<^item> \<open>Frame_Prelude\<close>: fixed-width integers with saturating arithmetic, storage maps, bounded vectors,
    \<open>try_mutate\<close>, and the interfaces between the components: \<open>storage_map\<close>, \<open>storage_layer\<close> (a call
    that fails leaves no trace), \<open>currency_api\<close> and \<open>liquid_currency\<close> (what a transfer does and when
    it is accepted), \<open>invariant_machine\<close> and \<open>evolving_machine\<close> (invariants and monotone evolution of
    sequences of steps).
  \<^item> \<open>Nft_Pallet\<close>: \<open>pallets/template/src/lib.rs\<close>.  The records \<open>NFT\<close>, \<open>Collection\<close>, \<open>Config\<close>; the
    storage items, the currency and the event log as the record \<open>state\<close>; \<open>Event\<close>, \<open>Error\<close>; one
    definition for each of the seven calls, with the writes in the source's order, so that a failing body
    returns the state it has reached; \<open>dispatch\<close>, which runs a call inside the storage layer, and
    \<open>run\<close>, a sequence of dispatched calls.
  \<^item> \<open>Nft_Calls\<close>: for each call, when it succeeds and what it then leaves.  \<open>Nft_Invariants\<close>:
    \<open>storage_consistent\<close> and its preservation.  \<open>Nft_Lifecycle\<close>: the abstract token (never created,
    listed, sold, burned), its steps, and the simulation of calls by these steps.  \<open>Nft_Events\<close>: an indexer
    that rebuilds artists, collections and owners from the event log.  \<open>Nft_Samples\<close>: concrete states.
    \<open>Nft_Properties\<close>: the theorems about the pallet.
  \<^item> \<open>Scale_Codec\<close>: codecs, their combination to vectors and bounded vectors, and the parameter \<open>scale\<close> for
    the primitive encodings of SCALE.  \<open>Nft_Codec\<close>: what the derives of the pallet's types and of its call
    enum generate, in \<open>pallets/template/src/lib.rs\<close>: the encodings of \<open>NFT\<close>, \<open>Collection\<close> and the calls, their decoding and
    maximal lengths.  \<open>Nft_Storage\<close>: the keys of the storage items there, and the storage of the
    runtime as one map of byte strings.  \<open>Nft_Raw\<close>: the seven calls of \<open>pallets/template/src/lib.rs\<close> once
    more, on these bytes, with balances and events in the same map; the record \<open>state\<close> as a view of it; and the
    simulation of the calls on bytes by those on the view.
  \<^item> \<open>Runtime_Sdk\<close>: the parameter \<open>sdk\<close> for the weight and fee functions of the SDK and its laws.
    \<open>Runtime_Weights\<close>: \<open>runtime/src/weights\<close> and \<open>pallets/template/src/weights.rs\<close>.
    \<open>Runtime_Config\<close>: the constants of \<open>runtime/src/lib.rs\<close> and the pallet configurations of
    \<open>runtime/src/configs/mod.rs\<close>.
  \<^item> \<open>Xcm_Config\<close> and \<open>Xcm_Transact\<close>: \<open>runtime/src/configs/xcm_config.rs\<close>.  The first has the locations, the
    conversion of locations to accounts, the filter for free execution, the barrier and the weight
    limits of messages; the second what a message may do: the conversion of its origin for
    \<open>Transact\<close>, the asset transactor, the configurations of the executor and of \<open>pallet_xcm\<close>, and the
    router.  \<open>Runtime_Messages\<close>: the way of inbound messages through \<open>ParachainSystem\<close>, \<open>XcmpQueue\<close> and
    \<open>MessageQueue\<close> to the executor, as \<open>runtime/src/configs/mod.rs\<close> connects them.
  \<^item> \<open>Runtime_Extrinsic\<close>: transactions, from \<open>Address\<close>, \<open>SignedExtra\<close>, \<open>UncheckedExtrinsic\<close> and \<open>Executive\<close> of
    \<open>runtime/src/lib.rs\<close>: the extensions that a transaction passes, the dispatch of its call to its pallet,
    and blocks of transactions as the inductive relation \<open>executes\<close>.  \<open>Runtime_Sessions\<close>: how
    \<open>runtime/src/configs/mod.rs\<close> connects the pallets of sessions, authorship, Aura and the collator
    selection, the hooks at the start of a block, the session that a genesis configuration builds,
    and chains of blocks from it as the inductive relation \<open>session_chain\<close>.
  \<^item> \<open>Runtime_Genesis\<close>: \<open>runtime/src/genesis_config_presets.rs\<close>.  \<open>Runtime_Apis\<close>: \<open>runtime/src/apis.rs\<close>,
    one definition for each method of each runtime API, with the list of \<open>runtime/src/benchmarks.rs\<close>.
  \<^item> \<open>Node_Cli\<close>: \<open>node/src/chain_spec.rs\<close>, the relay chain command line of \<open>node/src/cli.rs\<close>, and of
    \<open>node/src/command.rs\<close> the loading of specifications and the configuration of the relay chain node.
  \<^item> \<open>Node_Effects\<close>: computations of the node as an outcome (a value, an error, a panic or the end of the
    process) with the list of effects so far; sequencing, its laws, and rules for properties of
    effects, errors and protocols.  \<open>Node_Service\<close>: \<open>node/src/service.rs\<close> and \<open>node/src/rpc.rs\<close> as such
    computations, every call into the SDK an effect.  \<open>Node_Startup\<close>: the abstract startup protocol and the
    theorems about the service.  \<open>Node_Command\<close>: the sub-commands of \<open>node/src/cli.rs\<close>, \<open>command::run\<close> and
    \<open>node/src/main.rs\<close>.  \<open>Build_Scripts\<close>: \<open>runtime/build.rs\<close> and \<open>node/build.rs\<close>.

  \<^bold>\<open>What stands for code outside the repository.\<close>  The calls of the pallet take a \<open>Config\<close> with
  \<open>ensure_signed\<close>, the currency's transfer and minimum balance, and the pallet account, and
  \<open>dispatch\<close> takes the storage layer.  Theorems that need more of them than their types assume
  \<open>storage_layer\<close> or \<open>currency_api\<close>, which \<open>with_storage_layer\<close> and \<open>ledger_transfer\<close> meet.  The encodings
  take \<open>scale\<close> under \<open>scale_laws\<close>, the storage keys \<open>hasher\<close> under \<open>storage_laws\<close>, and the calls on bytes
  \<open>raw_services\<close> (the entries of the currency and of the events) under \<open>raw_laws\<close>; transactions take
  \<open>tx_sdk\<close> under \<open>tx_laws\<close>, sessions \<open>session_sdk\<close> under
  \<open>session_laws\<close> and inbound messages \<open>message_sdk\<close> under \<open>message_laws\<close>.  The
  runtime takes \<open>sdk\<close> under \<open>sdk_laws\<close>, the XCM configuration takes \<open>xcm_sdk\<close> under
  \<open>xcm_laws\<close> and \<open>xcm_parts\<close> under \<open>transact_laws\<close>, the presets take \<open>genesis_env\<close> under
  \<open>genesis_laws\<close>, the APIs take \<open>api_env\<close> under \<open>fee_api\<close>, \<open>benchmark_api\<close> and \<open>genesis_api\<close>, and the node
  takes \<open>node_env\<close> under \<open>node_laws\<close>, \<open>service_sdk\<close> under \<open>service_laws\<close> and \<open>rpc_laws\<close>, and
  \<open>command_env\<close>; each has an instance that meets its laws.

  \<^bold>\<open>What the theorems show.\<close>
  Pallet: every reachable storage is consistent; every call refines one step of the token's life
  cycle by somebody entitled to it; owners change only by consent, except at a saturated counter; a purchase exchanges the token for exactly its
  price; balances are conserved; registration charges once; the event log determines the observable
  state; burning undoes creation; which errors a call returns and what a failing body has written.
  They also show where the code is surprising: deleting a collection strands its NFTs, a transferred
  token counts as sold for ever, saturated counters overwrite entries, and anybody may add to a collection.
  Bytes: exactly the encodings of values within their bounds decode, encodings keep the declared maximal
  length, calls are told apart by their two leading bytes, no two storage entries share a key, and
  the calls on bytes do to the view what the typed calls do, keep the storage typed and change
  nothing but entries of the pallet, the currency and the event log.
  Transactions: an applied transaction is one call of its signer, cannot be replayed, and blocks of them
  keep the storage consistent.  Blocks: sessions end every six hours, and from genesis on the account
  noted as the author of a block has registered the key that the slot selects, because
  the hooks run in the declared order and all elected collators fit into the authorities.
  Runtime: the fee polynomial and the block weights have the intended values without
  wrap-around, message budgets fit into a block, times and limits are coherent, pallet indices are
  unique, the generated weights pass their checks.  XCM: whom the barrier admits, which locations own
  accounts, which origin a message acts with and that it is never root, that a message trades only
  for the account of its own location, that only the relay chain can bring currency into existence, who
  may reach privileged operations, where messages are routed, that inbound messages are executed only
  with the location of the chain that sent them, and that messages of
  more than 28 instructions, which the weigher accepts, do not fit into the weight set aside
  for them.  APIs: fee queries agree with the fee polynomial and are capped, every listed preset
  reaches the genesis builds of the pallets as one well-formed configuration, and the NFT pallet cannot be benchmarked.  Genesis and node: both presets are well formed, exactly
  the listed presets exist, endowed accounts without restrictions on their balance can use the marketplace, the built-in chain
  specifications match the runtime, and the embedded relay chain gets the chain that the specification
  names, built in or read from a file, and the intended path.
  Service: a start follows the startup protocol and starts the network last, a failed call is the last
  effect and its error the outcome, it never panics, and collation runs only on authorities, for the right parachain and with
  the runtime's timing.  Commands: a sub-command runs exactly its own command, only those
  that need a client open the database, the node serves the parachain of its genesis, and the flag
  against hardware benchmarks does not prevent them.

  \<^bold>\<open>Bounds.\<close>  All definitions are total; no fuel is used.  Identifiers and counters are 32-bit
  words, balances 128-bit words, weights 64-bit words; names, metadata and item lists keep the bounds
  of the source.  Theorems about identifiers say where they need a counter below its maximum, and the theorem against
  replays needs fewer transactions in between than there are nonces.

  \<^bold>\<open>Not modelled.\<close>  The block types of \<open>runtime/src/lib.rs\<close>, typed and opaque, which are aliases of types
  of the SDK with its encodings and hashes; the registration of \<open>validate_block\<close> in \<open>runtime/src/lib.rs\<close>, a macro call that only
  names the executor of the SDK; configurations that only name types of the SDK; the parsing of
  arguments and the help text of \<open>node/src/cli.rs\<close>, which are generated from attributes; concurrency of
  the tasks that the service spawns, which run in the SDK.  The unit tests, mock runtime and benchmarks of
  \<open>pallets/template\<close> belong to the original template: they use storage, calls and errors that the pallet does not
  have, and the mock configuration lacks the currency and the pallet id, so they do not compile and have
  no meaning to model.  The web frontend is a separate TypeScript program.
\<close>

end
